(* ===== verification/NC_Prelude.thy ===== *)
theory NC_Prelude
  imports Main "HOL-Library.Sublist"
begin

text \<open>
  The vocabulary every component of the development shares.

  \<^item> The types of identifiers and instants, and the errors that leave a handler: one constructor per
    Nest exception class the code throws, with its message, and \<open>JsError\<close> for a plain
    \<open>Error\<close>.
  \<^item> Stateful code as actions: functions from a state to a result (an error or a value) and the
    state it leaves. An error keeps the state it was raised in, as an exception does; only a
    transaction restores it.
  \<^item> Tables: the rows of one entity, in the order in which the server returns them when a query
    asks for none. A query of the code is a predicate on rows; the statements below are what
    \<open>find\<close>, \<open>update\<close>, \<open>delete\<close> and \<open>save\<close> of a repository do to the rows.
    Theorems quantify over all tables, hence over all such orders.
  \<^item> Locales for the contracts several components share: a step system with an invariant, a
    round trip, an update that keeps the key of a row.
\<close>

section \<open>Identifiers, instants, errors\<close>

type_synonym uuid = string
type_synonym time = int \<comment> \<open>milliseconds since the epoch, \<open>Date.getTime()\<close>\<close>

datatype http_error =
    BadRequest string
  | Unauthorized string
  | Forbidden string
  | NotFound string
  | NotAcceptable string
  | Conflict string
  | Unprocessable string
  | InternalServerError string
  | JsError string

primrec errMessage :: "http_error \<Rightarrow> string" where
  "errMessage (BadRequest m) = m"
| "errMessage (Unauthorized m) = m"
| "errMessage (Forbidden m) = m"
| "errMessage (NotFound m) = m"
| "errMessage (NotAcceptable m) = m"
| "errMessage (Conflict m) = m"
| "errMessage (Unprocessable m) = m"
| "errMessage (InternalServerError m) = m"
| "errMessage (JsError m) = m"

type_synonym 'a outcome = "http_error + 'a"
type_synonym ('s, 'a) action = "'s \<Rightarrow> 'a outcome \<times> 's"

section \<open>Actions\<close>

named_theorems action_simps \<open>the equations that run actions\<close>

definition ret :: "'a \<Rightarrow> ('s, 'a) action" where
  "ret a s = (Inr a, s)"

definition throw :: "http_error \<Rightarrow> ('s, 'a) action" where
  "throw e s = (Inl e, s)"

definition gets :: "('s \<Rightarrow> 'a) \<Rightarrow> ('s, 'a) action" where
  "gets f s = (Inr (f s), s)"

definition modify :: "('s \<Rightarrow> 's) \<Rightarrow> ('s, unit) action" where
  "modify f s = (Inr (), f s)"

definition andThen :: "('s, 'a) action \<Rightarrow> ('a \<Rightarrow> ('s, 'b) action) \<Rightarrow> ('s, 'b) action" where
  "andThen m k s = (case m s of (Inl e, s') \<Rightarrow> (Inl e, s') | (Inr a, s') \<Rightarrow> k a s')"

text \<open>\<open>if (c) throw e\<close>.\<close>

definition throwIf :: "bool \<Rightarrow> http_error \<Rightarrow> ('s, unit) action" where
  "throwIf c e = (if c then throw e else ret ())"

text \<open>A call of a function that has no effect but may throw.\<close>

definition lift :: "'a outcome \<Rightarrow> ('s, 'a) action" where
  "lift r s = (r, s)"

text \<open>\<open>try { m } catch (err) { h(err) }\<close>.\<close>

definition tryCatch :: "('s, 'a) action \<Rightarrow> (http_error \<Rightarrow> ('s, 'a) action) \<Rightarrow> ('s, 'a) action" where
  "tryCatch m h s = (case m s of (Inl e, s') \<Rightarrow> h e s' | (Inr a, s') \<Rightarrow> (Inr a, s'))"

definition discard :: "('s, 'a) action \<Rightarrow> ('s, unit) action" where
  "discard m = andThen m (\<lambda>_. ret ())"

text \<open>A promise that is started here and awaited later: its outcome is kept as a value.\<close>

definition attempt :: "('s, 'a) action \<Rightarrow> ('s, 'a outcome) action" where
  "attempt m s = (case m s of (r, s') \<Rightarrow> (Inr r, s'))"

text \<open>
  \<open>dataSource.transaction(m)\<close>: the writes of \<open>m\<close> are kept when it returns and the server
  accepts them, and undone when it throws. \<open>commit\<close> is the server's answer for the state to be
  written (\<open>Some e\<close> when it refuses, say for a unique constraint); \<open>undo old new\<close> is
  \<open>new\<close> with the tables of \<open>old\<close>, so that what \<open>m\<close> did outside the database stays done.
\<close>

definition transaction ::
    "('s \<Rightarrow> http_error option) \<Rightarrow> ('s \<Rightarrow> 's \<Rightarrow> 's) \<Rightarrow> ('s, 'a) action \<Rightarrow> ('s, 'a) action" where
  "transaction commit undo m s =
     (case m s of
        (Inl e, s') \<Rightarrow> (Inl e, undo s s')
      | (Inr a, s') \<Rightarrow> (case commit s' of None \<Rightarrow> (Inr a, s') | Some e \<Rightarrow> (Inl e, undo s s')))"

text \<open>An action on a part of the state.\<close>

definition zoom :: "('s \<Rightarrow> 't) \<Rightarrow> ('t \<Rightarrow> 's \<Rightarrow> 's) \<Rightarrow> ('t, 'a) action \<Rightarrow> ('s, 'a) action" where
  "zoom get put m s = (case m (get s) of (r, t) \<Rightarrow> (r, put t s))"

text \<open>The same for calls without an effect: the first error ends the sequence.\<close>

definition onSuccess :: "'a outcome \<Rightarrow> ('a \<Rightarrow> 'b outcome) \<Rightarrow> 'b outcome" where
  "onSuccess r k = (case r of Inl e \<Rightarrow> Inl e | Inr a \<Rightarrow> k a)"

lemma onSuccess_simps [simp]: "onSuccess (Inl e) k = Inl e" "onSuccess (Inr a) k = k a"
  by (simp_all add: onSuccess_def)

lemma onSuccess_Inr: "onSuccess r k = Inr b \<longleftrightarrow> (\<exists>a. r = Inr a \<and> k a = Inr b)"
  by (cases r) auto

lemma run_ret [action_simps]: "ret a s = (Inr a, s)"
  by (simp add: ret_def)

lemma run_throw [action_simps]: "throw e s = (Inl e, s)"
  by (simp add: throw_def)

lemma run_gets [action_simps]: "gets f s = (Inr (f s), s)"
  by (simp add: gets_def)

lemma run_modify [action_simps]: "modify f s = (Inr (), f s)"
  by (simp add: modify_def)

lemma run_lift [action_simps]: "lift r s = (r, s)"
  by (simp add: lift_def)

lemma run_throwIf [action_simps]: "throwIf c e s = (if c then (Inl e, s) else (Inr (), s))"
  by (simp add: throwIf_def action_simps)

lemma andThen_ret [action_simps]: "m s = (Inr a, s') \<Longrightarrow> andThen m k s = k a s'"
  by (simp add: andThen_def)

lemma andThen_throw [action_simps]: "m s = (Inl e, s') \<Longrightarrow> andThen m k s = (Inl e, s')"
  by (simp add: andThen_def)

lemma andThen_gets [action_simps]: "andThen (gets f) k s = k (f s) s"
  by (simp add: andThen_def action_simps)

lemma andThen_modify [action_simps]: "andThen (modify f) k s = k () (f s)"
  by (simp add: andThen_def action_simps)

lemma andThen_throwIf [action_simps]:
  "andThen (throwIf c e) k s = (if c then (Inl e, s) else k () s)"
  by (simp add: andThen_def action_simps)

lemma andThen_lift [action_simps]:
  "andThen (lift r) k s = (case r of Inl e \<Rightarrow> (Inl e, s) | Inr a \<Rightarrow> k a s)"
  by (simp add: andThen_def action_simps split: sum.splits)

lemma andThen_Inr:
  assumes "andThen m k s = (Inr b, t)"
  obtains a s' where "m s = (Inr a, s')" and "k a s' = (Inr b, t)"
  using assms by (auto simp: andThen_def split: sum.splits prod.splits)

lemma transaction_Inl_undone:
  assumes "transaction commit undo m s = (Inl e, t)"
  shows "\<exists>s'. t = undo s s'"
  using assms by (auto simp: transaction_def split: sum.splits prod.splits option.splits)

lemma transaction_Inr:
  "transaction commit undo m s = (Inr a, t) \<longleftrightarrow> m s = (Inr a, t) \<and> commit t = None"
  by (auto simp: transaction_def split: sum.splits prod.splits option.splits)

section \<open>Conditions of a query\<close>

text \<open>
  In the \<open>where\<close> object of a query a property that is \<open>undefined\<close> is no condition, and
  \<open>In(xs)\<close> asks for membership.
\<close>

definition ifDefined :: "'a option \<Rightarrow> 'a \<Rightarrow> bool" where
  "ifDefined x v = (case x of None \<Rightarrow> True | Some y \<Rightarrow> v = y)"

definition isNull :: "'a option \<Rightarrow> bool" where
  "isNull x = (x = None)"

lemma ifDefined_simps [simp]:
  "ifDefined None v" "ifDefined (Some y) v \<longleftrightarrow> v = y"
  by (simp_all add: ifDefined_def)

lemma isNull_simps [simp]: "isNull None" "\<not> isNull (Some x)"
  by (simp_all add: isNull_def)

lemma option_eqI: "(\<And>v. x = Some v \<longleftrightarrow> y = Some v) \<Longrightarrow> x = y"
  by (cases x; cases y) auto

text \<open>\<open>distinct\<close>, and \<open>new Set(xs)\<close>: the first occurrence of each value stays.\<close>

definition distinctInOrder :: "'a list \<Rightarrow> 'a list" where
  "distinctInOrder xs = rev (remdups (rev xs))"

lemma set_distinctInOrder [simp]: "set (distinctInOrder xs) = set xs"
  by (simp add: distinctInOrder_def)

lemma distinct_distinctInOrder [simp]: "distinct (distinctInOrder xs)"
  by (simp add: distinctInOrder_def)

section \<open>Tables\<close>

definition findBy :: "('r \<Rightarrow> bool) \<Rightarrow> 'r list \<Rightarrow> 'r list" where
  "findBy p t = filter p t"

definition findOneBy :: "('r \<Rightarrow> bool) \<Rightarrow> 'r list \<Rightarrow> 'r option" where
  "findOneBy p t = List.find p t"

definition updateBy :: "('r \<Rightarrow> bool) \<Rightarrow> ('r \<Rightarrow> 'r) \<Rightarrow> 'r list \<Rightarrow> 'r list" where
  "updateBy p f t = map (\<lambda>r. if p r then f r else r) t"

text \<open>The number of rows an \<open>update\<close> or \<open>delete\<close> reports as \<open>affected\<close>.\<close>

definition affected :: "('r \<Rightarrow> bool) \<Rightarrow> 'r list \<Rightarrow> nat" where
  "affected p t = length (filter p t)"

definition deleteBy :: "('r \<Rightarrow> bool) \<Rightarrow> 'r list \<Rightarrow> 'r list" where
  "deleteBy p t = filter (\<lambda>r. \<not> p r) t"

text \<open>\<open>save\<close>: the row with the same primary key is overwritten, a new key is inserted.\<close>

definition saveRow :: "('r \<Rightarrow> 'k) \<Rightarrow> 'r \<Rightarrow> 'r list \<Rightarrow> 'r list" where
  "saveRow key r t =
     (if \<exists>x \<in> set t. key x = key r then map (\<lambda>x. if key x = key r then r else x) t
      else t @ [r])"

lemma set_updateBy: "set (updateBy p f t) = (\<lambda>r. if p r then f r else r) ` set t"
  by (simp add: updateBy_def)

lemma updateBy_memE:
  assumes "s \<in> set (updateBy p f t)"
  obtains r where "r \<in> set t" "s = (if p r then f r else r)"
  using assms by (auto simp: set_updateBy)

lemma length_updateBy [simp]: "length (updateBy p f t) = length t"
  by (simp add: updateBy_def)

lemma updateBy_none: "(\<And>r. r \<in> set t \<Longrightarrow> \<not> p r) \<Longrightarrow> updateBy p f t = t"
  by (simp add: updateBy_def map_idI)

lemma affected_eq_0: "affected p t = 0 \<longleftrightarrow> (\<forall>r \<in> set t. \<not> p r)"
  by (simp add: affected_def filter_empty_conv)

lemma updateBy_affected_0: "affected p t = 0 \<Longrightarrow> updateBy p f t = t"
  by (simp add: affected_eq_0 updateBy_none)

lemma filter_updateBy_frame:
  assumes "\<And>r. r \<in> set t \<Longrightarrow> p r \<Longrightarrow> \<not> q r \<and> \<not> q (f r)"
  shows "filter q (updateBy p f t) = filter q t"
  using assms by (induction t) (auto simp: updateBy_def)

lemma updateBy_updateBy:
  "updateBy p f (updateBy q g t) =
     map (\<lambda>r. let r' = (if q r then g r else r) in if p r' then f r' else r') t"
  by (simp add: updateBy_def Let_def)

lemma findOneBy_Some_iff:
  "findOneBy p t = Some r \<longleftrightarrow> (\<exists>i < length t. p (t ! i) \<and> r = t ! i \<and> (\<forall>j < i. \<not> p (t ! j)))"
  by (auto simp: findOneBy_def find_Some_iff)

lemma findOneBy_SomeD: "findOneBy p t = Some r \<Longrightarrow> r \<in> set t \<and> p r"
  by (auto simp: findOneBy_def find_Some_iff)

lemma findOneBy_None: "findOneBy p t = None \<longleftrightarrow> (\<forall>r \<in> set t. \<not> p r)"
  by (auto simp: findOneBy_def find_None_iff)

lemma map_saveRow: "map key (saveRow key r t) =
    (if key r \<in> key ` set t then map key t else map key t @ [key r])"
proof (cases "key r \<in> key ` set t")
  case True
  then have "\<exists>x \<in> set t. key x = key r" by (metis imageE)
  with True show ?thesis by (simp add: saveRow_def)
next
  case False
  then have "\<not> (\<exists>x \<in> set t. key x = key r)" by (metis image_eqI)
  with False show ?thesis by (simp add: saveRow_def)
qed

lemma distinct_saveRow:
  "distinct (map key t) \<Longrightarrow> distinct (map key (saveRow key r t))"
  by (simp add: map_saveRow)

lemma set_saveRow:
  "set (saveRow key r t) = insert r {x \<in> set t. key x \<noteq> key r}"
  by (auto simp: saveRow_def image_iff)

text \<open>\<open>save\<close> of several entities.\<close>

definition saveAll :: "('r \<Rightarrow> 'k) \<Rightarrow> 'r list \<Rightarrow> 'r list \<Rightarrow> 'r list" where
  "saveAll key rs t = foldl (\<lambda>t r. saveRow key r t) t rs"

lemma saveAll_Nil [simp]: "saveAll key [] t = t"
  by (simp add: saveAll_def)

lemma saveAll_Cons [simp]: "saveAll key (r # rs) t = saveAll key rs (saveRow key r t)"
  by (simp add: saveAll_def)

lemma distinct_saveAll: "distinct (map key t) \<Longrightarrow> distinct (map key (saveAll key rs t))"
  by (induction rs arbitrary: t) (simp_all add: distinct_saveRow)

lemma set_saveAll:
  "distinct (map key rs) \<Longrightarrow> set (saveAll key rs t) = set rs \<union> {x \<in> set t. key x \<notin> key ` set rs}"
  by (induction rs arbitrary: t) (auto simp: set_saveRow)

lemma filter_saveRow_frame:
  assumes "\<not> p r" and "\<And>x. x \<in> set t \<Longrightarrow> key x = key r \<Longrightarrow> \<not> p x"
  shows "filter p (saveRow key r t) = filter p t"
proof -
  have "filter p (map (\<lambda>x. if key x = key r then r else x) t) = filter p t"
    using assms(2) by (induction t) (auto simp: assms(1))
  then show ?thesis using assms(1) by (simp add: saveRow_def)
qed

lemma findOneBy_filter: "findOneBy p t = (case filter p t of [] \<Rightarrow> None | x # _ \<Rightarrow> Some x)"
  unfolding findOneBy_def by (induction t) simp_all

lemma findOneBy_saveRow:
  assumes "distinct (map key t)" and "p r" and "\<And>x. p x \<Longrightarrow> key x = key r"
  shows "findOneBy p (saveRow key r t) = Some r"
proof -
  have "findOneBy p (saveRow key r t) \<noteq> None" using assms(2) by (auto simp: findOneBy_None set_saveRow)
  then obtain x where x: "findOneBy p (saveRow key r t) = Some x" by blast
  then have "x \<in> set (saveRow key r t)" "key x = key r" using assms(3) by (auto dest: findOneBy_SomeD)
  then have "x = r" by (simp add: set_saveRow)
  with x show ?thesis by simp
qed

lemma findOneBy_saveRow_other:
  assumes "\<not> p r" and "\<And>x. x \<in> set t \<Longrightarrow> key x = key r \<Longrightarrow> \<not> p x"
  shows "findOneBy p (saveRow key r t) = findOneBy p t"
  by (simp add: findOneBy_filter filter_saveRow_frame [of p r t key, OF assms])

lemma filter_saveAll_frame:
  assumes "\<And>r. r \<in> set rs \<Longrightarrow> \<not> p r" and "\<And>x. x \<in> set t \<Longrightarrow> key x \<in> key ` set rs \<Longrightarrow> \<not> p x"
  shows "filter p (saveAll key rs t) = filter p t"
  using assms
proof (induction rs arbitrary: t)
  case Nil
  then show ?case by simp
next
  case (Cons r rs)
  have "filter p (saveRow key r t) = filter p t" using Cons.prems by (intro filter_saveRow_frame) auto
  moreover have "filter p (saveAll key rs (saveRow key r t)) = filter p (saveRow key r t)"
    using Cons.prems by (intro Cons.IH) (auto simp: set_saveRow)
  ultimately show ?case by simp
qed

lemma distinct_deleteBy: "distinct (map key t) \<Longrightarrow> distinct (map key (deleteBy p t))"
  by (simp add: deleteBy_def distinct_map_filter)

lemma set_deleteBy [simp]: "set (deleteBy p t) = {r \<in> set t. \<not> p r}"
  by (auto simp: deleteBy_def)

lemma set_findBy [simp]: "set (findBy p t) = {r \<in> set t. p r}"
  by (auto simp: findBy_def)

section \<open>Contracts shared by several components\<close>

text \<open>
  A component whose operations are the steps of a transition system: what holds in the initial
  states and is kept by every step holds in every state a run reaches.
\<close>

locale step_system =
  fixes initial :: "'s \<Rightarrow> bool"
    and step :: "'s \<Rightarrow> 's \<Rightarrow> bool"
    and invar :: "'s \<Rightarrow> bool"
  assumes invar_initial: "initial s \<Longrightarrow> invar s"
    and invar_step: "step s t \<Longrightarrow> invar s \<Longrightarrow> invar t"
begin

lemma invar_run: "step\<^sup>*\<^sup>* s t \<Longrightarrow> invar s \<Longrightarrow> invar t"
  by (induction rule: rtranclp_induct) (auto intro: invar_step)

lemma invar_reachable: "initial s \<Longrightarrow> step\<^sup>*\<^sup>* s t \<Longrightarrow> invar t"
  by (rule invar_run) (auto intro: invar_initial)

end

text \<open>An encoding that its decoder undoes on the values of a domain.\<close>

locale round_trip =
  fixes enc :: "'a \<Rightarrow> 'b"
    and dec :: "'b \<Rightarrow> 'c"
    and norm :: "'a \<Rightarrow> 'c"
    and valid :: "'a \<Rightarrow> bool"
  assumes dec_enc: "valid x \<Longrightarrow> dec (enc x) = norm x"
begin

lemma enc_eq_norm_eq: "valid x \<Longrightarrow> valid y \<Longrightarrow> enc x = enc y \<Longrightarrow> norm x = norm y"
  by (metis dec_enc)

lemma enc_inj_on: "inj_on norm {x. valid x} \<Longrightarrow> inj_on enc {x. valid x}"
  by (metis (mono_tags, lifting) enc_eq_norm_eq inj_on_def mem_Collect_eq)

end

text \<open>An update of a row that leaves the row's key alone leaves the keys of a table alone.\<close>

locale keeps_key =
  fixes key :: "'r \<Rightarrow> 'k"
    and upd :: "'x \<Rightarrow> 'r \<Rightarrow> 'r"
  assumes key_upd: "key (upd x r) = key r"
begin

lemma map_key_updateBy: "map key (updateBy p (upd x) t) = map key t"
  by (simp add: updateBy_def comp_def key_upd)

lemma distinct_updateBy: "distinct (map key t) \<Longrightarrow> distinct (map key (updateBy p (upd x) t))"
  by (simp only: map_key_updateBy)

end

text \<open>
  What an action may do to the state, as a preorder on states: if the pieces stay within it, so does
  their composition. \<open>staysIn R m\<close> speaks of the state \<open>m\<close> leaves whether it returns or throws.
\<close>

definition staysIn :: "('s \<Rightarrow> 's \<Rightarrow> bool) \<Rightarrow> ('s, 'a) action \<Rightarrow> bool" where
  "staysIn R m \<longleftrightarrow> (\<forall>s. R s (snd (m s)))"

lemma staysInD: "staysIn R m \<Longrightarrow> R s (snd (m s))"
  by (simp add: staysIn_def)

lemma staysInI: "(\<And>s. R s (snd (m s))) \<Longrightarrow> staysIn R m"
  by (simp add: staysIn_def)

locale action_frame =
  fixes R :: "'s \<Rightarrow> 's \<Rightarrow> bool"
  assumes refl_R: "R s s"
    and trans_R: "R s t \<Longrightarrow> R t u \<Longrightarrow> R s u"
begin

lemma stays_ret: "staysIn R (ret a)"
  by (simp add: staysIn_def ret_def refl_R)

lemma stays_throw: "staysIn R (throw e)"
  by (simp add: staysIn_def throw_def refl_R)

lemma stays_gets: "staysIn R (gets f)"
  by (simp add: staysIn_def gets_def refl_R)

lemma stays_lift: "staysIn R (lift r)"
  by (simp add: staysIn_def lift_def refl_R)

lemma stays_throwIf: "staysIn R (throwIf c e)"
  by (simp add: throwIf_def stays_ret stays_throw)

lemma stays_modify: "(\<And>s. R s (f s)) \<Longrightarrow> staysIn R (modify f)"
  by (simp add: staysIn_def modify_def)

lemma stays_andThen: "staysIn R m \<Longrightarrow> (\<And>a. staysIn R (k a)) \<Longrightarrow> staysIn R (andThen m k)"
  unfolding staysIn_def andThen_def by (auto split: sum.splits prod.splits) (metis snd_conv trans_R)+

lemma stays_tryCatch: "staysIn R m \<Longrightarrow> (\<And>e. staysIn R (h e)) \<Longrightarrow> staysIn R (tryCatch m h)"
  unfolding staysIn_def tryCatch_def by (auto split: sum.splits prod.splits) (metis snd_conv trans_R)+

lemma stays_attempt: "staysIn R m \<Longrightarrow> staysIn R (attempt m)"
  unfolding staysIn_def attempt_def by (auto split: prod.splits) (metis snd_conv)

lemma stays_transaction:
  "staysIn R m \<Longrightarrow> (\<And>s t. R s t \<Longrightarrow> R s (undo s t)) \<Longrightarrow> staysIn R (transaction commit undo m)"
  unfolding staysIn_def transaction_def
  by (auto split: sum.splits prod.splits option.splits) (metis snd_conv)+

lemma stays_zoom: "(\<And>s t. R s (put t s)) \<Longrightarrow> staysIn R (zoom get put m)"
  by (simp add: staysIn_def zoom_def split: prod.split)

lemma stays_discard: "staysIn R m \<Longrightarrow> staysIn R (discard m)"
  unfolding discard_def by (intro stays_andThen stays_ret)

lemma stays_option:
  "staysIn R m \<Longrightarrow> (\<And>a. staysIn R (k a)) \<Longrightarrow> staysIn R (case x of None \<Rightarrow> m | Some a \<Rightarrow> k a)"
  by (cases x) simp_all

lemma stays_if: "staysIn R m \<Longrightarrow> staysIn R n \<Longrightarrow> staysIn R (if c then m else n)"
  by simp

lemmas stays_rules = stays_ret stays_throw stays_gets stays_lift stays_throwIf stays_andThen
  stays_tryCatch stays_attempt stays_discard stays_option stays_if

end

text \<open>Actions that leave the state alone, always or when they throw, and actions that do not throw.\<close>

definition readsOnly :: "('s, 'a) action \<Rightarrow> bool" where
  "readsOnly m \<longleftrightarrow> (\<forall>s. snd (m s) = s)"

definition failsClean :: "('s, 'a) action \<Rightarrow> bool" where
  "failsClean m \<longleftrightarrow> (\<forall>s e t. m s = (Inl e, t) \<longrightarrow> t = s)"

definition neverThrows :: "('s, 'a) action \<Rightarrow> bool" where
  "neverThrows m \<longleftrightarrow> (\<forall>s e t. m s \<noteq> (Inl e, t))"

lemma readsOnly_basic:
  "readsOnly (ret a)" "readsOnly (throw e)" "readsOnly (gets f)" "readsOnly (lift r)" "readsOnly (throwIf c e)"
  by (simp_all add: readsOnly_def action_simps)

lemma readsOnly_andThen: "readsOnly m \<Longrightarrow> (\<And>a. readsOnly (k a)) \<Longrightarrow> readsOnly (andThen m k)"
  unfolding readsOnly_def andThen_def by (auto split: sum.splits prod.splits) (metis snd_conv)+

lemma readsOnly_option:
  "readsOnly m \<Longrightarrow> (\<And>a. readsOnly (k a)) \<Longrightarrow> readsOnly (case x of None \<Rightarrow> m | Some a \<Rightarrow> k a)"
  by (cases x) simp_all

lemma readsOnly_if: "readsOnly m \<Longrightarrow> readsOnly n \<Longrightarrow> readsOnly (if c then m else n)"
  by simp

lemmas readsOnly_rules = readsOnly_basic readsOnly_andThen readsOnly_option readsOnly_if

lemma readsOnly_failsClean: "readsOnly m \<Longrightarrow> failsClean m"
  unfolding readsOnly_def failsClean_def by (metis snd_conv)

lemma neverThrows_failsClean: "neverThrows m \<Longrightarrow> failsClean m"
  by (simp add: neverThrows_def failsClean_def)

lemma neverThrows_basic: "neverThrows (ret a)" "neverThrows (gets f)" "neverThrows (modify g)"
  by (simp_all add: neverThrows_def action_simps)

lemma neverThrows_if: "neverThrows m \<Longrightarrow> neverThrows n \<Longrightarrow> neverThrows (if c then m else n)"
  by simp

lemma failsClean_read: "readsOnly m \<Longrightarrow> (\<And>a. failsClean (k a)) \<Longrightarrow> failsClean (andThen m k)"
  unfolding readsOnly_def failsClean_def andThen_def by (auto split: sum.splits prod.splits) (metis snd_conv)+

lemma failsClean_last: "failsClean m \<Longrightarrow> (\<And>a. neverThrows (k a)) \<Longrightarrow> failsClean (andThen m k)"
  unfolding neverThrows_def failsClean_def andThen_def by (auto split: sum.splits prod.splits)

lemma failsClean_tryCatch: "failsClean m \<Longrightarrow> (\<And>e. failsClean (h e)) \<Longrightarrow> failsClean (tryCatch m h)"
  unfolding failsClean_def tryCatch_def by (auto split: sum.splits prod.splits) metis

end
