(* ===== verification/NC_Js.thy ===== *)
theory NC_Js
  imports NC_Prelude
begin

text \<open>
  The parts of the JavaScript standard library the code leans on: characters, \<open>trim\<close>,
  \<open>toLowerCase\<close>, \<open>padStart\<close>, \<open>Number.prototype.toString(radix)\<close> and
  \<open>parseInt\<close>. A string is a list of code units; the type \<open>char\<close> has those below 256,
  and what each function does with them is what JavaScript does.
  The main fact is that \<open>parseInt\<close> undoes \<open>toString\<close> for every radix.
\<close>

section \<open>Characters\<close>

definition isSpace :: "char \<Rightarrow> bool" where
  "isSpace c \<longleftrightarrow> (of_char c :: nat) \<in> {9, 10, 11, 12, 13, 32, 160}"

definition isLineTerminator :: "char \<Rightarrow> bool" where
  "isLineTerminator c \<longleftrightarrow> (of_char c :: nat) \<in> {10, 13}"

definition lowerChar :: "char \<Rightarrow> char" where
  "lowerChar c = (let n = (of_char c :: nat) in
     if 65 \<le> n \<and> n \<le> 90 \<or> 192 \<le> n \<and> n \<le> 222 \<and> n \<noteq> 215 then char_of (n + 32) else c)"

definition toLowerCase :: "string \<Rightarrow> string" where
  "toLowerCase s = map lowerChar s"

definition trim :: "string \<Rightarrow> string" where
  "trim s = rev (dropWhile isSpace (rev (dropWhile isSpace s)))"

definition padStart :: "nat \<Rightarrow> char \<Rightarrow> string \<Rightarrow> string" where
  "padStart n c s = replicate (n - length s) c @ s"

definition strIncludes :: "string \<Rightarrow> string \<Rightarrow> bool" where
  "strIncludes s t = sublist t s"

lemma length_toLowerCase [simp]: "length (toLowerCase s) = length s"
  by (simp add: toLowerCase_def)

lemma trim_Nil_iff: "trim s = [] \<longleftrightarrow> (\<forall>c \<in> set s. isSpace c)"
  by (auto simp: trim_def dropWhile_eq_Nil_conv dest: set_dropWhileD)
     (metis dropWhile_eq_Nil_conv hd_dropWhile hd_in_set)

text \<open>The truth value of a string that may be \<open>null\<close> or \<open>undefined\<close>: an empty string is falsy.\<close>

definition truthyId :: "string option \<Rightarrow> bool" where
  "truthyId x = (case x of None \<Rightarrow> False | Some i \<Rightarrow> i \<noteq> [])"

lemma truthyId_simps [simp]: "\<not> truthyId None" "truthyId (Some i) \<longleftrightarrow> i \<noteq> []"
  by (simp_all add: truthyId_def)

text \<open>
  \<open>encodeURIComponent\<close>: letters, digits and \<open>-_.!~*'()\<close> stay, the bytes of the UTF-8 form of any other
  character are written in upper case hexadecimal after a per cent sign.
\<close>

definition upperHexDigit :: "nat \<Rightarrow> char" where
  "upperHexDigit d = (if d < 10 then char_of (48 + d) else char_of (55 + d))"

definition percentByte :: "nat \<Rightarrow> string" where
  "percentByte n = [CHR ''%'', upperHexDigit (n div 16), upperHexDigit (n mod 16)]"

definition isAlnum :: "char \<Rightarrow> bool" where
  "isAlnum c \<longleftrightarrow> (let n = (of_char c :: nat) in 48 \<le> n \<and> n \<le> 57 \<or> 65 \<le> n \<and> n \<le> 90 \<or> 97 \<le> n \<and> n \<le> 122)"

definition percentChar :: "char \<Rightarrow> string" where
  "percentChar c = (let n = (of_char c :: nat) in
     if n < 128 then percentByte n else percentByte (192 + n div 64) @ percentByte (128 + n mod 64))"

definition encodeURIComponent :: "string \<Rightarrow> string" where
  "encodeURIComponent s =
     concat (map (\<lambda>c. if isAlnum c \<or> c \<in> set ''-_.!~*()'' \<or> (of_char c :: nat) = 39 then [c] else percentChar c) s)"

text \<open>The serializer of \<open>URLSearchParams\<close>: fewer characters stay, and a blank becomes a plus sign.\<close>

definition formEncode :: "string \<Rightarrow> string" where
  "formEncode s =
     concat (map (\<lambda>c. if isAlnum c \<or> c \<in> set ''*-._'' then [c] else if c = CHR '' '' then ''+'' else percentChar c) s)"

section \<open>Paths of POSIX, \<open>path.join\<close> and \<open>path.basename\<close>\<close>

fun splitOn :: "char \<Rightarrow> string \<Rightarrow> string list" where
  "splitOn d [] = [[]]"
| "splitOn d (c # cs) =
     (if c = d then [] # splitOn d cs
      else case splitOn d cs of [] \<Rightarrow> [[c]] | w # ws \<Rightarrow> (c # w) # ws)"

lemma splitOn_nosep: "sep \<notin> set s \<Longrightarrow> splitOn sep s = [s]"
  by (induction s) auto

lemma splitOn_append: "sep \<notin> set s \<Longrightarrow> splitOn sep (s @ sep # t) = s # splitOn sep t"
  by (induction s) auto

fun joinWith :: "string \<Rightarrow> string list \<Rightarrow> string" where
  "joinWith d [] = []"
| "joinWith d [w] = w"
| "joinWith d (w # v # ws) = w @ d @ joinWith d (v # ws)"

text \<open>
  The segments of a normalized path, last one first: \<open>.\<close> and empty segments go, \<open>..\<close> removes the
  segment before it, and stays only at the start of a relative path.
\<close>

definition pathPush :: "bool \<Rightarrow> string list \<Rightarrow> string \<Rightarrow> string list" where
  "pathPush absolute segs w =
     (if w = [] \<or> w = ''.'' then segs
      else if w = ''..'' then
        (case segs of
           [] \<Rightarrow> (if absolute then [] else [''..''])
         | v # vs \<Rightarrow> (if v = ''..'' then ''..'' # segs else vs))
      else w # segs)"

definition pathNormalize :: "string \<Rightarrow> string" where
  "pathNormalize p =
     (let absolute = (p \<noteq> [] \<and> hd p = CHR ''/'');
          trailing = (p \<noteq> [] \<and> last p = CHR ''/'');
          body = joinWith ''/'' (rev (foldl (pathPush absolute) [] (splitOn (CHR ''/'') p)))
      in if body = [] then (if absolute then ''/'' else if trailing then ''./'' else ''.'')
         else (if absolute then ''/'' else []) @ body @ (if trailing then ''/'' else []))"

definition pathJoin :: "string list \<Rightarrow> string" where
  "pathJoin ps = (let qs = filter (\<lambda>p. p \<noteq> []) ps in if qs = [] then ''.'' else pathNormalize (joinWith ''/'' qs))"

definition pathBasename :: "string \<Rightarrow> string" where
  "pathBasename p = (case rev (filter (\<lambda>w. w \<noteq> []) (splitOn (CHR ''/'') p)) of [] \<Rightarrow> [] | w # _ \<Rightarrow> w)"

section \<open>Digits\<close>

definition digitChar :: "nat \<Rightarrow> char" where
  "digitChar d = (if d < 10 then char_of (48 + d) else char_of (87 + d))"

text \<open>The value of a digit in a base of up to 36, either case.\<close>

definition digitVal :: "char \<Rightarrow> nat option" where
  "digitVal c = (let n = (of_char c :: nat) in
     if 48 \<le> n \<and> n \<le> 57 then Some (n - 48)
     else if 97 \<le> n \<and> n \<le> 122 then Some (n - 87)
     else if 65 \<le> n \<and> n \<le> 90 then Some (n - 55)
     else None)"

definition isDigit :: "nat \<Rightarrow> char \<Rightarrow> bool" where
  "isDigit r c = (case digitVal c of None \<Rightarrow> False | Some d \<Rightarrow> d < r)"

lemma of_char_digitChar: "d < 36 \<Longrightarrow> (of_char (digitChar d) :: nat) = (if d < 10 then 48 + d else 87 + d)"
  by (simp add: digitChar_def)

lemma digitVal_digitChar [simp]: "d < 36 \<Longrightarrow> digitVal (digitChar d) = Some d"
  by (simp add: digitVal_def of_char_digitChar)

lemma isDigit_digitChar [simp]: "d < r \<Longrightarrow> r \<le> 36 \<Longrightarrow> isDigit r (digitChar d)"
  by (simp add: isDigit_def)

section \<open>toString(radix)\<close>

text \<open>For a radix of at least 2; the guard keeps the recursion total.\<close>

fun toRadix :: "nat \<Rightarrow> nat \<Rightarrow> string" where
  "toRadix r n =
     (if n < r \<or> r < 2 then [digitChar n] else toRadix r (n div r) @ [digitChar (n mod r)])"

declare toRadix.simps [simp del]

definition intToRadix :: "nat \<Rightarrow> int \<Rightarrow> string" where
  "intToRadix r i = (if i < 0 then CHR ''-'' # toRadix r (nat (- i)) else toRadix r (nat i))"

lemma toRadix_small: "n < r \<Longrightarrow> toRadix r n = [digitChar n]"
  by (simp add: toRadix.simps)

lemma toRadix_step:
  "r \<le> n \<Longrightarrow> 2 \<le> r \<Longrightarrow> toRadix r n = toRadix r (n div r) @ [digitChar (n mod r)]"
  by (subst toRadix.simps) simp

lemma toRadix_nonempty [simp]: "toRadix r n \<noteq> []"
  by (subst toRadix.simps) simp

lemma toRadix_digits:
  assumes "2 \<le> r" and "r \<le> 36"
  shows "\<forall>c \<in> set (toRadix r n). isDigit r c"
proof (induction n rule: less_induct)
  case (less n)
  show ?case
  proof (cases "n < r")
    case True
    then show ?thesis using assms by (simp add: toRadix_small)
  next
    case False
    then have "n div r < n" using assms by simp
    then have "\<forall>c \<in> set (toRadix r (n div r)). isDigit r c" by (rule less.IH)
    with False assms show ?thesis by (simp add: toRadix_step)
  qed
qed

lemma length_toRadix_le:
  assumes "2 \<le> r" and "n < r ^ k" and "0 < k"
  shows "length (toRadix r n) \<le> k"
  using assms(2,3)
proof (induction k arbitrary: n)
  case 0
  then show ?case by simp
next
  case (Suc k)
  show ?case
  proof (cases "n < r")
    case True
    then show ?thesis by (simp add: toRadix_small)
  next
    case False
    then have "0 < k" using Suc.prems by (cases k) simp_all
    moreover have "n div r < r ^ k"
      using Suc.prems(1) assms(1) by (simp add: less_mult_imp_div_less mult.commute)
    ultimately have "length (toRadix r (n div r)) \<le> k" by (rule Suc.IH [rotated])
    with False assms(1) show ?thesis by (simp add: toRadix_step)
  qed
qed

section \<open>parseInt\<close>

definition digitsVal :: "nat \<Rightarrow> string \<Rightarrow> nat" where
  "digitsVal r s = foldl (\<lambda>n c. n * r + the (digitVal c)) 0 s"

text \<open>
  \<open>parseInt(s, radix)\<close>: leading white space, a sign, for radix 16 a prefix \<open>0x\<close>, then the
  longest run of digits; no digit gives \<open>NaN\<close>, here \<open>None\<close>.
\<close>

definition stripHexPrefix :: "nat \<Rightarrow> string \<Rightarrow> string" where
  "stripHexPrefix r s =
     (case s of a # b # t \<Rightarrow> (if r = 16 \<and> a = CHR ''0'' \<and> (b = CHR ''x'' \<or> b = CHR ''X'') then t else s)
      | _ \<Rightarrow> s)"

definition parseDigits :: "nat \<Rightarrow> string \<Rightarrow> int option" where
  "parseDigits r s = (let ds = takeWhile (isDigit r) (stripHexPrefix r s)
     in if ds = [] then None else Some (int (digitsVal r ds)))"

definition parseInt :: "nat \<Rightarrow> string \<Rightarrow> int option" where
  "parseInt r s =
     (case dropWhile isSpace s of
        [] \<Rightarrow> None
      | c # t \<Rightarrow>
          if c = CHR ''-'' then map_option uminus (parseDigits r t)
          else if c = CHR ''+'' then parseDigits r t
          else parseDigits r (c # t))"

text \<open>\<open>parseInt(s)\<close>: the radix is 10, or 16 after a prefix \<open>0x\<close>.\<close>

definition parseIntAuto :: "string \<Rightarrow> int option" where
  "parseIntAuto s =
     (let t = dropWhile isSpace s;
          u = (if take 1 t = ''-'' \<or> take 1 t = ''+'' then drop 1 t else t) in
      parseInt (if take 2 u = ''0x'' \<or> take 2 u = ''0X'' then 16 else 10) s)"

lemma digitsVal_snoc: "digitsVal r (s @ [c]) = digitsVal r s * r + the (digitVal c)"
  by (simp add: digitsVal_def)

lemma digitsVal_toRadix:
  assumes "2 \<le> r" and "r \<le> 36"
  shows "digitsVal r (toRadix r n) = n"
proof (induction n rule: less_induct)
  case (less n)
  show ?case
  proof (cases "n < r")
    case True
    with assms show ?thesis by (simp add: toRadix_small digitsVal_def)
  next
    case False
    then have "n div r < n" using assms by simp
    with less.IH have "digitsVal r (toRadix r (n div r)) = n div r" by simp
    moreover have "n mod r < 36" using assms mod_less_divisor [of r n] by linarith
    ultimately show ?thesis using False assms by (simp add: toRadix_step digitsVal_snoc)
  qed
qed

lemma isDigit_not_special:
  assumes "isDigit r c"
  shows "\<not> isSpace c" and "c \<noteq> CHR ''-''" and "c \<noteq> CHR ''+''"
  using assms by (auto simp: isDigit_def digitVal_def isSpace_def Let_def split: if_splits)

lemma not_isDigit_16_x: "\<not> isDigit 16 (CHR ''x'')" "\<not> isDigit 16 (CHR ''X'')"
  by (simp_all add: isDigit_def digitVal_def)

lemma parseDigits_all:
  assumes "\<forall>c \<in> set s. isDigit r c" and "s \<noteq> []"
  shows "parseDigits r s = Some (int (digitsVal r s))"
proof -
  have "stripHexPrefix r s = s"
    using assms(1) not_isDigit_16_x
    by (auto simp: stripHexPrefix_def split: list.splits)
  moreover have "takeWhile (isDigit r) s = s"
    using assms(1) by (simp only: takeWhile_eq_all_conv)
  ultimately show ?thesis using assms(2) by (simp only: parseDigits_def Let_def if_False)
qed

lemma parseInt_all:
  assumes "\<forall>c \<in> set s. isDigit r c" and "s \<noteq> []"
  shows "parseInt r s = Some (int (digitsVal r s))"
proof -
  from assms(2) obtain c t where s: "s = c # t" by (cases s) auto
  with assms(1) have "isDigit r c" by simp
  note isDigit_not_special [OF this]
  then have "parseInt r s = parseDigits r s"
    by (simp add: parseInt_def s)
  also have "\<dots> = Some (int (digitsVal r s))" using assms by (rule parseDigits_all)
  finally show ?thesis .
qed

lemma parseInt_toRadix:
  assumes "2 \<le> r" and "r \<le> 36"
  shows "parseInt r (toRadix r n) = Some (int n)"
  using parseInt_all [OF toRadix_digits [OF assms]] by (simp add: digitsVal_toRadix assms)

lemma digitsVal_zeros: "digitsVal r (replicate k (CHR ''0'') @ s) = digitsVal r s"
proof (induction k)
  case 0
  then show ?case by simp
next
  case (Suc k)
  then show ?case by (simp add: digitsVal_def digitVal_def)
qed

lemma isDigit_0: "0 < r \<Longrightarrow> isDigit r (CHR ''0'')"
  by (simp add: isDigit_def digitVal_def)

lemma parseInt_padStart:
  assumes "2 \<le> r" and "r \<le> 36"
  shows "parseInt r (padStart k (CHR ''0'') (toRadix r n)) = Some (int n)"
proof -
  let ?s = "padStart k (CHR ''0'') (toRadix r n)"
  have "\<forall>c \<in> set ?s. isDigit r c"
    using toRadix_digits [OF assms] assms by (auto simp: padStart_def isDigit_0)
  then have "parseInt r ?s = Some (int (digitsVal r ?s))"
    by (rule parseInt_all) (simp add: padStart_def)
  then show ?thesis by (simp add: padStart_def digitsVal_zeros digitsVal_toRadix assms)
qed

interpretation radix36: round_trip "toRadix 36" "parseInt 36" "\<lambda>n. Some (int n)" "\<lambda>_. True"
  by unfold_locales (simp add: parseInt_toRadix)

interpretation radix16: round_trip "toRadix 16" "parseInt 16" "\<lambda>n. Some (int n)" "\<lambda>_. True"
  by unfold_locales (simp add: parseInt_toRadix)

end
