(* ===== verification/Object_Id.thy ===== *)
theory Object_Id
  imports NC_Js "HOL-Library.Word"
begin

text \<open>
  The converters of \<open>src/helpers\<close> between the two kinds of identifier the system uses, the
  12 bytes of a MongoDB ObjectId and the UUIDs of PostgreSQL (\<open>objectid-uuid-converter.ts\<close>),
  between MD5 sums and UUIDs (\<open>md5.helper.ts\<close>) and between colours and their numbers
  (\<open>hex-dec-converter.ts\<close>), with \<open>ProfileIdModel\<close>.

  An ObjectId is its list of bytes. The functions of the packages \<open>uuid\<close> and \<open>bson\<close> the
  converter calls are the fields of a parameter of type \<open>id_lib\<close>; \<open>id_lib_ok\<close> states their
  documented behaviour on the UUIDs the converter makes (version 8, RFC 4122 variant).
\<close>

type_synonym byte = "8 word"
type_synonym object_id = "byte list"

record id_lib =
  uuidStringify :: "byte list \<Rightarrow> string"
  uuidParse :: "string \<Rightarrow> byte list"
  objectIdFromHex :: "string \<Rightarrow> object_id"

section \<open>Bytes and hexadecimal pairs\<close>

text \<open>\<open>array.set(source, offset)\<close> of a byte array.\<close>

definition setBytes :: "byte list \<Rightarrow> byte list \<Rightarrow> nat \<Rightarrow> byte list" where
  "setBytes a src off = take off a @ src @ drop (off + length src) a"

definition slice :: "nat \<Rightarrow> nat \<Rightarrow> 'a list \<Rightarrow> 'a list" where
  "slice i j xs = drop i (take j xs)"

definition hexByte :: "byte \<Rightarrow> string" where
  "hexByte b = padStart 2 (CHR ''0'') (toRadix 16 (unat b))"

definition hexString :: "byte list \<Rightarrow> string" where
  "hexString bs = concat (map hexByte bs)"

text \<open>The matches of \<open>/.{1,2}/g\<close>: pairs of characters other than line terminators.\<close>

fun hexPairs :: "string \<Rightarrow> string list" where
  "hexPairs [] = []"
| "hexPairs [c] = (if isLineTerminator c then [] else [[c]])"
| "hexPairs (c # d # s) =
     (if isLineTerminator c then hexPairs (d # s)
      else if isLineTerminator d then [c] # hexPairs s
      else [c, d] # hexPairs s)"

text \<open>\<open>parseInt(byte, 16)\<close> stored in a \<open>Uint8Array\<close>: \<open>NaN\<close> becomes 0, the rest wraps.\<close>

definition hexToByte :: "string \<Rightarrow> byte" where
  "hexToByte s = (case parseInt 16 s of None \<Rightarrow> 0 | Some i \<Rightarrow> word_of_int i)"

definition hexToBytes :: "string \<Rightarrow> byte list" where
  "hexToBytes s = map hexToByte (hexPairs s)"

section \<open>The converter\<close>

definition isObjectIdString :: "string \<Rightarrow> bool" where
  "isObjectIdString s \<longleftrightarrow> length s = 24 \<and> list_all (isDigit 16) s"

datatype object_id_arg = OidString string | OidObject object_id

definition oidBytes :: "object_id_arg \<Rightarrow> byte list" where
  "oidBytes a = (case a of OidString s \<Rightarrow> hexToBytes s | OidObject bs \<Rightarrow> bs)"

definition paddedBytes :: "byte list \<Rightarrow> byte list" where
  "paddedBytes bytes =
     setBytes (setBytes (setBytes (replicate 16 0) (slice 0 6 bytes) 0) [0x80, 0, 0x80] 6)
       (slice 6 12 bytes) 9"

text \<open>\<open>undefined\<close> and \<open>null\<close> are passed through; both are \<open>None\<close>.\<close>

definition toUuid :: "id_lib \<Rightarrow> object_id_arg option \<Rightarrow> string option" where
  "toUuid L objectId =
     (case objectId of
        None \<Rightarrow> None
      | Some a \<Rightarrow> Some (uuidStringify L (paddedBytes (oidBytes a))))"

definition toUuidV7 :: "(int \<Rightarrow> string option) \<Rightarrow> (object_id \<Rightarrow> time) \<Rightarrow> (object_id \<Rightarrow> string) \<Rightarrow> object_id \<Rightarrow> string outcome" where
  "toUuidV7 generate getTimestamp toStr objectId =
     (case generate (getTimestamp objectId) of
        None \<Rightarrow> Inl (JsError (''Failed to generate UUIDv7 from ObjectId '' @ toStr objectId))
      | Some u \<Rightarrow> Inr u)"

definition toObjectIdBytes :: "id_lib \<Rightarrow> string \<Rightarrow> byte list" where
  "toObjectIdBytes L uuid =
     (let padded = uuidParse L uuid
      in setBytes (setBytes (replicate 12 0) (slice 0 6 padded) 0) (slice 9 15 padded) 6)"

definition toObjectId :: "id_lib \<Rightarrow> string \<Rightarrow> object_id" where
  "toObjectId L uuid =
     (if isObjectIdString uuid then objectIdFromHex L uuid else toObjectIdBytes L uuid)"

definition toHexString :: "id_lib \<Rightarrow> string \<Rightarrow> string" where
  "toHexString L uuid =
     (if isObjectIdString uuid then uuid
      else foldl (\<lambda>str byte. str @ hexByte byte) [] (toObjectIdBytes L uuid))"

text \<open>
  \<open>ProfileIdModel\<close> (\<open>accounts/models/profile-id.model.ts\<close>): a profile's UUID, with its ObjectId
  and its hexadecimal string computed from it.
\<close>

record profile_id_model = pid_uuid :: string

definition pid_objectId :: "id_lib \<Rightarrow> profile_id_model \<Rightarrow> object_id" where
  "pid_objectId L p = toObjectId L (pid_uuid p)"

definition pid_hexString :: "id_lib \<Rightarrow> profile_id_model \<Rightarrow> string" where
  "pid_hexString L p = (if pid_uuid p \<noteq> [] then toHexString L (pid_uuid p) else pid_uuid p)"

definition pid_fromObjectId :: "id_lib \<Rightarrow> object_id_arg option \<Rightarrow> profile_id_model option" where
  "pid_fromObjectId L objectId = map_option (\<lambda>uuid. \<lparr>pid_uuid = uuid\<rparr>) (toUuid L objectId)"

definition isFalsyOid :: "object_id_arg option \<Rightarrow> bool" where
  "isFalsyOid a = (a = None \<or> a = Some (OidString []))"

definition pid_fromObjectIdOrThrow :: "id_lib \<Rightarrow> object_id_arg option \<Rightarrow> profile_id_model outcome" where
  "pid_fromObjectIdOrThrow L objectId =
     (if isFalsyOid objectId then Inl (JsError ''Profile ID is undefined'')
      else Inr \<lparr>pid_uuid = the (toUuid L objectId)\<rparr>)"

text \<open>
  \<open>transformProfileIdModel\<close> (\<open>helpers/transform-profile-id-model.ts\<close>): the validation pipe's
  transformer turns every exception of the conversion into a \<open>BadRequestException\<close>.
\<close>

definition transformProfileIdModel :: "id_lib \<Rightarrow> object_id_arg option \<Rightarrow> profile_id_model outcome" where
  "transformProfileIdModel L v =
     (case pid_fromObjectIdOrThrow L v of
        Inl _ \<Rightarrow> Inl (BadRequest ''ProfileId must be an ObjectId'')
      | Inr p \<Rightarrow> Inr p)"

section \<open>MD5 sums and colours\<close>

definition uuidToHex :: "string option \<Rightarrow> string option" where
  "uuidToHex uuid = map_option (filter (\<lambda>c. c \<noteq> CHR ''-'')) uuid"

definition hexToUuid :: "string option \<Rightarrow> string option" where
  "hexToUuid hex = map_option (\<lambda>h. toLowerCase
     (slice 0 8 h @ ''-'' @ slice 8 12 h @ ''-'' @ slice 12 16 h @ ''-'' @ slice 16 20 h @ ''-''
      @ drop 20 h)) hex"

definition hexToDec :: "string \<Rightarrow> int option" where
  "hexToDec hex = parseInt 16 (drop 1 hex)"

definition decToHex :: "int \<Rightarrow> string" where
  "decToHex dec = CHR ''#'' # padStart 6 (CHR ''0'') (intToRadix 16 dec)"

section \<open>Hexadecimal bytes\<close>

lemma toRadix_16_less_256:
  assumes "n < 256"
  shows "toRadix 16 n = (if n < 16 then [digitChar n] else [digitChar (n div 16), digitChar (n mod 16)])"
proof (cases "n < 16")
  case True
  then show ?thesis by (simp add: toRadix_small)
next
  case False
  moreover have "n div 16 < 16" using assms by simp
  ultimately show ?thesis by (simp add: toRadix_step toRadix_small)
qed

lemma unat_byte: "unat (b :: byte) < 256"
  using unsigned_less [of b, where ?'a = nat] by simp

lemma hexByte_digits: "hexByte b = [digitChar (unat b div 16), digitChar (unat b mod 16)]"
proof -
  have "unat b < 256" by (rule unat_byte)
  moreover have "digitChar 0 = CHR ''0''" by (simp add: digitChar_def char_of_eq_iff)
  ultimately show ?thesis
    by (auto simp: hexByte_def padStart_def toRadix_16_less_256 numeral_2_eq_2)
qed

lemma hexByte_is_hex:
  shows "length (hexByte b) = 2" and "\<forall>c \<in> set (hexByte b). isDigit 16 c"
proof -
  have "unat b < 256" by (rule unat_byte)
  then have "unat b div 16 < 16" by simp
  then show "length (hexByte b) = 2" "\<forall>c \<in> set (hexByte b). isDigit 16 c"
    by (simp_all add: hexByte_digits)
qed

lemma isDigit_not_lineTerminator: "isDigit r c \<Longrightarrow> \<not> isLineTerminator c"
  by (auto simp: isDigit_def digitVal_def isLineTerminator_def Let_def split: if_splits)

lemma isDigit_not_dash: "isDigit r c \<Longrightarrow> c \<noteq> CHR ''-''"
  by (rule isDigit_not_special)

lemma hexToByte_hexByte: "hexToByte (hexByte b) = b"
proof -
  have "parseInt 16 (hexByte b) = Some (int (unat b))"
    unfolding hexByte_def by (rule parseInt_padStart) simp_all
  then show ?thesis by (simp add: hexToByte_def)
qed

lemma hexPairs_two:
  "\<not> isLineTerminator c \<Longrightarrow> \<not> isLineTerminator d \<Longrightarrow> hexPairs ([c, d] @ s) = [c, d] # hexPairs s"
  by simp

lemma hexToBytes_hexString: "hexToBytes (hexString bs) = bs"
proof (induction bs)
  case Nil
  then show ?case by (simp add: hexString_def hexToBytes_def)
next
  case (Cons b bs)
  obtain c d where cd: "hexByte b = [c, d]" by (simp add: hexByte_digits)
  moreover have "\<not> isLineTerminator c" "\<not> isLineTerminator d"
    using hexByte_is_hex(2) [of b] isDigit_not_lineTerminator by (auto simp: cd)
  ultimately have "hexPairs (hexString (b # bs)) = hexByte b # hexPairs (hexString bs)"
    by (simp add: hexString_def)
  with Cons.IH show ?case by (simp add: hexToBytes_def hexToByte_hexByte)
qed

lemma length_hexString [simp]: "length (hexString bs) = 2 * length bs"
  by (induction bs) (simp_all add: hexString_def hexByte_is_hex)

lemma set_hexString: "\<forall>c \<in> set (hexString bs). isDigit 16 c"
  using hexByte_is_hex(2) by (auto simp: hexString_def)

lemma foldl_hexByte: "foldl (\<lambda>str byte. str @ hexByte byte) acc bs = acc @ hexString bs"
  by (induction bs arbitrary: acc) (simp_all add: hexString_def)

lemma digitChar_digitVal:
  assumes "isDigit 16 c"
  shows "digitChar (the (digitVal c)) = lowerChar c"
proof -
  let ?n = "of_char c :: nat"
  have ofc: "char_of (of_char c :: nat) = c" by simp
  from assms consider "48 \<le> ?n" "?n \<le> 57" | "97 \<le> ?n" "?n < 103" | "65 \<le> ?n" "?n < 71"
    by (auto simp: isDigit_def digitVal_def Let_def split: if_splits)
  then show ?thesis
  proof cases
    case 1
    then have "digitVal c = Some (?n - 48)" by (simp add: digitVal_def)
    moreover have "48 + (?n - 48) = ?n" "?n - 48 < 10" using 1 by simp_all
    ultimately show ?thesis using 1 ofc
      by (simp add: digitChar_def lowerChar_def Let_def)
  next
    case 2
    then have "digitVal c = Some (?n - 87)" by (simp add: digitVal_def)
    moreover have "87 + (?n - 87) = ?n" "\<not> ?n - 87 < 10" using 2 by simp_all
    ultimately show ?thesis using 2 ofc
      by (simp add: digitChar_def lowerChar_def Let_def)
  next
    case 3
    then have "digitVal c = Some (?n - 55)" by (simp add: digitVal_def)
    moreover have "87 + (?n - 55) = ?n + 32" "\<not> ?n - 55 < 10" using 3 by simp_all
    ultimately show ?thesis using 3
      by (simp add: digitChar_def lowerChar_def Let_def)
  qed
qed

lemma hexByte_hexToByte:
  assumes "isDigit 16 c" and "isDigit 16 d"
  shows "hexByte (hexToByte [c, d]) = map lowerChar [c, d]"
proof -
  obtain a e where v: "digitVal c = Some a" "digitVal d = Some e" "a < 16" "e < 16"
    using assms by (auto simp: isDigit_def split: option.splits)
  have "parseInt 16 [c, d] = Some (int (digitsVal 16 [c, d]))"
    by (rule parseInt_all) (use assms in auto)
  then have "hexToByte [c, d] = word_of_int (int (16 * a + e))"
    by (simp add: hexToByte_def digitsVal_def v)
  moreover have "16 * a + e < 256" using v by simp
  ultimately have "unat (hexToByte [c, d]) = 16 * a + e"
    by (simp only: of_int_of_nat_eq unsigned_of_nat) (simp add: take_bit_nat_eq_self)
  then show ?thesis
    using v digitChar_digitVal [OF assms(1)] digitChar_digitVal [OF assms(2)]
    by (simp add: hexByte_digits)
qed

lemma hexString_hexToBytes:
  assumes "\<forall>c \<in> set s. isDigit 16 c" and "even (length s)"
  shows "hexString (hexToBytes s) = toLowerCase s" and "2 * length (hexToBytes s) = length s"
  using assms
proof (induction s rule: hexPairs.induct)
  case 1
  { case 1 show ?case by (simp add: hexToBytes_def hexString_def toLowerCase_def) }
  { case 2 show ?case by (simp add: hexToBytes_def) }
next
  case (2 c)
  { case 1 then show ?case by simp }
  { case 2 then show ?case by simp }
next
  case (3 c d s)
  { case 1
    then have "\<not> isLineTerminator c" "\<not> isLineTerminator d"
      using isDigit_not_lineTerminator by auto
    with 1 "3.IH"(5) show ?case
      by (simp add: hexToBytes_def hexString_def toLowerCase_def hexByte_hexToByte) }
  { case 2
    then have "\<not> isLineTerminator c" "\<not> isLineTerminator d"
      using isDigit_not_lineTerminator by auto
    with 2 "3.IH"(6) show ?case
      by (simp add: hexToBytes_def) }
qed

section \<open>Round trips\<close>

text \<open>
  The documented behaviour of the \<open>uuid\<close> package on the UUIDs the converter builds: their bytes
  6 and 8 carry the version and the variant, the string has 36 characters, and \<open>parse\<close> undoes
  \<open>stringify\<close>.
\<close>

definition id_lib_ok :: "id_lib \<Rightarrow> bool" where
  "id_lib_ok L \<longleftrightarrow>
     (\<forall>b. length b = 16 \<and> b ! 6 = 0x80 \<and> b ! 8 = 0x80 \<longrightarrow>
        length (uuidStringify L b) = 36 \<and> uuidParse L (uuidStringify L b) = b)"

lemma id_lib_okD:
  assumes "id_lib_ok L" and "length b = 16" and "b ! 6 = 0x80" and "b ! 8 = 0x80"
  shows "length (uuidStringify L b) = 36" and "uuidParse L (uuidStringify L b) = b"
  using assms by (auto simp: id_lib_ok_def)

lemma length_12_cases:
  assumes "length b = 12"
  obtains b0 b1 b2 b3 b4 b5 b6 b7 b8 b9 b10 b11
  where "b = [b0, b1, b2, b3, b4, b5, b6, b7, b8, b9, b10, b11]"
  using assms by (auto simp: length_Suc_conv numeral_eq_Suc)

lemma paddedBytes_12:
  "paddedBytes [b0, b1, b2, b3, b4, b5, b6, b7, b8, b9, b10, b11] =
     [b0, b1, b2, b3, b4, b5, 0x80, 0, 0x80, b6, b7, b8, b9, b10, b11, 0]"
  by (simp add: paddedBytes_def setBytes_def slice_def numeral_eq_Suc)

lemma toObjectIdBytes_toUuid:
  assumes "id_lib_ok L" and "length b = 12"
  shows "toObjectIdBytes L (uuidStringify L (paddedBytes b)) = b"
    and "length (uuidStringify L (paddedBytes b)) = 36"
proof -
  from assms(2) obtain b0 b1 b2 b3 b4 b5 b6 b7 b8 b9 b10 b11
    where b: "b = [b0, b1, b2, b3, b4, b5, b6, b7, b8, b9, b10, b11]"
    by (rule length_12_cases)
  then have p: "length (paddedBytes b) = 16" "paddedBytes b ! 6 = 0x80" "paddedBytes b ! 8 = 0x80"
    by (simp_all add: paddedBytes_12)
  show "toObjectIdBytes L (uuidStringify L (paddedBytes b)) = b"
    using id_lib_okD(2) [OF assms(1) p]
    by (simp add: toObjectIdBytes_def b paddedBytes_12 setBytes_def slice_def numeral_eq_Suc)
  show "length (uuidStringify L (paddedBytes b)) = 36"
    using id_lib_okD(1) [OF assms(1) p] .
qed

lemma not_isObjectIdString_36: "length s = 36 \<Longrightarrow> \<not> isObjectIdString s"
  by (simp add: isObjectIdString_def)

text \<open>
  A library that behaves as documented: the lower case hexadecimal form of a UUID, with its dashes.
\<close>

definition standardLib :: id_lib where
  "standardLib =
     \<lparr>uuidStringify = (\<lambda>b. the (hexToUuid (Some (hexString b)))),
      uuidParse = (\<lambda>s. hexToBytes (the (uuidToHex (Some s)))),
      objectIdFromHex = hexToBytes\<rparr>"

lemma slice_append_drop: "i \<le> j \<Longrightarrow> slice i j h @ drop j h = drop i h"
  using drop_append [of i "take j h" "drop j h"]
  by (cases "j \<le> length h") (simp_all add: slice_def)

lemma slice_append_drop_more: "i \<le> j \<Longrightarrow> slice i j h @ drop j h @ r = drop i h @ r"
  using slice_append_drop [of i j h] by (metis append_assoc)

lemma isDigit_lowerChar: "isDigit 16 c \<Longrightarrow> isDigit 16 (lowerChar c)"
  by (frule digitChar_digitVal [symmetric]) (auto simp: isDigit_def split: option.splits)

lemma no_dash_hex:
  assumes "\<forall>c \<in> set s. isDigit 16 c"
  shows "filter (\<lambda>c. c \<noteq> CHR ''-'') (toLowerCase s) = toLowerCase s"
  using assms isDigit_lowerChar isDigit_not_dash by (fastforce simp: toLowerCase_def filter_id_conv)

lemma toLowerCase_append: "toLowerCase (s @ t) = toLowerCase s @ toLowerCase t"
  by (simp add: toLowerCase_def)

lemma toLowerCase_dash: "toLowerCase ''-'' = ''-''"
  by (simp add: toLowerCase_def lowerChar_def)

lemma hexToUuid_parts:
  "hexToUuid (Some h) = Some (toLowerCase (slice 0 8 h) @ ''-'' @ toLowerCase (slice 8 12 h) @ ''-''
     @ toLowerCase (slice 12 16 h) @ ''-'' @ toLowerCase (slice 16 20 h) @ ''-'' @ toLowerCase (drop 20 h))"
  by (simp only: hexToUuid_def option.map toLowerCase_append toLowerCase_dash)

lemma set_slice_subset: "set (slice i j h) \<subseteq> set h"
  by (auto simp: slice_def dest: in_set_dropD in_set_takeD)

lemma uuidToHex_hexToUuid:
  assumes "\<forall>c \<in> set h. isDigit 16 c"
  shows "uuidToHex (hexToUuid (Some h)) = Some (toLowerCase h)"
proof -
  have part: "filter (\<lambda>c. c \<noteq> CHR ''-'') (toLowerCase (slice i j h)) = toLowerCase (slice i j h)" for i j
    using assms set_slice_subset [of i j h] by (intro no_dash_hex) blast
  have rest: "filter (\<lambda>c. c \<noteq> CHR ''-'') (toLowerCase (drop 20 h)) = toLowerCase (drop 20 h)"
    using assms by (intro no_dash_hex) (blast dest: in_set_dropD)
  have "slice 0 8 h @ slice 8 12 h @ slice 12 16 h @ slice 16 20 h @ drop 20 h = h"
    by (simp add: slice_append_drop)
  then show ?thesis
    by (simp add: uuidToHex_def hexToUuid_parts part rest flip: toLowerCase_append)
qed

lemma length_hexToUuid:
  "length h = 32 \<Longrightarrow> length (the (hexToUuid (Some h))) = 36"
  by (simp add: hexToUuid_parts slice_def)

lemma toLowerCase_hexString: "toLowerCase (hexString b) = hexString b"
proof -
  have "hexToBytes (hexString b) = b" by (rule hexToBytes_hexString)
  then show ?thesis using hexString_hexToBytes(1) [of "hexString b"] set_hexString by simp
qed

lemma hexToUuid_Some: "Some (the (hexToUuid (Some h))) = hexToUuid (Some h)"
  by (simp add: hexToUuid_def)

lemma standardLib_ok: "id_lib_ok standardLib"
  by (simp add: hexToUuid_Some id_lib_ok_def standardLib_def length_hexToUuid uuidToHex_hexToUuid
        set_hexString [rule_format] toLowerCase_hexString hexToBytes_hexString)

interpretation oid: round_trip
  "\<lambda>b. the (toUuid standardLib (Some (OidObject b)))" "toObjectId standardLib" "\<lambda>b. b"
  "\<lambda>b. length b = 12"
  by unfold_locales
    (simp add: toUuid_def oidBytes_def toObjectId_def toObjectIdBytes_toUuid standardLib_ok
      not_isObjectIdString_36)

interpretation md5: round_trip
  "\<lambda>h. hexToUuid (Some h)" uuidToHex "\<lambda>h. Some (toLowerCase h)" "\<lambda>h. \<forall>c \<in> set h. isDigit 16 c"
  by unfold_locales (rule uuidToHex_hexToUuid)

interpretation colour: round_trip decToHex hexToDec Some "\<lambda>n. 0 \<le> n"
proof unfold_locales
  fix n :: int
  assume "0 \<le> n"
  then show "hexToDec (decToHex n) = Some n"
    by (simp add: hexToDec_def decToHex_def intToRadix_def parseInt_padStart)
qed

text \<open>
  Claim C39: an ObjectId survives the trip through its UUID, whatever UUID library is used as long as it
  behaves as documented; so no two profiles share a UUID. The hexadecimal form comes back in lower
  case.
\<close>

theorem toObjectId_toUuid:
  assumes "id_lib_ok L" and "length b = 12"
  shows "toObjectId L (the (toUuid L (Some (OidObject b)))) = b \<and>
    toHexString L (the (toUuid L (Some (OidObject b)))) = hexString b \<and>
    (length b' = 12 \<longrightarrow> toUuid L (Some (OidObject b')) = toUuid L (Some (OidObject b)) \<longrightarrow> b' = b)"
proof -
  note inv = toObjectIdBytes_toUuid [OF assms(1)]
  have "toObjectId L (the (toUuid L (Some (OidObject b)))) = b"
    "toHexString L (the (toUuid L (Some (OidObject b)))) = hexString b"
    using assms(2) by (simp_all add: toUuid_def oidBytes_def toObjectId_def toHexString_def inv
        not_isObjectIdString_36 foldl_hexByte)
  moreover have "b' = b" if "length b' = 12" "toUuid L (Some (OidObject b')) = toUuid L (Some (OidObject b))"
    using that inv(1) [of b] inv(1) [of b'] assms(2) by (simp add: toUuid_def oidBytes_def)
  ultimately show ?thesis by blast
qed

theorem toObjectId_toUuid_witness:
  "id_lib_ok standardLib \<and>
   toObjectId standardLib (the (toUuid standardLib (Some (OidObject [0x61,0xe3,0x08,0xef,0xa4,0xd9,0x68,0,0x19,0xbc,0x34,0x3c])))) =
     [0x61,0xe3,0x08,0xef,0xa4,0xd9,0x68,0,0x19,0xbc,0x34,0x3c]"
proof -
  have len: "length [0x61,0xe3,0x08,0xef,0xa4,0xd9,0x68,0,0x19,0xbc,0x34,0x3c :: byte] = 12" by simp
  show ?thesis using standardLib_ok toObjectId_toUuid [OF standardLib_ok len] by blast
qed

text \<open>
  A profile id given as 24 hexadecimal digits, as access tokens carry it, is recovered from its
  UUID up to the case of its letters.
\<close>

lemma toHexString_toUuid_string:
  assumes "id_lib_ok L" and "isObjectIdString h"
  shows "toHexString L (the (toUuid L (Some (OidString h)))) = toLowerCase h"
proof -
  from assms(2) have h: "length h = 24" "\<forall>c \<in> set h. isDigit 16 c"
    by (simp_all add: isObjectIdString_def list_all_iff)
  then have b: "length (hexToBytes h) = 12" "hexString (hexToBytes h) = toLowerCase h"
    using hexString_hexToBytes [of h] by simp_all
  show ?thesis
    by (simp add: toUuid_def oidBytes_def toHexString_def b toObjectIdBytes_toUuid assms(1)
        not_isObjectIdString_36 foldl_hexByte)
qed

lemma toHexString_toUuid_string_witness:
  "isObjectIdString ''61e308EFa4d9680019bc343c'' \<and>
   toHexString standardLib (the (toUuid standardLib (Some (OidString ''61e308EFa4d9680019bc343c'')))) =
     ''61e308efa4d9680019bc343c''"
proof -
  have h: "isObjectIdString ''61e308EFa4d9680019bc343c''" by code_simp
  have "toLowerCase ''61e308EFa4d9680019bc343c'' = ''61e308efa4d9680019bc343c''" by code_simp
  with toHexString_toUuid_string [OF standardLib_ok h] h show ?thesis by simp
qed

end
