(* ===== verification/Accounts_Profile.thy ===== *)
theory Accounts_Profile
  imports Object_Id
begin

text \<open>
  Profiles and their names: the documents of \<open>models/accounts/profile.model.ts\<close> and
  \<open>profile.name.model.ts\<close>, the look-ups of \<open>accounts/profile/profile-name.service.ts\<close> and the two
  queries of \<open>profile.service.ts\<close> other components call, and the response model of a name.

  A document read with \<open>lean()\<close> is a plain object without the class's getters; the datatype
  \<open>name_doc\<close> keeps the difference, because the full name is such a getter.
\<close>

section \<open>Documents\<close>

datatype language = En | Th

record profile_name =
  pn_profile :: "object_id option"
  pn_lang :: "language option"
  pn_title :: "string option"
  pn_firstname :: "string option"
  pn_lastname :: "string option"
  pn_nickname :: "string option"

datatype name_doc = Hydrated profile_name | Lean profile_name

primrec docName :: "name_doc \<Rightarrow> profile_name" where
  "docName (Hydrated n) = n"
| "docName (Lean n) = n"

record profile =
  pr_id :: object_id
  pr_photo :: "string option"
  pr_emails :: "string list option"
  pr_tels :: "string list option"
  pr_discord_ids :: "string list option"

text \<open>Interpolating an \<open>undefined\<close> value into a template string.\<close>

definition interpolate :: "string option \<Rightarrow> string" where
  "interpolate v = (case v of None \<Rightarrow> ''undefined'' | Some s \<Rightarrow> s)"

text \<open>The getter \<open>fullname\<close>; a lean document has none.\<close>

primrec fullname :: "name_doc \<Rightarrow> string option" where
  "fullname (Hydrated n) =
     Some (trim (interpolate (pn_firstname n) @ '' '' @ interpolate (pn_lastname n)))"
| "fullname (Lean n) = None"

section \<open>ProfileNameService\<close>

definition newProfileName :: profile_name where
  "newProfileName = \<lparr>pn_profile = None, pn_lang = None, pn_title = None, pn_firstname = None,
     pn_lastname = None, pn_nickname = None\<rparr>"

definition getFallbackProfileName :: "profile_name list \<Rightarrow> object_id \<Rightarrow> name_doc" where
  "getFallbackProfileName names profileId =
     (case findOneBy (\<lambda>n. pn_profile n = Some profileId) names of
        Some n \<Rightarrow> Hydrated n
      | None \<Rightarrow> Hydrated newProfileName)"

definition getProfileName :: "profile_name list \<Rightarrow> object_id \<Rightarrow> language \<Rightarrow> name_doc" where
  "getProfileName names profileId lang =
     (case findOneBy (\<lambda>n. pn_profile n = Some profileId \<and> pn_lang n = Some lang) names of
        Some n \<Rightarrow> Hydrated n
      | None \<Rightarrow> getFallbackProfileName names profileId)"

definition getProfilesName :: "profile_name list \<Rightarrow> object_id list \<Rightarrow> language \<Rightarrow> name_doc list" where
  "getProfilesName names profileIds lang =
     map Lean (findBy (\<lambda>n. (\<exists>i \<in> set profileIds. pn_profile n = Some i) \<and> pn_lang n = Some lang) names)"

text \<open>\<open>new Map(pairs)\<close>: a later pair wins. The keys are the hexadecimal ids.\<close>

type_synonym profile_name_map = "string \<Rightarrow> name_doc option"

definition mapOfPairs :: "('k \<times> 'v) list \<Rightarrow> 'k \<Rightarrow> 'v option" where
  "mapOfPairs kvs = map_of (rev kvs)"

lemma mapOfPairs_distinct: "distinct (map fst kvs) \<Longrightarrow> mapOfPairs kvs = map_of kvs"
  by (rule ext, rule option_eqI) (simp add: mapOfPairs_def map_of_eq_Some_iff rev_map [symmetric])

text \<open>\<open>map.values()\<close>: keys in the order of their first insertion, each with its last value.\<close>

definition mapValues :: "('k \<times> 'v) list \<Rightarrow> 'v list" where
  "mapValues kvs = map (\<lambda>k. the (mapOfPairs kvs k)) (rev (remdups (rev (map fst kvs))))"

definition getProfilesNameMap :: "profile_name list \<Rightarrow> object_id list \<Rightarrow> language \<Rightarrow> profile_name_map" where
  "getProfilesNameMap names profileIds lang =
     mapOfPairs (map (\<lambda>d. (hexString (the (pn_profile (docName d))), d))
       (getProfilesName names profileIds lang))"

text \<open>
  \<open>charAt(0).toUpperCase()\<close> of a character below 256; the sharp s has a two letter upper case.
  (The two such characters whose upper case lies above 255 are left alone.)
\<close>

definition upperChar :: "char \<Rightarrow> string" where
  "upperChar c = (let n = (of_char c :: nat) in
     if 97 \<le> n \<and> n \<le> 122 \<or> 224 \<le> n \<and> n \<le> 254 \<and> n \<noteq> 247 then [char_of (n - 32)]
     else if n = 223 then ''SS'' else [c])"

definition casedInitial :: "string option \<Rightarrow> string" where
  "casedInitial name = (case name of Some (c # _) \<Rightarrow> upperChar c | _ \<Rightarrow> [])"

definition casedName :: "string option \<Rightarrow> string" where
  "casedName name =
     (let trimmedName = (case name of None \<Rightarrow> [] | Some s \<Rightarrow> trim s)
      in casedInitial (Some trimmedName) @ toLowerCase (drop 1 trimmedName))"

text \<open>\<open>s.slice(0, e)\<close>: a negative end counts from the end of the string.\<close>

definition slicePrefix :: "string \<Rightarrow> int \<Rightarrow> string" where
  "slicePrefix s e = (if e < 0 then take (nat (int (length s) + e)) s else take (nat e) s)"

definition getNameWithSecondaryNameInParenthesisPrefix :: "string \<Rightarrow> string \<Rightarrow> string" where
  "getNameWithSecondaryNameInParenthesisPrefix secondaryName primaryName =
     ''('' @ secondaryName @ '') '' @ primaryName"

definition getNameWithSecondaryInParenthesisAndEmojiPrefix :: "string \<Rightarrow> string \<Rightarrow> string \<Rightarrow> string" where
  "getNameWithSecondaryInParenthesisAndEmojiPrefix emoji secondaryName primaryName =
     emoji @ '' '' @ getNameWithSecondaryNameInParenthesisPrefix secondaryName primaryName"

definition getNickNameWithInitials :: "profile_name list \<Rightarrow> object_id \<Rightarrow> string option" where
  "getNickNameWithInitials names profileId =
     (let name = docName (getProfileName names profileId En) in
      if pn_lang name \<noteq> Some En then None
      else Some (casedName (pn_nickname name) @ casedInitial (pn_firstname name)
                 @ casedInitial (pn_lastname name)))"

definition getNickNameWithFirstNameAndInitial :: "profile_name list \<Rightarrow> object_id \<Rightarrow> string option" where
  "getNickNameWithFirstNameAndInitial names profileId =
     (let maxLength = 32; name = docName (getProfileName names profileId En) in
      if pn_lang name \<noteq> Some En then None
      else
        let nicknameCased = casedName (pn_nickname name);
            firstnameCased = casedName (pn_firstname name);
            lastnameInitial = casedInitial (pn_lastname name);
            preRenderWithoutFirstname =
              getNameWithSecondaryNameInParenthesisPrefix nicknameCased lastnameInitial;
            trimmedFirstname =
              slicePrefix firstnameCased (maxLength - int (length preRenderWithoutFirstname))
        in Some (getNameWithSecondaryNameInParenthesisPrefix nicknameCased
                   (trimmedFirstname @ lastnameInitial)))"

text \<open>The team emoji comes from \<open>TeamService.getLatestProfileTeamEmoji\<close>, here an argument.\<close>

definition getNickNameWithRoleEmojiPrefix ::
    "profile_name list \<Rightarrow> (object_id \<Rightarrow> string option) \<Rightarrow> object_id \<Rightarrow> string option" where
  "getNickNameWithRoleEmojiPrefix names latestEmoji profileId =
     (let maxLength = 32; name = docName (getProfileName names profileId En);
          emoji = (case latestEmoji profileId of Some [] \<Rightarrow> None | e \<Rightarrow> e) in
      if pn_lang name \<noteq> Some En then None
      else
        let nicknameCased = casedName (pn_nickname name);
            firstnameCased = casedName (pn_firstname name);
            lastnameInitial = casedInitial (pn_lastname name);
            render = (\<lambda>primary. case emoji of
               Some e \<Rightarrow> getNameWithSecondaryInParenthesisAndEmojiPrefix e nicknameCased primary
             | None \<Rightarrow> getNameWithSecondaryNameInParenthesisPrefix nicknameCased primary);
            trimmedFirstname =
              slicePrefix firstnameCased (maxLength - int (length (render lastnameInitial)))
        in Some (render (trimmedFirstname @ lastnameInitial)))"

section \<open>ProfileService, ProfileNameResponseModel\<close>

definition emailsFromProfileIds :: "profile list \<Rightarrow> object_id list \<Rightarrow> string list" where
  "emailsFromProfileIds profiles profileIds =
     concat (map (\<lambda>p. case pr_emails p of None \<Rightarrow> [] | Some es \<Rightarrow> es)
       (findBy (\<lambda>p. pr_id p \<in> set profileIds) profiles))"

definition profileMap :: "profile list \<Rightarrow> object_id list \<Rightarrow> string \<Rightarrow> profile option" where
  "profileMap profiles profileIds =
     mapOfPairs (map (\<lambda>p. (hexString (pr_id p), p)) (findBy (\<lambda>p. pr_id p \<in> set profileIds) profiles))"

record profile_name_response =
  pnr_profileId :: "string option"
  pnr_firstname :: "string option"
  pnr_lastname :: "string option"
  pnr_nickname :: "string option"
  pnr_fullname :: "string option"

record profile_detail_response =
  pd_profileId :: "string option"
  pd_firstname :: "string option"
  pd_lastname :: "string option"
  pd_nickname :: "string option"

definition profileDetail_fromModel :: "name_doc option \<Rightarrow> profile_detail_response" where
  "profileDetail_fromModel name =
     \<lparr>pd_profileId = Option.bind name (\<lambda>d. map_option hexString (pn_profile (docName d))),
      pd_firstname = Option.bind name (\<lambda>d. pn_firstname (docName d)),
      pd_lastname = Option.bind name (\<lambda>d. pn_lastname (docName d)),
      pd_nickname = Option.bind name (\<lambda>d. pn_nickname (docName d))\<rparr>"

definition profileNameResponse_fromModel :: "name_doc option \<Rightarrow> profile_name_response" where
  "profileNameResponse_fromModel name =
     \<lparr>pnr_profileId = Option.bind name (\<lambda>d. map_option hexString (pn_profile (docName d))),
      pnr_firstname = Option.bind name (\<lambda>d. pn_firstname (docName d)),
      pnr_lastname = Option.bind name (\<lambda>d. pn_lastname (docName d)),
      pnr_nickname = Option.bind name (\<lambda>d. pn_nickname (docName d)),
      pnr_fullname = Option.bind name fullname\<rparr>"

section \<open>Properties\<close>

lemma length_slicePrefix:
  "0 \<le> e \<Longrightarrow> int (length (slicePrefix s e)) \<le> e"
  by (simp add: slicePrefix_def)

lemma length_parenthesisPrefix:
  "length (getNameWithSecondaryNameInParenthesisPrefix a b) = length a + length b + 3"
  by (simp add: getNameWithSecondaryNameInParenthesisPrefix_def)

lemma length_emojiPrefix:
  "length (getNameWithSecondaryInParenthesisAndEmojiPrefix e a b) = length e + length a + length b + 4"
  by (simp add: getNameWithSecondaryInParenthesisAndEmojiPrefix_def length_parenthesisPrefix)

lemma length_casedInitial: "length (casedInitial s) \<le> 2"
  by (auto simp: casedInitial_def upperChar_def Let_def split: option.splits list.splits)

lemmas nickname_defs = getNickNameWithFirstNameAndInitial_def getNickNameWithRoleEmojiPrefix_def

text \<open>
  the display name the Discord bot sets never exceeds Discord's 32 characters as long as the
  part that is not cut (emoji, nickname in parentheses, last initial) leaves room for them; the first
  name gives way.
\<close>

lemma roleEmojiNickname_max32:
  assumes "getNickNameWithRoleEmojiPrefix names latestEmoji profileId = Some s"
    and "length (casedName (pn_nickname (docName (getProfileName names profileId En)))) +
         length (case latestEmoji profileId of None \<Rightarrow> [] | Some e \<Rightarrow> e) \<le> 26"
  shows "length s \<le> 32"
proof -
  let ?n = "docName (getProfileName names profileId En)"
  define first where "first = casedName (pn_firstname ?n)"
  have i: "length (casedInitial (pn_lastname ?n)) \<le> 2" by (rule length_casedInitial)
  show ?thesis
  proof (cases "latestEmoji profileId = None \<or> latestEmoji profileId = Some []")
    case True
    then have "s = getNameWithSecondaryNameInParenthesisPrefix (casedName (pn_nickname ?n))
        (slicePrefix first (32 - int (length (casedName (pn_nickname ?n)) +
           length (casedInitial (pn_lastname ?n)) + 3)) @ casedInitial (pn_lastname ?n))"
      using assms(1) by (auto simp: nickname_defs Let_def length_parenthesisPrefix first_def split: if_splits)
    then show ?thesis
      using assms(2) i True length_slicePrefix [of "32 - int (length (casedName (pn_nickname ?n)) +
           length (casedInitial (pn_lastname ?n)) + 3)" first]
      by (auto simp: length_parenthesisPrefix)
  next
    case False
    then obtain c e where e: "latestEmoji profileId = Some (c # e)" by (metis neq_Nil_conv option.exhaust)
    then have "s = getNameWithSecondaryInParenthesisAndEmojiPrefix (c # e) (casedName (pn_nickname ?n))
        (slicePrefix first (32 - int (length (c # e) + length (casedName (pn_nickname ?n)) +
           length (casedInitial (pn_lastname ?n)) + 4)) @ casedInitial (pn_lastname ?n))"
      using assms(1) by (auto simp: nickname_defs Let_def length_emojiPrefix first_def split: if_splits)
    then show ?thesis
      using assms(2) i e length_slicePrefix [of "32 - int (length (c # e) + length (casedName (pn_nickname ?n)) +
           length (casedInitial (pn_lastname ?n)) + 4)" first]
      by (auto simp: length_emojiPrefix)
  qed
qed

lemma roleEmojiNickname_max32_witness:
  "let names = [\<lparr>pn_profile = Some [7], pn_lang = Some En, pn_title = None,
       pn_firstname = Some ''maximilian-alexander-theodor'', pn_lastname = Some ''smith'',
       pn_nickname = Some ''max''\<rparr>];
     s = ''* (Max) Maximilian-alexander-thS''
   in getNickNameWithRoleEmojiPrefix names (\<lambda>_. Some ''*'') [7] = Some s \<and> length s \<le> 32"
proof -
  define names where "names = [\<lparr>pn_profile = Some [7 :: byte], pn_lang = Some En, pn_title = None,
       pn_firstname = Some ''maximilian-alexander-theodor'', pn_lastname = Some ''smith'',
       pn_nickname = Some ''max''\<rparr>]"
  have r: "getNickNameWithRoleEmojiPrefix names (\<lambda>_. Some ''*'') [7] =
      Some ''* (Max) Maximilian-alexander-thS''"
    unfolding names_def by code_simp
  have l: "length (casedName (pn_nickname (docName (getProfileName names [7] En)))) +
      length (case (\<lambda>_. Some ''*'') [7 :: byte] of None \<Rightarrow> [] | Some e \<Rightarrow> e) \<le> 26"
    unfolding names_def by code_simp
  show ?thesis using r roleEmojiNickname_max32 [OF r l] by (simp add: names_def)
qed

text \<open>What other components rely on: a name that was looked up in bulk has no full name.\<close>

lemma getProfilesNameMap_lean:
  "getProfilesNameMap names ids lang k = Some d \<Longrightarrow> fullname d = None"
  by (auto simp: getProfilesNameMap_def mapOfPairs_def getProfilesName_def dest!: map_of_SomeD)

end
