(* ===== verification/Recruit_Data.thy ===== *)
theory Recruit_Data
  imports Accounts_Profile
begin

text \<open>
  The data of the recruitment module: the entities of \<open>src/entities/recruit\<close>, one record each with
  the columns the code reads or writes (the column \<open>updated_at\<close>, kept by the server and never
  selected, is left out), the request bodies of \<open>src/recruit/dto\<close> and the response models of
  \<open>src/recruit/models\<close> with their conversions. An optional column is an option; so is an optional
  property of a body, with \<open>None\<close> for \<open>undefined\<close>, and a property that may also be \<open>null\<close> is an
  option of an option.
\<close>

section \<open>Entities\<close>

record recruit_setting =
  rs_id :: uuid
  rs_oid :: "uuid option"
  rs_year :: int
  rs_name :: string
  rs_openWhen :: time
  rs_closeWhen :: time
  rs_announceWhen :: time
  rs_maximumRole :: int
  rs_isActive :: bool

definition isAnnounced :: "recruit_setting \<Rightarrow> time \<Rightarrow> bool" where
  "isAnnounced s now \<longleftrightarrow> now \<ge> rs_announceWhen s"

record recruit_role =
  rr_id :: uuid
  rr_oid :: "uuid option"
  rr_name :: string
  rr_description :: string
  rr_icon :: "string option"
  rr_rank :: int
  rr_mandatory :: bool
  rr_recruitId :: uuid
  rr_collectionId :: "uuid option"

record recruit_role_moderator =
  rm_id :: nat
  rm_profileId :: uuid
  rm_roleId :: uuid

record recruit_applicant =
  ra_id :: uuid
  ra_oid :: "uuid option"
  ra_profileId :: uuid
  ra_recruitId :: uuid

record recruit_applicant_role =
  ar_id :: uuid
  ar_rank :: int
  ar_applicantId :: uuid
  ar_roleId :: uuid
  ar_offerResponseAt :: "time option"
  ar_offerAccepted :: bool
  ar_offerExpireAt :: "time option"

record recruit_interview_slot =
  sl_id :: uuid
  sl_oid :: "uuid option"
  sl_startWhen :: time
  sl_endWhen :: time
  sl_interviewAt :: "time option"
  sl_roleId :: "uuid option"
  sl_applicantId :: "uuid option"
  sl_googleCalendarEventId :: "string option"
  sl_conferenceUri :: "string option"

record recruit_form_collection =
  fc_id :: uuid
  fc_oid :: "uuid option"
  fc_title :: string
  fc_recruitId :: uuid

record recruit_form_question =
  fq_id :: uuid
  fq_oid :: "uuid option"
  fq_collectionId :: "uuid option"
  fq_question :: string
  fq_input :: string
  fq_options :: "string list option"
  fq_rank :: int

record recruit_form_answer =
  fa_id :: uuid
  fa_oid :: "uuid option"
  fa_answer :: string
  fa_applicantId :: uuid
  fa_questionId :: uuid

record recruit_note =
  rn_id :: uuid
  rn_oid :: "uuid option"
  rn_note :: string
  rn_onlyMe :: bool
  rn_applicantId :: uuid
  rn_createdBy :: uuid
  rn_deletedAt :: "time option"

text \<open>The tables of the module.\<close>

record recruit_db =
  settings :: "recruit_setting list"
  roles :: "recruit_role list"
  moderators :: "recruit_role_moderator list"
  applicants :: "recruit_applicant list"
  applicantRoles :: "recruit_applicant_role list"
  slots :: "recruit_interview_slot list"
  collections :: "recruit_form_collection list"
  questions :: "recruit_form_question list"
  answers :: "recruit_form_answer list"
  recruitNotes :: "recruit_note list"

definition emptyRecruitDb :: recruit_db where
  "emptyRecruitDb = \<lparr>settings = [], roles = [], moderators = [], applicants = [],
     applicantRoles = [], slots = [], collections = [], questions = [], answers = [], recruitNotes = []\<rparr>"

section \<open>Offers\<close>

datatype recruit_offer_response = Accepted | Declined | Pending | Rejected | Tba

definition determineOfferResponse ::
    "recruit_applicant_role \<Rightarrow> bool \<Rightarrow> bool \<Rightarrow> time \<Rightarrow> recruit_offer_response" where
  "determineOfferResponse r isAnnounce isModerator now =
     (if \<not> isAnnounce \<and> \<not> isModerator then Tba
      else if ar_offerResponseAt r \<noteq> None \<or> ar_offerAccepted r then
        (if ar_offerAccepted r then Accepted else Declined)
      else
        (case ar_offerExpireAt r of
           Some expire \<Rightarrow> (if now < expire then Pending else Declined)
         | None \<Rightarrow> (if \<not> isAnnounce \<and> isModerator then Tba else Rejected)))"

text \<open>
  An applicant as \<open>RecruitApplicantService.find\<close> loads it, with the role rows, each with its role, and
  the interview slots.
\<close>

record loaded_applicant =
  la_applicant :: recruit_applicant
  la_roles :: "(recruit_applicant_role \<times> recruit_role option) list"
  la_interviewSlots :: "recruit_interview_slot list"

section \<open>Response models\<close>

record recruit_role_model =
  rrm_id :: uuid
  rrm_name :: string
  rrm_description :: string
  rrm_icon :: "string option"
  rrm_rank :: int
  rrm_collectionId :: "uuid option"
  rrm_isMandatory :: "bool option"

definition recruitRoleModel_fromEntity :: "recruit_role \<Rightarrow> recruit_role_model" where
  "recruitRoleModel_fromEntity e =
     \<lparr>rrm_id = rr_id e, rrm_name = rr_name e, rrm_description = rr_description e,
      rrm_icon = rr_icon e, rrm_rank = rr_rank e, rrm_collectionId = rr_collectionId e,
      rrm_isMandatory = Some (rr_mandatory e)\<rparr>"

record recruit_applicant_role_model =
  arm_id :: "uuid option"
  arm_name :: "string option"
  arm_icon :: "string option"
  arm_selectedPriority :: "int option"
  arm_isCompleted :: "bool option"
  arm_offerResponse :: recruit_offer_response
  arm_offerExpireAt :: "time option"

definition withSelectedPriority ::
    "int option \<Rightarrow> recruit_applicant_role_model \<Rightarrow> recruit_applicant_role_model" where
  "withSelectedPriority p m = m\<lparr>arm_selectedPriority := p\<rparr>"

definition withIsCompleted ::
    "bool option \<Rightarrow> recruit_applicant_role_model \<Rightarrow> recruit_applicant_role_model" where
  "withIsCompleted c m = m\<lparr>arm_isCompleted := c\<rparr>"

definition recruitApplicantRoleModel_fromEntity ::
    "time \<Rightarrow> recruit_applicant_role \<times> recruit_role option \<Rightarrow> bool \<Rightarrow> bool \<Rightarrow> recruit_applicant_role_model" where
  "recruitApplicantRoleModel_fromEntity now er isAnnounce isModerator =
     (let (e, role) = er in
      \<lparr>arm_id = map_option rr_id role, arm_name = map_option rr_name role,
       arm_icon = Option.bind role rr_icon, arm_selectedPriority = None, arm_isCompleted = None,
       arm_offerResponse = determineOfferResponse e isAnnounce isModerator now,
       arm_offerExpireAt = ar_offerExpireAt e\<rparr>)"

record recruit_interview_slot_model =
  ism_start :: time
  ism_end :: time
  ism_interviewedAt :: "time option"
  ism_conferenceUri :: "string option"

definition recruitInterviewSlotModel_fromEntity ::
    "recruit_interview_slot \<Rightarrow> recruit_interview_slot_model" where
  "recruitInterviewSlotModel_fromEntity e =
     \<lparr>ism_start = sl_startWhen e, ism_end = sl_endWhen e, ism_interviewedAt = sl_interviewAt e,
      ism_conferenceUri = sl_conferenceUri e\<rparr>"

record recruit_applicant_model =
  ram_id :: uuid
  ram_profileId :: string
  ram_profileName :: profile_name_response
  ram_roles :: "recruit_applicant_role_model list"
  ram_interview :: "recruit_interview_slot_model option"

definition recruitApplicantModel_fromEntity ::
    "id_lib \<Rightarrow> time \<Rightarrow> loaded_applicant \<Rightarrow> profile_name_map \<Rightarrow> (uuid \<Rightarrow> bool option) option
     \<Rightarrow> bool \<Rightarrow> bool \<Rightarrow> recruit_applicant_model" where
  "recruitApplicantModel_fromEntity L now entity profileNameMap completionMap isAnnounce isModerator =
     (let profileIdHex = toHexString L (ra_profileId (la_applicant entity));
          completed = (\<lambda>collectionId.
            case Option.bind completionMap (\<lambda>m. m collectionId) of Some c \<Rightarrow> c | None \<Rightarrow> False)
      in \<lparr>ram_id = ra_id (la_applicant entity),
          ram_profileId = profileIdHex,
          ram_profileName = profileNameResponse_fromModel (profileNameMap profileIdHex),
          ram_roles =
            sort_key (\<lambda>m. the (arm_selectedPriority m))
              (map (\<lambda>(r, role).
                  withIsCompleted
                    (map_option completed (Option.bind role rr_collectionId))
                    (withSelectedPriority (Some (ar_rank r))
                      (recruitApplicantRoleModel_fromEntity now (r, role) isAnnounce isModerator)))
                (la_roles entity)),
          ram_interview =
            (case la_interviewSlots entity of
               [] \<Rightarrow> None
             | s # _ \<Rightarrow> Some (recruitInterviewSlotModel_fromEntity s))\<rparr>)"

record recruit_applicant_note_model =
  nm_id :: uuid
  nm_note :: string
  nm_onlyMe :: bool
  nm_isFromMe :: bool

definition recruitApplicantNoteModel_fromEntity ::
    "recruit_note \<Rightarrow> uuid option \<Rightarrow> recruit_applicant_note_model" where
  "recruitApplicantNoteModel_fromEntity e myProfileUid =
     \<lparr>nm_id = rn_id e, nm_note = rn_note e, nm_onlyMe = rn_onlyMe e,
      nm_isFromMe = (Some (rn_createdBy e) = myProfileUid)\<rparr>"

definition recruitApplicantNotesModel_fromEntities ::
    "recruit_note list \<Rightarrow> uuid option \<Rightarrow> recruit_applicant_note_model list" where
  "recruitApplicantNotesModel_fromEntities entities myProfileUid =
     map (\<lambda>e. recruitApplicantNoteModel_fromEntity e myProfileUid) entities"

text \<open>A question of a form with the applicant's answer, as the query joins them.\<close>

record recruit_form_question_answer_model =
  qa_id :: uuid
  qa_question :: string
  qa_input :: string
  qa_options :: "string list option"
  qa_rank :: int
  qa_answer :: "string option"

record recruit_form_collection_model =
  fcm_id :: uuid
  fcm_title :: string
  fcm_isCompleted :: "bool option"
  fcm_questions :: "recruit_form_question_answer_model list option"

definition recruitFormCollectionModel_fromEntity ::
    "recruit_form_collection \<Rightarrow> recruit_form_collection_model" where
  "recruitFormCollectionModel_fromEntity e =
     \<lparr>fcm_id = fc_id e, fcm_title = fc_title e, fcm_isCompleted = None, fcm_questions = None\<rparr>"

definition withCollectionCompleted ::
    "bool option \<Rightarrow> recruit_form_collection_model \<Rightarrow> recruit_form_collection_model" where
  "withCollectionCompleted c m = m\<lparr>fcm_isCompleted := c\<rparr>"

definition withQuestions ::
    "recruit_form_question_answer_model list option \<Rightarrow> recruit_form_collection_model
     \<Rightarrow> recruit_form_collection_model" where
  "withQuestions qs m = m\<lparr>fcm_questions := qs\<rparr>"

record recruit_form_question_model =
  fqm_id :: uuid
  fqm_collectionId :: uuid
  fqm_question :: string
  fqm_input :: string
  fqm_options :: "string list option"
  fqm_rank :: int

definition recruitFormQuestionModel_fromEntity ::
    "recruit_form_question \<Rightarrow> recruit_form_question_model" where
  "recruitFormQuestionModel_fromEntity e =
     \<lparr>fqm_id = fq_id e,
      fqm_collectionId = (case fq_collectionId e of None \<Rightarrow> [] | Some c \<Rightarrow> c),
      fqm_question = fq_question e, fqm_input = fq_input e, fqm_options = fq_options e,
      fqm_rank = fq_rank e\<rparr>"

record recruit_setting_model =
  sm_id :: uuid
  sm_year :: int
  sm_name :: string
  sm_openWhen :: time
  sm_closeWhen :: time
  sm_interviewStart :: "time option"
  sm_interviewEnd :: "time option"
  sm_announceWhen :: time
  sm_maximumRole :: int
  sm_isActive :: bool
  sm_collections :: "recruit_form_collection_model list option"

definition recruitSettingModel_fromEntity :: "recruit_setting \<Rightarrow> recruit_setting_model" where
  "recruitSettingModel_fromEntity e =
     \<lparr>sm_id = rs_id e, sm_year = rs_year e, sm_name = rs_name e, sm_openWhen = rs_openWhen e,
      sm_closeWhen = rs_closeWhen e, sm_interviewStart = None, sm_interviewEnd = None,
      sm_announceWhen = rs_announceWhen e, sm_maximumRole = rs_maximumRole e,
      sm_isActive = rs_isActive e, sm_collections = None\<rparr>"

definition withInterviewRange ::
    "(time option \<times> time option) option \<Rightarrow> recruit_setting_model \<Rightarrow> recruit_setting_model" where
  "withInterviewRange rng m =
     m\<lparr>sm_interviewStart := Option.bind rng fst, sm_interviewEnd := Option.bind rng snd\<rparr>"

text \<open>The argument of \<open>withCollections\<close> may hold entities and models.\<close>

definition withCollections ::
    "(recruit_form_collection + recruit_form_collection_model) list option \<Rightarrow> recruit_setting_model
     \<Rightarrow> recruit_setting_model" where
  "withCollections cs m =
     m\<lparr>sm_collections := map_option (map (\<lambda>el. case el of
          Inl entity \<Rightarrow> recruitFormCollectionModel_fromEntity entity
        | Inr model \<Rightarrow> model)) cs\<rparr>"

section \<open>Properties\<close>

text \<open>
  an applicant learns nothing before the announcement, whatever the row says; after it, or as
  a moderator, the answer is accepted exactly when the offer was accepted, pending exactly while an
  unanswered offer runs, and declined exactly when it was answered with no or ran out; and the two
  views differ only for a row without an offer, which a moderator sees as undecided before the
  announcement.
\<close>

lemma determineOfferResponse_spec:
  "determineOfferResponse r False False now = Tba \<and>
   (\<forall>isAnnounce isModerator. isAnnounce \<or> isModerator \<longrightarrow>
     (determineOfferResponse r isAnnounce isModerator now = Accepted \<longleftrightarrow> ar_offerAccepted r) \<and>
     (determineOfferResponse r isAnnounce isModerator now = Pending \<longleftrightarrow>
        \<not> ar_offerAccepted r \<and> ar_offerResponseAt r = None \<and>
        (\<exists>expire. ar_offerExpireAt r = Some expire \<and> now < expire)) \<and>
     (determineOfferResponse r isAnnounce isModerator now = Declined \<longleftrightarrow>
        \<not> ar_offerAccepted r \<and>
        (ar_offerResponseAt r \<noteq> None \<or> (\<exists>expire. ar_offerExpireAt r = Some expire \<and> expire \<le> now))) \<and>
     (determineOfferResponse r isAnnounce isModerator now = (if isAnnounce then Rejected else Tba) \<longleftrightarrow>
        \<not> ar_offerAccepted r \<and> ar_offerResponseAt r = None \<and> ar_offerExpireAt r = None))"
  by (cases "ar_offerExpireAt r"; cases "ar_offerResponseAt r"; cases "ar_offerAccepted r")
     (auto simp: determineOfferResponse_def)

lemma determineOfferResponse_spec_witness:
  "determineOfferResponse
     \<lparr>ar_id = ''r'', ar_rank = 0, ar_applicantId = ''a'', ar_roleId = ''x'', ar_offerResponseAt = None,
      ar_offerAccepted = False, ar_offerExpireAt = Some 10\<rparr> True False 5 = Pending"
  using determineOfferResponse_spec
    [of "\<lparr>ar_id = ''r'', ar_rank = 0, ar_applicantId = ''a'', ar_roleId = ''x'',
          ar_offerResponseAt = None, ar_offerAccepted = False, ar_offerExpireAt = Some 10\<rparr>" 5]
  by auto

end
