(* ===== verification/Recruit_RefId.thy ===== *)
theory Recruit_RefId
  imports Recruit_Data
begin

text \<open>
  The reference ids of interview slots (\<open>recruit/models/recruit-interview-slot.model.ts\<close>): the two
  instants of a slot, in minutes, in base 36, with a dash between them. A \<open>Date\<close> is its number of
  milliseconds, or \<open>None\<close> for an invalid date. \<open>new Date(ms)\<close> is invalid beyond 8.64e15 milliseconds
  from the epoch, below 2^53, so that no valid date is touched by the rounding of doubles.
\<close>

type_synonym date = "time option"

definition maxDate :: int where
  "maxDate = 8640000000000000"

definition newDate :: "int option \<Rightarrow> date" where
  "newDate ms = (case ms of None \<Rightarrow> None | Some t \<Rightarrow> if \<bar>t\<bar> \<le> maxDate then Some t else None)"

section \<open>Reference ids\<close>

definition slotInterval :: int where
  "slotInterval = 60000"

definition slotBase :: nat where
  "slotBase = 36"

definition toBase36 :: "date \<Rightarrow> string" where
  "toBase36 d = (case d of None \<Rightarrow> ''NaN'' | Some t \<Rightarrow> intToRadix slotBase (t div slotInterval))"

definition refId :: "date \<Rightarrow> date \<Rightarrow> string" where
  "refId start end' = toBase36 start @ ''-'' @ toBase36 end'"

definition toDate :: "string \<Rightarrow> date" where
  "toDate base36 = newDate (map_option (\<lambda>m. m * slotInterval) (parseInt slotBase base36))"

text \<open>The destructured pair: a part that is missing is \<open>undefined\<close>.\<close>

definition fromRefId :: "string \<Rightarrow> date option \<times> date option" where
  "fromRefId r =
     (let ds = map toDate (splitOn (CHR ''-'') r)
      in (if length ds > 0 then Some (ds ! 0) else None, if length ds > 1 then Some (ds ! 1) else None))"

text \<open>The pattern \<open>/^[a-z0-9]+\-[a-z0-9]+$/\<close> of the request bodies that carry a reference id.\<close>

definition isRefIdChar :: "char \<Rightarrow> bool" where
  "isRefIdChar c = (let n = (of_char c :: nat) in 97 \<le> n \<and> n \<le> 122 \<or> 48 \<le> n \<and> n \<le> 57)"

definition matchesRefId :: "string \<Rightarrow> bool" where
  "matchesRefId r =
     (let a = takeWhile isRefIdChar r; b = dropWhile isRefIdChar r
      in a \<noteq> [] \<and> b \<noteq> [] \<and> hd b = CHR ''-'' \<and> tl b \<noteq> [] \<and> list_all isRefIdChar (tl b))"

text \<open>The getter \<open>refId\<close> of a slot model.\<close>

definition slotModel_refId :: "recruit_interview_slot_model \<Rightarrow> string" where
  "slotModel_refId m = refId (Some (ism_start m)) (Some (ism_end m))"

section \<open>Lemmas\<close>

lemma refIdChar_digitChar: "d < 36 \<Longrightarrow> isRefIdChar (digitChar d)"
  by (simp add: isRefIdChar_def of_char_digitChar Let_def)

lemma toRadix_refIdChars: "\<forall>c \<in> set (toRadix 36 n). isRefIdChar c"
proof (induction n rule: less_induct)
  case (less n)
  show ?case
  proof (cases "n < 36")
    case True
    then show ?thesis by (simp add: toRadix_small refIdChar_digitChar)
  next
    case False
    with less.IH [of "n div 36"] show ?thesis by (simp add: toRadix_step refIdChar_digitChar)
  qed
qed

lemma dash_not_refIdChar: "\<not> isRefIdChar (CHR ''-'')"
  by (simp add: isRefIdChar_def)

lemma toBase36_Some: "0 \<le> t \<Longrightarrow> toBase36 (Some t) = toRadix 36 (nat (t div slotInterval))"
  by (simp add: toBase36_def intToRadix_def slotBase_def slotInterval_def not_less div_int_pos_iff)

lemma toBase36_chars: "0 \<le> t \<Longrightarrow> \<forall>c \<in> set (toBase36 (Some t)). isRefIdChar c"
  by (simp add: toBase36_Some toRadix_refIdChars)

lemma toDate_toBase36:
  assumes "0 \<le> t" and "t \<le> maxDate"
  shows "toDate (toBase36 (Some t)) = Some (t - t mod slotInterval)"
proof -
  have p: "parseInt 36 (toRadix 36 (nat (t div slotInterval))) = Some (t div slotInterval)"
    using assms by (simp add: radix36.dec_enc slotInterval_def div_int_pos_iff)
  have q: "t div slotInterval * slotInterval = t - t mod slotInterval"
    by (simp add: minus_mod_eq_div_mult)
  have "0 \<le> t - t mod slotInterval \<and> t - t mod slotInterval \<le> maxDate"
    using assms by (simp add: slotInterval_def flip: minus_mod_eq_div_mult)
      (smt (verit) pos_mod_sign zmod_le_nonneg_dividend)
  then show ?thesis
    by (simp add: toDate_def toBase36_Some assms slotBase_def p newDate_def q)
qed

lemma splitOn_refId:
  assumes "0 \<le> s" and "0 \<le> e"
  shows "splitOn (CHR ''-'') (refId (Some s) (Some e)) = [toBase36 (Some s), toBase36 (Some e)]"
proof -
  have "CHR ''-'' \<notin> set (toBase36 (Some s))" "CHR ''-'' \<notin> set (toBase36 (Some e))"
    using assms toBase36_chars dash_not_refIdChar by blast+
  then show ?thesis by (simp add: refId_def splitOn_append splitOn_nosep)
qed

lemma fromRefId_refId:
  assumes "0 \<le> s" "s \<le> maxDate" "0 \<le> e" "e \<le> maxDate"
  shows "fromRefId (refId (Some s) (Some e)) =
    (Some (Some (s - s mod slotInterval)), Some (Some (e - e mod slotInterval)))"
  using assms by (simp add: fromRefId_def splitOn_refId toDate_toBase36)

interpretation refid: round_trip
  "\<lambda>(s, e). refId (Some s) (Some e)" fromRefId
  "\<lambda>(s, e). (Some (Some (s - s mod slotInterval)), Some (Some (e - e mod slotInterval)))"
  "\<lambda>(s, e). 0 \<le> s \<and> s \<le> maxDate \<and> 0 \<le> e \<and> e \<le> maxDate"
  by unfold_locales (auto simp: fromRefId_refId)

lemma takeWhile_prefix:
  "\<forall>c \<in> set a. P c \<Longrightarrow> \<not> P d \<Longrightarrow> takeWhile P (a @ d # b) = a \<and> dropWhile P (a @ d # b) = d # b"
  by (induction a) auto

lemma matchesRefId_refId:
  assumes "0 \<le> s" and "0 \<le> e"
  shows "matchesRefId (refId (Some s) (Some e))"
proof -
  let ?a = "toBase36 (Some s)" and ?b = "toBase36 (Some e)"
  have w: "takeWhile isRefIdChar (?a @ CHR ''-'' # ?b) = ?a"
    "dropWhile isRefIdChar (?a @ CHR ''-'' # ?b) = CHR ''-'' # ?b"
    using takeWhile_prefix [OF toBase36_chars [OF assms(1)] dash_not_refIdChar] by simp_all
  moreover have "?a \<noteq> []" "?b \<noteq> []" using assms by (simp_all add: toBase36_Some)
  moreover have "list_all isRefIdChar ?b" using toBase36_chars [OF assms(2)] by (simp add: list_all_iff)
  ultimately show ?thesis by (simp add: matchesRefId_def refId_def)
qed

section \<open>Properties\<close>

text \<open>
  the reference id of a slot that starts and ends on whole minutes (from 1970 on) is accepted
  by the request validator and is read back as exactly that slot; and two slots whose ids coincide start
  and end in the same minutes.
\<close>

lemma refId_roundtrip:
  assumes "0 \<le> s" "s \<le> maxDate" "0 \<le> e" "e \<le> maxDate"
  shows "matchesRefId (refId (Some s) (Some e)) \<and>
    fromRefId (refId (Some s) (Some e)) =
      (Some (Some (s - s mod 60000)), Some (Some (e - e mod 60000))) \<and>
    (0 \<le> s' \<and> s' \<le> maxDate \<and> 0 \<le> e' \<and> e' \<le> maxDate \<longrightarrow>
      refId (Some s) (Some e) = refId (Some s') (Some e') \<longrightarrow>
      s div 60000 = s' div 60000 \<and> e div 60000 = e' div 60000)"
proof (intro conjI impI)
  show "matchesRefId (refId (Some s) (Some e))" using assms by (simp add: matchesRefId_refId)
  show "fromRefId (refId (Some s) (Some e)) = (Some (Some (s - s mod 60000)), Some (Some (e - e mod 60000)))"
    using fromRefId_refId [OF assms] by (simp add: slotInterval_def)
next
  assume v: "0 \<le> s' \<and> s' \<le> maxDate \<and> 0 \<le> e' \<and> e' \<le> maxDate"
    and "refId (Some s) (Some e) = refId (Some s') (Some e')"
  then have "s - s mod 60000 = s' - s' mod 60000 \<and> e - e mod 60000 = e' - e' mod 60000"
    using refid.enc_eq_norm_eq [of "(s, e)" "(s', e')"] assms by (simp add: slotInterval_def)
  then show "s div 60000 = s' div 60000" "e div 60000 = e' div 60000"
    by (simp_all add: minus_mod_eq_div_mult)
qed

lemma refId_roundtrip_witness:
  "refId (Some 1704164400000) (Some 1704165300000) = ''gwrp0-gwrpf'' \<and>
   fromRefId ''gwrp0-gwrpf'' = (Some (Some 1704164400000), Some (Some 1704165300000))"
proof -
  have r: "refId (Some 1704164400000) (Some 1704165300000) = ''gwrp0-gwrpf''"
    by (simp add: refId_def toBase36_Some slotInterval_def toRadix_step toRadix_small digitChar_def char_of_def bit_iff_odd)
  show ?thesis
    using r refId_roundtrip [of 1704164400000 1704165300000 0 0] by (simp add: maxDate_def)
qed

end
