(* ===== verification/Recruit_Setting.thy ===== *)
theory Recruit_Setting
  imports Recruit_RefId
begin

text \<open>
  Recruitment rounds: the request bodies \<open>dto/create-recruit-setting.dto.ts\<close> and
  \<open>dto/update-recruit-setting.dto.ts\<close>, and \<open>setting/recruit-setting.service.ts\<close>. The state is the
  table of settings. The step system at the end has the two writing operations of the service as its
  steps, with any arguments.
\<close>

section \<open>Request bodies\<close>

definition MIN_YEAR :: int where
  "MIN_YEAR = 1900"

record create_setting_dto =
  cs_year :: int
  cs_name :: string
  cs_openWhen :: time
  cs_closeWhen :: time
  cs_announceWhen :: time
  cs_maximumRole :: "int option"
  cs_isActive :: "bool option"

definition createSettingDto_valid :: "create_setting_dto \<Rightarrow> bool" where
  "createSettingDto_valid dto \<longleftrightarrow>
     MIN_YEAR \<le> cs_year dto \<and> (case cs_maximumRole dto of None \<Rightarrow> True | Some m \<Rightarrow> 1 \<le> m)"

text \<open>The id is made by \<open>uuidv7()\<close> when the entity is constructed.\<close>

definition createSettingDto_toEntity :: "uuid \<Rightarrow> create_setting_dto \<Rightarrow> recruit_setting" where
  "createSettingDto_toEntity newId dto =
     \<lparr>rs_id = newId, rs_oid = None, rs_year = cs_year dto, rs_name = cs_name dto,
      rs_openWhen = cs_openWhen dto, rs_closeWhen = cs_closeWhen dto,
      rs_announceWhen = cs_announceWhen dto,
      rs_maximumRole = (case cs_maximumRole dto of None \<Rightarrow> 1 | Some m \<Rightarrow> m),
      rs_isActive = (case cs_isActive dto of None \<Rightarrow> False | Some a \<Rightarrow> a)\<rparr>"

record update_setting_dto =
  us_year :: "int option"
  us_name :: "string option"
  us_openWhen :: "time option"
  us_closeWhen :: "time option"
  us_announceWhen :: "time option"
  us_maximumRole :: "int option"
  us_isActive :: "bool option"

definition updateSettingDto_valid :: "update_setting_dto \<Rightarrow> bool" where
  "updateSettingDto_valid dto \<longleftrightarrow>
     (case us_year dto of None \<Rightarrow> True | Some y \<Rightarrow> MIN_YEAR \<le> y) \<and>
     (case us_maximumRole dto of None \<Rightarrow> True | Some m \<Rightarrow> 1 \<le> m)"

definition orKeep :: "'a option \<Rightarrow> 'a \<Rightarrow> 'a" where
  "orKeep new old = (case new of None \<Rightarrow> old | Some v \<Rightarrow> v)"

definition updateSettingDto_applyToEntity :: "update_setting_dto \<Rightarrow> recruit_setting \<Rightarrow> recruit_setting" where
  "updateSettingDto_applyToEntity dto e =
     e\<lparr>rs_year := orKeep (us_year dto) (rs_year e),
       rs_name := orKeep (us_name dto) (rs_name e),
       rs_openWhen := orKeep (us_openWhen dto) (rs_openWhen e),
       rs_closeWhen := orKeep (us_closeWhen dto) (rs_closeWhen e),
       rs_announceWhen := orKeep (us_announceWhen dto) (rs_announceWhen e),
       rs_maximumRole := orKeep (us_maximumRole dto) (rs_maximumRole e),
       rs_isActive := orKeep (us_isActive dto) (rs_isActive e)\<rparr>"

section \<open>RecruitSettingService\<close>

type_synonym 'a setting_action = "(recruit_setting list, 'a) action"

definition getCurrentSetting :: "recruit_setting list \<Rightarrow> recruit_setting option" where
  "getCurrentSetting t = findOneBy rs_isActive t"

definition getSettingById :: "uuid \<Rightarrow> recruit_setting list \<Rightarrow> recruit_setting option" where
  "getSettingById i t = findOneBy (\<lambda>r. rs_id r = i) t"

definition listSettings :: "uuid list option \<Rightarrow> recruit_setting list \<Rightarrow> recruit_setting list" where
  "listSettings ids t =
     findBy (\<lambda>r. case ids of None \<Rightarrow> True | Some is \<Rightarrow> rs_id r \<in> set is) t"

definition validateDateOrder :: "time \<Rightarrow> time \<Rightarrow> time \<Rightarrow> unit outcome" where
  "validateDateOrder openWhen closeWhen announceWhen =
     (if closeWhen \<le> openWhen then Inl (BadRequest ''closeWhen must be after openWhen'')
      else if announceWhen \<le> closeWhen then Inl (BadRequest ''announceWhen must be after closeWhen'')
      else Inr ())"

definition deactivateOtherSettings :: "unit setting_action" where
  "deactivateOtherSettings = modify (updateBy rs_isActive (\<lambda>r. r\<lparr>rs_isActive := False\<rparr>))"

definition saveSetting :: "recruit_setting \<Rightarrow> recruit_setting setting_action" where
  "saveSetting e = andThen (modify (saveRow rs_id e)) (\<lambda>_. ret e)"

definition createSetting :: "uuid \<Rightarrow> create_setting_dto \<Rightarrow> recruit_setting setting_action" where
  "createSetting newId dto =
     andThen (lift (validateDateOrder (cs_openWhen dto) (cs_closeWhen dto) (cs_announceWhen dto))) (\<lambda>_.
       let setting = createSettingDto_toEntity newId dto in
       andThen (if rs_isActive setting then deactivateOtherSettings else ret ()) (\<lambda>_.
       saveSetting setting))"

definition updateSetting :: "uuid \<Rightarrow> update_setting_dto \<Rightarrow> recruit_setting setting_action" where
  "updateSetting i dto =
     andThen (gets (getSettingById i)) (\<lambda>found.
       case found of
         None \<Rightarrow> throw (NotFound ''Recruit setting not found'')
       | Some setting \<Rightarrow>
           andThen
             (if us_openWhen dto \<noteq> None \<or> us_closeWhen dto \<noteq> None \<or> us_announceWhen dto \<noteq> None then
                lift (validateDateOrder (orKeep (us_openWhen dto) (rs_openWhen setting))
                  (orKeep (us_closeWhen dto) (rs_closeWhen setting))
                  (orKeep (us_announceWhen dto) (rs_announceWhen setting)))
              else ret ()) (\<lambda>_.
           let setting' = updateSettingDto_applyToEntity dto setting in
           andThen (if us_isActive dto = Some True then deactivateOtherSettings else ret ()) (\<lambda>_.
           saveSetting setting')))"

section \<open>Running the operations\<close>

lemma validateDateOrder_Inr:
  "validateDateOrder a b c = Inr () \<longleftrightarrow> a < b \<and> b < c"
  by (auto simp: validateDateOrder_def)

lemma orKeep_simps [simp]: "orKeep None x = x" "orKeep (Some v) x = v"
  by (simp_all add: orKeep_def)

definition deactivateAll :: "recruit_setting list \<Rightarrow> recruit_setting list" where
  "deactivateAll t = updateBy rs_isActive (\<lambda>r. r\<lparr>rs_isActive := False\<rparr>) t"

lemma createSetting_run:
  "createSetting newId dto t =
     (case validateDateOrder (cs_openWhen dto) (cs_closeWhen dto) (cs_announceWhen dto) of
        Inl e \<Rightarrow> (Inl e, t)
      | Inr _ \<Rightarrow>
          let e = createSettingDto_toEntity newId dto
          in (Inr e, saveRow rs_id e (if rs_isActive e then deactivateAll t else t)))"
  by (simp add: createSetting_def action_simps deactivateOtherSettings_def saveSetting_def
      deactivateAll_def andThen_def Let_def split: sum.splits)

definition updateDates :: "update_setting_dto \<Rightarrow> recruit_setting \<Rightarrow> unit outcome" where
  "updateDates dto s =
     (if us_openWhen dto = None \<and> us_closeWhen dto = None \<and> us_announceWhen dto = None then Inr ()
      else let s' = updateSettingDto_applyToEntity dto s
           in validateDateOrder (rs_openWhen s') (rs_closeWhen s') (rs_announceWhen s'))"

lemma updateSetting_run:
  "updateSetting i dto t =
     (case getSettingById i t of
        None \<Rightarrow> (Inl (NotFound ''Recruit setting not found''), t)
      | Some s \<Rightarrow>
          (case updateDates dto s of
             Inl e \<Rightarrow> (Inl e, t)
           | Inr _ \<Rightarrow>
               let s' = updateSettingDto_applyToEntity dto s
               in (Inr s', saveRow rs_id s' (if us_isActive dto = Some True then deactivateAll t else t))))"
proof (cases "getSettingById i t")
  case None
  then show ?thesis by (simp add: updateSetting_def action_simps)
next
  case (Some s)
  then show ?thesis
    by (auto simp: updateSetting_def updateDates_def updateSettingDto_applyToEntity_def action_simps
        deactivateOtherSettings_def saveSetting_def deactivateAll_def Let_def andThen_def
        split: sum.splits)
qed

lemma set_deactivateAll:
  "r \<in> set (deactivateAll t) \<Longrightarrow> \<not> rs_isActive r \<and> (\<exists>q \<in> set t. r = q\<lparr>rs_isActive := False\<rparr>)"
  by (auto simp: deactivateAll_def set_updateBy) (metis (full_types) recruit_setting.surjective recruit_setting.update_convs(9))

interpretation deactivate: keeps_key rs_id "\<lambda>b r. r\<lparr>rs_isActive := b\<rparr>"
  by unfold_locales simp

lemma deactivateAll_ids: "map rs_id (deactivateAll t) = map rs_id t"
  by (simp add: deactivateAll_def deactivate.map_key_updateBy)

lemma applyToEntity_id [simp]: "rs_id (updateSettingDto_applyToEntity dto s) = rs_id s"
  by (simp add: updateSettingDto_applyToEntity_def)

lemma getSettingById_SomeD: "getSettingById i t = Some s \<Longrightarrow> s \<in> set t \<and> rs_id s = i"
  by (auto simp: getSettingById_def dest: findOneBy_SomeD)

section \<open>The invariant\<close>

definition settingDatesOk :: "recruit_setting \<Rightarrow> bool" where
  "settingDatesOk r \<longleftrightarrow> rs_openWhen r < rs_closeWhen r \<and> rs_closeWhen r < rs_announceWhen r"

definition settingsInvar :: "recruit_setting list \<Rightarrow> bool" where
  "settingsInvar t \<longleftrightarrow>
     distinct (map rs_id t) \<and>
     (\<forall>r \<in> set t. settingDatesOk r) \<and>
     (\<forall>r \<in> set t. \<forall>q \<in> set t. rs_isActive r \<and> rs_isActive q \<longrightarrow> rs_id r = rs_id q)"

inductive settingStep :: "recruit_setting list \<Rightarrow> recruit_setting list \<Rightarrow> bool" where
  create: "createSetting newId dto t = (res, t') \<Longrightarrow> settingStep t t'"
| update: "updateSetting i dto t = (res, t') \<Longrightarrow> settingStep t t'"

inductive_cases settingStepE: "settingStep t t'"

lemma saveSetting_invar:
  assumes "settingsInvar t" and "settingDatesOk e"
    and "rs_isActive e \<Longrightarrow> \<forall>r \<in> set t. rs_isActive r \<longrightarrow> rs_id r = rs_id e"
  shows "settingsInvar (saveRow rs_id e t)"
proof -
  have "distinct (map rs_id (saveRow rs_id e t))" "\<forall>r \<in> set (saveRow rs_id e t). settingDatesOk r"
    using assms(1,2) by (simp_all add: settingsInvar_def distinct_saveRow set_saveRow)
  moreover have "rs_id r = rs_id q"
    if "r \<in> set (saveRow rs_id e t)" "q \<in> set (saveRow rs_id e t)" "rs_isActive r" "rs_isActive q" for r q
  proof (cases "r = e \<or> q = e")
    case True
    then show ?thesis using that assms(3) by (auto simp: set_saveRow)
  next
    case False
    then show ?thesis using that assms(1) by (auto simp: set_saveRow settingsInvar_def)
  qed
  ultimately show ?thesis unfolding settingsInvar_def by blast
qed

lemma deactivateAll_invar: "settingsInvar t \<Longrightarrow> settingsInvar (deactivateAll t)"
  by (auto simp: settingsInvar_def deactivateAll_ids settingDatesOk_def dest!: set_deactivateAll)

lemma createSetting_invar:
  assumes "settingsInvar t" and "createSetting newId dto t = (res, t')"
  shows "settingsInvar t'"
proof -
  let ?e = "createSettingDto_toEntity newId dto"
  from assms(2) consider "t' = t"
    | "cs_openWhen dto < cs_closeWhen dto" "cs_closeWhen dto < cs_announceWhen dto"
      "t' = saveRow rs_id ?e (if rs_isActive ?e then deactivateAll t else t)"
    by (auto simp: createSetting_run Let_def validateDateOrder_def split: if_splits)
  then show ?thesis
  proof cases
    case 1
    with assms(1) show ?thesis by simp
  next
    case 2
    have "settingDatesOk ?e"
      using 2(1,2) by (simp add: settingDatesOk_def createSettingDto_toEntity_def)
    then show ?thesis
      unfolding 2(3) using assms(1) deactivateAll_invar
      by (auto intro!: saveSetting_invar dest: set_deactivateAll)
  qed
qed

lemma updateSetting_invar:
  assumes "settingsInvar t" and "updateSetting i dto t = (res, t')"
  shows "settingsInvar t'"
proof -
  from assms(2) consider "t' = t"
    | s where "getSettingById i t = Some s" "updateDates dto s = Inr ()"
      "t' = saveRow rs_id (updateSettingDto_applyToEntity dto s)
              (if us_isActive dto = Some True then deactivateAll t else t)"
    by (auto simp: updateSetting_run Let_def split: option.splits sum.splits)
  then show ?thesis
  proof cases
    case 1
    with assms(1) show ?thesis by simp
  next
    case (2 s)
    let ?e = "updateSettingDto_applyToEntity dto s"
    have s: "s \<in> set t" using 2(1) by (rule getSettingById_SomeD [THEN conjunct1])
    then have "settingDatesOk s" using assms(1) by (simp add: settingsInvar_def)
    then have dates: "settingDatesOk ?e"
      using 2(2) by (auto simp: updateDates_def Let_def validateDateOrder_Inr settingDatesOk_def
          updateSettingDto_applyToEntity_def split: if_splits)
    have "rs_isActive s" if "us_isActive dto \<noteq> Some True" "rs_isActive ?e"
      using that by (cases "us_isActive dto") (auto simp: updateSettingDto_applyToEntity_def)
    moreover have "\<forall>r \<in> set t. rs_isActive r \<longrightarrow> rs_id r = rs_id s" if "rs_isActive s"
      using that s assms(1) unfolding settingsInvar_def by blast
    ultimately have act: "\<forall>r \<in> set t. rs_isActive r \<longrightarrow> rs_id r = rs_id ?e"
      if "us_isActive dto \<noteq> Some True" "rs_isActive ?e"
      using that by simp
    show ?thesis
    proof (cases "us_isActive dto = Some True")
      case True
      then show ?thesis unfolding 2(3)
        using saveSetting_invar [OF deactivateAll_invar [OF assms(1)] dates] set_deactivateAll by fastforce
    next
      case False
      then show ?thesis unfolding 2(3) using saveSetting_invar [OF assms(1) dates act] by simp
    qed
  qed
qed

interpretation settingSystem: step_system "\<lambda>t. t = []" settingStep settingsInvar
  by unfold_locales
    (auto simp: settingsInvar_def [of "[]"] elim!: settingStepE intro: createSetting_invar updateSetting_invar)

section \<open>Properties\<close>

text \<open>
  Claim C37: whatever sequence of creations and updates of recruitment rounds is run from an empty table,
  successful or not, at most one round is active, so that \<open>getCurrentSetting\<close> does not depend on the
  order of the rows; no id occurs twice; and every round opens before it closes and closes before it is
  announced.
\<close>

theorem settings_reachable:
  assumes "settingStep\<^sup>*\<^sup>* [] t"
  shows "length (filter rs_isActive t) \<le> 1 \<and> distinct (map rs_id t) \<and>
    (\<forall>r \<in> set t. rs_openWhen r < rs_closeWhen r \<and> rs_closeWhen r < rs_announceWhen r) \<and>
    (\<forall>r \<in> set t. rs_isActive r \<longrightarrow> getCurrentSetting t = Some r)"
proof -
  have inv: "settingsInvar t" using settingSystem.invar_reachable [OF _ assms] by simp
  then have d: "distinct (map rs_id (filter rs_isActive t))"
    by (simp add: settingsInvar_def distinct_map_filter)
  have same: "\<And>r q. r \<in> set (filter rs_isActive t) \<Longrightarrow> q \<in> set (filter rs_isActive t) \<Longrightarrow> rs_id r = rs_id q"
    using inv by (auto simp: settingsInvar_def)
  have one: "length (filter rs_isActive t) \<le> 1"
  proof (cases "filter rs_isActive t")
    case Nil
    then show ?thesis by simp
  next
    case (Cons a as)
    show ?thesis
    proof (cases as)
      case (Cons b bs)
      then have ab: "filter rs_isActive t = a # b # bs" using \<open>filter rs_isActive t = a # as\<close> by simp
      then have "rs_id a = rs_id b" using same [of a b] unfolding ab by simp
      then have False using d unfolding ab by simp
      then show ?thesis ..
    qed (simp add: Cons)
  qed
  have "getCurrentSetting t = Some r" if "r \<in> set t" "rs_isActive r" for r
  proof (cases "getCurrentSetting t")
    case None
    with that show ?thesis by (simp add: getCurrentSetting_def findOneBy_None)
  next
    case (Some q)
    then have "q \<in> set t" "rs_isActive q" by (auto simp: getCurrentSetting_def dest: findOneBy_SomeD)
    with that inv have "rs_id r = rs_id q" unfolding settingsInvar_def by blast
    moreover have "inj_on rs_id (set t)" using inv by (simp add: settingsInvar_def distinct_map)
    ultimately have "r = q" using that \<open>q \<in> set t\<close> by (simp add: inj_on_def)
    with Some show ?thesis by simp
  qed
  with one inv show ?thesis by (simp add: settingsInvar_def settingDatesOk_def)
qed

theorem settings_reachable_witness:
  "\<exists>t r. settingStep\<^sup>*\<^sup>* [] t \<and> length t = 2 \<and> length (filter rs_isActive t) \<le> 1 \<and>
     getCurrentSetting t = Some r \<and> rs_id r = ''b''"
proof -
  define dto where "dto = \<lparr>cs_year = 2024, cs_name = ''r'', cs_openWhen = 0, cs_closeWhen = 1,
    cs_announceWhen = 2, cs_maximumRole = None, cs_isActive = Some True\<rparr>"
  let ?a = "createSettingDto_toEntity ''a'' dto" and ?b = "createSettingDto_toEntity ''b'' dto"
  have "settingStep [] [?a]"
    by (rule create [where newId = "''a''" and dto = dto])
      (simp add: createSetting_run validateDateOrder_def dto_def createSettingDto_toEntity_def
        deactivateAll_def updateBy_def saveRow_def Let_def)
  moreover have "settingStep [?a] [?a\<lparr>rs_isActive := False\<rparr>, ?b]"
    by (rule create [where newId = "''b''" and dto = dto])
      (simp add: createSetting_run validateDateOrder_def dto_def createSettingDto_toEntity_def
        deactivateAll_def updateBy_def saveRow_def Let_def)
  ultimately have "settingStep\<^sup>*\<^sup>* [] [?a\<lparr>rs_isActive := False\<rparr>, ?b]" (is "settingStep\<^sup>*\<^sup>* [] ?t")
    by (meson converse_rtranclp_into_rtranclp rtranclp.rtrancl_refl)
  moreover have "rs_isActive ?b" "rs_id ?b = ''b''"
    by (simp_all add: createSettingDto_toEntity_def dto_def)
  ultimately show ?thesis using settings_reachable [of ?t] by (intro exI [of _ ?t] exI [of _ ?b]) simp
qed

text \<open>
  An update fails with \<open>NotFoundException\<close> exactly when the round does not exist, and with
  \<open>BadRequestException\<close> only when the merged dates are out of order; a failed update changes no row. A
  successful one writes the merged row and touches another round only to make it inactive, and that only
  when the body asks for the updated round to be active.
\<close>

lemma updateSetting_spec:
  assumes "updateSetting i dto t = (res, t')"
  shows "(getSettingById i t = None \<longleftrightarrow> res = Inl (NotFound ''Recruit setting not found'')) \<and>
    (\<forall>e. res = Inl e \<longrightarrow> t' = t) \<and>
    (\<forall>e. res = Inr e \<longrightarrow>
       e \<in> set t' \<and>
       (\<exists>s. getSettingById i t = Some s \<and> e = updateSettingDto_applyToEntity dto s) \<and>
       (\<forall>r \<in> set t'. rs_id r \<noteq> i \<longrightarrow>
          r \<in> set t \<or>
          us_isActive dto = Some True \<and> (\<exists>q \<in> set t. rs_isActive q \<and> r = q\<lparr>rs_isActive := False\<rparr>)))"
proof (cases "getSettingById i t")
  case None
  with assms show ?thesis by (auto simp: updateSetting_run)
next
  case (Some s)
  then have i: "rs_id s = i" by (rule getSettingById_SomeD [THEN conjunct2])
  have act: "r \<in> set (deactivateAll t) \<Longrightarrow>
      r \<in> set t \<or> (\<exists>q \<in> set t. rs_isActive q \<and> r = q\<lparr>rs_isActive := False\<rparr>)" for r
    by (auto simp: deactivateAll_def set_updateBy)
  have nf: "updateDates dto s \<noteq> Inl (NotFound ''Recruit setting not found'')"
    by (simp add: updateDates_def validateDateOrder_def Let_def)
  show ?thesis
  proof (cases "updateDates dto s")
    case (Inl e)
    then have "res = Inl e" "t' = t" using assms by (simp_all add: updateSetting_run Some)
    then show ?thesis using nf Inl Some by auto
  next
    case (Inr u)
    let ?e = "updateSettingDto_applyToEntity dto s"
    have r: "res = Inr ?e"
      "t' = saveRow rs_id ?e (if us_isActive dto = Some True then deactivateAll t else t)"
      using assms Inr by (simp_all add: updateSetting_run Some Let_def)
    have "\<forall>r \<in> set t'. rs_id r \<noteq> i \<longrightarrow> r \<in> set t \<or>
        us_isActive dto = Some True \<and> (\<exists>q \<in> set t. rs_isActive q \<and> r = q\<lparr>rs_isActive := False\<rparr>)"
      using act by (auto simp: r(2) set_saveRow i)
    then show ?thesis using Some r by (simp add: set_saveRow)
  qed
qed

lemma updateSetting_spec_witness:
  "\<exists>t. updateSetting ''a'' \<lparr>us_year = None, us_name = None, us_openWhen = Some 5, us_closeWhen = None,
     us_announceWhen = None, us_maximumRole = None, us_isActive = None\<rparr> t =
     (Inl (BadRequest ''closeWhen must be after openWhen''), t) \<and> t \<noteq> []"
proof -
  let ?t = "[\<lparr>rs_id = ''a'', rs_oid = None, rs_year = 2024, rs_name = ''r'', rs_openWhen = 0,
    rs_closeWhen = 1, rs_announceWhen = 2, rs_maximumRole = 1, rs_isActive = True\<rparr>]"
  let ?d = "\<lparr>us_year = None, us_name = None, us_openWhen = Some 5, us_closeWhen = None,
     us_announceWhen = None, us_maximumRole = None, us_isActive = None\<rparr> :: update_setting_dto"
  obtain res t' where r: "updateSetting ''a'' ?d ?t = (res, t')" by fastforce
  then have "res = Inl (BadRequest ''closeWhen must be after openWhen'')"
    by (simp add: updateSetting_run getSettingById_def findOneBy_def updateDates_def
        updateSettingDto_applyToEntity_def validateDateOrder_def)
  then show ?thesis using updateSetting_spec [OF r] r by (intro exI [of _ ?t]) simp
qed

end
