(* ===== verification/Recruit_Form.thy ===== *)
theory Recruit_Form
  imports Recruit_Setting
begin

text \<open>
  The forms of a recruitment: \<open>form/recruit-form.service.ts\<close> with its request bodies, apart from the
  rebooking that follows a change of answers (theory \<open>Recruit_Role\<close>). Queries are functions of the
  tables; a left join yields a row for each match and one row without a match where there is none.
  What is proved: when a form counts as completed, which answers are dropped, and what storing a set of
  answers leaves in the table.
\<close>

section \<open>Queries\<close>

definition getCollections :: "uuid list \<Rightarrow> recruit_db \<Rightarrow> recruit_form_collection list" where
  "getCollections collectionIds db = findBy (\<lambda>c. fc_id c \<in> set collectionIds) (collections db)"

definition getCollectionsByRecruitId :: "uuid \<Rightarrow> recruit_db \<Rightarrow> recruit_form_collection list" where
  "getCollectionsByRecruitId recruitId db = findBy (\<lambda>c. fc_recruitId c = recruitId) (collections db)"

definition roleCollection :: "recruit_db \<Rightarrow> recruit_role \<Rightarrow> recruit_form_collection option" where
  "roleCollection db r =
     Option.bind (rr_collectionId r) (\<lambda>i. findOneBy (\<lambda>c. fc_id c = i) (collections db))"

definition getMandatoryCollections :: "uuid \<Rightarrow> recruit_db \<Rightarrow> recruit_form_collection list" where
  "getMandatoryCollections recruitId db =
     List.map_filter (roleCollection db)
       (findBy (\<lambda>r. rr_recruitId r = recruitId \<and> rr_mandatory r \<and> \<not> isNull (rr_collectionId r)) (roles db))"

definition applicantRoleRole :: "recruit_db \<Rightarrow> recruit_applicant_role \<Rightarrow> recruit_role option" where
  "applicantRoleRole db ar = findOneBy (\<lambda>r. rr_id r = ar_roleId ar) (roles db)"

definition getApplicantSelectedRoleFormCollections :: "uuid \<Rightarrow> recruit_db \<Rightarrow> recruit_form_collection list" where
  "getApplicantSelectedRoleFormCollections applicantId db =
     List.map_filter (\<lambda>ar. Option.bind (applicantRoleRole db ar) (roleCollection db))
       (findBy (\<lambda>ar. ar_applicantId ar = applicantId) (applicantRoles db))"

definition leftJoin :: "('q \<Rightarrow> 'a \<Rightarrow> bool) \<Rightarrow> 'q list \<Rightarrow> 'a list \<Rightarrow> ('q \<times> 'a option) list" where
  "leftJoin on qs as =
     concat (map (\<lambda>q. case filter (on q) as of
         [] \<Rightarrow> [(q, None)]
       | ms \<Rightarrow> map (\<lambda>a. (q, Some a)) ms) qs)"

definition qaRow :: "recruit_form_question \<times> recruit_form_answer option \<Rightarrow> recruit_form_question_answer_model" where
  "qaRow qa = (case qa of (q, a) \<Rightarrow>
     \<lparr>qa_id = fq_id q, qa_question = fq_question q, qa_input = fq_input q, qa_options = fq_options q,
      qa_rank = fq_rank q, qa_answer = map_option fa_answer a\<rparr>)"

definition getQAByCollectionId ::
    "uuid \<Rightarrow> uuid option \<Rightarrow> recruit_db \<Rightarrow> recruit_form_question_answer_model list" where
  "getQAByCollectionId collectionId applicantId db =
     map qaRow (sort_key (\<lambda>(q, _). fq_rank q)
       (leftJoin (\<lambda>q a. fq_id q = fa_questionId a \<and> Some (fa_applicantId a) = applicantId)
         (findBy (\<lambda>q. fq_collectionId q = Some collectionId) (questions db)) (answers db)))"

text \<open>The rows of the completion query that belong to a collection.\<close>

definition completionRows ::
    "uuid \<Rightarrow> uuid \<Rightarrow> recruit_db \<Rightarrow> (recruit_form_question \<times> recruit_form_answer option) list" where
  "completionRows applicantId collectionId db =
     leftJoin (\<lambda>q a. fq_id q = fa_questionId a \<and> fa_applicantId a = applicantId \<and> fa_answer a \<noteq> [])
       (findBy (\<lambda>q. fq_collectionId q = Some collectionId) (questions db)) (answers db)"

text \<open>
  \<open>count(rfq.id) = count(rfa.id)\<close> per collection with at least one question. The empty string is
  falsy like \<open>undefined\<close>.
\<close>

definition getCompletionMap ::
    "uuid option \<Rightarrow> uuid list \<Rightarrow> recruit_db \<Rightarrow> (uuid \<Rightarrow> bool option) option" where
  "getCompletionMap applicantId collectionIds db =
     (case applicantId of
        None \<Rightarrow> None
      | Some applicant \<Rightarrow>
          if collectionIds = [] \<or> applicant = [] then None
          else Some (\<lambda>c.
            let rows = completionRows applicant c db in
            if c \<in> set collectionIds \<and> rows \<noteq> []
            then Some (length rows = length (filter (\<lambda>(q, a). a \<noteq> None) rows))
            else None))"

definition getApplicantFormCollectionWithCompletions ::
    "uuid \<Rightarrow> uuid \<Rightarrow> uuid list option \<Rightarrow> recruit_db \<Rightarrow> recruit_form_collection_model list" where
  "getApplicantFormCollectionWithCompletions applicantId recruitId collectionIds db =
     (let cs = (case collectionIds of
           Some ids \<Rightarrow> getCollections ids db
         | None \<Rightarrow> getMandatoryCollections recruitId db @
                   getApplicantSelectedRoleFormCollections applicantId db);
          completionMap = getCompletionMap (Some applicantId) (map fc_id cs) db
      in map (\<lambda>c. withCollectionCompleted (Option.bind completionMap (\<lambda>m. m (fc_id c)))
                    (recruitFormCollectionModel_fromEntity c)) cs)"

definition isApplicantFormCompleted :: "uuid \<Rightarrow> uuid \<Rightarrow> recruit_db \<Rightarrow> bool" where
  "isApplicantFormCompleted applicantId recruitId db =
     list_all (\<lambda>m. fcm_isCompleted m = Some True)
       (getApplicantFormCollectionWithCompletions applicantId recruitId None db)"

section \<open>Answers\<close>

text \<open>\<open>s.replaceAll(c, '')\<close> for a character, or for the empty string when there is none.\<close>

definition removeAllOf :: "char option \<Rightarrow> string \<Rightarrow> string" where
  "removeAllOf c s = (case c of None \<Rightarrow> s | Some x \<Rightarrow> filter (\<lambda>y. y \<noteq> x) s)"

definition shouldAnswerBeDeleted :: "string option \<Rightarrow> bool" where
  "shouldAnswerBeDeleted answer =
     (case map_option trim answer of
        None \<Rightarrow> True
      | Some trimmed \<Rightarrow> removeAllOf (case trimmed of [] \<Rightarrow> None | c # _ \<Rightarrow> Some c) trimmed = [])"

record answer_dto =
  ad_questionId :: uuid
  ad_answer :: string

definition answerDto_toEntity :: "answer_dto \<Rightarrow> uuid \<Rightarrow> uuid option \<Rightarrow> uuid \<Rightarrow> recruit_form_answer" where
  "answerDto_toEntity dto applicantId answerId newId =
     \<lparr>fa_id = (case answerId of None \<Rightarrow> newId | Some i \<Rightarrow> i), fa_oid = None, fa_answer = ad_answer dto,
      fa_applicantId = applicantId, fa_questionId = ad_questionId dto\<rparr>"

text \<open>
  \<open>upsert\<close> of one row on the columns applicant and question: an existing row takes the id and the
  answer of the new one and keeps the rest. A statement that would touch a row twice is an error.
\<close>

definition sameAnswerKey :: "recruit_form_answer \<Rightarrow> recruit_form_answer \<Rightarrow> bool" where
  "sameAnswerKey e r \<longleftrightarrow> fa_applicantId r = fa_applicantId e \<and> fa_questionId r = fa_questionId e"

definition upsertAnswer :: "recruit_form_answer \<Rightarrow> recruit_form_answer list \<Rightarrow> recruit_form_answer list" where
  "upsertAnswer e t =
     (if \<exists>r \<in> set t. sameAnswerKey e r
      then updateBy (sameAnswerKey e) (\<lambda>r. r\<lparr>fa_id := fa_id e, fa_answer := fa_answer e\<rparr>) t
      else t @ [e])"

definition upsertAnswers :: "recruit_form_answer list \<Rightarrow> (recruit_form_answer list, unit) action" where
  "upsertAnswers es =
     (if distinct (map (\<lambda>e. (fa_applicantId e, fa_questionId e)) es)
      then modify (\<lambda>t. foldl (\<lambda>t e. upsertAnswer e t) t es)
      else throw (JsError ''QueryFailedError''))"

text \<open>The body of the transaction of \<open>updateFormAnswers\<close>. \<open>newIds\<close> are the ids \<open>uuidv7()\<close> makes.\<close>

definition storeFormAnswers ::
    "(nat \<Rightarrow> uuid) \<Rightarrow> uuid \<Rightarrow> answer_dto list \<Rightarrow> (recruit_form_answer list, unit) action" where
  "storeFormAnswers newIds applicantId questionAnswers =
     andThen (gets (findBy (\<lambda>r. fa_applicantId r = applicantId \<and>
                 fa_questionId r \<in> set (map ad_questionId questionAnswers)))) (\<lambda>existingAnswers.
     let questionIdAnswerIdMap = mapOfPairs (map (\<lambda>r. (fa_questionId r, fa_id r)) existingAnswers);
         toBeDeletedIds = List.map_filter (\<lambda>d. questionIdAnswerIdMap (ad_questionId d))
           (filter (\<lambda>d. shouldAnswerBeDeleted (Some (ad_answer d))) questionAnswers);
         toBeUpserted = filter (\<lambda>d. \<not> shouldAnswerBeDeleted (Some (ad_answer d))) questionAnswers;
         entities = map (\<lambda>i. answerDto_toEntity (toBeUpserted ! i) applicantId
           (questionIdAnswerIdMap (ad_questionId (toBeUpserted ! i))) (newIds i)) [0..<length toBeUpserted]
     in andThen (if toBeUpserted \<noteq> [] then upsertAnswers entities else ret ()) (\<lambda>_.
        if toBeDeletedIds \<noteq> [] then modify (deleteBy (\<lambda>r. fa_id r \<in> set toBeDeletedIds)) else ret ()))"

section \<open>Collections and questions\<close>

record create_collection_dto =
  cc_title :: string
  cc_recruitId :: uuid

record update_collection_dto = uc_title :: "string option"

record create_question_dto =
  cq_collectionId :: uuid
  cq_question :: string
  cq_input :: string
  cq_options :: "string list option"
  cq_rank :: "int option"

record update_question_dto =
  uq_question :: "string option"
  uq_input :: "string option"
  uq_options :: "string list option option"
  uq_rank :: "int option"

definition createCollection ::
    "uuid \<Rightarrow> create_collection_dto \<Rightarrow> (recruit_form_collection list, recruit_form_collection) action" where
  "createCollection newId dto =
     (let c = \<lparr>fc_id = newId, fc_oid = None, fc_title = cc_title dto, fc_recruitId = cc_recruitId dto\<rparr>
      in andThen (modify (saveRow fc_id c)) (\<lambda>_. ret c))"

definition updateCollection ::
    "uuid \<Rightarrow> update_collection_dto \<Rightarrow> (recruit_form_collection list, recruit_form_collection) action" where
  "updateCollection collectionId dto =
     andThen (modify (updateBy (\<lambda>c. fc_id c = collectionId)
                (\<lambda>c. c\<lparr>fc_title := orKeep (uc_title dto) (fc_title c)\<rparr>))) (\<lambda>_.
     andThen (gets (findOneBy (\<lambda>c. fc_id c = collectionId))) (\<lambda>updated.
     case updated of None \<Rightarrow> throw (NotFound ''Collection not found'') | Some c \<Rightarrow> ret c))"

definition createQuestion ::
    "uuid \<Rightarrow> create_question_dto \<Rightarrow> (recruit_form_question list, recruit_form_question) action" where
  "createQuestion newId dto =
     (let q = \<lparr>fq_id = newId, fq_oid = None, fq_collectionId = Some (cq_collectionId dto),
               fq_question = cq_question dto, fq_input = cq_input dto, fq_options = cq_options dto,
               fq_rank = (case cq_rank dto of None \<Rightarrow> 0 | Some r \<Rightarrow> r)\<rparr>
      in andThen (modify (saveRow fq_id q)) (\<lambda>_. ret q))"

definition applyQuestionDto :: "update_question_dto \<Rightarrow> recruit_form_question \<Rightarrow> recruit_form_question" where
  "applyQuestionDto dto q =
     q\<lparr>fq_question := orKeep (uq_question dto) (fq_question q),
       fq_input := orKeep (uq_input dto) (fq_input q),
       fq_options := orKeep (uq_options dto) (fq_options q),
       fq_rank := orKeep (uq_rank dto) (fq_rank q)\<rparr>"

definition updateQuestion ::
    "uuid \<Rightarrow> update_question_dto \<Rightarrow> (recruit_form_question list, recruit_form_question) action" where
  "updateQuestion questionId dto =
     andThen (modify (updateBy (\<lambda>q. fq_id q = questionId) (applyQuestionDto dto))) (\<lambda>_.
     andThen (gets (findOneBy (\<lambda>q. fq_id q = questionId))) (\<lambda>updated.
     case updated of None \<Rightarrow> throw (NotFound ''Question not found'') | Some q \<Rightarrow> ret q))"

interpretation collectionTitle: keeps_key fc_id "\<lambda>dto c. c\<lparr>fc_title := orKeep (uc_title dto) (fc_title c)\<rparr>"
  by unfold_locales simp

interpretation questionUpdate: keeps_key fq_id applyQuestionDto
  by unfold_locales (simp add: applyQuestionDto_def)

section \<open>Completion\<close>

lemma leftJoin_Nil_iff: "leftJoin on qs as = [] \<longleftrightarrow> qs = []"
  by (induction qs) (auto simp: leftJoin_def split: list.splits)

lemma leftJoin_all_matched:
  "(\<forall>(q, a) \<in> set (leftJoin on qs as). a \<noteq> None) \<longleftrightarrow> (\<forall>q \<in> set qs. \<exists>a \<in> set as. on q a)"
proof (induction qs)
  case Nil
  then show ?case by (simp add: leftJoin_def)
next
  case (Cons q qs)
  have "leftJoin on (q # qs) as =
      (case filter (on q) as of [] \<Rightarrow> [(q, None)] | ms \<Rightarrow> map (\<lambda>a. (q, Some a)) ms) @ leftJoin on qs as"
    by (simp add: leftJoin_def)
  moreover have "(\<forall>(q', a) \<in> set (case filter (on q) as of [] \<Rightarrow> [(q, None)] | ms \<Rightarrow> map (\<lambda>a. (q, Some a)) ms).
      a \<noteq> None) \<longleftrightarrow> (\<exists>a \<in> set as. on q a)"
  proof (cases "filter (on q) as")
    case Nil
    then show ?thesis by (auto simp: filter_empty_conv)
  next
    case (Cons m ms)
    then have "m \<in> set (filter (on q) as)" by simp
    then have "\<exists>a \<in> set as. on q a" by auto
    then show ?thesis using Cons by simp
  qed
  ultimately show ?case using Cons.IH by (simp add: ball_Un)
qed

lemma length_eq_length_filter: "length xs = length (filter P xs) \<longleftrightarrow> (\<forall>x \<in> set xs. P x)"
  by (metis (no_types, lifting) filter_True length_filter_less order_less_irrefl)

text \<open>When the completion query counts a collection as completed.\<close>

definition collectionAnswered :: "recruit_db \<Rightarrow> uuid \<Rightarrow> uuid \<Rightarrow> bool" where
  "collectionAnswered db applicantId collectionId \<longleftrightarrow>
     (\<exists>q \<in> set (questions db). fq_collectionId q = Some collectionId) \<and>
     (\<forall>q \<in> set (questions db). fq_collectionId q = Some collectionId \<longrightarrow>
        (\<exists>a \<in> set (answers db). fa_questionId a = fq_id q \<and> fa_applicantId a = applicantId \<and> fa_answer a \<noteq> []))"

lemma getCompletionMap_True:
  assumes "applicantId \<noteq> []" and "c \<in> set ids"
  shows "Option.bind (getCompletionMap (Some applicantId) ids db) (\<lambda>m. m c) = Some True \<longleftrightarrow>
    collectionAnswered db applicantId c"
proof -
  let ?on = "\<lambda>q a. fq_id q = fa_questionId a \<and> fa_applicantId a = applicantId \<and> fa_answer a \<noteq> []"
  let ?qs = "findBy (\<lambda>q. fq_collectionId q = Some c) (questions db)"
  have ids: "ids \<noteq> []" using assms(2) by auto
  have empty: "completionRows applicantId c db = [] \<longleftrightarrow>
      (\<forall>q \<in> set (questions db). fq_collectionId q \<noteq> Some c)"
    by (simp add: completionRows_def leftJoin_Nil_iff findBy_def filter_empty_conv)
  have all: "(\<forall>x \<in> set (completionRows applicantId c db). case x of (q, a) \<Rightarrow> a \<noteq> None) \<longleftrightarrow>
      (\<forall>q \<in> set ?qs. \<exists>a \<in> set (answers db). ?on q a)"
    unfolding completionRows_def by (rule leftJoin_all_matched)
  have m: "Option.bind (getCompletionMap (Some applicantId) ids db) (\<lambda>m. m c) = Some True \<longleftrightarrow>
      completionRows applicantId c db \<noteq> [] \<and>
      (\<forall>x \<in> set (completionRows applicantId c db). case x of (q, a) \<Rightarrow> a \<noteq> None)"
    using assms ids by (simp add: getCompletionMap_def Let_def length_eq_length_filter)
  show ?thesis
    unfolding m empty all collectionAnswered_def by (auto simp: eq_commute)
qed

text \<open>The collections an applicant has to fill in.\<close>

definition requiredCollections :: "recruit_db \<Rightarrow> uuid \<Rightarrow> uuid \<Rightarrow> recruit_form_collection set" where
  "requiredCollections db applicantId recruitId =
     {c. \<exists>r \<in> set (roles db). rr_recruitId r = recruitId \<and> rr_mandatory r \<and> roleCollection db r = Some c} \<union>
     {c. \<exists>ar \<in> set (applicantRoles db). ar_applicantId ar = applicantId \<and>
          (\<exists>r. applicantRoleRole db ar = Some r \<and> roleCollection db r = Some c)}"

lemma set_map_filter: "set (List.map_filter f xs) = {y. \<exists>x \<in> set xs. f x = Some y}"
  by (auto simp: List.map_filter_def) force

lemma set_requiredCollections:
  "set (getMandatoryCollections recruitId db @ getApplicantSelectedRoleFormCollections applicantId db) =
     requiredCollections db applicantId recruitId"
  unfolding set_append requiredCollections_def
  by (intro arg_cong2 [where f = "(\<union>)"])
     (auto simp: getMandatoryCollections_def getApplicantSelectedRoleFormCollections_def
        set_map_filter bind_eq_Some_conv roleCollection_def isNull_def)

text \<open>
  an applicant's forms count as completed exactly when each collection asked of them, by a
  mandatory role of the recruitment or by a role they selected, has at least one question and every
  question of it has a non-empty answer of that applicant. (In particular a collection without questions
  is never completed.)
\<close>

lemma isApplicantFormCompleted_iff:
  assumes "applicantId \<noteq> []"
  shows "isApplicantFormCompleted applicantId recruitId db \<longleftrightarrow>
    (\<forall>c \<in> requiredCollections db applicantId recruitId. collectionAnswered db applicantId (fc_id c))"
proof -
  let ?cs = "getMandatoryCollections recruitId db @ getApplicantSelectedRoleFormCollections applicantId db"
  have "isApplicantFormCompleted applicantId recruitId db \<longleftrightarrow>
      (\<forall>c \<in> set ?cs. Option.bind (getCompletionMap (Some applicantId) (map fc_id ?cs) db) (\<lambda>m. m (fc_id c)) = Some True)"
    unfolding isApplicantFormCompleted_def getApplicantFormCollectionWithCompletions_def
    by (simp add: Let_def list_all_iff withCollectionCompleted_def ball_Un del: map_append)
  also have "\<dots> \<longleftrightarrow> (\<forall>c \<in> set ?cs. collectionAnswered db applicantId (fc_id c))"
    by (intro ball_cong refl getCompletionMap_True [OF assms]) (simp del: map_append)
  finally show ?thesis unfolding set_requiredCollections .
qed

definition formDb :: recruit_db where
  "formDb = emptyRecruitDb
     \<lparr>roles := [\<lparr>rr_id = ''r'', rr_oid = None, rr_name = ''all'', rr_description = [], rr_icon = None,
        rr_rank = 0, rr_mandatory = True, rr_recruitId = ''s'', rr_collectionId = Some ''c''\<rparr>],
      collections := [\<lparr>fc_id = ''c'', fc_oid = None, fc_title = ''general'', fc_recruitId = ''s''\<rparr>],
      questions := [\<lparr>fq_id = ''q'', fq_oid = None, fq_collectionId = Some ''c'', fq_question = ''why'',
        fq_input = ''text'', fq_options = None, fq_rank = 0\<rparr>],
      answers := [\<lparr>fa_id = ''x'', fa_oid = None, fa_answer = ''because'', fa_applicantId = ''a'',
        fa_questionId = ''q''\<rparr>]\<rparr>"

lemma isApplicantFormCompleted_iff_witness:
  "isApplicantFormCompleted ''a'' ''s'' formDb \<and> \<not> isApplicantFormCompleted ''b'' ''s'' formDb"
proof -
  have r: "requiredCollections formDb x ''s'' =
      {\<lparr>fc_id = ''c'', fc_oid = None, fc_title = ''general'', fc_recruitId = ''s''\<rparr>}" for x
    by (auto simp: requiredCollections_def formDb_def emptyRecruitDb_def roleCollection_def findOneBy_def)
  show ?thesis
    using isApplicantFormCompleted_iff [of "''a''" "''s''" formDb]
      isApplicantFormCompleted_iff [of "''b''" "''s''" formDb]
    by (simp add: r collectionAnswered_def) (simp add: formDb_def emptyRecruitDb_def)
qed

section \<open>Stored answers\<close>

text \<open>
  An answer is dropped exactly when it is missing or consists, between its outer blanks, of
  copies of a single character (so a dash, a row of dots or an empty field count as no answer).
\<close>

lemma shouldAnswerBeDeleted_iff:
  "shouldAnswerBeDeleted None \<and>
   (shouldAnswerBeDeleted (Some s) \<longleftrightarrow> (\<exists>n c. trim s = replicate n c))"
proof (cases "trim s")
  case Nil
  then show ?thesis by (auto simp: shouldAnswerBeDeleted_def removeAllOf_def intro!: exI [of _ 0])
next
  case (Cons c cs)
  have "filter (\<lambda>y. y \<noteq> c) (c # cs) = [] \<longleftrightarrow> (\<exists>n d. c # cs = replicate n d)"
  proof
    assume "filter (\<lambda>y. y \<noteq> c) (c # cs) = []"
    then have "\<forall>y \<in> set (c # cs). y = c" by (simp add: filter_empty_conv)
    then have "c # cs = replicate (length (c # cs)) c" by (metis replicate_length_same)
    then show "\<exists>n d. c # cs = replicate n d" by blast
  next
    assume "\<exists>n d. c # cs = replicate n d"
    then obtain n d where e: "c # cs = replicate n d" by blast
    then have "c = d" by (cases n) simp_all
    with e show "filter (\<lambda>y. y \<noteq> c) (c # cs) = []" by (simp add: filter_empty_conv)
  qed
  with Cons show ?thesis by (simp add: shouldAnswerBeDeleted_def removeAllOf_def)
qed

text \<open>The columns of the answer table as maps from its unique key, applicant and question.\<close>

definition answerKey :: "recruit_form_answer \<Rightarrow> uuid \<times> uuid" where
  "answerKey r = (fa_applicantId r, fa_questionId r)"

definition answerColumn :: "(recruit_form_answer \<Rightarrow> 'c) \<Rightarrow> recruit_form_answer list \<Rightarrow> uuid \<times> uuid \<Rightarrow> 'c option" where
  "answerColumn g t = map_of (map (\<lambda>r. (answerKey r, g r)) t)"

definition answerMap :: "recruit_form_answer list \<Rightarrow> uuid \<times> uuid \<Rightarrow> string option" where
  "answerMap t = answerColumn fa_answer t"

lemma sameAnswerKey_iff: "sameAnswerKey e r \<longleftrightarrow> answerKey r = answerKey e"
  by (auto simp: sameAnswerKey_def answerKey_def)

lemma answerColumn_Cons: "answerColumn g (r # t) k = (if answerKey r = k then Some (g r) else answerColumn g t k)"
  by (simp add: answerColumn_def)

lemma answerColumn_Nil [simp]: "answerColumn g [] = (\<lambda>k. None)"
  by (simp add: answerColumn_def fun_eq_iff)

lemma answerColumn_updateBy:
  assumes "\<And>r. answerKey (f r) = answerKey r" and "\<And>r. g (f r) = v"
  shows "answerColumn g (updateBy (sameAnswerKey e) f t) k =
    (if k = answerKey e \<and> (\<exists>r \<in> set t. answerKey r = k) then Some v else answerColumn g t k)"
proof (induction t)
  case Nil
  then show ?case by (simp add: updateBy_def)
next
  case (Cons r t)
  have u: "updateBy (sameAnswerKey e) f (r # t) =
      (if answerKey r = answerKey e then f r else r) # updateBy (sameAnswerKey e) f t"
    by (simp add: updateBy_def sameAnswerKey_iff)
  show ?case
    by (cases "answerKey r = answerKey e"; cases "answerKey r = k")
       (auto simp: u answerColumn_Cons assms Cons.IH)
qed

lemma answerColumn_append: "answerColumn g (t @ [e]) = [answerKey e \<mapsto> g e] ++ answerColumn g t"
  by (simp add: answerColumn_def)

lemma answerColumn_None: "answerColumn g t k = None \<longleftrightarrow> k \<notin> answerKey ` set t"
  by (force simp: answerColumn_def map_of_eq_None_iff)

lemma answerColumn_upsertAnswer:
  assumes "g = fa_answer \<or> g = (\<lambda>r. fa_id r)"
  shows "answerColumn g (upsertAnswer e t) = (answerColumn g t)(answerKey e \<mapsto> g e)"
proof (cases "\<exists>r \<in> set t. sameAnswerKey e r")
  case True
  then have ex: "\<exists>r \<in> set t. answerKey r = answerKey e" by (simp add: sameAnswerKey_iff)
  have "answerColumn g (updateBy (sameAnswerKey e) (\<lambda>r. r\<lparr>fa_id := fa_id e, fa_answer := fa_answer e\<rparr>) t) k =
      (if k = answerKey e \<and> (\<exists>r \<in> set t. answerKey r = k) then Some (g e) else answerColumn g t k)" for k
    by (rule answerColumn_updateBy) (use assms in \<open>auto simp: answerKey_def\<close>)
  with True ex show ?thesis unfolding fun_eq_iff upsertAnswer_def by simp
next
  case False
  then have "answerColumn g t (answerKey e) = None"
    by (auto simp: answerColumn_None sameAnswerKey_iff)
  with False show ?thesis
    by (auto simp: upsertAnswer_def answerColumn_append map_add_def split: option.splits)
qed

lemma answerColumn_upserts:
  assumes "g = fa_answer \<or> g = (\<lambda>r. fa_id r)" and "distinct (map answerKey es)"
  shows "answerColumn g (foldl (\<lambda>t e. upsertAnswer e t) t es) = answerColumn g t ++ answerColumn g es"
  using assms(2)
proof (induction es arbitrary: t)
  case Nil
  then show ?case by (simp add: answerColumn_def)
next
  case (Cons e es)
  then have "answerColumn g es (answerKey e) = None" by (auto simp: answerColumn_None)
  moreover have "answerColumn g (foldl (\<lambda>t e. upsertAnswer e t) t (e # es)) =
      (answerColumn g t)(answerKey e \<mapsto> g e) ++ answerColumn g es"
    using Cons by (simp add: answerColumn_upsertAnswer [OF assms(1)])
  ultimately show ?case
    by (auto simp: fun_eq_iff map_add_def answerColumn_Cons split: option.splits)
qed

interpretation answerWrite: keeps_key answerKey "\<lambda>(i, s) r. r\<lparr>fa_id := i, fa_answer := s\<rparr>"
  by unfold_locales (auto simp: answerKey_def)

lemma map_answerKey_upsertAnswer:
  "distinct (map answerKey t) \<Longrightarrow> distinct (map answerKey (upsertAnswer e t))"
  using answerWrite.distinct_updateBy [of t "sameAnswerKey e" "(fa_id e, fa_answer e)"]
  by (auto simp: upsertAnswer_def sameAnswerKey_iff)

lemma distinct_upserts:
  "distinct (map answerKey t) \<Longrightarrow> distinct (map answerKey (foldl (\<lambda>t e. upsertAnswer e t) t es))"
  by (induction es arbitrary: t) (simp_all add: map_answerKey_upsertAnswer)

lemma answerColumn_Some:
  assumes "distinct (map answerKey t)"
  shows "answerColumn g t k = Some v \<longleftrightarrow> (\<exists>r \<in> set t. answerKey r = k \<and> g r = v)"
proof -
  have "distinct (map fst (map (\<lambda>r. (answerKey r, g r)) t))" using assms by (simp add: comp_def)
  then show ?thesis by (auto simp: answerColumn_def map_of_eq_Some_iff)
qed

lemma answerColumn_deleteBy:
  assumes "distinct (map answerKey t)"
  shows "answerColumn g (deleteBy p t) k =
    (if \<exists>r \<in> set t. answerKey r = k \<and> p r then None else answerColumn g t k)"
proof (cases "\<exists>r \<in> set t. answerKey r = k \<and> p r")
  case True
  then obtain r where r: "r \<in> set t" "answerKey r = k" "p r" by blast
  have "answerKey x \<noteq> k" if "x \<in> set t" "\<not> p x" for x
    using that r assms by (auto simp: distinct_map inj_on_def)
  then have "answerColumn g (deleteBy p t) k = None" by (auto simp: answerColumn_None)
  with True show ?thesis by simp
next
  case False
  have d: "distinct (map answerKey (deleteBy p t))" using assms by (rule distinct_deleteBy)
  show ?thesis
  proof (cases "answerColumn g t k")
    case None
    then have "answerColumn g (deleteBy p t) k = None" by (auto simp: answerColumn_None)
    with None False show ?thesis by simp
  next
    case (Some v)
    then have "answerColumn g (deleteBy p t) k = Some v"
      using False by (auto simp: answerColumn_Some [OF assms] answerColumn_Some [OF d])
    with Some False show ?thesis by simp
  qed
qed

lemma answerColumn_deleteIds:
  assumes "distinct (map answerKey t)"
  shows "answerColumn g (deleteBy (\<lambda>r. fa_id r \<in> D) t) k =
    (case answerColumn (\<lambda>r. fa_id r) t k of
       None \<Rightarrow> None | Some i \<Rightarrow> if i \<in> D then None else answerColumn g t k)"
proof (cases "answerColumn (\<lambda>r. fa_id r) t k")
  case None
  then have "k \<notin> answerKey ` set t" by (simp add: answerColumn_None)
  then have "answerColumn g (deleteBy (\<lambda>r. fa_id r \<in> D) t) k = None" by (auto simp: answerColumn_None)
  with None show ?thesis by simp
next
  case (Some i)
  then have "(\<exists>r \<in> set t. answerKey r = k \<and> fa_id r \<in> D) \<longleftrightarrow> i \<in> D"
    using assms unfolding answerColumn_Some [OF assms] by (auto simp: distinct_map inj_on_def)
  with Some show ?thesis by (simp add: answerColumn_deleteBy [OF assms])
qed

text \<open>The ids of the rows that hold the answers of an applicant to some questions.\<close>

lemma existing_ids:
  assumes "distinct (map answerKey t)" and "q \<in> set qs"
  shows "mapOfPairs (map (\<lambda>r. (fa_questionId r, fa_id r))
      (findBy (\<lambda>r. fa_applicantId r = a \<and> fa_questionId r \<in> set qs) t)) q =
    answerColumn (\<lambda>r. fa_id r) t (a, q)" (is "mapOfPairs ?kvs q = _")
proof -
  let ?t = "findBy (\<lambda>r. fa_applicantId r = a \<and> fa_questionId r \<in> set qs) t"
  have "distinct (map answerKey ?t)" using assms(1) by (simp add: findBy_def distinct_map_filter)
  then have "distinct (map fa_questionId ?t)"
    by (auto simp: distinct_map inj_on_def answerKey_def)
  then have d: "distinct (map fst ?kvs)" by (simp add: comp_def)
  then have "mapOfPairs ?kvs q = Some i \<longleftrightarrow> (q, i) \<in> set ?kvs" for i
    by (simp add: mapOfPairs_def map_of_eq_Some_iff flip: rev_map)
  then have "mapOfPairs ?kvs q = Some i \<longleftrightarrow> answerColumn (\<lambda>r. fa_id r) t (a, q) = Some i" for i
    using assms(2) by (auto simp: answerColumn_Some [OF assms(1)] answerKey_def image_iff)
  then show ?thesis by (rule option_eqI)
qed

lemma answerColumn_id_inj:
  assumes "distinct (map answerKey t)" and "distinct (map fa_id t)"
    and "answerColumn (\<lambda>r. fa_id r) t k = Some i" and "answerColumn (\<lambda>r. fa_id r) t k' = Some i"
  shows "k = k'"
proof -
  obtain r r' where "r \<in> set t" "answerKey r = k" "fa_id r = i" "r' \<in> set t" "answerKey r' = k'" "fa_id r' = i"
    using assms(3,4) unfolding answerColumn_Some [OF assms(1)] by blast
  moreover from this assms(2) have "r = r'" by (metis distinct_map inj_onD)
  ultimately show ?thesis by simp
qed

text \<open>What an upsert of some rows and the deletion of others by their ids leave.\<close>

lemma upsert_then_delete:
  assumes t: "distinct (map answerKey t)" "distinct (map fa_id t)" and es: "distinct (map answerKey es)"
    and ids: "\<And>e. e \<in> set es \<Longrightarrow> answerColumn (\<lambda>r. fa_id r) t (answerKey e) = Some (fa_id e) \<or>
      fa_id e \<notin> fa_id ` set t"
    and D: "D = {i. \<exists>k \<in> K. answerColumn (\<lambda>r. fa_id r) t k = Some i}"
    and disj: "\<And>e. e \<in> set es \<Longrightarrow> answerKey e \<notin> K"
  shows "answerMap (deleteBy (\<lambda>r. fa_id r \<in> D) (foldl (\<lambda>t e. upsertAnswer e t) t es)) k =
    (if k \<in> K then None else (answerMap t ++ answerMap es) k)"
proof -
  let ?t1 = "foldl (\<lambda>t e. upsertAnswer e t) t es" and ?id = "answerColumn (\<lambda>r. fa_id r)"
  have cols: "answerColumn fa_answer ?t1 = answerMap t ++ answerMap es" "?id ?t1 = ?id t ++ ?id es"
    using answerColumn_upserts [OF _ es] by (simp_all add: answerMap_def)
  have col: "answerMap (deleteBy (\<lambda>r. fa_id r \<in> D) ?t1) k = (case ?id ?t1 k of None \<Rightarrow> None
      | Some i \<Rightarrow> if i \<in> D then None else (answerMap t ++ answerMap es) k)"
    unfolding answerMap_def answerColumn_deleteIds [OF distinct_upserts [OF t(1)]] cols(1) [unfolded answerMap_def] ..
  have none: "?id ?t1 k = None \<Longrightarrow> (answerMap t ++ answerMap es) k = None"
    unfolding cols(2) by (simp add: map_add_None answerMap_def answerColumn_None)
  have "i \<in> D \<longleftrightarrow> k \<in> K" if i: "?id ?t1 k = Some i" for i
  proof (cases "?id es k")
    case None
    then have "?id t k = Some i" using i by (simp add: cols(2) map_add_def)
    then show ?thesis unfolding D using answerColumn_id_inj [OF t] by blast
  next
    case (Some j)
    then have "j = i" using i by (simp add: cols(2) map_add_def)
    with Some obtain e where e: "e \<in> set es" "answerKey e = k" "fa_id e = i"
      by (auto simp: answerColumn_Some [OF es])
    have "i \<notin> D"
    proof
      assume "i \<in> D"
      then obtain k' where k': "k' \<in> K" "?id t k' = Some i" by (auto simp: D)
      then have "i \<in> fa_id ` set t" by (auto simp: answerColumn_Some [OF t(1)])
      then have "?id t k = Some i" using ids [OF e(1)] e by auto
      then have "k' = k" using answerColumn_id_inj [OF t k'(2)] by simp
      then show False using disj [OF e(1)] e k' by simp
    qed
    then show ?thesis using disj [OF e(1)] e by simp
  qed
  then show ?thesis using none by (cases "answerColumn (\<lambda>r. fa_id r) ?t1 k") (auto simp: col map_add_def)
qed

text \<open>The rows an answered form writes, and the questions whose answers it removes.\<close>

lemma storeFormAnswers_run:
  assumes "distinct (map ad_questionId qas)"
    and "distinct (map answerKey t)" and "distinct (map fa_id t)"
    and "\<forall>i. newIds i \<notin> fa_id ` set t"
    and up: "up = filter (\<lambda>d. \<not> shouldAnswerBeDeleted (Some (ad_answer d))) qas"
    and K: "K = {(a, ad_questionId d) |d. d \<in> set qas \<and> shouldAnswerBeDeleted (Some (ad_answer d))}"
  obtains t' es where "storeFormAnswers newIds a qas t = (Inr (), t')" and "distinct (map answerKey t')"
    and "map answerKey es = map (\<lambda>d. (a, ad_questionId d)) up" and "map fa_answer es = map ad_answer up"
    and "distinct (map answerKey es)"
    and "\<And>k. answerMap t' k = (if k \<in> K then None else (answerMap t ++ answerMap es) k)"
proof -
  define ids where "ids = mapOfPairs (map (\<lambda>r. (fa_questionId r, fa_id r))
      (findBy (\<lambda>r. fa_applicantId r = a \<and> fa_questionId r \<in> set (map ad_questionId qas)) t))"
  define es where "es = map (\<lambda>i. answerDto_toEntity (up ! i) a (ids (ad_questionId (up ! i))) (newIds i)) [0..<length up]"
  define D where "D = List.map_filter (\<lambda>d. ids (ad_questionId d)) (filter (\<lambda>d. shouldAnswerBeDeleted (Some (ad_answer d))) qas)"
  define t' where "t' = deleteBy (\<lambda>r. fa_id r \<in> set D) (foldl (\<lambda>t e. upsertAnswer e t) t es)"
  have id: "ids (ad_questionId d) = answerColumn (\<lambda>r. fa_id r) t (a, ad_questionId d)" if "d \<in> set qas" for d
    unfolding ids_def using that by (intro existing_ids assms(2)) auto
  have inj: "d = d'" if "d \<in> set qas" "d' \<in> set qas" "ad_questionId d = ad_questionId d'" for d d'
    using that assms(1) by (auto simp: distinct_map inj_on_def)
  have keys: "map answerKey es = map (\<lambda>d. (a, ad_questionId d)) up" "map fa_answer es = map ad_answer up"
    by (rule nth_equalityI; simp add: es_def answerKey_def answerDto_toEntity_def)+
  have "distinct (map ad_questionId up)" using assms(1) unfolding up by (rule distinct_map_filter)
  then have des: "distinct (map answerKey es)" unfolding keys by (auto simp: distinct_map inj_on_def)
  have esD: "\<exists>d \<in> set up. answerKey e = (a, ad_questionId d) \<and>
      (answerColumn (\<lambda>r. fa_id r) t (answerKey e) = Some (fa_id e) \<or> fa_id e \<notin> fa_id ` set t)" if "e \<in> set es" for e
  proof -
    from that obtain i where i: "i < length up"
      "e = answerDto_toEntity (up ! i) a (ids (ad_questionId (up ! i))) (newIds i)" by (auto simp: es_def)
    then have "up ! i \<in> set up" "up ! i \<in> set qas" by (auto simp: up dest: nth_mem)
    then show ?thesis using i id [of "up ! i"] assms(4)
      by (cases "ids (ad_questionId (up ! i))") (auto simp: answerDto_toEntity_def answerKey_def)
  qed
  have "storeFormAnswers newIds a qas t = (Inr (), t')"
    using des unfolding storeFormAnswers_def andThen_gets Let_def
    by (fold ids_def, fold up, fold es_def, fold D_def)
       (auto simp: action_simps t'_def upsertAnswers_def answerKey_def [abs_def] andThen_def deleteBy_def es_def)
  moreover have "answerMap t' k = (if k \<in> K then None else (answerMap t ++ answerMap es) k)" for k
    unfolding t'_def
  proof (rule upsert_then_delete [OF assms(2,3) des])
    show "answerKey e \<notin> K" if "e \<in> set es" for e
      using esD [OF that] by (auto simp: K up) (metis inj)+
    show "set D = {i. \<exists>k \<in> K. answerColumn (\<lambda>r. fa_id r) t k = Some i}"
      using id by (auto simp: D_def set_map_filter K)
  qed (use esD in blast)
  moreover have "distinct (map answerKey t')" unfolding t'_def by (intro distinct_deleteBy distinct_upserts assms(2))
  ultimately show ?thesis using that keys des by blast
qed



end
