(* ===== verification/Recruit_Applicant.thy ===== *)
theory Recruit_Applicant
  imports Recruit_Form "HOL-Library.Char_ord" "HOL-Library.List_Lexorder" "HOL-Library.Product_Lexorder"
begin

text \<open>
  Applicants and their offers (\<open>applicant/recruit-applicant.service.ts\<close>) and the moderators' notes on
  them (\<open>note/recruit-note.service.ts\<close>, \<open>dto/recruit-note-body.dto.ts\<close>). A column a query does not
  select is \<open>undefined\<close>: the rows \<open>findApplicants\<close> loads are masked accordingly.
\<close>

section \<open>Loading applicants\<close>

definition maskOffer :: "bool \<Rightarrow> recruit_applicant_role \<Rightarrow> recruit_applicant_role" where
  "maskOffer isAnnounce ar =
     (if isAnnounce then ar
      else ar\<lparr>ar_offerResponseAt := None, ar_offerAccepted := False, ar_offerExpireAt := None\<rparr>)"

definition loadApplicant :: "bool \<Rightarrow> recruit_db \<Rightarrow> recruit_applicant \<Rightarrow> loaded_applicant" where
  "loadApplicant isAnnounce db a =
     \<lparr>la_applicant = a,
      la_roles = map (\<lambda>ar. (maskOffer isAnnounce ar, applicantRoleRole db ar))
        (findBy (\<lambda>ar. ar_applicantId ar = ra_id a) (applicantRoles db)),
      la_interviewSlots = sort_key sl_startWhen
        (map (\<lambda>s. s\<lparr>sl_conferenceUri := None, sl_googleCalendarEventId := None\<rparr>)
          (findBy (\<lambda>s. sl_applicantId s = Some (ra_id a)) (slots db)))\<rparr>"

text \<open>The first joined row of an applicant orders it: nulls last, then the id.\<close>

definition applicantOrder :: "loaded_applicant \<Rightarrow> (bool \<times> time) \<times> uuid" where
  "applicantOrder la =
     (case la_interviewSlots la of [] \<Rightarrow> (True, 0) | s # _ \<Rightarrow> (False, sl_startWhen s), ra_id (la_applicant la))"

definition findApplicants ::
    "uuid option \<Rightarrow> uuid option \<Rightarrow> uuid option \<Rightarrow> bool \<Rightarrow> recruit_db \<Rightarrow> loaded_applicant list" where
  "findApplicants applicantId settingId profileId isAnnounce db =
     sort_key applicantOrder (map (loadApplicant isAnnounce db)
       (findBy (\<lambda>a. ifDefined applicantId (ra_id a) \<and> ifDefined settingId (ra_recruitId a) \<and>
                    ifDefined profileId (ra_profileId a)) (applicants db)))"

definition findOneApplicant ::
    "uuid option \<Rightarrow> uuid option \<Rightarrow> uuid option \<Rightarrow> bool \<Rightarrow> recruit_db \<Rightarrow> loaded_applicant option" where
  "findOneApplicant applicantId settingId profileId isAnnounce db =
     (if \<not> truthyId applicantId \<and> \<not> (truthyId settingId \<and> truthyId profileId) then None
      else case findApplicants applicantId settingId profileId isAnnounce db of
             [] \<Rightarrow> None | la # _ \<Rightarrow> Some la)"

definition getRecruitApplicantModels ::
    "id_lib \<Rightarrow> profile_name list \<Rightarrow> time \<Rightarrow> uuid option \<Rightarrow> uuid option \<Rightarrow> uuid option \<Rightarrow> bool \<Rightarrow> bool
     \<Rightarrow> recruit_db \<Rightarrow> recruit_applicant_model list" where
  "getRecruitApplicantModels L names now applicantId settingId profileId isAnnounce isModerator db =
     (let las = findApplicants applicantId settingId profileId isAnnounce db;
          profileNameMap = getProfilesNameMap names
            (map (\<lambda>la. toObjectId L (ra_profileId (la_applicant la))) las) Th
      in map (\<lambda>la. recruitApplicantModel_fromEntity L now la profileNameMap None isAnnounce isModerator) las)"

definition getRecruitApplicantModelWithInfo ::
    "id_lib \<Rightarrow> profile_name list \<Rightarrow> time \<Rightarrow> loaded_applicant \<Rightarrow> bool \<Rightarrow> bool \<Rightarrow> recruit_db
     \<Rightarrow> recruit_applicant_model" where
  "getRecruitApplicantModelWithInfo L names now la isAnnounce isModerator db =
     (let completionMap = getCompletionMap (Some (ra_id (la_applicant la)))
            (List.map_filter (\<lambda>(_, role). Option.bind role rr_collectionId) (la_roles la)) db;
          profileNameMap = getProfilesNameMap names [toObjectId L (ra_profileId (la_applicant la))] Th
      in recruitApplicantModel_fromEntity L now la profileNameMap completionMap isAnnounce isModerator)"

section \<open>Creating an applicant\<close>

text \<open>
  \<open>insert\<close>: the profile must not be null, and the entity's constraint makes profile and recruitment unique. The look-up before it passes
  its two arguments one place too far left, as the code does.
\<close>

definition insertApplicant :: "recruit_applicant \<Rightarrow> (recruit_db, unit) action" where
  "insertApplicant a =
     andThen (gets applicants) (\<lambda>t.
     andThen (throwIf (\<exists>r \<in> set t. ra_id r = ra_id a \<or>
                ra_profileId r = ra_profileId a \<and> ra_recruitId r = ra_recruitId a)
              (JsError ''QueryFailedError'')) (\<lambda>_.
     modify (\<lambda>db. db\<lparr>applicants := applicants db @ [a]\<rparr>)))"

definition createApplicant :: "uuid \<Rightarrow> uuid \<Rightarrow> uuid option \<Rightarrow> (recruit_db, loaded_applicant) action" where
  "createApplicant newId settingId profileId =
     andThen (gets (findOneApplicant (Some settingId) profileId None False)) (\<lambda>currentApplicant.
     andThen (throwIf (currentApplicant \<noteq> None) (Conflict [])) (\<lambda>_.
     case profileId of
       None \<Rightarrow> throw (JsError ''QueryFailedError'')
     | Some p \<Rightarrow>
         let applicant = \<lparr>ra_id = newId, ra_oid = None, ra_profileId = p, ra_recruitId = settingId\<rparr> in
         andThen (insertApplicant applicant) (\<lambda>_.
         ret \<lparr>la_applicant = applicant, la_roles = [], la_interviewSlots = []\<rparr>)))"

section \<open>Roles and offers\<close>

definition getSelectedRoleIds :: "uuid \<Rightarrow> recruit_db \<Rightarrow> uuid list" where
  "getSelectedRoleIds applicantId db =
     map ar_roleId (findBy (\<lambda>ar. ar_applicantId ar = applicantId) (applicantRoles db))"

definition getApplicationRole :: "uuid \<Rightarrow> uuid \<Rightarrow> recruit_db \<Rightarrow> recruit_applicant_role option" where
  "getApplicationRole applicantId roleId db =
     findOneBy (\<lambda>ar. ar_applicantId ar = applicantId \<and> ar_roleId ar = roleId) (applicantRoles db)"

definition isApplicantAcceptAnyOffer :: "uuid \<Rightarrow> recruit_db \<Rightarrow> bool" where
  "isApplicantAcceptAnyOffer applicantId db \<longleftrightarrow>
     length (findBy (\<lambda>ar. ar_applicantId ar = applicantId \<and> ar_offerAccepted ar) (applicantRoles db)) > 0"

definition checkApplicantReadyToAcceptOfferOrThrow :: "uuid \<Rightarrow> (recruit_db, unit) action" where
  "checkApplicantReadyToAcceptOfferOrThrow applicantId =
     andThen (gets (isApplicantAcceptAnyOffer applicantId)) (\<lambda>accepted.
     throwIf accepted (Conflict ''Applicant already accepted an offer''))"

definition checkApplicantOfferOrThrow :: "time option \<Rightarrow> time \<Rightarrow> time outcome" where
  "checkApplicantOfferOrThrow offerExpireAt today =
     (case offerExpireAt of
        None \<Rightarrow> Inl (Unprocessable ''Offer not available'')
      | Some expire \<Rightarrow> if expire < today then Inl (Unprocessable ''Offer expired'') else Inr today)"

definition onApplicantRoles ::
    "(recruit_applicant_role list \<Rightarrow> recruit_applicant_role list) \<Rightarrow> recruit_db \<Rightarrow> recruit_db" where
  "onApplicantRoles f db = db\<lparr>applicantRoles := f (applicantRoles db)\<rparr>"

definition answerOffer :: "bool \<times> time \<Rightarrow> recruit_applicant_role \<Rightarrow> recruit_applicant_role" where
  "answerOffer x ar = ar\<lparr>ar_offerAccepted := fst x, ar_offerResponseAt := Some (snd x)\<rparr>"

definition decideOffer :: "uuid \<Rightarrow> bool \<Rightarrow> time \<Rightarrow> (recruit_db, unit) action" where
  "decideOffer applicantRoleId offerAccepted offerDate =
     modify (onApplicantRoles (updateBy (\<lambda>ar. ar_id ar = applicantRoleId)
       (answerOffer (offerAccepted, offerDate))))"

text \<open>An expiry that is \<open>undefined\<close> becomes \<open>null\<close> by the default of the parameter.\<close>

definition makeOffer :: "time option \<Rightarrow> recruit_applicant_role \<Rightarrow> recruit_applicant_role" where
  "makeOffer e ar = ar\<lparr>ar_offerExpireAt := e, ar_offerResponseAt := None, ar_offerAccepted := False\<rparr>"

definition offerApplicantRole :: "uuid \<Rightarrow> time option \<Rightarrow> (recruit_db, unit) action" where
  "offerApplicantRole applicantRoleId offerExpireAt =
     modify (onApplicantRoles (updateBy (\<lambda>ar. ar_id ar = applicantRoleId) (makeOffer offerExpireAt)))"

interpretation offerAnswer: keeps_key "\<lambda>ar. (ar_id ar, ar_applicantId ar, ar_roleId ar)" answerOffer
  by unfold_locales (simp add: answerOffer_def)

interpretation offerMade: keeps_key "\<lambda>ar. (ar_id ar, ar_applicantId ar, ar_roleId ar)" makeOffer
  by unfold_locales (simp add: makeOffer_def)

section \<open>Notes\<close>

record note_body_dto =
  nb_note :: string
  nb_onlyMe :: "bool option"

definition noteBody_toCreateEntity :: "uuid \<Rightarrow> note_body_dto \<Rightarrow> uuid \<Rightarrow> uuid \<Rightarrow> recruit_note" where
  "noteBody_toCreateEntity newId dto applicantId createdBy =
     \<lparr>rn_id = newId, rn_oid = None, rn_note = nb_note dto, rn_onlyMe = orKeep (nb_onlyMe dto) False,
      rn_applicantId = applicantId, rn_createdBy = createdBy, rn_deletedAt = None\<rparr>"

text \<open>
  The profile of the caller may be \<open>undefined\<close>, which is no condition in a query.
  The partial entity of an edit; a property that is \<open>undefined\<close> leaves its column alone.\<close>

definition noteBody_toEditEntity :: "note_body_dto \<Rightarrow> recruit_note \<Rightarrow> recruit_note" where
  "noteBody_toEditEntity dto n = n\<lparr>rn_note := nb_note dto, rn_onlyMe := orKeep (nb_onlyMe dto) (rn_onlyMe n)\<rparr>"

definition getNotes :: "uuid \<Rightarrow> uuid option \<Rightarrow> recruit_note list \<Rightarrow> recruit_note list" where
  "getNotes applicantId profileUid t =
     sort_key rn_id (findBy (\<lambda>n. isNull (rn_deletedAt n) \<and>
       (rn_applicantId n = applicantId \<and> \<not> rn_onlyMe n \<or>
        rn_applicantId n = applicantId \<and> rn_onlyMe n \<and> ifDefined profileUid (rn_createdBy n))) t)"

definition createNote :: "recruit_note \<Rightarrow> (recruit_note list, recruit_note) action" where
  "createNote e = andThen (modify (saveRow rn_id e)) (\<lambda>_. ret e)"

definition editNote :: "uuid \<Rightarrow> note_body_dto \<Rightarrow> uuid option \<Rightarrow> (recruit_note list, nat) action" where
  "editNote noteId dto editBy =
     (let p = (\<lambda>n. rn_id n = noteId \<and> ifDefined editBy (rn_createdBy n)) in
      andThen (gets (affected p)) (\<lambda>n.
      andThen (modify (updateBy p (noteBody_toEditEntity dto))) (\<lambda>_.
      andThen (throwIf (n = 0) (NotFound ''Note not found'')) (\<lambda>_. ret n))))"

definition deleteNote :: "uuid \<Rightarrow> uuid option \<Rightarrow> (recruit_note list, nat) action" where
  "deleteNote noteId deleteBy' =
     (let p = (\<lambda>n. rn_id n = noteId \<and> ifDefined deleteBy' (rn_createdBy n)) in
      andThen (gets (affected p)) (\<lambda>n.
      andThen (modify (deleteBy p)) (\<lambda>_.
      andThen (throwIf (n = 0) (NotFound ''Note not found'')) (\<lambda>_. ret n))))"

interpretation noteEdit: keeps_key "\<lambda>n. (rn_id n, rn_applicantId n, rn_createdBy n)" noteBody_toEditEntity
  by unfold_locales (simp add: noteBody_toEditEntity_def)

section \<open>Lemmas\<close>

lemma findApplicants_mem:
  "la \<in> set (findApplicants a s p ann db) \<longleftrightarrow>
     (\<exists>r \<in> set (applicants db). la = loadApplicant ann db r \<and>
        ifDefined a (ra_id r) \<and> ifDefined s (ra_recruitId r) \<and> ifDefined p (ra_profileId r))"
  by (auto simp: findApplicants_def)

lemma findOneApplicant_None:
  assumes "\<forall>r \<in> set (applicants db). \<not> (ifDefined a (ra_id r) \<and> ifDefined s (ra_recruitId r) \<and> ifDefined p (ra_profileId r))"
  shows "findOneApplicant a s p ann db = None"
proof -
  have "findApplicants a s p ann db = []" using assms by (auto simp: findApplicants_def findBy_def filter_empty_conv)
  then show ?thesis by (simp add: findOneApplicant_def)
qed

lemma findOneApplicant_SomeD:
  assumes "findOneApplicant a s p ann db = Some la"
  shows "\<exists>r \<in> set (applicants db). la = loadApplicant ann db r \<and>
    ifDefined a (ra_id r) \<and> ifDefined s (ra_recruitId r) \<and> ifDefined p (ra_profileId r)"
proof -
  from assms have "la \<in> set (findApplicants a s p ann db)"
    by (auto simp: findOneApplicant_def split: if_splits list.splits)
  then show ?thesis by (simp add: findApplicants_mem)
qed

lemma editNote_run:
  "editNote i dto (Some p) t =
     (let q = \<lambda>n. rn_id n = i \<and> rn_createdBy n = p in
      if affected q t = 0 then (Inl (NotFound ''Note not found''), t)
      else (Inr (affected q t), updateBy q (noteBody_toEditEntity dto) t))"
  by (simp add: editNote_def action_simps Let_def updateBy_affected_0)

lemma deleteNote_run:
  "deleteNote i (Some p) t =
     (let q = \<lambda>n. rn_id n = i \<and> rn_createdBy n = p in
      if affected q t = 0 then (Inl (NotFound ''Note not found''), t)
      else (Inr (affected q t), deleteBy q t))"
  by (auto simp: deleteNote_def action_simps Let_def affected_eq_0 deleteBy_def filter_id_conv)

section \<open>Properties\<close>

text \<open>
  Claim C38: a moderator sees the notes on an applicant that are public or their own, and no other; and
  editing or deleting a note fails, without any change, unless the note is their own, and never touches
  a note of someone else.
\<close>

theorem notes_private:
  "set (getNotes applicantId (Some me) t) =
     {n \<in> set t. rn_applicantId n = applicantId \<and> rn_deletedAt n = None \<and>
                 (rn_onlyMe n \<longrightarrow> rn_createdBy n = me)} \<and>
   (\<forall>act \<in> {editNote i dto (Some me), deleteNote i (Some me)}. \<forall>res t'. act t = (res, t') \<longrightarrow>
      filter (\<lambda>n. rn_createdBy n \<noteq> me) t' = filter (\<lambda>n. rn_createdBy n \<noteq> me) t \<and>
      (t' = t \<or> (\<exists>n. res = Inr n)) \<and>
      (res = Inl (NotFound ''Note not found'') \<longleftrightarrow> \<not> (\<exists>n \<in> set t. rn_id n = i \<and> rn_createdBy n = me)))"
proof -
  have frame: "filter (\<lambda>n. rn_createdBy n \<noteq> me)
      (updateBy (\<lambda>n. rn_id n = i \<and> rn_createdBy n = me) (noteBody_toEditEntity dto) t) =
      filter (\<lambda>n. rn_createdBy n \<noteq> me) t"
    by (rule filter_updateBy_frame) (simp add: noteBody_toEditEntity_def)
  have frame': "filter (\<lambda>n. rn_createdBy n \<noteq> me) (deleteBy (\<lambda>n. rn_id n = i \<and> rn_createdBy n = me) t) =
      filter (\<lambda>n. rn_createdBy n \<noteq> me) t"
    unfolding deleteBy_def filter_filter by (rule filter_cong) auto
  have "set (getNotes applicantId (Some me) t) =
     {n \<in> set t. rn_applicantId n = applicantId \<and> rn_deletedAt n = None \<and> (rn_onlyMe n \<longrightarrow> rn_createdBy n = me)}"
    by (auto simp: getNotes_def isNull_def)
  then show ?thesis
    by (auto simp: editNote_run deleteNote_run Let_def frame frame' affected_eq_0 split: if_splits)
qed

theorem notes_private_witness:
  "let t = [\<lparr>rn_id = ''1'', rn_oid = None, rn_note = ''shy'', rn_onlyMe = True, rn_applicantId = ''a'',
        rn_createdBy = ''m'', rn_deletedAt = None\<rparr>]
   in getNotes ''a'' (Some ''x'') t = [] \<and> fst (deleteNote ''1'' (Some ''x'') t) = Inl (NotFound ''Note not found'')"
proof -
  let ?t = "[\<lparr>rn_id = ''1'', rn_oid = None, rn_note = ''shy'', rn_onlyMe = True, rn_applicantId = ''a'',
        rn_createdBy = ''m'', rn_deletedAt = None\<rparr>]"
  have "set (getNotes ''a'' (Some ''x'') ?t) = {}"
    using conjunct1 [OF notes_private [of "''a''" "''x''" ?t "''1''" undefined]] by auto
  moreover have "fst (deleteNote ''1'' (Some ''x'') ?t) = Inl (NotFound ''Note not found'')"
    using bspec [OF conjunct2 [OF notes_private [of "''a''" "''x''" ?t "''1''" undefined]],
        of "deleteNote ''1'' (Some ''x'')"]
    by (cases "deleteNote ''1'' (Some ''x'') ?t") auto
  ultimately show ?thesis by simp
qed

text \<open>
  No profile ever gets two applicant rows in a recruitment, and a successful creation adds
  exactly the new row. But a profile that already applied is not answered with a conflict: the look-up
  is made with the arguments of \<open>findOne\<close> shifted, finds nothing, and the database's error is what
  comes out. (No applicant has the id of a recruitment.)
\<close>

lemma createApplicant_spec:
  assumes "createApplicant newId settingId (Some profileId) db = (res, db')"
    and "\<forall>r \<in> set (applicants db). ra_id r \<noteq> settingId"
  shows "(\<forall>la. res = Inr la \<longrightarrow>
       applicants db' = applicants db @ [la_applicant la] \<and>
       ra_profileId (la_applicant la) = profileId \<and> ra_recruitId (la_applicant la) = settingId) \<and>
    (distinct (map (\<lambda>r. (ra_profileId r, ra_recruitId r)) (applicants db)) \<longrightarrow>
       distinct (map (\<lambda>r. (ra_profileId r, ra_recruitId r)) (applicants db'))) \<and>
    ((\<exists>r \<in> set (applicants db). ra_profileId r = profileId \<and> ra_recruitId r = settingId) \<longrightarrow>
       res = Inl (JsError ''QueryFailedError'') \<and> db' = db)"
proof -
  have "findOneApplicant (Some settingId) (Some profileId) None False db = None"
    using assms(2) by (intro findOneApplicant_None) simp
  then have "(res, db') =
      (if \<exists>r \<in> set (applicants db). ra_id r = newId \<or> ra_profileId r = profileId \<and> ra_recruitId r = settingId
       then (Inl (JsError ''QueryFailedError''), db)
       else (Inr \<lparr>la_applicant = \<lparr>ra_id = newId, ra_oid = None, ra_profileId = profileId, ra_recruitId = settingId\<rparr>,
               la_roles = [], la_interviewSlots = []\<rparr>,
             db\<lparr>applicants := applicants db @
               [\<lparr>ra_id = newId, ra_oid = None, ra_profileId = profileId, ra_recruitId = settingId\<rparr>]\<rparr>))"
    using assms(1) by (auto simp: createApplicant_def insertApplicant_def action_simps andThen_def Let_def
        split: if_splits)
  then show ?thesis by (auto split: if_splits)
qed

lemma createApplicant_spec_witness:
  "\<exists>db. fst (createApplicant ''new'' ''s'' (Some ''p'') db) = Inl (JsError ''QueryFailedError'')"
proof -
  let ?db = "emptyRecruitDb\<lparr>applicants := [\<lparr>ra_id = ''a'', ra_oid = None, ra_profileId = ''p'', ra_recruitId = ''s''\<rparr>]\<rparr>"
  obtain res db' where r: "createApplicant ''new'' ''s'' (Some ''p'') ?db = (res, db')" by fastforce
  show ?thesis using createApplicant_spec [OF r] r by (intro exI [of _ ?db]) simp
qed

end
