(* ===== verification/Recruit_Moderator.thy ===== *)
theory Recruit_Moderator
  imports Recruit_Applicant
begin

text \<open>
  Moderators of recruitment roles (\<open>moderator/recruit-moderator.service.ts\<close>) and the request context
  (\<open>context/recruit-context.model.ts\<close>, \<open>context/recruit-context.middleware.ts\<close>): which round a request
  is about, the caller's applicant, and the rounds the caller may manage. The table of moderators
  refines a set of pairs of role and profile.
\<close>

section \<open>RecruitModeratorService\<close>

text \<open>The join of a moderator's row with its role.\<close>

definition roleOf :: "recruit_db \<Rightarrow> uuid \<Rightarrow> recruit_role option" where
  "roleOf db roleId = findOneBy (\<lambda>r. rr_id r = roleId) (roles db)"

text \<open>
  The query of \<open>getManageableRecruitId\<close>: the distinct recruitments of the roles the profile moderates.
\<close>

definition getManageableRecruitId :: "uuid option \<Rightarrow> recruit_db \<Rightarrow> uuid list" where
  "getManageableRecruitId profileId db =
     (if \<not> truthyId profileId then []
      else remdups (List.map_filter
        (\<lambda>m. map_option rr_recruitId (roleOf db (rm_roleId m)))
        (findBy (\<lambda>m. Some (rm_profileId m) = profileId) (moderators db))))"

definition getApplicantRecruitId :: "uuid \<Rightarrow> recruit_db \<Rightarrow> uuid option" where
  "getApplicantRecruitId applicantId db =
     map_option ra_recruitId (findOneBy (\<lambda>a. ra_id a = applicantId) (applicants db))"

definition getRoleModerators :: "id_lib \<Rightarrow> profile_name list \<Rightarrow> uuid \<Rightarrow> recruit_db \<Rightarrow> name_doc list" where
  "getRoleModerators L names roleId db =
     getProfilesName names
       (map (\<lambda>m. toObjectId L (rm_profileId m)) (findBy (\<lambda>m. rm_roleId m = roleId) (moderators db))) En"

definition getRolesModeratorProfileIds :: "id_lib \<Rightarrow> uuid list \<Rightarrow> recruit_db \<Rightarrow> object_id list" where
  "getRolesModeratorProfileIds L roleIds db =
     map (\<lambda>m. toObjectId L (rm_profileId m)) (findBy (\<lambda>m. rm_roleId m \<in> set roleIds) (moderators db))"

definition getModeratorRoles :: "uuid \<Rightarrow> recruit_db \<Rightarrow> recruit_role option list" where
  "getModeratorRoles profileId db =
     map (\<lambda>m. roleOf db (rm_roleId m))
       (findBy (\<lambda>m. rm_profileId m = profileId) (moderators db))"

text \<open>The id of a new row is the next of a sequence, here an argument.\<close>

definition addRoleModerator :: "nat \<Rightarrow> uuid \<Rightarrow> uuid \<Rightarrow> (recruit_role_moderator list, unit) action" where
  "addRoleModerator nextId roleId profileId =
     modify (\<lambda>t. if \<exists>m \<in> set t. rm_roleId m = roleId \<and> rm_profileId m = profileId then t
                 else t @ [\<lparr>rm_id = nextId, rm_profileId = profileId, rm_roleId = roleId\<rparr>])"

definition removeRoleModerator :: "uuid \<Rightarrow> uuid \<Rightarrow> (recruit_role_moderator list, unit) action" where
  "removeRoleModerator roleId profileId =
     modify (deleteBy (\<lambda>m. rm_roleId m = roleId \<and> rm_profileId m = profileId))"

definition hasPermissionToApplicantOrThrow :: "uuid option \<Rightarrow> uuid option \<Rightarrow> recruit_db \<Rightarrow> unit outcome" where
  "hasPermissionToApplicantOrThrow profileId applicantId db =
     (if \<not> truthyId applicantId then Inr ()
      else
        let managableIds = getManageableRecruitId profileId db;
            targetId = getApplicantRecruitId (the applicantId) db
        in if \<not> truthyId targetId \<or> the targetId \<notin> set managableIds then Inl (Forbidden []) else Inr ())"

section \<open>The request context\<close>

record recruit_context =
  currentSetting :: recruit_setting
  ctx_applicant :: "loaded_applicant option"
  manageableRecruitId :: "uuid list"

definition ctx_applicantId :: "recruit_context \<Rightarrow> uuid option" where
  "ctx_applicantId ctx = map_option (\<lambda>la. ra_id (la_applicant la)) (ctx_applicant ctx)"

definition currentSettingId :: "recruit_context \<Rightarrow> uuid" where
  "currentSettingId ctx = rs_id (currentSetting ctx)"

definition hasPermission :: "recruit_context \<Rightarrow> bool" where
  "hasPermission ctx \<longleftrightarrow> currentSettingId ctx \<in> set (manageableRecruitId ctx)"

definition hasPermissionOrThrow :: "recruit_context \<Rightarrow> bool outcome" where
  "hasPermissionOrThrow ctx = (if hasPermission ctx then Inr True else Inl (Forbidden []))"

definition isRegistrationOpenOrThrow :: "recruit_context \<Rightarrow> time \<Rightarrow> bool outcome" where
  "isRegistrationOpenOrThrow ctx currentDate =
     (if currentDate \<ge> rs_openWhen (currentSetting ctx) \<and> currentDate \<le> rs_closeWhen (currentSetting ctx)
      then Inr True else Inl (NotAcceptable ''Registration closed''))"

definition applicantOrThrow :: "recruit_context \<Rightarrow> loaded_applicant outcome" where
  "applicantOrThrow ctx =
     (case ctx_applicant ctx of
        Some a \<Rightarrow> Inr a | None \<Rightarrow> Inl (Forbidden ''The applicant has not been created''))"

definition applicantIdOrThrow :: "recruit_context \<Rightarrow> uuid outcome" where
  "applicantIdOrThrow ctx =
     (if truthyId (ctx_applicantId ctx) then Inr (the (ctx_applicantId ctx))
      else Inl (Forbidden ''The applicant has not been created''))"

text \<open>
  \<open>RecruitContextMiddleware.use\<close>: the value of the header and the id of the caller are given; the result
  is the context attached to the request, or the error.
\<close>

definition recruitContext ::
    "id_lib \<Rightarrow> time \<Rightarrow> string option \<Rightarrow> object_id_arg option \<Rightarrow> recruit_db \<Rightarrow> recruit_context outcome" where
  "recruitContext L now settingIdFromHeader userId db =
     (let profileId = map_option pid_uuid (pid_fromObjectId L userId);
          setting = (if truthyId settingIdFromHeader then getSettingById (the settingIdFromHeader) (settings db)
                     else getCurrentSetting (settings db));
          manageable = getManageableRecruitId profileId db
      in case setting of
           None \<Rightarrow> Inl (InternalServerError ''No active recruitment'')
         | Some s \<Rightarrow> Inr \<lparr>currentSetting = s,
             ctx_applicant = findOneApplicant None (Some (rs_id s)) profileId (isAnnounced s now) db,
             manageableRecruitId = manageable\<rparr>)"

section \<open>Lemmas\<close>

text \<open>The relation the table stands for.\<close>

definition moderatorSet :: "recruit_role_moderator list \<Rightarrow> (uuid \<times> uuid) set" where
  "moderatorSet t = (\<lambda>m. (rm_roleId m, rm_profileId m)) ` set t"

lemma getManageableRecruitId_iff:
  "i \<in> set (getManageableRecruitId profileId db) \<longleftrightarrow>
     (\<exists>p x r. profileId = Some p \<and> p \<noteq> [] \<and> roleOf db x = Some r \<and>
        (x, p) \<in> moderatorSet (moderators db) \<and> rr_recruitId r = i)"
proof (cases profileId)
  case None
  then show ?thesis by (simp add: getManageableRecruitId_def truthyId_def)
next
  case (Some p)
  have "i \<in> set (List.map_filter (\<lambda>m. map_option rr_recruitId (roleOf db (rm_roleId m)))
        (findBy (\<lambda>m. Some (rm_profileId m) = Some p) (moderators db))) \<longleftrightarrow>
      (\<exists>x r. roleOf db x = Some r \<and> (x, p) \<in> moderatorSet (moderators db) \<and> rr_recruitId r = i)"
    unfolding set_map_filter set_findBy moderatorSet_def by auto
  then show ?thesis by (simp add: Some getManageableRecruitId_def truthyId_def)
qed

lemma getManageableRecruitId_distinct: "distinct (getManageableRecruitId profileId db)"
  by (simp add: getManageableRecruitId_def)

lemma hasPermissionToApplicant_Inr:
  "hasPermissionToApplicantOrThrow p (Some a) db = Inr () \<longleftrightarrow>
     a = [] \<or> (\<exists>i. getApplicantRecruitId a db = Some i \<and> i \<noteq> [] \<and> i \<in> set (getManageableRecruitId p db))"
  by (auto simp: hasPermissionToApplicantOrThrow_def truthyId_def Let_def split: option.splits)

section \<open>Properties\<close>

text \<open>
  a request about an applicant is let through exactly when its caller moderates at least one
  role of the recruitment the applicant belongs to; otherwise it is forbidden, also when there is no
  such applicant.
\<close>

lemma hasPermissionToApplicant_iff:
  assumes "applicantId \<noteq> []" and "\<forall>s \<in> set (applicants db). ra_recruitId s \<noteq> []"
  shows "hasPermissionToApplicantOrThrow profileId (Some applicantId) db =
    (if \<exists>p a x r. profileId = Some p \<and> p \<noteq> [] \<and>
          findOneBy (\<lambda>x. ra_id x = applicantId) (applicants db) = Some a \<and>
          roleOf db x = Some r \<and> rr_recruitId r = ra_recruitId a \<and>
          (x, p) \<in> moderatorSet (moderators db)
     then Inr () else Inl (Forbidden []))"
proof -
  have e: "hasPermissionToApplicantOrThrow profileId (Some applicantId) db \<in> {Inr (), Inl (Forbidden [])}"
    by (simp add: hasPermissionToApplicantOrThrow_def Let_def)
  have ne: "a \<in> set (applicants db)" if "findOneBy (\<lambda>x. ra_id x = applicantId) (applicants db) = Some a" for a
    using findOneBy_SomeD [OF that] by simp
  have "hasPermissionToApplicantOrThrow profileId (Some applicantId) db = Inr () \<longleftrightarrow>
      (\<exists>p a x r. profileId = Some p \<and> p \<noteq> [] \<and>
          findOneBy (\<lambda>x. ra_id x = applicantId) (applicants db) = Some a \<and>
          roleOf db x = Some r \<and> rr_recruitId r = ra_recruitId a \<and>
          (x, p) \<in> moderatorSet (moderators db))"
    unfolding hasPermissionToApplicant_Inr getManageableRecruitId_iff getApplicantRecruitId_def
    using assms ne by (auto simp: map_option_case split: option.splits)
  then show ?thesis using e by auto
qed

definition moderatedDb :: recruit_db where
  "moderatedDb = formDb
     \<lparr>applicants := [\<lparr>ra_id = ''a'', ra_oid = None, ra_profileId = ''p'', ra_recruitId = ''s''\<rparr>],
      moderators := [\<lparr>rm_id = 1, rm_profileId = ''m'', rm_roleId = ''r''\<rparr>]\<rparr>"

lemma hasPermissionToApplicant_iff_witness:
  "hasPermissionToApplicantOrThrow (Some ''m'') (Some ''a'') moderatedDb = Inr () \<and>
   hasPermissionToApplicantOrThrow (Some ''x'') (Some ''a'') moderatedDb = Inl (Forbidden [])"
proof -
  have a: "findOneBy (\<lambda>x. ra_id x = ''a'') (applicants moderatedDb) =
      Some \<lparr>ra_id = ''a'', ra_oid = None, ra_profileId = ''p'', ra_recruitId = ''s''\<rparr>"
    by (simp add: moderatedDb_def findOneBy_def)
  have m: "moderatorSet (moderators moderatedDb) = {(''r'', ''m'')}"
    by (simp add: moderatedDb_def moderatorSet_def)
  have r: "\<exists>r. roleOf moderatedDb ''r'' = Some r \<and> rr_recruitId r = ''s''"
    by (simp add: moderatedDb_def formDb_def emptyRecruitDb_def findOneBy_def roleOf_def)
  have n: "\<forall>s \<in> set (applicants moderatedDb). ra_recruitId s \<noteq> []" by (simp add: moderatedDb_def)
  show ?thesis
    using hasPermissionToApplicant_iff [of "''a''" moderatedDb "Some ''m''"]
      hasPermissionToApplicant_iff [of "''a''" moderatedDb "Some ''x''"] n r by (auto simp: a m)
qed

text \<open>
  the table of moderators behaves as a set of pairs of role and profile: adding inserts the
  pair, removing takes it out, both never fail, and no pair gets a second row.
\<close>

lemma moderators_refine_set:
  "(\<exists>t'. addRoleModerator n r p t = (Inr (), t') \<and> moderatorSet t' = insert (r, p) (moderatorSet t) \<and>
     (distinct (map (\<lambda>m. (rm_roleId m, rm_profileId m)) t) \<longrightarrow>
      distinct (map (\<lambda>m. (rm_roleId m, rm_profileId m)) t'))) \<and>
   (\<exists>t'. removeRoleModerator r p t = (Inr (), t') \<and> moderatorSet t' = moderatorSet t - {(r, p)} \<and>
     (distinct (map (\<lambda>m. (rm_roleId m, rm_profileId m)) t) \<longrightarrow>
      distinct (map (\<lambda>m. (rm_roleId m, rm_profileId m)) t')))"
  by (auto simp: addRoleModerator_def removeRoleModerator_def action_simps moderatorSet_def distinct_deleteBy
      image_iff)

lemma moderators_refine_set_witness:
  "\<exists>t'. removeRoleModerator ''r'' ''p'' [\<lparr>rm_id = 0, rm_profileId = ''p'', rm_roleId = ''r''\<rparr>] = (Inr (), t') \<and>
     moderatorSet t' = {} \<and> distinct (map (\<lambda>m. (rm_roleId m, rm_profileId m)) t')"
  using conjunct2 [OF moderators_refine_set [of 0 "''r''" "''p''" "[\<lparr>rm_id = 0, rm_profileId = ''p'', rm_roleId = ''r''\<rparr>]"]]
  by (auto simp: moderatorSet_def)

text \<open>
  the context of a request carries an applicant only if it is the caller's own application to
  the round in question, and every round it lists as manageable is one of which the caller moderates a
  role.
\<close>

lemma recruitContext_own:
  assumes "recruitContext L now header userId db = Inr ctx"
  shows "currentSetting ctx \<in> set (settings db) \<and>
    (header = None \<longrightarrow> rs_isActive (currentSetting ctx)) \<and>
    (\<forall>la. ctx_applicant ctx = Some la \<longrightarrow>
       (\<exists>p. toUuid L userId = Some p \<and> ra_profileId (la_applicant la) = p) \<and>
       ra_recruitId (la_applicant la) = currentSettingId ctx \<and> la_applicant la \<in> set (applicants db)) \<and>
    (\<forall>i \<in> set (manageableRecruitId ctx).
       \<exists>p r. toUuid L userId = Some p \<and> (rr_id r, p) \<in> moderatorSet (moderators db) \<and>
         r \<in> set (roles db) \<and> rr_recruitId r = i)"
proof -
  let ?p = "map_option pid_uuid (pid_fromObjectId L userId)"
  have p: "?p = toUuid L userId"
    by (simp add: pid_fromObjectId_def option.map_comp comp_def option.map_ident)
  from assms obtain s where s: "(if truthyId header then getSettingById (the header) (settings db)
        else getCurrentSetting (settings db)) = Some s"
    and ctx: "ctx = \<lparr>currentSetting = s,
      ctx_applicant = findOneApplicant None (Some (rs_id s)) ?p (isAnnounced s now) db,
      manageableRecruitId = getManageableRecruitId ?p db\<rparr>"
    by (auto simp: recruitContext_def Let_def split: option.splits)
  have set: "s \<in> set (settings db)" "header = None \<longrightarrow> rs_isActive s"
    using s by (auto simp: getSettingById_def getCurrentSetting_def truthyId_def
        dest: findOneBy_SomeD split: if_splits option.splits)
  have app: "(\<exists>p. toUuid L userId = Some p \<and> ra_profileId (la_applicant la) = p) \<and>
       ra_recruitId (la_applicant la) = rs_id s \<and> la_applicant la \<in> set (applicants db)"
    if "findOneApplicant None (Some (rs_id s)) ?p (isAnnounced s now) db = Some la" for la
  proof -
    have "?p \<noteq> None" using that unfolding findOneApplicant_def truthyId_def by (cases ?p) auto
    then obtain q where q: "?p = Some q" by blast
    then have "toUuid L userId = Some q" by (simp only: p)
    then show ?thesis using findOneApplicant_SomeD [OF that [unfolded q]] by (auto simp: loadApplicant_def)
  qed
  have "\<exists>p r. toUuid L userId = Some p \<and> (rr_id r, p) \<in> moderatorSet (moderators db) \<and>
         r \<in> set (roles db) \<and> rr_recruitId r = i" if "i \<in> set (getManageableRecruitId ?p db)" for i
    using that unfolding getManageableRecruitId_iff p roleOf_def by (blast dest: findOneBy_SomeD)
  then show ?thesis using set app by (simp add: ctx currentSettingId_def)
qed

lemma recruitContext_own_witness:
  "\<exists>ctx. recruitContext standardLib 0 None None
      (moderatedDb\<lparr>settings := [\<lparr>rs_id = ''s'', rs_oid = None, rs_year = 2024, rs_name = ''r'',
         rs_openWhen = 0, rs_closeWhen = 1, rs_announceWhen = 2, rs_maximumRole = 1, rs_isActive = True\<rparr>]\<rparr>) = Inr ctx \<and>
     rs_isActive (currentSetting ctx) \<and> ctx_applicant ctx = None"
proof -
  let ?db = "moderatedDb\<lparr>settings := [\<lparr>rs_id = ''s'', rs_oid = None, rs_year = 2024, rs_name = ''r'',
         rs_openWhen = 0, rs_closeWhen = 1, rs_announceWhen = 2, rs_maximumRole = 1, rs_isActive = True\<rparr>]\<rparr>"
  have "\<exists>ctx. recruitContext standardLib 0 None None ?db = Inr ctx"
    by (simp add: recruitContext_def getCurrentSetting_def findOneBy_def truthyId_def Let_def)
  then obtain ctx where c: "recruitContext standardLib 0 None None ?db = Inr ctx" by blast
  from recruitContext_own [OF c] have "rs_isActive (currentSetting ctx)" "ctx_applicant ctx = None"
    by (auto simp: toUuid_def)
  with c show ?thesis by blast
qed

end
