(* ===== verification/Google_Calendar.thy ===== *)
theory Google_Calendar
  imports Recruit_RefId
begin

text \<open>
  The Google calendar as the program uses it: the builder of insert requests
  (\<open>google/calendar-event-insert.builder.ts\<close>) and the operations \<open>create\<close> and \<open>remove\<close> of
  \<open>google/google-calendar.service.ts\<close>. The service itself is remote: its state here is the list of the
  requests it has been sent, and its answers are functions of that list, parameters of the model.
\<close>

section \<open>CalendarEventInsertBuilder\<close>

record event_insert_params =
  ip_calendarId :: string
  ip_sendUpdates :: string
  ip_range :: "(time \<times> time) option"
  ip_summary :: "string option"
  ip_description :: "string option"
  ip_attendees :: "string list option"
  ip_conferenceRequestId :: "string option"

definition newBuilder :: event_insert_params where
  "newBuilder = \<lparr>ip_calendarId = ''primary'', ip_sendUpdates = ''all'', ip_range = None, ip_summary = None,
     ip_description = None, ip_attendees = None, ip_conferenceRequestId = None\<rparr>"

definition setCalendarId :: "string \<Rightarrow> event_insert_params \<Rightarrow> event_insert_params" where
  "setCalendarId c p = p\<lparr>ip_calendarId := c\<rparr>"

definition setSendUpdates :: "string \<Rightarrow> event_insert_params \<Rightarrow> event_insert_params" where
  "setSendUpdates u p = p\<lparr>ip_sendUpdates := u\<rparr>"

text \<open>\<open>toISOString()\<close> of an invalid date throws.\<close>

definition setTimeRange :: "date \<Rightarrow> date \<Rightarrow> event_insert_params \<Rightarrow> event_insert_params outcome" where
  "setTimeRange from to p =
     (case (from, to) of
        (Some f, Some t) \<Rightarrow> Inr (p\<lparr>ip_range := Some (f, t)\<rparr>)
      | _ \<Rightarrow> Inl (JsError ''Invalid time value''))"

definition setTitle :: "string \<Rightarrow> event_insert_params \<Rightarrow> event_insert_params" where
  "setTitle t p = p\<lparr>ip_summary := Some t\<rparr>"

definition setDescription :: "string \<Rightarrow> event_insert_params \<Rightarrow> event_insert_params" where
  "setDescription d p = p\<lparr>ip_description := Some d\<rparr>"

definition setAttendees :: "string list \<Rightarrow> event_insert_params \<Rightarrow> event_insert_params" where
  "setAttendees as p = p\<lparr>ip_attendees := Some as\<rparr>"

definition withConferenceData :: "string \<Rightarrow> event_insert_params \<Rightarrow> event_insert_params" where
  "withConferenceData requestId p = p\<lparr>ip_conferenceRequestId := Some requestId\<rparr>"

section \<open>GoogleCalendarService\<close>

record calendar_event =
  ev_id :: "string option"
  ev_entryPoints :: "string option list option"

datatype calendar_call =
    EventsInsert event_insert_params
  | EventsDelete string string string \<comment> \<open>calendar, event, \<open>sendUpdates\<close>\<close>

record calendar_client =
  insertAnswer :: "calendar_call list \<Rightarrow> calendar_event outcome"
  deleteAnswer :: "calendar_call list \<Rightarrow> unit outcome"

definition calendarId :: string where
  "calendarId = ''primary''"

definition calendar_create ::
    "calendar_client \<Rightarrow> string \<Rightarrow> date \<Rightarrow> date \<Rightarrow> string \<Rightarrow> string \<Rightarrow> string list \<Rightarrow> bool
     \<Rightarrow> (calendar_call list, calendar_event) action" where
  "calendar_create client requestId from to title description attendees createWithMeet =
     andThen (lift (setTimeRange from to (setCalendarId calendarId newBuilder))) (\<lambda>p.
     let p' = setAttendees attendees (setDescription description (setTitle title p));
         insertParams = (if createWithMeet then withConferenceData requestId p' else p')
     in andThen (modify (\<lambda>calls. calls @ [EventsInsert insertParams])) (\<lambda>_.
        andThen (gets (insertAnswer client)) lift))"

definition calendar_remove :: "calendar_client \<Rightarrow> string \<Rightarrow> (calendar_call list, unit) action" where
  "calendar_remove client eventId =
     andThen (modify (\<lambda>calls. calls @ [EventsDelete calendarId eventId ''all''])) (\<lambda>_.
     andThen (gets (deleteAnswer client)) lift)"

lemma calendar_create_run:
  "calendar_create client rid (Some f) (Some t) ti de as meet calls =
     (let p = EventsInsert \<lparr>ip_calendarId = ''primary'', ip_sendUpdates = ''all'', ip_range = Some (f, t),
            ip_summary = Some ti, ip_description = Some de, ip_attendees = Some as,
            ip_conferenceRequestId = (if meet then Some rid else None)\<rparr>
      in (insertAnswer client (calls @ [p]), calls @ [p]))"
  by (simp add: calendar_create_def setTimeRange_def action_simps Let_def newBuilder_def setCalendarId_def
      setTitle_def setDescription_def setAttendees_def withConferenceData_def calendarId_def)

lemma calendar_remove_run:
  "calendar_remove client e calls =
     (deleteAnswer client (calls @ [EventsDelete ''primary'' e ''all'']), calls @ [EventsDelete ''primary'' e ''all''])"
  by (simp add: calendar_remove_def action_simps calendarId_def)

end
