(* ===== verification/Recruit_Interview.thy ===== *)
theory Recruit_Interview
  imports Recruit_Moderator Google_Calendar
begin

text \<open>
  Interview slots: \<open>interview/recruit-interview.service.ts\<close>. The state \<open>recruit_world\<close> is the tables and
  the trace of calls to the calendar; a transaction that fails restores the tables only.

  The guard against booking the same slot twice compares two \<open>Date\<close> objects with \<open>===\<close>, which asks
  whether they are the same object. The type \<open>date_ref\<close> therefore says where a date comes from: given by
  the caller, or read from the row of a slot.
\<close>

section \<open>State and environment\<close>

record recruit_world =
  tables :: recruit_db
  calendarCalls :: "calendar_call list"

text \<open>
  What the service is configured with, what it reads elsewhere, and the answers of the services it
  calls: \<open>env_hoursDiff\<close> is \<open>dayjs(a).diff(b, 'hours')\<close>; \<open>env_commit\<close> and \<open>env_eventWrite\<close> are the
  database server's answers to the commit of a transaction and to the update after it.
\<close>

record recruit_env =
  env_lib :: id_lib
  env_names :: "profile_name list"
  env_profiles :: "profile list"
  env_now :: time
  env_hoursDiff :: "time \<Rightarrow> time \<Rightarrow> int"
  env_minimumLeadTimeHours :: int
  env_calendarCreate :: bool
  env_calendarMeet :: bool
  env_calendarTitle :: string
  env_calendarDescription :: string
  env_calendar :: calendar_client
  env_requestId :: string
  env_commit :: "recruit_world \<Rightarrow> http_error option"
  env_eventWrite :: "recruit_world \<Rightarrow> http_error option"

definition onTables :: "(recruit_db, 'a) action \<Rightarrow> (recruit_world, 'a) action" where
  "onTables m w = (case m (tables w) of (r, db) \<Rightarrow> (r, w\<lparr>tables := db\<rparr>))"

definition onCalendar :: "(calendar_call list, 'a) action \<Rightarrow> (recruit_world, 'a) action" where
  "onCalendar m w = (case m (calendarCalls w) of (r, cs) \<Rightarrow> (r, w\<lparr>calendarCalls := cs\<rparr>))"

definition onSlots :: "(recruit_interview_slot list \<Rightarrow> recruit_interview_slot list) \<Rightarrow> recruit_world \<Rightarrow> recruit_world" where
  "onSlots f w = w\<lparr>tables := (tables w)\<lparr>slots := f (slots (tables w))\<rparr>\<rparr>"

definition slotsOf :: "recruit_world \<Rightarrow> recruit_interview_slot list" where
  "slotsOf w = slots (tables w)"

definition undoTables :: "recruit_world \<Rightarrow> recruit_world \<Rightarrow> recruit_world" where
  "undoTables old new = new\<lparr>tables := tables old\<rparr>"

section \<open>Reading slots\<close>

definition getMandatoryInterviewRoleIds :: "uuid \<Rightarrow> recruit_db \<Rightarrow> uuid list" where
  "getMandatoryInterviewRoleIds recruitId db =
     map rr_id (findBy (\<lambda>r. rr_recruitId r = recruitId \<and> rr_mandatory r \<and> isNull (rr_collectionId r)) (roles db))"

definition slotRole :: "recruit_db \<Rightarrow> recruit_interview_slot \<Rightarrow> recruit_role option" where
  "slotRole db s = Option.bind (sl_roleId s) (roleOf db)"

definition recruitSlots :: "uuid \<Rightarrow> recruit_db \<Rightarrow> recruit_interview_slot list" where
  "recruitSlots recruitId db =
     findBy (\<lambda>s. map_option rr_recruitId (slotRole db s) = Some recruitId) (slots db)"

definition listMin :: "int list \<Rightarrow> int option" where
  "listMin xs = (case xs of [] \<Rightarrow> None | x # ys \<Rightarrow> Some (foldl min x ys))"

definition listMax :: "int list \<Rightarrow> int option" where
  "listMax xs = (case xs of [] \<Rightarrow> None | x # ys \<Rightarrow> Some (foldl max x ys))"

definition getRange :: "uuid \<Rightarrow> recruit_db \<Rightarrow> (time option \<times> time option) option" where
  "getRange recruitId db =
     Some (listMin (map sl_startWhen (recruitSlots recruitId db)), listMax (map sl_endWhen (recruitSlots recruitId db)))"

definition getSelectedSlots :: "uuid \<Rightarrow> recruit_db \<Rightarrow> recruit_interview_slot list" where
  "getSelectedSlots applicantId db = findBy (\<lambda>s. sl_applicantId s = Some applicantId) (slots db)"

definition isSelectedSlot :: "recruit_interview_slot list \<Rightarrow> uuid \<Rightarrow> bool" where
  "isSelectedSlot sameGroupSlots applicantId = list_ex (\<lambda>s. sl_applicantId s = Some applicantId) sameGroupSlots"

definition isValidLeadTime :: "recruit_env \<Rightarrow> date \<Rightarrow> bool" where
  "isValidLeadTime env slotStartTime =
     (case slotStartTime of
        None \<Rightarrow> False
      | Some s \<Rightarrow> env_hoursDiff env s (env_now env) \<ge> env_minimumLeadTimeHours env)"

definition isSlotAvailable ::
    "recruit_env \<Rightarrow> recruit_interview_slot list \<Rightarrow> uuid list option \<Rightarrow> bool option" where
  "isSlotAvailable env sameGroupSlots requestRoleIds =
     (let availableRoleId = map sl_roleId (filter (\<lambda>s. \<not> truthyId (sl_applicantId s)) sameGroupSlots) in
      if \<not> isValidLeadTime env (case sameGroupSlots of [] \<Rightarrow> None | s # _ \<Rightarrow> Some (sl_startWhen s))
      then Some False
      else map_option (list_all (\<lambda>r. Some r \<in> set availableRoleId)) requestRoleIds)"

text \<open>\<open>Object.groupBy\<close>: the groups in the order in which their keys first occur.\<close>

fun groupByKey :: "('a \<Rightarrow> 'k) \<Rightarrow> 'a list \<Rightarrow> 'a list list" where
  "groupByKey f [] = []"
| "groupByKey f (x # xs) = filter (\<lambda>y. f y = f x) (x # xs) # groupByKey f (filter (\<lambda>y. f y \<noteq> f x) xs)"

record recruit_interview_slot_detail_model =
  dm_start :: time
  dm_end :: time
  dm_roles :: "recruit_role_model list option"
  dm_interviewedAt :: "time option"
  dm_isAvailable :: "bool option"
  dm_isSelected :: "bool option"
  dm_applicants :: "recruit_applicant_model list option"

text \<open>One group of slots, as \<open>getSlots\<close> shows it. \<open>requestRoleIds\<close> is \<open>None\<close> without an applicant.\<close>

definition mergeSlots ::
    "recruit_env \<Rightarrow> recruit_db \<Rightarrow> uuid option \<Rightarrow> bool \<Rightarrow> uuid list option \<Rightarrow> (uuid \<Rightarrow> recruit_applicant_model option)
     \<Rightarrow> recruit_interview_slot list \<Rightarrow> recruit_interview_slot_detail_model" where
  "mergeSlots env db applicantId isShowDetails requestRoleIds applicantKv ss =
     (let baseSlot = hd ss in
      \<lparr>dm_start = sl_startWhen baseSlot, dm_end = sl_endWhen baseSlot,
       dm_roles = (if isShowDetails
          then Some (List.map_filter (\<lambda>s. map_option recruitRoleModel_fromEntity (slotRole db s)) ss) else None),
       dm_interviewedAt = (if isShowDetails then sl_interviewAt baseSlot else None),
       dm_isAvailable = isSlotAvailable env ss requestRoleIds,
       dm_isSelected = (if truthyId applicantId then Some (isSelectedSlot ss (the applicantId)) else None),
       dm_applicants = (if isShowDetails
          then Some (List.map_filter (\<lambda>a. Option.bind a applicantKv) (rev (remdups (rev (map sl_applicantId ss)))))
          else None)\<rparr>)"

definition getSlots ::
    "recruit_env \<Rightarrow> uuid \<Rightarrow> uuid option \<Rightarrow> bool \<Rightarrow> recruit_db
     \<Rightarrow> recruit_interview_slot_detail_model list outcome" where
  "getSlots env recruitId applicantId isShowDetails db =
     (let rawSlots = sort_key sl_startWhen (recruitSlots recruitId db);
          applicant = findOneApplicant applicantId None None False db;
          mandatoryRoleIds = (if truthyId applicantId then getMandatoryInterviewRoleIds recruitId db else []);
          applicants = (if isShowDetails
            then getRecruitApplicantModels (env_lib env) (env_names env) (env_now env) None (Some recruitId) None False False db
            else []);
          applicantKv = mapOfPairs (map (\<lambda>m. (ram_id m, m)) applicants);
          groups = groupByKey (\<lambda>s. refId (Some (sl_startWhen s)) (Some (sl_endWhen s))) rawSlots
      in case applicant of
           None \<Rightarrow> Inr (map (mergeSlots env db applicantId isShowDetails None applicantKv) groups)
         | Some la \<Rightarrow>
             if groups \<noteq> [] \<and> list_ex (\<lambda>(_, role). role = None) (la_roles la) then Inl (JsError ''TypeError'')
             else Inr (map (mergeSlots env db applicantId isShowDetails
               (Some (map (\<lambda>(_, role). rr_id (the role)) (la_roles la) @ mandatoryRoleIds)) applicantKv) groups))"

section \<open>The calendar event\<close>

definition getCalendarEventTitle :: "recruit_env \<Rightarrow> string option \<Rightarrow> string" where
  "getCalendarEventTitle env applicantFullName =
     (case applicantFullName of
        Some (c # s) \<Rightarrow> env_calendarTitle env @ '' ('' @ (c # s) @ '')''
      | _ \<Rightarrow> env_calendarTitle env)"

definition getCalendarEventDescription :: "recruit_env \<Rightarrow> string" where
  "getCalendarEventDescription env = env_calendarDescription env"

definition createCalendarEvent ::
    "recruit_env \<Rightarrow> uuid \<Rightarrow> date \<Rightarrow> date \<Rightarrow> uuid list \<Rightarrow> (recruit_world, calendar_event option) action" where
  "createCalendarEvent env applicantId startWhen endWhen roleIds =
     (if \<not> env_calendarCreate env then ret None
      else
        andThen (gets (\<lambda>w. getRecruitApplicantModels (env_lib env) (env_names env) (env_now env)
                   (Some applicantId) None None False False (tables w))) (\<lambda>applicants.
        andThen (gets (\<lambda>w. getRolesModeratorProfileIds (env_lib env) roleIds (tables w))) (\<lambda>roleModerators.
        case applicants of
          [] \<Rightarrow> throw (InternalServerError (''Applicant not found: '' @ applicantId))
        | applicant # _ \<Rightarrow>
            let applicantProfileId = objectIdFromHex (env_lib env) (ram_profileId applicant);
                profileIds = applicantProfileId # roleModerators;
                attendeeEmails = emailsFromProfileIds (env_profiles env) profileIds;
                applicantFullName = pnr_fullname (ram_profileName applicant)
            in andThen (onCalendar (calendar_create (env_calendar env) (env_requestId env) startWhen endWhen
                          (getCalendarEventTitle env applicantFullName) (getCalendarEventDescription env)
                          attendeeEmails (env_calendarMeet env))) (\<lambda>event.
               ret (Some event)))))"

text \<open>Errors while removing the old event are logged only.\<close>

definition cancelCalendarEvent :: "recruit_env \<Rightarrow> uuid \<Rightarrow> (recruit_world, unit) action" where
  "cancelCalendarEvent env applicantId =
     tryCatch
       (andThen (gets (\<lambda>w. findOneBy (\<lambda>s. sl_applicantId s = Some applicantId) (slotsOf w))) (\<lambda>slot.
        case Option.bind slot sl_googleCalendarEventId of
          Some (c # e) \<Rightarrow> onCalendar (calendar_remove (env_calendar env) (c # e))
        | _ \<Rightarrow> ret ()))
       (\<lambda>_. ret ())"

section \<open>Booking\<close>

definition heldOpen :: "uuid \<Rightarrow> recruit_interview_slot \<Rightarrow> bool" where
  "heldOpen applicantId s \<longleftrightarrow> sl_applicantId s = Some applicantId \<and> isNull (sl_interviewAt s)"

definition releaseSlot :: "unit \<Rightarrow> recruit_interview_slot \<Rightarrow> recruit_interview_slot" where
  "releaseSlot _ s = s\<lparr>sl_applicantId := None, sl_googleCalendarEventId := None, sl_conferenceUri := None\<rparr>"

definition cancelSlot :: "recruit_env \<Rightarrow> uuid \<Rightarrow> (recruit_world, bool) action" where
  "cancelSlot env applicantId =
     andThen (cancelCalendarEvent env applicantId) (\<lambda>_.
     andThen (gets (\<lambda>w. affected (heldOpen applicantId) (slotsOf w))) (\<lambda>n.
     andThen (modify (onSlots (updateBy (heldOpen applicantId) (releaseSlot ())))) (\<lambda>_.
     ret (n \<noteq> 0))))"

definition leadTimePrecheck :: "recruit_env \<Rightarrow> date \<Rightarrow> unit outcome" where
  "leadTimePrecheck env slotStartTime =
     (if \<not> isValidLeadTime env slotStartTime then Inl (Conflict []) else Inr ())"

definition applicantBookingPrecheck :: "bool \<Rightarrow> nat \<Rightarrow> unit outcome" where
  "applicantBookingPrecheck isFormCompleted numberOfApplyRoles =
     (if numberOfApplyRoles = 0 then Inl (Unprocessable ''No selected roles'')
      else if \<not> isFormCompleted then Inl (Unprocessable ''Forms are not completed'')
      else Inr ())"

datatype date_ref = Given date | StartOf uuid time | EndOf uuid time

primrec refDate :: "date_ref \<Rightarrow> date" where
  "refDate (Given d) = d"
| "refDate (StartOf i t) = Some t"
| "refDate (EndOf i t) = Some t"

definition startRef :: "recruit_interview_slot \<Rightarrow> date_ref" where
  "startRef s = StartOf (sl_id s) (sl_startWhen s)"

definition endRef :: "recruit_interview_slot \<Rightarrow> date_ref" where
  "endRef s = EndOf (sl_id s) (sl_endWhen s)"

text \<open>\<open>a === b\<close> where \<open>a\<close> was read from a slot: a date the caller made is another object.\<close>

definition sameObject :: "date_ref \<Rightarrow> date_ref \<Rightarrow> bool" where
  "sameObject a b =
     (case (a, b) of
        (StartOf i _, StartOf j _) \<Rightarrow> i = j
      | (EndOf i _, EndOf j _) \<Rightarrow> i = j
      | _ \<Rightarrow> False)"

definition isRebookSameSlot :: "recruit_interview_slot list \<Rightarrow> uuid list \<Rightarrow> date_ref \<Rightarrow> date_ref \<Rightarrow> bool" where
  "isRebookSameSlot ss roleIds startWhen endWhen =
     (case ss of
        [] \<Rightarrow> False
      | s # _ \<Rightarrow>
          sameObject (startRef s) startWhen \<and> sameObject (endRef s) endWhen \<and> roleIds \<noteq> [] \<and>
          length ss = length roleIds \<and>
          list_all (\<lambda>el. case sl_roleId el of None \<Rightarrow> False | Some r \<Rightarrow> r \<in> set roleIds) ss)"

definition assignSlot :: "uuid \<Rightarrow> recruit_interview_slot \<Rightarrow> recruit_interview_slot" where
  "assignSlot applicantId s = s\<lparr>sl_applicantId := Some applicantId\<rparr>"

definition bookable :: "uuid list \<Rightarrow> time \<Rightarrow> time \<Rightarrow> recruit_interview_slot \<Rightarrow> bool" where
  "bookable roleIds startWhen endWhen s \<longleftrightarrow>
     (case sl_roleId s of None \<Rightarrow> False | Some r \<Rightarrow> r \<in> set roleIds) \<and>
     sl_startWhen s = startWhen \<and> sl_endWhen s = endWhen \<and> isNull (sl_applicantId s)"

text \<open>The update of the transaction, with the count of the rows it changed; an invalid date is an error.\<close>

definition takeSlots :: "uuid \<Rightarrow> uuid list \<Rightarrow> date \<Rightarrow> date \<Rightarrow> (recruit_world, nat) action" where
  "takeSlots applicantId roleIds startWhen endWhen =
     (case (startWhen, endWhen) of
        (Some st, Some en) \<Rightarrow>
          andThen (gets (\<lambda>w. affected (bookable roleIds st en) (slotsOf w))) (\<lambda>n.
          andThen (modify (onSlots (updateBy (bookable roleIds st en) (assignSlot applicantId)))) (\<lambda>_. ret n))
      | _ \<Rightarrow> throw (JsError ''QueryFailedError''))"

definition bookTransaction ::
    "recruit_env \<Rightarrow> uuid \<Rightarrow> uuid list \<Rightarrow> date \<Rightarrow> date \<Rightarrow> (recruit_world, calendar_event option) action" where
  "bookTransaction env applicantId roleIds startWhen endWhen =
     transaction (env_commit env) undoTables
       (andThen (cancelSlot env applicantId) (\<lambda>_.
        andThen (takeSlots applicantId roleIds startWhen endWhen) (\<lambda>n.
        andThen (throwIf (length roleIds \<noteq> n) (Conflict [])) (\<lambda>_.
        createCalendarEvent env applicantId startWhen endWhen roleIds))))"

definition eventUri :: "calendar_event \<Rightarrow> string option" where
  "eventUri ev = (case ev_entryPoints ev of Some (u # _) \<Rightarrow> u | _ \<Rightarrow> None)"

definition setEvent :: "calendar_event \<Rightarrow> recruit_interview_slot \<Rightarrow> recruit_interview_slot" where
  "setEvent ev s = s\<lparr>sl_googleCalendarEventId := ev_id ev, sl_conferenceUri := eventUri ev\<rparr>"

definition saveEvent :: "recruit_env \<Rightarrow> uuid \<Rightarrow> calendar_event option \<Rightarrow> (recruit_world, unit) action" where
  "saveEvent env applicantId event =
     (case event of
        None \<Rightarrow> ret ()
      | Some ev \<Rightarrow>
          if truthyId (ev_id ev) then
            tryCatch
              (andThen (gets (env_eventWrite env)) (\<lambda>answer.
               case answer of
                 Some e \<Rightarrow> throw e
               | None \<Rightarrow> modify (onSlots (updateBy (\<lambda>s. sl_applicantId s = Some applicantId) (setEvent ev)))))
              (\<lambda>_. ret ())
          else ret ())"

definition bookSlot ::
    "recruit_env \<Rightarrow> uuid \<Rightarrow> uuid \<Rightarrow> date option \<Rightarrow> date option \<Rightarrow> (recruit_world, unit) action" where
  "bookSlot env recruitId applicantId startArg endArg =
     andThen (gets (\<lambda>w. getSelectedSlots applicantId (tables w))) (\<lambda>selectedSlots.
     andThen (gets (\<lambda>w. isApplicantFormCompleted applicantId recruitId (tables w))) (\<lambda>isFormCompleted.
     andThen (gets (\<lambda>w. getMandatoryInterviewRoleIds recruitId (tables w))) (\<lambda>mandatoryRoleIds.
     andThen (gets (\<lambda>w. getSelectedRoleIds applicantId (tables w))) (\<lambda>selectedRoleIds.
     let roleIds = mandatoryRoleIds @ selectedRoleIds;
         first = (case selectedSlots of [] \<Rightarrow> None | s # _ \<Rightarrow> Some s);
         startWhen = (case startArg of Some d \<Rightarrow> Some (Given d) | None \<Rightarrow> map_option startRef first);
         endWhen = (case endArg of Some d \<Rightarrow> Some (Given d) | None \<Rightarrow> map_option endRef first)
     in case (startWhen, endWhen) of
          (Some st, Some en) \<Rightarrow>
            andThen (lift (applicantBookingPrecheck isFormCompleted (length selectedRoleIds))) (\<lambda>_.
            if isRebookSameSlot selectedSlots roleIds st en then ret ()
            else
              andThen (lift (leadTimePrecheck env (refDate st))) (\<lambda>_.
              andThen (bookTransaction env applicantId roleIds (refDate st) (refDate en)) (\<lambda>event.
              saveEvent env applicantId event)))
        | _ \<Rightarrow> throw (InternalServerError ''Missing slot's start/end time'')))))"

definition rebookSlot :: "recruit_env \<Rightarrow> uuid \<Rightarrow> uuid \<Rightarrow> (recruit_world, unit) action" where
  "rebookSlot env recruitId applicantId =
     tryCatch (bookSlot env recruitId applicantId None None)
       (\<lambda>_. andThen (cancelSlot env applicantId) (\<lambda>_. ret ()))"

section \<open>Managing slots\<close>

definition addSlot :: "(nat \<Rightarrow> uuid) \<Rightarrow> time \<Rightarrow> time \<Rightarrow> uuid list \<Rightarrow> (recruit_world, unit) action" where
  "addSlot newIds startWhen endWhen roleIds =
     modify (onSlots (\<lambda>t. foldl (\<lambda>t s. saveRow sl_id s t) t
       (map (\<lambda>i. \<lparr>sl_id = newIds i, sl_oid = None, sl_startWhen = startWhen, sl_endWhen = endWhen,
                  sl_interviewAt = None, sl_roleId = Some (roleIds ! i), sl_applicantId = None,
                  sl_googleCalendarEventId = None, sl_conferenceUri = None\<rparr>) [0..<length roleIds])))"

definition removeSlot :: "date \<Rightarrow> date \<Rightarrow> uuid list \<Rightarrow> (recruit_world, unit) action" where
  "removeSlot startWhen endWhen roleIds =
     (case (startWhen, endWhen) of
        (Some st, Some en) \<Rightarrow>
          andThen (gets (\<lambda>w. findBy (\<lambda>s. sl_startWhen s = st \<and> sl_endWhen s = en \<and>
              (case sl_roleId s of None \<Rightarrow> False | Some r \<Rightarrow> r \<in> set roleIds)) (slotsOf w))) (\<lambda>ss.
          andThen (throwIf (list_ex (\<lambda>s. truthyId (sl_applicantId s)) ss)
            (Conflict ''Cannot remove slot: one or more slots are already booked'')) (\<lambda>_.
          modify (onSlots (deleteBy (\<lambda>s. sl_id s \<in> set (map sl_id ss))))))
      | _ \<Rightarrow> throw (JsError ''QueryFailedError''))"

definition setInterviewAt :: "time option \<Rightarrow> recruit_interview_slot \<Rightarrow> recruit_interview_slot" where
  "setInterviewAt at s = s\<lparr>sl_interviewAt := at\<rparr>"

definition markApplicantSlotsAsInterviewed :: "recruit_env \<Rightarrow> uuid \<Rightarrow> (recruit_world, nat) action" where
  "markApplicantSlotsAsInterviewed env applicantId =
     andThen (gets (\<lambda>w. findBy (\<lambda>s. sl_applicantId s = Some applicantId \<and> \<not> isNull (sl_interviewAt s)) (slotsOf w))) (\<lambda>existing.
     andThen (throwIf (length existing > 0) (Conflict ''Applicant interview slots are already marked as interviewed'')) (\<lambda>_.
     andThen (gets (\<lambda>w. affected (\<lambda>s. sl_applicantId s = Some applicantId) (slotsOf w))) (\<lambda>n.
     andThen (modify (onSlots (updateBy (\<lambda>s. sl_applicantId s = Some applicantId)
                (setInterviewAt (Some (env_now env)))))) (\<lambda>_. ret n))))"

definition unmarkApplicantSlotsAsInterviewed :: "uuid \<Rightarrow> (recruit_world, nat) action" where
  "unmarkApplicantSlotsAsInterviewed applicantId =
     andThen (gets (\<lambda>w. findBy (heldOpen applicantId) (slotsOf w))) (\<lambda>existing.
     andThen (throwIf (length existing > 0) (Conflict ''Applicant interview slots are already unmarked as interviewed'')) (\<lambda>_.
     andThen (gets (\<lambda>w. affected (\<lambda>s. sl_applicantId s = Some applicantId) (slotsOf w))) (\<lambda>n.
     andThen (modify (onSlots (updateBy (\<lambda>s. sl_applicantId s = Some applicantId) (setInterviewAt None)))) (\<lambda>_.
     ret n))))"

section \<open>Running the operations\<close>

lemma onSlots_simps [simp]:
  "slotsOf (onSlots f w) = f (slotsOf w)"
  "tables (onSlots f w) = (tables w)\<lparr>slots := f (slotsOf w)\<rparr>"
  "calendarCalls (onSlots f w) = calendarCalls w"
  "slotsOf (w\<lparr>calendarCalls := cs\<rparr>) = slotsOf w"
  by (simp_all add: onSlots_def slotsOf_def)

lemma onCalendar_tables: "onCalendar m w = (r, w') \<Longrightarrow> tables w' = tables w"
  by (auto simp: onCalendar_def split: prod.splits)

lemma undoTables_tables [simp]: "tables (undoTables old new) = tables old"
  by (simp add: undoTables_def)

interpretation slotRelease: keeps_key "\<lambda>s. (sl_id s, sl_startWhen s, sl_endWhen s, sl_roleId s, sl_interviewAt s)" releaseSlot
  by unfold_locales (simp add: releaseSlot_def)

interpretation slotAssign: keeps_key "\<lambda>s. (sl_id s, sl_startWhen s, sl_endWhen s, sl_roleId s, sl_interviewAt s)" assignSlot
  by unfold_locales (simp add: assignSlot_def)

interpretation slotEvent: keeps_key
  "\<lambda>s. (sl_id s, sl_startWhen s, sl_endWhen s, sl_roleId s, sl_interviewAt s, sl_applicantId s)" setEvent
  by unfold_locales (simp add: setEvent_def)

interpretation slotMark: keeps_key
  "\<lambda>s. (sl_id s, sl_startWhen s, sl_endWhen s, sl_roleId s, sl_applicantId s)" setInterviewAt
  by unfold_locales (simp add: setInterviewAt_def)

definition released :: "uuid \<Rightarrow> recruit_interview_slot list \<Rightarrow> recruit_interview_slot list" where
  "released a t = updateBy (heldOpen a) (releaseSlot ()) t"

definition booked ::
    "uuid \<Rightarrow> uuid list \<Rightarrow> time \<Rightarrow> time \<Rightarrow> recruit_interview_slot list \<Rightarrow> recruit_interview_slot list" where
  "booked a roleIds st en t = updateBy (bookable roleIds st en) (assignSlot a) (released a t)"

text \<open>The slots as the update with the calendar event may leave them.\<close>

definition eventSaved :: "uuid \<Rightarrow> recruit_interview_slot list \<Rightarrow> recruit_interview_slot list \<Rightarrow> bool" where
  "eventSaved a t t' \<longleftrightarrow> t' = t \<or> (\<exists>ev. t' = updateBy (\<lambda>s. sl_applicantId s = Some a) (setEvent ev) t)"

lemma cancelCalendarEvent_run:
  "\<exists>cs. cancelCalendarEvent env a w = (Inr (), w\<lparr>calendarCalls := cs\<rparr>)"
proof -
  have "\<exists>cs. (case onCalendar m w of (Inl e, s') \<Rightarrow> ret () s' | (Inr x, s') \<Rightarrow> (Inr x, s')) =
      (Inr (), w\<lparr>calendarCalls := cs\<rparr>)" for m :: "(calendar_call list, unit) action"
    by (auto simp: onCalendar_def action_simps split: prod.splits sum.splits)
  moreover have "\<exists>cs. (Inr (), w) = (Inr (), w\<lparr>calendarCalls := cs\<rparr>)"
    by (rule exI [of _ "calendarCalls w"]) simp
  ultimately show ?thesis
    by (auto simp: cancelCalendarEvent_def tryCatch_def action_simps split: option.splits list.splits)
qed

lemma cancelSlot_run:
  "\<exists>cs. cancelSlot env a w =
     (Inr (affected (heldOpen a) (slotsOf w) \<noteq> 0), onSlots (released a) (w\<lparr>calendarCalls := cs\<rparr>))"
proof -
  obtain cs where "cancelCalendarEvent env a w = (Inr (), w\<lparr>calendarCalls := cs\<rparr>)"
    using cancelCalendarEvent_run by blast
  then show ?thesis
    by (intro exI [of _ cs]) (simp add: cancelSlot_def andThen_ret action_simps released_def [abs_def])
qed

lemma createCalendarEvent_tables:
  assumes "createCalendarEvent env a st en roleIds w = (r, w')"
  shows "tables w' = tables w"
  using assms
  by (auto simp: createCalendarEvent_def action_simps andThen_def Let_def
      split: if_splits list.splits sum.splits prod.splits dest: onCalendar_tables)

lemma bookTransaction_cases:
  assumes "bookTransaction env a roleIds st en w = (res, w')"
  obtains (failed) e where "res = Inl e" "tables w' = tables w"
    | (ok) ev s e where "res = Inr ev" "st = Some s" "en = Some e"
        "affected (bookable roleIds s e) (released a (slotsOf w)) = length roleIds"
        "tables w' = (tables w)\<lparr>slots := booked a roleIds s e (slotsOf w)\<rparr>"
proof (cases res)
  case (Inl e)
  with assms have "tables w' = tables w"
    by (auto simp: bookTransaction_def dest!: transaction_Inl_undone)
  with Inl show ?thesis by (rule failed)
next
  case (Inr ev)
  obtain cs where c: "cancelSlot env a w =
      (Inr (affected (heldOpen a) (slotsOf w) \<noteq> 0), onSlots (released a) (w\<lparr>calendarCalls := cs\<rparr>))"
    using cancelSlot_run by blast
  let ?w = "onSlots (released a) (w\<lparr>calendarCalls := cs\<rparr>)"
  from assms Inr have body: "andThen (takeSlots a roleIds st en) (\<lambda>n.
        andThen (throwIf (length roleIds \<noteq> n) (Conflict [])) (\<lambda>_.
        createCalendarEvent env a st en roleIds)) ?w = (Inr ev, w')"
    by (simp add: bookTransaction_def transaction_Inr andThen_ret [where m = "cancelSlot env a", OF c])
  then obtain s e where se: "st = Some s" "en = Some e"
    by (auto simp: takeSlots_def andThen_def action_simps split: option.splits)
  let ?v = "onSlots (updateBy (bookable roleIds s e) (assignSlot a)) ?w"
  have "takeSlots a roleIds st en ?w = (Inr (affected (bookable roleIds s e) (slotsOf ?w)), ?v)"
    by (simp add: takeSlots_def se action_simps)
  with body have n: "affected (bookable roleIds s e) (released a (slotsOf w)) = length roleIds"
    and ev: "createCalendarEvent env a st en roleIds ?v = (Inr ev, w')"
    by (auto simp: andThen_ret action_simps split: if_splits)
  have "tables w' = tables ?v" using createCalendarEvent_tables [OF ev] .
  then have "tables w' = (tables w)\<lparr>slots := booked a roleIds s e (slotsOf w)\<rparr>"
    by (simp add: booked_def)
  with Inr se n show ?thesis by (rule ok)
qed

lemma saveEvent_run:
  assumes "saveEvent env a ev w = (res, w')"
  shows "res = Inr ()" and "\<exists>t'. eventSaved a (slotsOf w) t' \<and> tables w' = (tables w)\<lparr>slots := t'\<rparr>"
proof -
  have k: "\<exists>t'. eventSaved a (slotsOf w) t' \<and> tables w = (tables w)\<lparr>slots := t'\<rparr>"
    by (rule exI [of _ "slotsOf w"]) (simp add: eventSaved_def slotsOf_def)
  have u: "\<exists>t'. eventSaved a (slotsOf w) t' \<and>
      (tables w)\<lparr>slots := updateBy (\<lambda>s. sl_applicantId s = Some a) (setEvent x) (slotsOf w)\<rparr> = (tables w)\<lparr>slots := t'\<rparr>" for x
    by (auto simp: eventSaved_def)
  from assms show "res = Inr ()" "\<exists>t'. eventSaved a (slotsOf w) t' \<and> tables w' = (tables w)\<lparr>slots := t'\<rparr>"
    using k u by (auto simp: saveEvent_def tryCatch_def action_simps split: option.splits if_splits)
qed

definition roleIdsFor :: "uuid \<Rightarrow> uuid \<Rightarrow> recruit_db \<Rightarrow> uuid list" where
  "roleIdsFor recruitId a db = getMandatoryInterviewRoleIds recruitId db @ getSelectedRoleIds a db"

text \<open>The window a booking asks for: the arguments, or the window of the first slot held.\<close>

definition wanted :: "(recruit_interview_slot \<Rightarrow> time) \<Rightarrow> uuid \<Rightarrow> date option \<Rightarrow> recruit_db \<Rightarrow> date option" where
  "wanted f a arg db =
     (case arg of Some d \<Rightarrow> Some d
      | None \<Rightarrow> (case getSelectedSlots a db of [] \<Rightarrow> None | s # _ \<Rightarrow> Some (Some (f s))))"

text \<open>What a booking with a window does once its prechecks are passed.\<close>

lemma bookRun_cases:
  assumes "(if isRebookSameSlot (getSelectedSlots a (tables w)) R st en then ret ()
         else andThen (lift (leadTimePrecheck env (refDate st))) (\<lambda>_.
              andThen (bookTransaction env a R (refDate st) (refDate en)) (saveEvent env a))) w = (res, w')"
  obtains (failed) e where "res = Inl e" "tables w' = tables w"
    | (same) s where "res = Inr ()" "w' = w" "sameObject (startRef s) st" "sameObject (endRef s) en"
    | (ok) s e t' where "res = Inr ()" "refDate st = Some s" "refDate en = Some e"
        "env_hoursDiff env s (env_now env) \<ge> env_minimumLeadTimeHours env"
        "affected (bookable R s e) (released a (slotsOf w)) = length R"
        "eventSaved a (booked a R s e (slotsOf w)) t'" "tables w' = (tables w)\<lparr>slots := t'\<rparr>"
proof (cases "isRebookSameSlot (getSelectedSlots a (tables w)) R st en")
  case True
  then obtain s where "sameObject (startRef s) st" "sameObject (endRef s) en"
    by (auto simp: isRebookSameSlot_def split: list.splits)
  then show ?thesis using same assms True by (simp add: action_simps)
next
  case moved: False
  show ?thesis
  proof (cases "leadTimePrecheck env (refDate st)")
    case (Inl e)
    with assms moved have "res = Inl e" "tables w' = tables w" by (simp_all add: action_simps)
    then show ?thesis by (rule failed)
  next
    case lead: (Inr u)
    obtain bres v where b: "bookTransaction env a R (refDate st) (refDate en) w = (bres, v)" by fastforce
    from b show ?thesis
    proof (cases rule: bookTransaction_cases)
      case (failed e)
      with assms moved lead b have "res = Inl e" "tables w' = tables w" by (simp_all add: action_simps andThen_def)
      then show ?thesis by (rule that(1))
    next
      case (ok ev s e)
      then have sv: "saveEvent env a ev v = (res, w')"
        using assms moved lead b by (simp add: action_simps andThen_def)
      have v: "slotsOf v = booked a R s e (slotsOf w)" "tables v = (tables w)\<lparr>slots := slotsOf v\<rparr>"
        using ok(5) by (simp_all add: slotsOf_def)
      obtain t' where "eventSaved a (slotsOf v) t'" "tables w' = (tables w)\<lparr>slots := t'\<rparr>"
        using saveEvent_run(2) [OF sv] v(2) by auto
      moreover have "env_hoursDiff env s (env_now env) \<ge> env_minimumLeadTimeHours env"
        using lead ok(2) by (auto simp: leadTimePrecheck_def isValidLeadTime_def split: if_splits)
      ultimately show ?thesis using that(3) [of s e t'] saveEvent_run(1) [OF sv] ok v(1) by simp
    qed
  qed
qed

lemma bookSlot_cases:
  assumes "bookSlot env recruitId a startArg endArg w = (res, w')"
  obtains (failed) e where "res = Inl e" "tables w' = tables w"
    | (same) "res = Inr ()" "w' = w" "startArg = None" "endArg = None"
    | (ok) st en t' where "res = Inr ()" "wanted sl_startWhen a startArg (tables w) = Some (Some st)"
        "wanted sl_endWhen a endArg (tables w) = Some (Some en)"
        "isApplicantFormCompleted a recruitId (tables w)" "getSelectedRoleIds a (tables w) \<noteq> []"
        "env_hoursDiff env st (env_now env) \<ge> env_minimumLeadTimeHours env"
        "affected (bookable (roleIdsFor recruitId a (tables w)) st en) (released a (slotsOf w)) =
           length (roleIdsFor recruitId a (tables w))"
        "eventSaved a (booked a (roleIdsFor recruitId a (tables w)) st en (slotsOf w)) t'"
        "tables w' = (tables w)\<lparr>slots := t'\<rparr>"
proof -
  let ?sel = "getSelectedSlots a (tables w)" and ?R = "roleIdsFor recruitId a (tables w)"
  let ?first = "case ?sel of [] \<Rightarrow> None | s # _ \<Rightarrow> Some s"
  let ?st = "case startArg of Some d \<Rightarrow> Some (Given d) | None \<Rightarrow> map_option startRef ?first"
  let ?en = "case endArg of Some d \<Rightarrow> Some (Given d) | None \<Rightarrow> map_option endRef ?first"
  have wants: "wanted sl_startWhen a startArg (tables w) = map_option refDate ?st"
    "wanted sl_endWhen a endArg (tables w) = map_option refDate ?en"
    by (auto simp: wanted_def startRef_def endRef_def split: option.splits list.splits)
  note run = assms [unfolded bookSlot_def andThen_gets Let_def, folded roleIdsFor_def]
  consider (missing) "?st = None \<or> ?en = None" | (both) st en where "?st = Some st" "?en = Some en" by (metis option.exhaust)
  then show ?thesis
  proof cases
    case missing
    then have "(res, w') = (Inl (InternalServerError ''Missing slot's start/end time''), w)"
      using run by (auto simp: action_simps split: option.splits)
    then show ?thesis using failed by simp
  next
    case (both st en)
    let ?pre = "applicantBookingPrecheck (isApplicantFormCompleted a recruitId (tables w))
        (length (getSelectedRoleIds a (tables w)))"
    have r: "(case ?pre of Inl e \<Rightarrow> (Inl e, w) | Inr _ \<Rightarrow>
        (if isRebookSameSlot ?sel ?R st en then ret ()
         else andThen (lift (leadTimePrecheck env (refDate st))) (\<lambda>_.
              andThen (bookTransaction env a ?R (refDate st) (refDate en)) (saveEvent env a))) w) = (res, w')"
      using run unfolding both by (simp add: action_simps)
    show ?thesis
    proof (cases ?pre)
      case (Inl e)
      with r have "res = Inl e" "tables w' = tables w" by simp_all
      then show ?thesis by (rule failed)
    next
      case (Inr u)
      then have pre: "isApplicantFormCompleted a recruitId (tables w)" "getSelectedRoleIds a (tables w) \<noteq> []"
        by (auto simp: applicantBookingPrecheck_def split: if_splits)
      from r [unfolded Inr sum.case] show ?thesis
      proof (cases rule: bookRun_cases)
        case (failed e)
        then show ?thesis by (rule that(1))
      next
        case (same s)
        have "startArg = None" "endArg = None"
          using same(3,4) both by (auto simp: sameObject_def startRef_def endRef_def split: option.splits)
        then show ?thesis using that(2) same(1,2) by blast
      next
        case (ok s e t')
        then show ?thesis using that(3) [of s e t'] wants both pre by simp
      qed
    qed
  qed
qed

end
