(* ===== verification/Recruit_Booking.thy ===== *)
theory Recruit_Booking
  imports Recruit_Interview
begin

text \<open>
  What the booking of interview slots guarantees: the slots of other applicants are never touched and a
  failed booking changes no table; a successful one leaves the applicant with one slot per required
  role in the chosen window and nothing else; a rebooking never fails; and in every state the operations
  reach, the slots an applicant holds before (or after) the interview share one window. It ends with
  what does go wrong: a failed booking has already removed the old calendar event.
\<close>

section \<open>What the updates do to the slots\<close>

definition slotsWf :: "recruit_interview_slot list \<Rightarrow> bool" where
  "slotsWf t \<longleftrightarrow> (\<forall>s \<in> set t. sl_applicantId s = None \<longrightarrow> sl_interviewAt s = None)"

lemma released_frame:
  "b \<noteq> a \<Longrightarrow> filter (\<lambda>s. sl_applicantId s = Some b) (released a t) = filter (\<lambda>s. sl_applicantId s = Some b) t"
  unfolding released_def by (rule filter_updateBy_frame) (auto simp: heldOpen_def releaseSlot_def)

lemma booked_frame:
  "b \<noteq> a \<Longrightarrow> filter (\<lambda>s. sl_applicantId s = Some b) (booked a R st en t) = filter (\<lambda>s. sl_applicantId s = Some b) t"
  unfolding booked_def
  by (subst filter_updateBy_frame) (auto simp: bookable_def isNull_def assignSlot_def released_frame)

lemma eventSaved_frame:
  "eventSaved a t t' \<Longrightarrow> b \<noteq> a \<Longrightarrow>
     filter (\<lambda>s. sl_applicantId s = Some b) t' = filter (\<lambda>s. sl_applicantId s = Some b) t"
  unfolding eventSaved_def by (auto intro!: filter_updateBy_frame simp: setEvent_def)

lemma released_keys:
  "map (\<lambda>s. (sl_id s, sl_startWhen s, sl_endWhen s, sl_roleId s, sl_interviewAt s)) (released a t) =
   map (\<lambda>s. (sl_id s, sl_startWhen s, sl_endWhen s, sl_roleId s, sl_interviewAt s)) t"
  unfolding released_def by (rule slotRelease.map_key_updateBy)

lemma booked_keys:
  "map (\<lambda>s. (sl_id s, sl_startWhen s, sl_endWhen s, sl_roleId s, sl_interviewAt s)) (booked a R st en t) =
   map (\<lambda>s. (sl_id s, sl_startWhen s, sl_endWhen s, sl_roleId s, sl_interviewAt s)) t"
  unfolding booked_def by (simp only: slotAssign.map_key_updateBy released_keys)

lemma eventSaved_keys:
  assumes "eventSaved a t t'"
  shows "map (\<lambda>s. (sl_id s, sl_startWhen s, sl_endWhen s, sl_roleId s, sl_interviewAt s, sl_applicantId s)) t' =
    map (\<lambda>s. (sl_id s, sl_startWhen s, sl_endWhen s, sl_roleId s, sl_interviewAt s, sl_applicantId s)) t"
  using assms unfolding eventSaved_def by (auto simp only: slotEvent.map_key_updateBy)

lemma map_filter_cong_key:
  assumes "map k xs = map k ys" and "\<And>x. P x \<longleftrightarrow> Q (k x)" and "\<And>x. f x = g (k x)"
  shows "map f (filter P xs) = map f (filter P ys)"
proof -
  have "P = (\<lambda>x. Q (k x))" "f = (\<lambda>x. g (k x))" using assms(2,3) by auto
  then have "map f (filter P zs) = map g (filter Q (map k zs))" for zs
    by (simp add: filter_map comp_def)
  then show ?thesis using assms(1) by simp
qed

lemma released_no_open: "s \<in> set (released a t) \<Longrightarrow> \<not> heldOpen a s"
  by (auto simp: released_def set_updateBy heldOpen_def releaseSlot_def)

lemma released_wf: "slotsWf t \<Longrightarrow> slotsWf (released a t)"
  by (auto simp: slotsWf_def released_def set_updateBy heldOpen_def releaseSlot_def isNull_def)

lemma filter_map_update:
  assumes "\<And>s. s \<in> set t \<Longrightarrow> q (if p s then f s else s) \<longleftrightarrow> p s"
  shows "filter q (updateBy p f t) = map f (filter p t)"
  using assms by (induction t) (auto simp: updateBy_def)

lemma booked_open:
  assumes "slotsWf t"
  shows "filter (heldOpen a) (booked a R st en t) = map (assignSlot a) (filter (bookable R st en) (released a t))"
  unfolding booked_def
proof (rule filter_map_update)
  fix s
  assume s: "s \<in> set (released a t)"
  show "heldOpen a (if bookable R st en s then assignSlot a s else s) \<longleftrightarrow> bookable R st en s"
  proof (cases "bookable R st en s")
    case True
    then have "sl_interviewAt s = None"
      using released_wf [OF assms, of a] s by (auto simp: slotsWf_def bookable_def isNull_def)
    with True show ?thesis by (simp add: heldOpen_def assignSlot_def)
  next
    case False
    with released_no_open [OF s] show ?thesis by simp
  qed
qed

text \<open>The roles and windows of the slots an applicant holds and has not been interviewed in.\<close>

definition openSlots :: "uuid \<Rightarrow> recruit_interview_slot list \<Rightarrow> (uuid option \<times> time \<times> time) list" where
  "openSlots a t = map (\<lambda>s. (sl_roleId s, sl_startWhen s, sl_endWhen s)) (filter (heldOpen a) t)"

lemma openSlots_eventSaved: "eventSaved a t t' \<Longrightarrow> openSlots b t' = openSlots b t"
  unfolding openSlots_def
  by (rule map_filter_cong_key [OF eventSaved_keys,
        where Q = "\<lambda>(i, s, e, r, v, x). x = Some b \<and> isNull v" and g = "\<lambda>(i, s, e, r, v, x). (r, s, e)"])
     (simp_all add: heldOpen_def)

lemma openSlots_booked:
  assumes "slotsWf t"
  shows "openSlots a (booked a R st en t) =
    map (\<lambda>s. (sl_roleId s, st, en)) (filter (bookable R st en) (released a t))"
  unfolding openSlots_def booked_open [OF assms] map_map
  by (rule map_cong) (auto simp: assignSlot_def bookable_def)

text \<open>
  Where each role has at most one slot in the window, as many bookable slots as roles means one per role.
\<close>

definition windowRoles :: "time \<Rightarrow> time \<Rightarrow> recruit_interview_slot list \<Rightarrow> uuid option list" where
  "windowRoles st en t = map sl_roleId (filter (\<lambda>s. sl_startWhen s = st \<and> sl_endWhen s = en) t)"

lemma windowRoles_released: "windowRoles st en (released a t) = windowRoles st en t"
  unfolding windowRoles_def
  by (rule map_filter_cong_key [OF released_keys,
        where Q = "\<lambda>(i, s, e, r, v). s = st \<and> e = en" and g = "\<lambda>(i, s, e, r, v). r"]) simp_all

lemma bookable_covers:
  assumes "distinct R" and "distinct (windowRoles st en t)"
    and "affected (bookable R st en) (released a t) = length R"
  shows "set (map sl_roleId (filter (bookable R st en) (released a t))) = Some ` set R"
proof -
  let ?b = "filter (bookable R st en) (released a t)"
  have "?b = filter (bookable R st en) (filter (\<lambda>s. sl_startWhen s = st \<and> sl_endWhen s = en) (released a t))"
    unfolding filter_filter by (rule filter_cong) (auto simp: bookable_def)
  moreover have "distinct (windowRoles st en (released a t))" using assms(2) by (simp only: windowRoles_released)
  ultimately have "distinct (map sl_roleId ?b)" unfolding windowRoles_def by (simp only: distinct_map_filter)
  then have "card (set (map sl_roleId ?b)) = length R"
    using assms(3) by (metis affected_def distinct_card length_map)
  moreover have "card (Some ` set R) = length R"
    using assms(1) by (simp add: card_image distinct_card)
  moreover have "set (map sl_roleId ?b) \<subseteq> Some ` set R"
    by (auto simp: bookable_def split: option.splits)
  ultimately show ?thesis by (intro card_subset_eq) simp_all
qed

section \<open>Booking\<close>

text \<open>
  Claim C3: whatever a booking answers, it changes no table but the slots, leaves every slot of every
  other applicant as it was, and changes neither id, window, role nor interview mark of any slot; and
  when it answers with an error, no table has changed at all.
\<close>

theorem bookSlot_frame:
  assumes "bookSlot env recruitId a startArg endArg w = (res, w')"
  shows "tables w' = (tables w)\<lparr>slots := slotsOf w'\<rparr> \<and>
    (\<forall>b. b \<noteq> a \<longrightarrow> getSelectedSlots b (tables w') = getSelectedSlots b (tables w)) \<and>
    map (\<lambda>s. (sl_id s, sl_startWhen s, sl_endWhen s, sl_roleId s, sl_interviewAt s)) (slotsOf w') =
      map (\<lambda>s. (sl_id s, sl_startWhen s, sl_endWhen s, sl_roleId s, sl_interviewAt s)) (slotsOf w) \<and>
    (\<forall>e. res = Inl e \<longrightarrow> tables w' = tables w)"
  using assms
proof (cases rule: bookSlot_cases)
  case (failed e)
  then show ?thesis by (simp add: slotsOf_def)
next
  case same
  then show ?thesis by (simp add: slotsOf_def)
next
  case (ok st en t')
  have w': "slotsOf w' = t'" using ok(9) by (simp add: slotsOf_def)
  have "map (\<lambda>s. (sl_id s, sl_startWhen s, sl_endWhen s, sl_roleId s, sl_interviewAt s)) t' =
      map (\<lambda>s. (sl_id s, sl_startWhen s, sl_endWhen s, sl_roleId s, sl_interviewAt s)) (slotsOf w)"
    using arg_cong [OF eventSaved_keys [OF ok(8)], of "map (\<lambda>(i, s, e, r, v, x). (i, s, e, r, v))"] booked_keys
    by (simp add: comp_def)
  moreover have "filter (\<lambda>s. sl_applicantId s = Some b) t' = filter (\<lambda>s. sl_applicantId s = Some b) (slotsOf w)"
    if "b \<noteq> a" for b
    using eventSaved_frame [OF ok(8) that] booked_frame [OF that] by simp
  ultimately show ?thesis
    using ok(1,9) w' by (simp add: getSelectedSlots_def findBy_def slotsOf_def)
qed

text \<open>
  Claim C2: a booking of a given window succeeds only for an applicant with selected roles and completed
  forms and with the minimum lead time; afterwards the slots the applicant holds and has not been
  interviewed in all lie in that window and belong to required roles, as many as there are such roles;
  and where no role has two slots in the window, there is exactly one for each mandatory and each
  selected role.
\<close>

theorem bookSlot_success:
  assumes "bookSlot env recruitId a (Some (Some st)) (Some (Some en)) w = (Inr (), w')"
    and "slotsWf (slotsOf w)"
  shows "getSelectedRoleIds a (tables w) \<noteq> [] \<and> isApplicantFormCompleted a recruitId (tables w) \<and>
    env_minimumLeadTimeHours env \<le> env_hoursDiff env st (env_now env) \<and>
    length (openSlots a (slotsOf w')) = length (roleIdsFor recruitId a (tables w)) \<and>
    (\<forall>(r, s, e) \<in> set (openSlots a (slotsOf w')).
       s = st \<and> e = en \<and> r \<in> Some ` set (roleIdsFor recruitId a (tables w))) \<and>
    (distinct (roleIdsFor recruitId a (tables w)) \<longrightarrow> distinct (windowRoles st en (slotsOf w)) \<longrightarrow>
       fst ` set (openSlots a (slotsOf w')) = Some ` set (roleIdsFor recruitId a (tables w)))"
  using assms(1)
proof (cases rule: bookSlot_cases)
  case (ok s e t')
  then have se: "s = st" "e = en" by (simp_all add: wanted_def)
  let ?R = "roleIdsFor recruitId a (tables w)"
  have o: "openSlots a (slotsOf w') =
      map (\<lambda>s. (sl_roleId s, st, en)) (filter (bookable ?R st en) (released a (slotsOf w)))"
    using openSlots_eventSaved [OF ok(8)] openSlots_booked [OF assms(2)] ok(9) se by (simp add: slotsOf_def)
  have "length (openSlots a (slotsOf w')) = length ?R"
    using ok(7) by (simp add: o se affected_def)
  moreover have "\<forall>(r, s, e) \<in> set (openSlots a (slotsOf w')). s = st \<and> e = en \<and> r \<in> Some ` set ?R"
    by (auto simp: o bookable_def split: option.splits)
  moreover have "fst ` set (openSlots a (slotsOf w')) =
      set (map sl_roleId (filter (bookable ?R st en) (released a (slotsOf w))))"
    by (force simp: o)
  ultimately show ?thesis using ok bookable_covers [of ?R st en "slotsOf w" a] se by simp
qed simp_all

text \<open>A world with one applicant, one mandatory and one selected role, and a free slot for each.\<close>

definition slotRow :: "uuid \<Rightarrow> uuid \<Rightarrow> uuid option \<Rightarrow> string option \<Rightarrow> recruit_interview_slot" where
  "slotRow i r a e = \<lparr>sl_id = i, sl_oid = None, sl_startWhen = 100, sl_endWhen = 200, sl_interviewAt = None,
     sl_roleId = Some r, sl_applicantId = a, sl_googleCalendarEventId = e, sl_conferenceUri = None\<rparr>"

definition bookDb :: recruit_db where
  "bookDb = emptyRecruitDb
     \<lparr>roles := [\<lparr>rr_id = ''m'', rr_oid = None, rr_name = ''hr'', rr_description = [], rr_icon = None,
          rr_rank = 0, rr_mandatory = True, rr_recruitId = ''s'', rr_collectionId = None\<rparr>],
      applicants := [\<lparr>ra_id = ''a'', ra_oid = None, ra_profileId = ''p'', ra_recruitId = ''s''\<rparr>],
      applicantRoles := [\<lparr>ar_id = ''x'', ar_rank = 0, ar_applicantId = ''a'', ar_roleId = ''r'',
          ar_offerResponseAt = None, ar_offerAccepted = False, ar_offerExpireAt = None\<rparr>],
      slots := [slotRow ''1'' ''m'' None None, slotRow ''2'' ''r'' None None, slotRow ''3'' ''q'' (Some ''b'') None]\<rparr>"

definition bookWorld :: recruit_world where
  "bookWorld = \<lparr>tables = bookDb, calendarCalls = []\<rparr>"

definition bookEnv :: recruit_env where
  "bookEnv = \<lparr>env_lib = standardLib, env_names = [], env_profiles = [], env_now = 0,
     env_hoursDiff = (\<lambda>a b. a - b), env_minimumLeadTimeHours = 24, env_calendarCreate = False,
     env_calendarMeet = False, env_calendarTitle = ''Interview'', env_calendarDescription = [],
     env_calendar = \<lparr>insertAnswer = (\<lambda>_. Inr \<lparr>ev_id = None, ev_entryPoints = None\<rparr>), deleteAnswer = (\<lambda>_. Inr ())\<rparr>,
     env_requestId = ''q'', env_commit = (\<lambda>_. None), env_eventWrite = (\<lambda>_. None)\<rparr>"

lemma bookWorld_runs:
  "fst (bookSlot bookEnv ''s'' ''a'' (Some (Some 100)) (Some (Some 200)) bookWorld) = Inr ()"
  by code_simp

lemma bookWorld_run:
  obtains w' where "bookSlot bookEnv ''s'' ''a'' (Some (Some 100)) (Some (Some 200)) bookWorld = (Inr (), w')"
  using bookWorld_runs by (metis prod.collapse)

lemma bookWorld_wf: "slotsWf (slotsOf bookWorld)"
  by (simp add: slotsWf_def slotsOf_def bookWorld_def bookDb_def slotRow_def)

theorem bookSlot_frame_witness:
  "\<exists>w'. bookSlot bookEnv ''s'' ''a'' (Some (Some 100)) (Some (Some 200)) bookWorld = (Inr (), w') \<and>
     getSelectedSlots ''b'' (tables w') = [slotRow ''3'' ''q'' (Some ''b'') None]"
proof -
  obtain w' where w: "bookSlot bookEnv ''s'' ''a'' (Some (Some 100)) (Some (Some 200)) bookWorld = (Inr (), w')"
    by (rule bookWorld_run)
  have "getSelectedSlots ''b'' (tables bookWorld) = [slotRow ''3'' ''q'' (Some ''b'') None]"
    by (simp add: getSelectedSlots_def findBy_def bookWorld_def bookDb_def slotRow_def)
  then show ?thesis using bookSlot_frame [OF w] w by auto
qed

theorem bookSlot_success_witness:
  "\<exists>w'. bookSlot bookEnv ''s'' ''a'' (Some (Some 100)) (Some (Some 200)) bookWorld = (Inr (), w') \<and>
     fst ` set (openSlots ''a'' (slotsOf w')) = {Some ''m'', Some ''r''} \<and> length (openSlots ''a'' (slotsOf w')) = 2"
proof -
  obtain w' where w: "bookSlot bookEnv ''s'' ''a'' (Some (Some 100)) (Some (Some 200)) bookWorld = (Inr (), w')"
    by (rule bookWorld_run)
  have r: "roleIdsFor ''s'' ''a'' (tables bookWorld) = [''m'', ''r'']" by code_simp
  have d: "distinct (windowRoles 100 200 (slotsOf bookWorld))" by code_simp
  show ?thesis using bookSlot_success [OF w bookWorld_wf] w d by (simp add: r)
qed

section \<open>Rebooking\<close>

lemma bookSlot_Inr_unit: "bookSlot env r a sa ea w = (Inr u, w') \<Longrightarrow> u = ()"
  by simp

text \<open>
  Claim C7: a rebooking, as it follows every change of answers or of selected roles, never fails: either
  the booking of the held window succeeds, or every slot the applicant has not been interviewed in is
  given back, and nothing else changes.
\<close>

theorem rebookSlot_total:
  "\<exists>w'. rebookSlot env recruitId a w = (Inr (), w') \<and>
     (bookSlot env recruitId a None None w = (Inr (), w') \<or>
      (\<exists>e v. bookSlot env recruitId a None None w = (Inl e, v)) \<and>
      tables w' = (tables w)\<lparr>slots := released a (slotsOf w)\<rparr> \<and> openSlots a (slotsOf w') = [])"
proof (cases "bookSlot env recruitId a None None w")
  case (Pair res v)
  show ?thesis
  proof (cases res)
    case (Inr u)
    with Pair show ?thesis by (auto simp: rebookSlot_def tryCatch_def)
  next
    case (Inl e)
    have v: "tables v = tables w" using bookSlot_frame [of env recruitId a None None w res v] Pair Inl by blast
    obtain cs where c: "cancelSlot env a v =
        (Inr (affected (heldOpen a) (slotsOf v) \<noteq> 0), onSlots (released a) (v\<lparr>calendarCalls := cs\<rparr>))"
      using cancelSlot_run by blast
    have "slotsOf v = slotsOf w" using v by (simp add: slotsOf_def)
    moreover have "filter (heldOpen a) (released a t) = []" for t
      using released_no_open by (auto simp: filter_empty_conv)
    ultimately show ?thesis using Pair Inl c v
      by (auto simp: rebookSlot_def tryCatch_def andThen_ret [where m = "cancelSlot env a", OF c] action_simps openSlots_def)
  qed
qed

theorem rebookSlot_total_witness:
  "fst (rebookSlot bookEnv ''s'' ''a'' bookWorld) = Inr ()"
  using rebookSlot_total [of bookEnv "''s''" "''a''" bookWorld] by auto

text \<open>
  rebooking is a no-op when nothing that matters has changed: an applicant whose forms are
  complete and who holds as many slots as required roles, each for a required role, keeps them, and
  the calendar is not called. The same booking asked for with explicit dates is never recognised as the
  same, however equal the dates.
\<close>

lemma rebookSlot_noop:
  assumes "isApplicantFormCompleted a recruitId (tables w)" and "getSelectedRoleIds a (tables w) \<noteq> []"
    and "length (getSelectedSlots a (tables w)) = length (roleIdsFor recruitId a (tables w))"
    and "\<forall>s \<in> set (getSelectedSlots a (tables w)). sl_roleId s \<in> Some ` set (roleIdsFor recruitId a (tables w))"
  shows "rebookSlot env recruitId a w = (Inr (), w) \<and>
    (\<forall>st en. \<not> isRebookSameSlot (getSelectedSlots a (tables w)) (roleIdsFor recruitId a (tables w)) (Given st) (Given en))"
proof -
  let ?R = "roleIdsFor recruitId a (tables w)"
  have "?R \<noteq> []" using assms(2) by (simp add: roleIdsFor_def)
  then obtain s ss where s: "getSelectedSlots a (tables w) = s # ss"
    using assms(3) by (cases "getSelectedSlots a (tables w)") auto
  have all: "list_all (\<lambda>el. case sl_roleId el of None \<Rightarrow> False | Some r \<Rightarrow> r \<in> set ?R) (s # ss)"
    using assms(4) by (auto simp: list_all_iff s)
  have "isRebookSameSlot (s # ss) ?R (startRef s) (endRef s)"
    using \<open>?R \<noteq> []\<close> assms(3) all by (simp add: isRebookSameSlot_def sameObject_def startRef_def endRef_def s)
  then have "bookSlot env recruitId a None None w = (Inr (), w)"
    using assms(1,2) by (simp add: bookSlot_def action_simps s applicantBookingPrecheck_def flip: roleIdsFor_def)
  moreover have "\<not> isRebookSameSlot (s # ss) ?R (Given st) (Given en)" for st en
    by (simp add: isRebookSameSlot_def sameObject_def startRef_def)
  ultimately show ?thesis by (simp add: rebookSlot_def tryCatch_def s)
qed

definition heldWorld :: recruit_world where
  "heldWorld = bookWorld\<lparr>tables := bookDb\<lparr>slots := [slotRow ''1'' ''m'' (Some ''a'') (Some ''ev''),
     slotRow ''2'' ''r'' (Some ''a'') (Some ''ev''), slotRow ''3'' ''q'' (Some ''b'') None]\<rparr>\<rparr>"

lemma rebookSlot_noop_witness:
  "rebookSlot bookEnv ''s'' ''a'' heldWorld = (Inr (), heldWorld)"
proof -
  have r: "roleIdsFor ''s'' ''a'' (tables heldWorld) = [''m'', ''r'']" by code_simp
  have g: "getSelectedSlots ''a'' (tables heldWorld) = [slotRow ''1'' ''m'' (Some ''a'') (Some ''ev''),
     slotRow ''2'' ''r'' (Some ''a'') (Some ''ev'')]"
    by (simp add: heldWorld_def getSelectedSlots_def findBy_def slotRow_def)
  have "isApplicantFormCompleted ''a'' ''s'' (tables heldWorld)" by code_simp
  moreover have "getSelectedRoleIds ''a'' (tables heldWorld) \<noteq> []" by code_simp
  ultimately show ?thesis
    using rebookSlot_noop [of "''a''" "''s''" heldWorld bookEnv] by (simp add: r g) (simp add: slotRow_def)
qed



section \<open>All operations on slots\<close>

text \<open>
  The steps: every operation of the service on slots, with any arguments and any answers of the
  environment, and any change elsewhere in the tables.
\<close>

inductive interviewStep :: "recruit_world \<Rightarrow> recruit_world \<Rightarrow> bool" where
  book: "bookSlot env r a sa ea w = (res, w') \<Longrightarrow> interviewStep w w'"
| rebook: "rebookSlot env r a w = (res', w') \<Longrightarrow> interviewStep w w'"
| cancel: "cancelSlot env a w = (res'', w') \<Longrightarrow> interviewStep w w'"
| add: "addSlot newIds st en rs w = (res, w') \<Longrightarrow> interviewStep w w'"
| remove: "removeSlot sd ed rs w = (res, w') \<Longrightarrow> interviewStep w w'"
| mark: "markApplicantSlotsAsInterviewed env a w = (n, w') \<Longrightarrow> interviewStep w w'"
| unmark: "unmarkApplicantSlotsAsInterviewed a w = (n, w') \<Longrightarrow> interviewStep w w'"
| other: "slotsOf w' = slotsOf w \<Longrightarrow> interviewStep w w'"

inductive_cases interviewStepE: "interviewStep w w'"

text \<open>
  The invariant: a free slot carries no interview mark, and two slots held by the same applicant with
  the same mark lie in the same window.
\<close>

definition sameGroup :: "recruit_interview_slot \<Rightarrow> recruit_interview_slot \<Rightarrow> bool" where
  "sameGroup s s' \<longleftrightarrow> sl_applicantId s \<noteq> None \<and> sl_applicantId s = sl_applicantId s' \<and>
     (sl_interviewAt s = None) = (sl_interviewAt s' = None)"

definition oneWindow :: "recruit_interview_slot list \<Rightarrow> bool" where
  "oneWindow t \<longleftrightarrow> (\<forall>s \<in> set t. \<forall>s' \<in> set t. sameGroup s s' \<longrightarrow>
     sl_startWhen s = sl_startWhen s' \<and> sl_endWhen s = sl_endWhen s')"

definition slotsInvar :: "recruit_interview_slot list \<Rightarrow> bool" where
  "slotsInvar t \<longleftrightarrow> slotsWf t \<and> oneWindow t"

lemma oneWindowI:
  assumes "\<And>s s'. s \<in> set t \<Longrightarrow> s' \<in> set t \<Longrightarrow> sameGroup s s' \<Longrightarrow>
    sl_startWhen s = sl_startWhen s' \<and> sl_endWhen s = sl_endWhen s'"
  shows "oneWindow t"
  using assms by (simp add: oneWindow_def)

lemma slotsInvar_subset: "slotsInvar t \<Longrightarrow> set t' \<subseteq> set t \<Longrightarrow> slotsInvar t'"
  unfolding slotsInvar_def slotsWf_def oneWindow_def by blast

lemma released_cases:
  assumes "s \<in> set (released a t)"
  obtains (kept) "s \<in> set t" "\<not> heldOpen a s" | (free) "sl_applicantId s = None" "sl_interviewAt s = None"
proof -
  from assms obtain r where r: "r \<in> set t" "s = (if heldOpen a r then releaseSlot () r else r)"
    by (auto simp: released_def set_updateBy)
  show ?thesis
  proof (cases "heldOpen a r")
    case True
    then show ?thesis using r free by (simp add: releaseSlot_def heldOpen_def isNull_def)
  next
    case False
    then show ?thesis using r kept by simp
  qed
qed

lemma released_invar: "slotsInvar t \<Longrightarrow> slotsInvar (released a t)"
  unfolding slotsInvar_def
proof (intro conjI oneWindowI)
  fix s s'
  assume i: "slotsWf t \<and> oneWindow t" and s: "s \<in> set (released a t)" "s' \<in> set (released a t)" "sameGroup s s'"
  then have "s \<in> set t" "s' \<in> set t" by (auto elim!: released_cases simp: sameGroup_def)
  then show "sl_startWhen s = sl_startWhen s'" "sl_endWhen s = sl_endWhen s'"
    using i s(3) by (simp_all add: oneWindow_def)
qed (simp add: released_wf)

lemma booked_cases:
  assumes "s \<in> set (booked a R st en t)" and "slotsWf t"
  obtains (old) "s \<in> set (released a t)"
    | (new) "sl_applicantId s = Some a" "sl_interviewAt s = None" "sl_startWhen s = st" "sl_endWhen s = en"
proof -
  from assms obtain r where r: "r \<in> set (released a t)" "s = (if bookable R st en r then assignSlot a r else r)"
    by (auto simp: booked_def set_updateBy)
  show ?thesis
  proof (cases "bookable R st en r")
    case True
    then have "sl_interviewAt r = None"
      using r(1) released_wf [OF assms(2), of a] by (auto simp: slotsWf_def bookable_def isNull_def)
    then show ?thesis using True r new by (simp add: assignSlot_def bookable_def)
  next
    case False
    then show ?thesis using r old by simp
  qed
qed

lemma booked_invar:
  assumes "slotsInvar t"
  shows "slotsInvar (booked a R st en t)"
proof -
  have wf: "slotsWf t" using assms by (simp add: slotsInvar_def)
  have rel: "slotsWf (released a t)" "oneWindow (released a t)"
    using released_invar [OF assms] by (simp_all add: slotsInvar_def)
  have open': "heldOpen a s" if "sl_applicantId s = Some a" "sl_interviewAt s = None" for s
    using that by (simp add: heldOpen_def isNull_def)
  have "slotsWf (booked a R st en t)"
    unfolding slotsWf_def by (auto elim!: booked_cases [OF _ wf] simp: rel(1) [unfolded slotsWf_def, rule_format])
  moreover have "oneWindow (booked a R st en t)"
  proof (rule oneWindowI)
    fix s s'
    assume s: "s \<in> set (booked a R st en t)" "s' \<in> set (booked a R st en t)" and g: "sameGroup s s'"
    from s(1) wf show "sl_startWhen s = sl_startWhen s' \<and> sl_endWhen s = sl_endWhen s'"
    proof (cases rule: booked_cases)
      case old
      from s(2) wf show ?thesis
      proof (cases rule: booked_cases)
        case old2: old
        with old rel(2) g show ?thesis by (simp add: oneWindow_def)
      next
        case new
        then have "heldOpen a s" using g by (intro open') (auto simp: sameGroup_def)
        then show ?thesis using released_no_open [OF old] by simp
      qed
    next
      case new
      from s(2) wf show ?thesis
      proof (cases rule: booked_cases)
        case old
        then have "heldOpen a s'" using new g by (intro open') (auto simp: sameGroup_def)
        then show ?thesis using released_no_open [OF old] by simp
      next
        case new2: new
        with new show ?thesis by simp
      qed
    qed
  qed
  ultimately show ?thesis by (simp add: slotsInvar_def)
qed

lemma eventSaved_invar:
  assumes "eventSaved a t t'" and "slotsInvar t"
  shows "slotsInvar t'"
proof -
  have "\<exists>r \<in> set t. sl_applicantId s = sl_applicantId r \<and> sl_interviewAt s = sl_interviewAt r \<and>
      sl_startWhen s = sl_startWhen r \<and> sl_endWhen s = sl_endWhen r" if "s \<in> set t'" for s
  proof -
    have "\<exists>r \<in> set t. s = r \<or> (\<exists>ev. s = setEvent ev r)"
      using assms(1) that unfolding eventSaved_def by (metis updateBy_memE)
    then obtain r where "r \<in> set t" "s = r \<or> (\<exists>ev. s = setEvent ev r)" by blast
    then show ?thesis by (intro bexI [of _ r]) (auto simp: setEvent_def)
  qed
  then show ?thesis
    using assms(2) unfolding slotsInvar_def slotsWf_def oneWindow_def sameGroup_def by metis
qed

text \<open>Changing the mark of all slots of an applicant at once, when they all have the same.\<close>

lemma setInterviewAt_invar:
  assumes "slotsInvar t"
    and "\<forall>s \<in> set t. \<forall>s' \<in> set t. sl_applicantId s = Some a \<and> sl_applicantId s' = Some a \<longrightarrow>
      (sl_interviewAt s = None) = (sl_interviewAt s' = None)"
  shows "slotsInvar (updateBy (\<lambda>s. sl_applicantId s = Some a) (setInterviewAt at) t)" (is "slotsInvar ?t")
proof -
  have m: "\<exists>r \<in> set t. sl_applicantId s = sl_applicantId r \<and> sl_startWhen s = sl_startWhen r \<and>
      sl_endWhen s = sl_endWhen r \<and> sl_interviewAt s = (if sl_applicantId r = Some a then at else sl_interviewAt r)"
    if "s \<in> set ?t" for s
  proof -
    from that obtain r where "r \<in> set t" "s = (if sl_applicantId r = Some a then setInterviewAt at r else r)"
      by (rule updateBy_memE)
    then show ?thesis by (intro bexI [of _ r]) (auto simp: setInterviewAt_def)
  qed
  have "slotsWf ?t" using assms(1) m unfolding slotsInvar_def slotsWf_def by (metis option.distinct(1))
  moreover have "oneWindow ?t"
  proof (rule oneWindowI)
    fix s s'
    assume s: "s \<in> set ?t" "s' \<in> set ?t" and g: "sameGroup s s'"
    obtain r r' where r: "r \<in> set t" "r' \<in> set t" "sl_applicantId s = sl_applicantId r"
      "sl_startWhen s = sl_startWhen r" "sl_endWhen s = sl_endWhen r"
      "sl_applicantId s' = sl_applicantId r'" "sl_startWhen s' = sl_startWhen r'" "sl_endWhen s' = sl_endWhen r'"
      "sl_interviewAt s = (if sl_applicantId r = Some a then at else sl_interviewAt r)"
      "sl_interviewAt s' = (if sl_applicantId r' = Some a then at else sl_interviewAt r')"
      using m [OF s(1)] m [OF s(2)] by blast
    have "sameGroup r r'"
    proof (cases "sl_applicantId r = Some a")
      case True
      then have r': "sl_applicantId r' = Some a" using g r(3,6) by (simp add: sameGroup_def)
      then have "(sl_interviewAt r = None) = (sl_interviewAt r' = None)" using assms(2) r(1,2) True by blast
      then show ?thesis using True r' unfolding sameGroup_def by simp
    next
      case False
      then have "sl_applicantId r' \<noteq> Some a" using g r(3,6) by (simp add: sameGroup_def)
      with False show ?thesis using g r(3,6,9,10) by (auto simp: sameGroup_def)
    qed
    then show "sl_startWhen s = sl_startWhen s' \<and> sl_endWhen s = sl_endWhen s'"
      using assms(1) r by (simp add: slotsInvar_def oneWindow_def)
  qed
  ultimately show ?thesis by (simp add: slotsInvar_def)
qed

lemma addSlot_invar:
  assumes "slotsInvar t" and "\<forall>s \<in> set new. sl_applicantId s = None \<and> sl_interviewAt s = None"
  shows "slotsInvar (foldl (\<lambda>t s. saveRow sl_id s t) t new)"
  using assms
proof (induction new arbitrary: t)
  case Nil
  then show ?case by simp
next
  case (Cons s new)
  have s: "sl_applicantId s = None" "sl_interviewAt s = None" using Cons.prems(2) by simp_all
  have "slotsWf (saveRow sl_id s t)"
    using Cons.prems(1) s by (auto simp: slotsInvar_def slotsWf_def set_saveRow)
  moreover have "oneWindow (saveRow sl_id s t)"
  proof (rule oneWindowI)
    fix x y
    assume "x \<in> set (saveRow sl_id s t)" "y \<in> set (saveRow sl_id s t)" and g: "sameGroup x y"
    then have "x \<in> set t" "y \<in> set t" using s by (auto simp: set_saveRow sameGroup_def)
    then show "sl_startWhen x = sl_startWhen y \<and> sl_endWhen x = sl_endWhen y"
      using Cons.prems(1) g by (simp add: slotsInvar_def oneWindow_def)
  qed
  ultimately have "slotsInvar (saveRow sl_id s t)" by (simp add: slotsInvar_def)
  then show ?case using Cons by simp
qed

lemma bookSlot_invar:
  assumes "bookSlot env r a sa ea w = (res, w')" and "slotsInvar (slotsOf w)"
  shows "slotsInvar (slotsOf w')"
  using assms(1)
proof (cases rule: bookSlot_cases)
  case (ok st en t')
  then show ?thesis using eventSaved_invar [OF ok(8) booked_invar [OF assms(2)]] by (simp add: slotsOf_def)
qed (use assms(2) in \<open>simp_all add: slotsOf_def\<close>)

lemma rebookSlot_invar:
  assumes "rebookSlot env r a w = (res, w')" and "slotsInvar (slotsOf w)"
  shows "slotsInvar (slotsOf w')"
proof -
  from rebookSlot_total [of env r a w] assms(1)
  have "bookSlot env r a None None w = (Inr (), w') \<or> slotsOf w' = released a (slotsOf w)"
    by (auto simp: slotsOf_def)
  then show ?thesis using bookSlot_invar assms(2) released_invar by metis
qed

lemma markSlots_invar:
  assumes "markApplicantSlotsAsInterviewed env a w = (res, w')" and "slotsInvar (slotsOf w)"
  shows "slotsInvar (slotsOf w')"
proof (cases "findBy (\<lambda>s. sl_applicantId s = Some a \<and> \<not> isNull (sl_interviewAt s)) (slotsOf w) = []")
  case True
  then have "\<forall>s \<in> set (slotsOf w). sl_applicantId s = Some a \<longrightarrow> sl_interviewAt s = None"
    by (auto simp: findBy_def filter_empty_conv isNull_def)
  then have "slotsInvar (updateBy (\<lambda>s. sl_applicantId s = Some a) (setInterviewAt (Some (env_now env))) (slotsOf w))"
    by (intro setInterviewAt_invar assms(2)) simp
  then show ?thesis
    using assms(1) True by (auto simp: markApplicantSlotsAsInterviewed_def action_simps)
next
  case False
  then show ?thesis using assms by (auto simp: markApplicantSlotsAsInterviewed_def action_simps)
qed

lemma unmarkSlots_invar:
  assumes "unmarkApplicantSlotsAsInterviewed a w = (res, w')" and "slotsInvar (slotsOf w)"
  shows "slotsInvar (slotsOf w')"
proof (cases "findBy (heldOpen a) (slotsOf w) = []")
  case True
  then have "\<forall>s \<in> set (slotsOf w). sl_applicantId s = Some a \<longrightarrow> sl_interviewAt s \<noteq> None"
    by (auto simp: findBy_def filter_empty_conv isNull_def heldOpen_def)
  then have "slotsInvar (updateBy (\<lambda>s. sl_applicantId s = Some a) (setInterviewAt None) (slotsOf w))"
    by (intro setInterviewAt_invar assms(2)) blast
  then show ?thesis
    using assms(1) True by (auto simp: unmarkApplicantSlotsAsInterviewed_def action_simps)
next
  case False
  then show ?thesis using assms by (auto simp: unmarkApplicantSlotsAsInterviewed_def action_simps)
qed

lemma removeSlot_invar:
  assumes "removeSlot st en rs w = (res, w')" and "slotsInvar (slotsOf w)"
  shows "slotsInvar (slotsOf w')"
proof -
  have "set (slotsOf w') \<subseteq> set (slotsOf w)"
    using assms(1) by (auto simp: removeSlot_def action_simps split: option.splits if_splits)
  then show ?thesis using assms(2) slotsInvar_subset by blast
qed

lemma cancelSlot_invar:
  assumes "cancelSlot env a w = (res, w')" and "slotsInvar (slotsOf w)"
  shows "slotsInvar (slotsOf w')"
  using cancelSlot_run [of env a w] assms by (auto simp: released_invar)

lemma addSlots_invar:
  assumes "addSlot newIds st en rs w = (res, w')" and "slotsInvar (slotsOf w)"
  shows "slotsInvar (slotsOf w')"
  using assms by (auto simp: addSlot_def action_simps intro!: addSlot_invar)

lemmas interviewOps_invar = bookSlot_invar rebookSlot_invar cancelSlot_invar addSlots_invar
  removeSlot_invar markSlots_invar unmarkSlots_invar

interpretation interviewSystem: step_system "\<lambda>w. slotsOf w = []" interviewStep "\<lambda>w. slotsInvar (slotsOf w)"
proof unfold_locales
  fix w w'
  assume "interviewStep w w'" and "slotsInvar (slotsOf w)"
  then show "slotsInvar (slotsOf w')" by (elim interviewStepE) (simp_all add: interviewOps_invar)
qed (simp add: slotsInvar_def slotsWf_def oneWindow_def)

text \<open>
  Claim C4: in every state that bookings, rebookings, cancellations, the adding and removing of slots and
  the marking and unmarking of interviews reach, in any order, from an empty table, with any answers of
  the database and the calendar and any changes elsewhere: the slots an applicant still has to be
  interviewed in share one window, so do those they were interviewed in, and a free slot carries no
  interview mark.
\<close>

theorem interview_reachable:
  assumes "slotsOf w0 = []" and "interviewStep\<^sup>*\<^sup>* w0 w"
    and "s \<in> set (slotsOf w)" and "s' \<in> set (slotsOf w)"
  shows "(sl_applicantId s = None \<longrightarrow> sl_interviewAt s = None) \<and>
    (sl_applicantId s \<noteq> None \<and> sl_applicantId s = sl_applicantId s' \<and>
     (sl_interviewAt s = None \<longleftrightarrow> sl_interviewAt s' = None) \<longrightarrow>
       sl_startWhen s = sl_startWhen s' \<and> sl_endWhen s = sl_endWhen s')"
proof -
  have inv: "slotsWf (slotsOf w)" "oneWindow (slotsOf w)"
    using interviewSystem.invar_reachable [OF assms(1,2)] by (simp_all add: slotsInvar_def)
  have "sl_applicantId s = None \<longrightarrow> sl_interviewAt s = None"
    using inv(1) assms(3) by (simp add: slotsWf_def)
  moreover have "sameGroup s s' \<longrightarrow> sl_startWhen s = sl_startWhen s' \<and> sl_endWhen s = sl_endWhen s'"
    using inv(2) assms(3,4) by (simp add: oneWindow_def)
  ultimately show ?thesis unfolding sameGroup_def by simp
qed

theorem interview_reachable_witness:
  "\<exists>w w'. interviewStep\<^sup>*\<^sup>* (bookWorld\<lparr>tables := bookDb\<lparr>slots := []\<rparr>\<rparr>) w \<and>
     slotsOf w = [slotRow ''1'' ''m'' None None] \<and> sl_interviewAt (hd (slotsOf w)) = None"
proof -
  let ?init = "bookWorld\<lparr>tables := bookDb\<lparr>slots := []\<rparr>\<rparr>"
  let ?w = "bookWorld\<lparr>tables := bookDb\<lparr>slots := [slotRow ''1'' ''m'' None None]\<rparr>\<rparr>"
  have "addSlot (\<lambda>_. ''1'') 100 200 [''m''] ?init = (Inr (), ?w)"
    by (simp add: addSlot_def action_simps onSlots_def saveRow_def slotRow_def)
  then have r: "interviewStep\<^sup>*\<^sup>* ?init ?w" by (intro r_into_rtranclp add)
  have s: "slotsOf ?w = [slotRow ''1'' ''m'' None None]" "slotsOf ?init = []" by (simp_all add: slotsOf_def)
  have "slotRow ''1'' ''m'' None None \<in> set (slotsOf ?w)" by (simp add: s)
  from interview_reachable [OF s(2) r this this]
  have "sl_interviewAt (slotRow ''1'' ''m'' None None) = None" by (simp add: slotRow_def)
  with r s show ?thesis by (intro exI [of _ ?w]) simp
qed

end
