(* ===== verification/Recruit_Role.thy ===== *)
theory Recruit_Role
  imports Recruit_Booking
begin

text \<open>
  Roles (\<open>role/recruit-role.service.ts\<close> with its request bodies) and the two operations whose change
  may cost an applicant the interview slot: the selection of roles, and the answering of forms
  (\<open>updateFormAnswers\<close> of \<open>form/recruit-form.service.ts\<close>). Both run a transaction and then rebook.
\<close>

section \<open>Roles\<close>

definition getRolesByRecruitId :: "uuid \<Rightarrow> bool \<Rightarrow> recruit_db \<Rightarrow> recruit_role list" where
  "getRolesByRecruitId recruitId includeMandatory db =
     sort_key rr_rank (findBy (\<lambda>r. rr_recruitId r = recruitId \<and> (includeMandatory \<or> \<not> rr_mandatory r)) (roles db))"

record create_role_dto =
  cr_name :: string
  cr_description :: string
  cr_icon :: "string option"
  cr_rank :: "int option"
  cr_mandatory :: bool
  cr_recruitId :: uuid
  cr_collectionId :: "uuid option"

record update_role_dto =
  ur_name :: "string option"
  ur_description :: "string option"
  ur_icon :: "string option option"
  ur_rank :: "int option"
  ur_mandatory :: "bool option"
  ur_collectionId :: "uuid option option"

definition createRole :: "uuid \<Rightarrow> create_role_dto \<Rightarrow> (recruit_role list, recruit_role) action" where
  "createRole newId dto =
     (let r = \<lparr>rr_id = newId, rr_oid = None, rr_name = cr_name dto, rr_description = cr_description dto,
               rr_icon = cr_icon dto, rr_rank = orKeep (cr_rank dto) 0, rr_mandatory = cr_mandatory dto,
               rr_recruitId = cr_recruitId dto, rr_collectionId = cr_collectionId dto\<rparr>
      in andThen (modify (saveRow rr_id r)) (\<lambda>_. ret r))"

definition applyRoleDto :: "update_role_dto \<Rightarrow> recruit_role \<Rightarrow> recruit_role" where
  "applyRoleDto dto r =
     r\<lparr>rr_name := orKeep (ur_name dto) (rr_name r),
       rr_description := orKeep (ur_description dto) (rr_description r),
       rr_icon := orKeep (ur_icon dto) (rr_icon r),
       rr_rank := orKeep (ur_rank dto) (rr_rank r),
       rr_mandatory := orKeep (ur_mandatory dto) (rr_mandatory r),
       rr_collectionId := orKeep (ur_collectionId dto) (rr_collectionId r)\<rparr>"

definition updateRole :: "uuid \<Rightarrow> update_role_dto \<Rightarrow> (recruit_role list, recruit_role) action" where
  "updateRole roleId dto =
     andThen (modify (updateBy (\<lambda>r. rr_id r = roleId) (applyRoleDto dto))) (\<lambda>_.
     andThen (gets (findOneBy (\<lambda>r. rr_id r = roleId))) (\<lambda>updated.
     case updated of None \<Rightarrow> throw (NotFound ''Role not found'') | Some r \<Rightarrow> ret r))"

definition getRoleById :: "uuid \<Rightarrow> recruit_db \<Rightarrow> recruit_role option" where
  "getRoleById roleId db = findOneBy (\<lambda>r. rr_id r = roleId) (roles db)"

text \<open>The server may refuse to delete a role other rows refer to.\<close>

definition deleteRole :: "(recruit_role list \<Rightarrow> http_error option) \<Rightarrow> uuid \<Rightarrow> (recruit_role list, unit) action" where
  "deleteRole answer roleId =
     andThen (gets answer) (\<lambda>refused.
     case refused of Some e \<Rightarrow> throw e | None \<Rightarrow> modify (deleteBy (\<lambda>r. rr_id r = roleId)))"

interpretation roleUpdate: keeps_key "\<lambda>r. (rr_id r, rr_recruitId r)" applyRoleDto
  by unfold_locales (simp add: applyRoleDto_def)

section \<open>Selecting roles\<close>

definition newApplicantRole :: "uuid \<Rightarrow> recruit_applicant_role" where
  "newApplicantRole newId =
     \<lparr>ar_id = newId, ar_rank = 0, ar_applicantId = [], ar_roleId = [], ar_offerResponseAt = None,
      ar_offerAccepted = False, ar_offerExpireAt = None\<rparr>"

definition fillRole :: "uuid \<Rightarrow> uuid \<Rightarrow> nat \<Rightarrow> recruit_applicant_role \<Rightarrow> recruit_applicant_role" where
  "fillRole applicantId roleId rank role =
     role\<lparr>ar_rank := int rank, ar_applicantId := applicantId, ar_roleId := roleId\<rparr>"

definition updatedRoles ::
    "(nat \<Rightarrow> uuid) \<Rightarrow> uuid \<Rightarrow> uuid list \<Rightarrow> recruit_applicant_role list \<Rightarrow> recruit_applicant_role list" where
  "updatedRoles newIds applicantId roleIds selectedRoles =
     map (\<lambda>rank. fillRole applicantId (roleIds ! rank) rank
           (if rank < length selectedRoles then selectedRoles ! rank else newApplicantRole (newIds rank)))
       [0..<length roleIds]"

definition storeSelectedRoles ::
    "(nat \<Rightarrow> uuid) \<Rightarrow> uuid \<Rightarrow> uuid list \<Rightarrow> (recruit_applicant_role list, unit) action" where
  "storeSelectedRoles newIds applicantId roleIds =
     andThen (gets (\<lambda>t. sort_key ar_rank (findBy (\<lambda>r. ar_applicantId r = applicantId) t))) (\<lambda>selectedRoles.
     let updated = updatedRoles newIds applicantId roleIds selectedRoles;
         toRemoveRoles = map ar_id (drop (length roleIds) selectedRoles)
     in andThen (if updated \<noteq> [] then modify (saveAll ar_id updated) else ret ()) (\<lambda>_.
        if toRemoveRoles \<noteq> [] then modify (deleteBy (\<lambda>r. ar_id r \<in> set toRemoveRoles)) else ret ()))"

definition onApplicantRoleTable :: "(recruit_applicant_role list, 'a) action \<Rightarrow> (recruit_world, 'a) action" where
  "onApplicantRoleTable m w =
     (case m (applicantRoles (tables w)) of
        (r, t) \<Rightarrow> (r, w\<lparr>tables := (tables w)\<lparr>applicantRoles := t\<rparr>\<rparr>))"

definition selectRoles ::
    "recruit_env \<Rightarrow> (nat \<Rightarrow> uuid) \<Rightarrow> recruit_applicant \<Rightarrow> uuid list \<Rightarrow> (recruit_world, unit) action" where
  "selectRoles env newIds applicant roleIds =
     andThen (transaction (env_commit env) undoTables
                (onApplicantRoleTable (storeSelectedRoles newIds (ra_id applicant) roleIds))) (\<lambda>_.
     rebookSlot env (ra_recruitId applicant) (ra_id applicant))"

section \<open>Answering forms\<close>

definition onAnswerTable :: "(recruit_form_answer list, 'a) action \<Rightarrow> (recruit_world, 'a) action" where
  "onAnswerTable m w =
     (case m (answers (tables w)) of (r, t) \<Rightarrow> (r, w\<lparr>tables := (tables w)\<lparr>answers := t\<rparr>\<rparr>))"

definition updateFormAnswers ::
    "recruit_env \<Rightarrow> (nat \<Rightarrow> uuid) \<Rightarrow> recruit_applicant \<Rightarrow> answer_dto list \<Rightarrow> (recruit_world, unit) action" where
  "updateFormAnswers env newIds applicant questionAnswers =
     andThen (transaction (env_commit env) undoTables
                (onAnswerTable (storeFormAnswers newIds (ra_id applicant) questionAnswers))) (\<lambda>_.
     rebookSlot env (ra_recruitId applicant) (ra_id applicant))"

section \<open>Lemmas\<close>

lemma rebookSlot_frame:
  assumes "rebookSlot env r a w = (res, w')"
  shows "tables w' = (tables w)\<lparr>slots := slotsOf w'\<rparr>" and "res = Inr ()"
    and "b \<noteq> a \<Longrightarrow> getSelectedSlots b (tables w') = getSelectedSlots b (tables w)"
proof -
  from rebookSlot_total [of env r a w] assms
  have "res = Inr () \<and> (bookSlot env r a None None w = (Inr (), w') \<or>
      tables w' = (tables w)\<lparr>slots := released a (slotsOf w)\<rparr>)" by auto
  then show "tables w' = (tables w)\<lparr>slots := slotsOf w'\<rparr>" "res = Inr ()"
    "b \<noteq> a \<Longrightarrow> getSelectedSlots b (tables w') = getSelectedSlots b (tables w)"
    using bookSlot_frame [of env r a None None w "Inr ()" w'] released_frame [of b a "slotsOf w"]
    by (auto simp: slotsOf_def getSelectedSlots_def findBy_def)
qed

lemma storeSelectedRoles_run:
  "storeSelectedRoles newIds a roleIds t =
     (let selected = sort_key ar_rank (findBy (\<lambda>r. ar_applicantId r = a) t)
      in (Inr (), deleteBy (\<lambda>r. ar_id r \<in> set (map ar_id (drop (length roleIds) selected)))
            (saveAll ar_id (updatedRoles newIds a roleIds selected) t)))"
  by (auto simp: storeSelectedRoles_def action_simps Let_def andThen_def deleteBy_def)

lemma updatedRoles_simps [simp]:
  "length (updatedRoles newIds a roleIds sel) = length roleIds"
  "i < length roleIds \<Longrightarrow> updatedRoles newIds a roleIds sel ! i =
     fillRole a (roleIds ! i) i (if i < length sel then sel ! i else newApplicantRole (newIds i))"
  by (simp_all add: updatedRoles_def)

lemma updatedRoles_id:
  "i < length roleIds \<Longrightarrow> ar_id (updatedRoles newIds a roleIds sel ! i) =
     (if i < length sel then ar_id (sel ! i) else newIds i)"
  by (simp add: fillRole_def newApplicantRole_def)

lemma updatedRoles_distinct:
  assumes "distinct (map ar_id sel)" and "inj newIds" and "\<forall>i. newIds i \<notin> ar_id ` set sel"
  shows "distinct (map ar_id (updatedRoles newIds a roleIds sel))"
proof -
  have ne: "newIds i \<noteq> ar_id (sel ! j)" if "j < length sel" for i j
    using assms(3) that by (metis image_eqI nth_mem)
  have eq: "ar_id (sel ! i) = ar_id (sel ! j) \<longleftrightarrow> i = j" if "i < length sel" "j < length sel" for i j
    using assms(1) that by (metis distinct_conv_nth length_map nth_map)
  show ?thesis
    unfolding distinct_conv_nth
    using ne eq injD [OF assms(2)]
    by (auto simp: updatedRoles_id simp del: updatedRoles_simps(2)) (metis+)?
qed

lemma selected_cover:
  fixes a :: uuid and roleIds :: "uuid list"
  assumes "distinct (map ar_id t)" and "\<forall>i. newIds i \<notin> ar_id ` set t" and "inj newIds"
  defines "sel \<equiv> sort_key ar_rank (findBy (\<lambda>r. ar_applicantId r = a) t)"
  defines "up \<equiv> updatedRoles newIds a roleIds sel"
  shows "set sel = {r \<in> set t. ar_applicantId r = a}" and "distinct (map ar_id sel)" and "distinct (map ar_id up)"
    and "\<And>r. r \<in> set up \<Longrightarrow> ar_applicantId r = a"
    and "ar_id ` set up \<inter> set (map ar_id (drop (length roleIds) sel)) = {}"
    and "ar_id ` set sel \<subseteq> ar_id ` set up \<union> set (map ar_id (drop (length roleIds) sel))"
proof -
  show s: "set sel = {r \<in> set t. ar_applicantId r = a}" by (auto simp: sel_def)
  have "distinct (map ar_id (findBy (\<lambda>r. ar_applicantId r = a) t))"
    using assms(1) by (simp add: findBy_def distinct_map_filter)
  then show d: "distinct (map ar_id sel)" by (simp add: sel_def distinct_map)
  have n: "\<forall>i. newIds i \<notin> ar_id ` set sel" using assms(2) s by auto
  show "distinct (map ar_id up)" unfolding up_def by (rule updatedRoles_distinct [OF d assms(3) n])
  show "ar_applicantId r = a" if "r \<in> set up" for r
    using that by (auto simp: up_def updatedRoles_def fillRole_def)
  have up_ids: "ar_id x \<in> ar_id ` set (take (length roleIds) sel) \<or> ar_id x \<in> range newIds" if x: "x \<in> set up" for x
  proof -
    obtain i where i: "i < length roleIds" "x = up ! i" using x by (auto simp: in_set_conv_nth up_def)
    then have e: "ar_id x = (if i < length sel then ar_id (sel ! i) else newIds i)"
      unfolding up_def by (simp only: updatedRoles_id)
    have "i < length sel \<Longrightarrow> sel ! i \<in> set (take (length roleIds) sel)"
      using i(1) by (auto simp: in_set_conv_nth intro!: exI [of _ i])
    then show ?thesis using e by (cases "i < length sel") auto
  qed
  have ids_up: "ar_id y \<in> ar_id ` set up" if y: "y \<in> set (take (length roleIds) sel)" for y
  proof -
    obtain i where i: "i < length roleIds" "i < length sel" "y = sel ! i" using y by (auto simp: in_set_conv_nth)
    then have "ar_id (up ! i) = ar_id y" unfolding up_def by (simp add: updatedRoles_id fillRole_def)
    moreover have "up ! i \<in> set up" using i(1) by (intro nth_mem) (simp add: up_def)
    ultimately show ?thesis by (metis image_eqI)
  qed
  have "distinct (map ar_id (take (length roleIds) sel @ drop (length roleIds) sel))" using d by simp
  then have disj: "ar_id ` set (take (length roleIds) sel) \<inter> ar_id ` set (drop (length roleIds) sel) = {}"
    by (simp only: map_append distinct_append set_map)
  show "ar_id ` set up \<inter> set (map ar_id (drop (length roleIds) sel)) = {}"
  proof -
    have "newIds i \<noteq> ar_id x" if "x \<in> set (drop (length roleIds) sel)" for i x
      using n in_set_dropD [OF that] by (metis image_eqI)
    then have "ar_id ` set (drop (length roleIds) sel) \<inter> range newIds = {}" by fastforce
    then have "ar_id x \<notin> ar_id ` set (drop (length roleIds) sel)" if "x \<in> set up" for x
      using up_ids [OF that] disj by (metis disjoint_iff)
    then show ?thesis unfolding set_map disjoint_iff by (metis imageE)
  qed
  have "ar_id ` set sel = ar_id ` set (take (length roleIds) sel) \<union> ar_id ` set (drop (length roleIds) sel)"
    by (metis append_take_drop_id set_append image_Un)
  moreover have "ar_id ` set (take (length roleIds) sel) \<subseteq> ar_id ` set up" using ids_up by (rule image_subsetI)
  ultimately show "ar_id ` set sel \<subseteq> ar_id ` set up \<union> set (map ar_id (drop (length roleIds) sel))"
    unfolding set_map by (simp add: le_supI1)
qed

lemma sort_updatedRoles:
  fixes roleIds :: "uuid list"
  assumes "distinct rs" and "set rs = set (updatedRoles newIds a roleIds sel)"
  shows "map ar_roleId (sort_key ar_rank rs) = roleIds"
proof -
  define up where "up = updatedRoles newIds a roleIds sel"
  have ranks: "map ar_rank up = map int [0..<length roleIds]"
    by (rule nth_equalityI) (simp_all add: up_def fillRole_def)
  then have d: "distinct (map ar_rank up)" by (simp add: distinct_map)
  have "sorted (map ar_rank up)" unfolding ranks by (simp add: sorted_iff_nth_mono)
  with d have "sort_key ar_rank rs = up"
    using assms [folded up_def] by (intro map_sorted_distinct_set_unique [where f = ar_rank]) (simp_all add: distinct_map)
  moreover have "map ar_roleId up = roleIds"
    by (rule nth_equalityI) (simp_all add: up_def fillRole_def)
  ultimately show ?thesis by simp
qed

lemma storedRoles:
  fixes a :: uuid and roleIds :: "uuid list"
  assumes "distinct (map ar_id t)" and "\<forall>i. newIds i \<notin> ar_id ` set t" and "inj newIds"
    and run: "storeSelectedRoles newIds a roleIds t = (res, t')"
  shows "b \<noteq> a \<Longrightarrow> filter (\<lambda>r. ar_applicantId r = b) t' = filter (\<lambda>r. ar_applicantId r = b) t"
    and "map ar_roleId (sort_key ar_rank (findBy (\<lambda>r. ar_applicantId r = a) t')) = roleIds"
    and "distinct (map ar_id t')" and "res = Inr ()"
proof -
  define sel where "sel = sort_key ar_rank (findBy (\<lambda>r. ar_applicantId r = a) t)"
  define up where "up = updatedRoles newIds a roleIds sel"
  let ?D = "set (map ar_id (drop (length roleIds) sel))"
  note cover = selected_cover(1,2) [OF assms(1-3), where a = a, folded sel_def]
    selected_cover(3-6) [OF assms(1-3), where a = a and roleIds = roleIds, folded sel_def, folded up_def]
  have t': "t' = deleteBy (\<lambda>r. ar_id r \<in> ?D) (saveAll ar_id up t)" and "res = Inr ()"
    using run by (simp_all add: storeSelectedRoles_run Let_def sel_def up_def)
  then show "res = Inr ()" by simp
  show d: "distinct (map ar_id t')" unfolding t' by (intro distinct_deleteBy distinct_saveAll assms(1))
  have inj: "x = y" if "x \<in> set t" "y \<in> set t" "ar_id x = ar_id y" for x y
    using that assms(1) by (auto simp: distinct_map inj_on_def)
  have own: "ar_applicantId x = a" if x: "x \<in> set t" "ar_id x \<in> ar_id ` set up \<union> ?D" for x
  proof -
    have "ar_id ` set up \<union> ?D \<subseteq> ar_id ` set sel \<union> range newIds"
      by (auto simp: up_def updatedRoles_def fillRole_def newApplicantRole_def dest: in_set_dropD)
    then have "ar_id x \<in> ar_id ` set sel \<union> range newIds" using x(2) by blast
    moreover have "ar_id x \<notin> range newIds" using assms(2) x(1) by (metis image_eqI rangeE)
    ultimately obtain y where "y \<in> set sel" "ar_id x = ar_id y" by blast
    with cover(1) inj x(1) show ?thesis by auto
  qed
  show "filter (\<lambda>r. ar_applicantId r = b) t' = filter (\<lambda>r. ar_applicantId r = b) t" if "b \<noteq> a"
  proof -
    have s: "filter (\<lambda>r. ar_applicantId r = b) (saveAll ar_id up t) = filter (\<lambda>r. ar_applicantId r = b) t"
      using that cover(4) own by (intro filter_saveAll_frame) auto
    have "ar_id x \<notin> ?D" if "x \<in> set (filter (\<lambda>r. ar_applicantId r = b) t)" for x
      using that own [of x] \<open>b \<noteq> a\<close> by auto
    then have "filter (\<lambda>r. ar_id r \<notin> ?D) (filter (\<lambda>r. ar_applicantId r = b) t) = filter (\<lambda>r. ar_applicantId r = b) t"
      unfolding filter_id_conv by blast
    moreover have "filter (\<lambda>r. ar_applicantId r = b) t' =
        filter (\<lambda>r. ar_id r \<notin> ?D) (filter (\<lambda>r. ar_applicantId r = b) (saveAll ar_id up t))"
      unfolding t' deleteBy_def filter_filter by (rule filter_cong) auto
    ultimately show ?thesis unfolding s by (rule trans [rotated])
  qed
  have set': "set (findBy (\<lambda>r. ar_applicantId r = a) t') = set up"
  proof -
    have "x \<in> set up" if "x \<in> set t" "ar_applicantId x = a" "ar_id x \<notin> ar_id ` set up" "ar_id x \<notin> ?D" for x
      using that cover(1,6) by auto
    then show ?thesis
      unfolding t' using cover(4,5) by (auto simp: set_saveAll [OF cover(3)])
  qed
  have "distinct (findBy (\<lambda>r. ar_applicantId r = a) t')"
    using d by (auto simp: findBy_def distinct_map)
  then show "map ar_roleId (sort_key ar_rank (findBy (\<lambda>r. ar_applicantId r = a) t')) = roleIds"
    using set' unfolding up_def by (rule sort_updatedRoles)
qed

lemma transaction_undo_cases:
  assumes "transaction commit undoTables m w = (res, v)"
  obtains (failed) e where "res = Inl e" "tables v = tables w"
    | (kept) x where "res = Inr x" "m w = (Inr x, v)" "commit v = None"
  using assms
  by (cases res) (auto dest!: transaction_Inl_undone simp: transaction_Inr)

section \<open>Properties\<close>

text \<open>
  Claim C5: selecting roles either fails and leaves every table as it was, or stores exactly the given
  roles, in the given order of preference; the selections and the interview slots of other applicants
  are not touched, and no other table changes.
\<close>

theorem selectRoles_spec:
  assumes "selectRoles env newIds app roleIds w = (res, w')"
    and "distinct (map ar_id (applicantRoles (tables w)))" and "inj newIds"
    and "\<forall>i. newIds i \<notin> ar_id ` set (applicantRoles (tables w))"
  shows "(\<exists>e. res = Inl e \<and> tables w' = tables w) \<or>
    (res = Inr () \<and>
     map ar_roleId (sort_key ar_rank (findBy (\<lambda>r. ar_applicantId r = ra_id app) (applicantRoles (tables w')))) = roleIds \<and>
     tables w' = (tables w)\<lparr>applicantRoles := applicantRoles (tables w'), slots := slotsOf w'\<rparr> \<and>
     (\<forall>b. b \<noteq> ra_id app \<longrightarrow>
        filter (\<lambda>r. ar_applicantId r = b) (applicantRoles (tables w')) =
          filter (\<lambda>r. ar_applicantId r = b) (applicantRoles (tables w)) \<and>
        getSelectedSlots b (tables w') = getSelectedSlots b (tables w)))"
proof -
  obtain tres v where tx: "transaction (env_commit env) undoTables
      (onApplicantRoleTable (storeSelectedRoles newIds (ra_id app) roleIds)) w = (tres, v)" by fastforce
  from tx show ?thesis
  proof (cases rule: transaction_undo_cases)
    case (failed e)
    with assms(1) tx show ?thesis by (auto simp: selectRoles_def andThen_def)
  next
    case (kept x)
    then obtain t' where st: "storeSelectedRoles newIds (ra_id app) roleIds (applicantRoles (tables w)) = (Inr x, t')"
      and v: "tables v = (tables w)\<lparr>applicantRoles := t'\<rparr>"
      by (auto simp: onApplicantRoleTable_def split: prod.splits)
    note stored = storedRoles [OF assms(2,4,3) st]
    have rb: "rebookSlot env (ra_recruitId app) (ra_id app) v = (res, w')"
      using assms(1) tx kept by (simp add: selectRoles_def andThen_def)
    have w': "tables w' = (tables w)\<lparr>applicantRoles := t', slots := slotsOf w'\<rparr>"
      using rebookSlot_frame(1) [OF rb] v by simp
    then have t': "applicantRoles (tables w') = t'" by simp
    have "getSelectedSlots b (tables w') = getSelectedSlots b (tables w)" if "b \<noteq> ra_id app" for b
      using rebookSlot_frame(3) [OF rb that] v by (simp add: getSelectedSlots_def)
    then show ?thesis using stored rebookSlot_frame(2) [OF rb] w' t' by simp
  qed
qed

theorem selectRoles_spec_witness:
  "\<exists>w'. selectRoles bookEnv (\<lambda>i. replicate (Suc i) CHR ''n'') (hd (applicants bookDb)) [''r2'', ''r1''] bookWorld = (Inr (), w') \<and>
     map ar_roleId (sort_key ar_rank (findBy (\<lambda>r. ar_applicantId r = ''a'') (applicantRoles (tables w')))) = [''r2'', ''r1'']"
proof -
  let ?app = "hd (applicants bookDb)" and ?ids = "\<lambda>i. replicate (Suc i) CHR ''n''"
  have h: "distinct (map ar_id (applicantRoles (tables bookWorld)))" "inj ?ids"
    "\<forall>i. ?ids i \<notin> ar_id ` set (applicantRoles (tables bookWorld))" "ra_id ?app = ''a''"
    by (auto simp: bookWorld_def bookDb_def intro!: injI)
  obtain res w' where r: "selectRoles bookEnv ?ids ?app [''r2'', ''r1''] bookWorld = (res, w')" by fastforce
  have "fst (selectRoles bookEnv ?ids ?app [''r2'', ''r1''] bookWorld) = Inr ()" by code_simp
  with r have "res = Inr ()" by simp
  then show ?thesis using selectRoles_spec [OF r h(1-3)] r h(4) by simp
qed

text \<open>
  Answering a form either fails and leaves every table as it was, or stores the answers as
  described for \<open>storeFormAnswers\<close> and rebooks the applicant alone: afterwards the applicant either
  keeps a booking that the rebooking confirmed, or holds no slot without an interview; the slots of
  others are untouched.
\<close>

lemma updateFormAnswers_spec:
  assumes "updateFormAnswers env newIds app qas w = (res, w')"
  shows "(\<exists>e. res = Inl e \<and> tables w' = tables w) \<or>
    (\<exists>t' v. res = Inr () \<and> storeFormAnswers newIds (ra_id app) qas (answers (tables w)) = (Inr (), t') \<and>
     tables v = (tables w)\<lparr>answers := t'\<rparr> \<and>
     tables w' = (tables w)\<lparr>answers := t', slots := slotsOf w'\<rparr> \<and>
     (bookSlot env (ra_recruitId app) (ra_id app) None None v = (Inr (), w') \<or>
      openSlots (ra_id app) (slotsOf w') = []) \<and>
     (\<forall>b. b \<noteq> ra_id app \<longrightarrow> getSelectedSlots b (tables w') = getSelectedSlots b (tables w)))"
proof -
  obtain tres v where tx: "transaction (env_commit env) undoTables
      (onAnswerTable (storeFormAnswers newIds (ra_id app) qas)) w = (tres, v)" by fastforce
  from tx show ?thesis
  proof (cases rule: transaction_undo_cases)
    case (failed e)
    with assms(1) tx show ?thesis by (auto simp: updateFormAnswers_def andThen_def)
  next
    case (kept x)
    then obtain t' where st: "storeFormAnswers newIds (ra_id app) qas (answers (tables w)) = (Inr (), t')"
      and v: "tables v = (tables w)\<lparr>answers := t'\<rparr>"
      by (auto simp: onAnswerTable_def split: prod.splits)
    have rb: "rebookSlot env (ra_recruitId app) (ra_id app) v = (res, w')"
      using assms(1) tx kept by (simp add: updateFormAnswers_def andThen_def)
    have b: "bookSlot env (ra_recruitId app) (ra_id app) None None v = (Inr (), w') \<or>
        openSlots (ra_id app) (slotsOf w') = []"
      using rebookSlot_total [of env "ra_recruitId app" "ra_id app" v] rb by auto
    have w': "tables w' = (tables w)\<lparr>answers := t', slots := slotsOf w'\<rparr>"
      using rebookSlot_frame(1) [OF rb] v by simp
    have "getSelectedSlots b (tables w') = getSelectedSlots b (tables w)" if "b \<noteq> ra_id app" for b
      using rebookSlot_frame(3) [OF rb that] v by (simp add: getSelectedSlots_def)
    then show ?thesis using st v b w' rebookSlot_frame(2) [OF rb] by blast
  qed
qed

lemma updateFormAnswers_spec_witness:
  "\<exists>w'. updateFormAnswers bookEnv (\<lambda>_. ''n'') (hd (applicants bookDb)) [\<lparr>ad_questionId = ''q'', ad_answer = ''yes''\<rparr>]
       bookWorld = (Inr (), w') \<and> slots (tables w') = slots bookDb"
proof -
  let ?qas = "[\<lparr>ad_questionId = ''q'', ad_answer = ''yes''\<rparr>]" and ?app = "hd (applicants bookDb)"
  obtain res w' where r: "updateFormAnswers bookEnv (\<lambda>_. ''n'') ?app ?qas bookWorld = (res, w')" by fastforce
  have "fst (updateFormAnswers bookEnv (\<lambda>_. ''n'') ?app ?qas bookWorld) = Inr ()"
    "slots (tables (snd (updateFormAnswers bookEnv (\<lambda>_. ''n'') ?app ?qas bookWorld))) = slots bookDb" by code_simp+
  then show ?thesis using updateFormAnswers_spec [OF r] r by auto
qed

end
