(* ===== verification/Request_Auth.thy ===== *)
theory Request_Auth
  imports Object_Id
begin

text \<open>
  Who may call a handler: the guard \<open>auth/auth-group.guard.ts\<close> with its decorator, and the validator
  \<open>auth/is-forbidden-field.validator.ts\<close>. The \<open>User\<close> of a request is an object of the package
  \<open>@nudchannel/auth\<close>: its id, and its two authorization methods, are parameters.
\<close>

record request_user =
  user_id :: "object_id_arg option"
  user_isAuthorized :: "string list \<Rightarrow> bool"
  user_isAuthorizedOrThrow :: "string list \<Rightarrow> bool outcome"

text \<open>\<open>AuthGroups(...groups)\<close> sets the metadata the guard reads; a handler without it has none.\<close>

definition canActivate :: "string list option \<Rightarrow> request_user \<Rightarrow> bool outcome" where
  "canActivate groups user =
     (case groups of None \<Rightarrow> Inr True | Some gs \<Rightarrow> user_isAuthorizedOrThrow user gs)"

text \<open>A guard that answers false makes the framework throw.\<close>

definition authGroups :: "string list \<Rightarrow> request_user \<Rightarrow> ('s, 'a) action \<Rightarrow> ('s, 'a) action" where
  "authGroups groups user m =
     andThen (lift (canActivate (Some groups) user)) (\<lambda>ok.
     if ok then m else throw (Forbidden ''Forbidden resource''))"

text \<open>The validator runs on a property that was sent.\<close>

definition isForbiddenField :: "string list \<Rightarrow> request_user \<Rightarrow> bool" where
  "isForbiddenField allowGroups user = user_isAuthorized user allowGroups"

definition forbiddenMessage :: "string \<Rightarrow> string" where
  "forbiddenMessage field = field @ '' is forbidden''"

definition forbidField :: "string \<Rightarrow> string list \<Rightarrow> request_user \<Rightarrow> 'v option \<Rightarrow> ('s, 'a) action \<Rightarrow> ('s, 'a) action" where
  "forbidField field allowGroups user v m =
     andThen (throwIf (v \<noteq> None \<and> \<not> isForbiddenField allowGroups user) (BadRequest (forbiddenMessage field))) (\<lambda>_. m)"

lemma authGroups_run:
  "authGroups gs user m s =
     (case user_isAuthorizedOrThrow user gs of
        Inl e \<Rightarrow> (Inl e, s)
      | Inr ok \<Rightarrow> if ok then m s else (Inl (Forbidden ''Forbidden resource''), s))"
  by (auto simp: authGroups_def canActivate_def action_simps split: sum.splits)

lemma authGroups_refused:
  "user_isAuthorizedOrThrow user gs \<noteq> Inr True \<Longrightarrow> \<exists>e. authGroups gs user m s = (Inl e, s)"
  by (auto simp: authGroups_run split: sum.splits)

end
