(* ===== verification/Recruit_Api.thy ===== *)
theory Recruit_Api
  imports Recruit_Role Request_Auth
begin

text \<open>
  The handlers of the recruitment controllers, one definition each: the guard of the route, the
  validation of the request that decides about access, and the calls of the handler in their order.
  The context of the request is the one the middleware has computed. The audit log and the status of a
  successful answer are left out. At the end come the theorems about offers, for which controller and
  service act together.
\<close>

section \<open>The tables a service works on\<close>

abbreviation "onRecruitDb \<equiv> onTables"

abbreviation onSettings :: "(recruit_setting list, 'a) action \<Rightarrow> (recruit_world, 'a) action" where
  "onSettings \<equiv> \<lambda>m. onTables (zoom settings (\<lambda>t db. db\<lparr>settings := t\<rparr>) m)"

abbreviation onRoles :: "(recruit_role list, 'a) action \<Rightarrow> (recruit_world, 'a) action" where
  "onRoles \<equiv> \<lambda>m. onTables (zoom roles (\<lambda>t db. db\<lparr>roles := t\<rparr>) m)"

abbreviation onModerators :: "(recruit_role_moderator list, 'a) action \<Rightarrow> (recruit_world, 'a) action" where
  "onModerators \<equiv> \<lambda>m. onTables (zoom moderators (\<lambda>t db. db\<lparr>moderators := t\<rparr>) m)"

abbreviation onCollections :: "(recruit_form_collection list, 'a) action \<Rightarrow> (recruit_world, 'a) action" where
  "onCollections \<equiv> \<lambda>m. onTables (zoom collections (\<lambda>t db. db\<lparr>collections := t\<rparr>) m)"

abbreviation onQuestions :: "(recruit_form_question list, 'a) action \<Rightarrow> (recruit_world, 'a) action" where
  "onQuestions \<equiv> \<lambda>m. onTables (zoom questions (\<lambda>t db. db\<lparr>questions := t\<rparr>) m)"

abbreviation onNotes :: "(recruit_note list, 'a) action \<Rightarrow> (recruit_world, 'a) action" where
  "onNotes \<equiv> \<lambda>m. onTables (zoom recruitNotes (\<lambda>t db. db\<lparr>recruitNotes := t\<rparr>) m)"

definition callerUid :: "recruit_env \<Rightarrow> request_user \<Rightarrow> uuid option" where
  "callerUid env user = toUuid (env_lib env) (user_id user)"

definition checkApplicantPermission :: "recruit_env \<Rightarrow> request_user \<Rightarrow> uuid option \<Rightarrow> (recruit_world, unit) action" where
  "checkApplicantPermission env user applicantId =
     andThen (gets (\<lambda>w. hasPermissionToApplicantOrThrow (callerUid env user) applicantId (tables w))) lift"

section \<open>RecruitApplicantV1Controller\<close>

definition getRecruitApplicants ::
    "recruit_env \<Rightarrow> request_user \<Rightarrow> recruit_context \<Rightarrow> (recruit_world, recruit_applicant_model list) action" where
  "getRecruitApplicants env user ctx =
     authGroups [''nudch''] user
       (andThen (lift (hasPermissionOrThrow ctx)) (\<lambda>_.
        gets (\<lambda>w. getRecruitApplicantModels (env_lib env) (env_names env) (env_now env) None
          (Some (currentSettingId ctx)) None (isAnnounced (currentSetting ctx) (env_now env)) True (tables w))))"

definition createRecruitApplicant ::
    "recruit_env \<Rightarrow> uuid \<Rightarrow> request_user \<Rightarrow> recruit_context \<Rightarrow> (recruit_world, recruit_applicant_model) action" where
  "createRecruitApplicant env newId user ctx =
     authGroups [] user
       (andThen (onTables (createApplicant newId (currentSettingId ctx) (callerUid env user))) (\<lambda>applicant.
        ret (recruitApplicantModel_fromEntity (env_lib env) (env_now env) applicant (\<lambda>_. None) None False False)))"

record offer_response_dto =
  or_isAccepted :: bool
  or_roleId :: uuid

definition decideRecruitApplicantOffer ::
    "recruit_env \<Rightarrow> offer_response_dto \<Rightarrow> request_user \<Rightarrow> recruit_context \<Rightarrow> (recruit_world, unit) action" where
  "decideRecruitApplicantOffer env dto user ctx =
     authGroups [] user
       (andThen (throwIf (\<not> isAnnounced (currentSetting ctx) (env_now env))
          (Unprocessable ''Please wait the announcement'')) (\<lambda>_.
        andThen
          (if or_isAccepted dto then
             andThen (lift (applicantIdOrThrow ctx)) (\<lambda>a. onTables (checkApplicantReadyToAcceptOfferOrThrow a))
           else ret ()) (\<lambda>_.
        andThen (lift (applicantIdOrThrow ctx)) (\<lambda>a.
        andThen (gets (\<lambda>w. getApplicationRole a (or_roleId dto) (tables w))) (\<lambda>applicantRole.
        case applicantRole of
          None \<Rightarrow> throw (NotFound ''Applicant role not found'')
        | Some ar \<Rightarrow>
            andThen (lift (checkApplicantOfferOrThrow (ar_offerExpireAt ar) (env_now env))) (\<lambda>now.
            onTables (decideOffer (ar_id ar) (or_isAccepted dto) now)))))))"

record offer_dto =
  od_roleId :: uuid
  od_offerExpireAt :: "time option"

definition offerApplicant ::
    "recruit_env \<Rightarrow> uuid \<Rightarrow> offer_dto \<Rightarrow> request_user \<Rightarrow> (recruit_world, unit) action" where
  "offerApplicant env applicantId dto user =
     authGroups [''head''] user
       (andThen (throwIf (\<not> truthyId (callerUid env user)) (Forbidden ''User profile not found'')) (\<lambda>_.
        andThen (checkApplicantPermission env user (Some applicantId)) (\<lambda>_.
        andThen (gets (\<lambda>w. getApplicationRole applicantId (od_roleId dto) (tables w))) (\<lambda>applicantRole.
        case applicantRole of
          None \<Rightarrow> throw (NotFound ''Applicant role not found'')
        | Some ar \<Rightarrow> onTables (offerApplicantRole (ar_id ar) (od_offerExpireAt dto))))))"

definition getMyRecruitApplicantInfo ::
    "recruit_env \<Rightarrow> request_user \<Rightarrow> recruit_context \<Rightarrow> (recruit_world, recruit_applicant_model) action" where
  "getMyRecruitApplicantInfo env user ctx =
     authGroups [] user
       (andThen (lift (applicantOrThrow ctx)) (\<lambda>la.
        gets (\<lambda>w. getRecruitApplicantModelWithInfo (env_lib env) (env_names env) (env_now env) la
          (isAnnounced (currentSetting ctx) (env_now env)) False (tables w))))"

definition getRecruitApplicantInfo ::
    "recruit_env \<Rightarrow> uuid \<Rightarrow> request_user \<Rightarrow> recruit_context \<Rightarrow> (recruit_world, recruit_applicant_model) action" where
  "getRecruitApplicantInfo env i user ctx =
     authGroups [''nudch''] user
       (andThen (checkApplicantPermission env user (Some i)) (\<lambda>_.
        let announced = isAnnounced (currentSetting ctx) (env_now env) in
        andThen (gets (\<lambda>w. findOneApplicant (Some i) None None (announced \<or> hasPermission ctx) (tables w))) (\<lambda>applicant.
        case applicant of
          None \<Rightarrow> throw (NotFound [])
        | Some la \<Rightarrow>
            gets (\<lambda>w. getRecruitApplicantModelWithInfo (env_lib env) (env_names env) (env_now env) la
              announced (hasPermission ctx) (tables w)))))"

definition getRecruitApplicantNotes ::
    "recruit_env \<Rightarrow> uuid \<Rightarrow> request_user \<Rightarrow> (recruit_world, recruit_applicant_note_model list) action" where
  "getRecruitApplicantNotes env i user =
     authGroups [''nudch''] user
       (andThen (checkApplicantPermission env user (Some i)) (\<lambda>_.
        andThen (gets (\<lambda>w. getNotes i (callerUid env user) (recruitNotes (tables w)))) (\<lambda>notes'.
        ret (recruitApplicantNotesModel_fromEntities notes' (callerUid env user)))))"

definition createRecruitApplicantNote ::
    "recruit_env \<Rightarrow> uuid \<Rightarrow> uuid \<Rightarrow> note_body_dto \<Rightarrow> request_user \<Rightarrow> (recruit_world, recruit_applicant_note_model) action" where
  "createRecruitApplicantNote env newId i dto user =
     authGroups [''nudch''] user
       (andThen (checkApplicantPermission env user (Some i)) (\<lambda>_.
        case callerUid env user of
          None \<Rightarrow> throw (JsError ''QueryFailedError'')
        | Some p \<Rightarrow>
            andThen (onNotes (createNote (noteBody_toCreateEntity newId dto i p))) (\<lambda>n.
            ret (recruitApplicantNoteModel_fromEntity n (Some p)))))"

definition editRecruitApplicantNote ::
    "recruit_env \<Rightarrow> uuid \<Rightarrow> note_body_dto \<Rightarrow> request_user \<Rightarrow> (recruit_world, unit) action" where
  "editRecruitApplicantNote env noteId dto user =
     authGroups [''nudch''] user
       (andThen (onNotes (editNote noteId dto (callerUid env user))) (\<lambda>_. ret ()))"

definition deleteRecruitApplicantNote ::
    "recruit_env \<Rightarrow> uuid \<Rightarrow> request_user \<Rightarrow> (recruit_world, unit) action" where
  "deleteRecruitApplicantNote env noteId user =
     authGroups [''nudch''] user
       (andThen (onNotes (deleteNote noteId (callerUid env user))) (\<lambda>_. ret ()))"

definition markApplicantAsInterviewed ::
    "recruit_env \<Rightarrow> uuid \<Rightarrow> request_user \<Rightarrow> (recruit_world, unit) action" where
  "markApplicantAsInterviewed env applicantId user =
     authGroups [''nudch''] user
       (andThen (checkApplicantPermission env user (Some applicantId)) (\<lambda>_.
        andThen (markApplicantSlotsAsInterviewed env applicantId) (\<lambda>_. ret ())))"

definition unmarkApplicantAsInterviewed ::
    "recruit_env \<Rightarrow> uuid \<Rightarrow> request_user \<Rightarrow> (recruit_world, unit) action" where
  "unmarkApplicantAsInterviewed env applicantId user =
     authGroups [''nudch''] user
       (andThen (checkApplicantPermission env user (Some applicantId)) (\<lambda>_.
        andThen (unmarkApplicantSlotsAsInterviewed applicantId) (\<lambda>_. ret ())))"

section \<open>RecruitInterviewV1Controller\<close>

definition getRecruitInterviewSlots ::
    "recruit_env \<Rightarrow> request_user \<Rightarrow> recruit_context \<Rightarrow> (recruit_world, recruit_interview_slot_detail_model list) action" where
  "getRecruitInterviewSlots env user ctx =
     authGroups [] user
       (andThen (gets (\<lambda>w. getSlots env (currentSettingId ctx) (ctx_applicantId ctx) (hasPermission ctx) (tables w))) lift)"

definition bookRecruitInterviewSlot ::
    "recruit_env \<Rightarrow> string \<Rightarrow> request_user \<Rightarrow> recruit_context \<Rightarrow> (recruit_world, unit) action" where
  "bookRecruitInterviewSlot env ref user ctx =
     authGroups [] user
       (andThen (throwIf (\<not> matchesRefId ref) (BadRequest ''Invalid refId'')) (\<lambda>_.
        andThen (lift (applicantIdOrThrow ctx)) (\<lambda>a.
        bookSlot env (currentSettingId ctx) a (fst (fromRefId ref)) (snd (fromRefId ref)))))"

definition cancelRecruitInterviewSlot ::
    "recruit_env \<Rightarrow> request_user \<Rightarrow> recruit_context \<Rightarrow> (recruit_world, unit) action" where
  "cancelRecruitInterviewSlot env user ctx =
     authGroups [] user
       (andThen (lift (applicantIdOrThrow ctx)) (\<lambda>a.
        andThen (cancelSlot env a) (\<lambda>result. throwIf (\<not> result) (Conflict []))))"

record add_slot_dto =
  as_startWhen :: time
  as_endWhen :: time
  as_roleIds :: "uuid list"

definition addRecruitInterviewSlot ::
    "recruit_env \<Rightarrow> (nat \<Rightarrow> uuid) \<Rightarrow> add_slot_dto \<Rightarrow> request_user \<Rightarrow> recruit_context \<Rightarrow> (recruit_world, unit) action" where
  "addRecruitInterviewSlot env newIds dto user ctx =
     authGroups [''nudch''] user
       (andThen (lift (hasPermissionOrThrow ctx)) (\<lambda>_.
        addSlot newIds (as_startWhen dto) (as_endWhen dto) (as_roleIds dto)))"

record remove_slot_dto =
  rs_refId :: string
  rs_roleIds :: "uuid list"

text \<open>A part of the reference id that is missing, \<open>undefined\<close>, cannot occur after the validation.\<close>

definition removeRecruitInterviewSlot ::
    "recruit_env \<Rightarrow> remove_slot_dto \<Rightarrow> request_user \<Rightarrow> recruit_context \<Rightarrow> (recruit_world, unit) action" where
  "removeRecruitInterviewSlot env dto user ctx =
     authGroups [''nudch''] user
       (andThen (throwIf (\<not> matchesRefId (rs_refId dto)) (BadRequest ''Invalid refId'')) (\<lambda>_.
        andThen (lift (hasPermissionOrThrow ctx)) (\<lambda>_.
        case fromRefId (rs_refId dto) of
          (Some st, Some en) \<Rightarrow> removeSlot st en (rs_roleIds dto)
        | _ \<Rightarrow> ret ())))"

section \<open>RecruitRoleV1Controller\<close>

text \<open>The column \<open>mandatory\<close> is selected only for those who may see the mandatory roles.\<close>

definition getRecruitRoles ::
    "bool option \<Rightarrow> request_user \<Rightarrow> recruit_context \<Rightarrow> (recruit_world, recruit_role_model list) action" where
  "getRecruitRoles all user ctx =
     forbidField ''all'' [''nudch''] user all
       (gets (\<lambda>w. map (\<lambda>r. let m = recruitRoleModel_fromEntity r in
            if all = Some True then m else m\<lparr>rrm_isMandatory := None\<rparr>)
          (getRolesByRecruitId (currentSettingId ctx) (all = Some True) (tables w))))"

definition getRecruitRole :: "uuid \<Rightarrow> request_user \<Rightarrow> (recruit_world, recruit_role_model) action" where
  "getRecruitRole i user =
     authGroups [''nudch''] user
       (andThen (gets (\<lambda>w. getRoleById i (tables w))) (\<lambda>role.
        case role of
          None \<Rightarrow> throw (NotFound ''Role not found'')
        | Some r \<Rightarrow> ret (recruitRoleModel_fromEntity r)))"

definition createRecruitRole ::
    "uuid \<Rightarrow> create_role_dto \<Rightarrow> request_user \<Rightarrow> (recruit_world, recruit_role_model) action" where
  "createRecruitRole newId dto user =
     authGroups [''nudch''] user
       (andThen (onRoles (createRole newId dto)) (\<lambda>r. ret (recruitRoleModel_fromEntity r)))"

definition updateRecruitRole ::
    "uuid \<Rightarrow> update_role_dto \<Rightarrow> request_user \<Rightarrow> (recruit_world, recruit_role_model) action" where
  "updateRecruitRole i dto user =
     authGroups [''nudch''] user
       (andThen (onRoles (updateRole i dto)) (\<lambda>r. ret (recruitRoleModel_fromEntity r)))"

definition deleteRecruitRole ::
    "(recruit_role list \<Rightarrow> http_error option) \<Rightarrow> uuid \<Rightarrow> request_user \<Rightarrow> (recruit_world, unit) action" where
  "deleteRecruitRole answer i user = authGroups [''nudch''] user (onRoles (deleteRole answer i))"

definition selectRecruitRoles ::
    "recruit_env \<Rightarrow> (nat \<Rightarrow> uuid) \<Rightarrow> uuid list \<Rightarrow> request_user \<Rightarrow> recruit_context \<Rightarrow> (recruit_world, unit) action" where
  "selectRecruitRoles env newIds roleIds user ctx =
     authGroups [] user
       (andThen (lift (isRegistrationOpenOrThrow ctx (env_now env))) (\<lambda>_.
        andThen (lift (applicantOrThrow ctx)) (\<lambda>la.
        selectRoles env newIds (la_applicant la) roleIds)))"

section \<open>RecruitSettingV1Controller, RecruitV1Controller\<close>

definition getRecruitSettings ::
    "bool option \<Rightarrow> request_user \<Rightarrow> recruit_context \<Rightarrow> (recruit_world, recruit_setting_model list) action" where
  "getRecruitSettings all user ctx =
     authGroups [''nudch''] user (forbidField ''all'' [''head''] user all
       (gets (\<lambda>w. map recruitSettingModel_fromEntity
          (listSettings (if all = Some True then None else Some (manageableRecruitId ctx)) (settings (tables w))))))"

definition getRecruitSetting :: "uuid \<Rightarrow> request_user \<Rightarrow> (recruit_world, recruit_setting_model) action" where
  "getRecruitSetting i user =
     authGroups [''nudch''] user
       (andThen (gets (\<lambda>w. getSettingById i (settings (tables w)))) (\<lambda>setting.
        case setting of None \<Rightarrow> throw (NotFound []) | Some s \<Rightarrow> ret (recruitSettingModel_fromEntity s)))"

definition createRecruitSetting ::
    "uuid \<Rightarrow> create_setting_dto \<Rightarrow> request_user \<Rightarrow> (recruit_world, recruit_setting_model) action" where
  "createRecruitSetting newId dto user =
     authGroups [''nudch''] user
       (andThen (throwIf (\<not> createSettingDto_valid dto) (BadRequest ''Bad Request'')) (\<lambda>_.
        andThen (onSettings (createSetting newId dto)) (\<lambda>s. ret (recruitSettingModel_fromEntity s))))"

definition updateRecruitSetting ::
    "uuid \<Rightarrow> update_setting_dto \<Rightarrow> request_user \<Rightarrow> (recruit_world, recruit_setting_model) action" where
  "updateRecruitSetting i dto user =
     authGroups [''nudch''] user
       (andThen (throwIf (\<not> updateSettingDto_valid dto) (BadRequest ''Bad Request'')) (\<lambda>_.
        andThen (onSettings (updateSetting i dto)) (\<lambda>s. ret (recruitSettingModel_fromEntity s))))"

definition getCurrentRecruitSetting :: "recruit_context \<Rightarrow> (recruit_world, recruit_setting_model) action" where
  "getCurrentRecruitSetting ctx =
     andThen (gets (\<lambda>w. getSettingById (currentSettingId ctx) (settings (tables w)))) (\<lambda>entity.
     andThen (gets (\<lambda>w. if truthyId (ctx_applicantId ctx)
         then map Inr (getApplicantFormCollectionWithCompletions (the (ctx_applicantId ctx)) (currentSettingId ctx) None (tables w))
         else map Inl (getMandatoryCollections (currentSettingId ctx) (tables w)))) (\<lambda>cs.
     andThen (gets (\<lambda>w. getRange (currentSettingId ctx) (tables w))) (\<lambda>interviewRange.
     case entity of
       None \<Rightarrow> throw (NotFound [])
     | Some e \<Rightarrow> ret (withInterviewRange interviewRange (withCollections (Some cs) (recruitSettingModel_fromEntity e))))))"

section \<open>RecruitModeratorV1Controller\<close>

definition getRecruitModeratorRoles ::
    "profile_id_model \<Rightarrow> request_user \<Rightarrow> (recruit_world, recruit_role_model list) action" where
  "getRecruitModeratorRoles profileId user =
     authGroups [''it''] user
       (andThen (gets (\<lambda>w. getModeratorRoles (pid_uuid profileId) (tables w))) (\<lambda>rs.
        if list_ex (\<lambda>r. r = None) rs then throw (JsError ''TypeError'')
        else ret (map (\<lambda>r. recruitRoleModel_fromEntity (the r)) rs)))"

definition getRecruitRoleModerator ::
    "recruit_env \<Rightarrow> uuid \<Rightarrow> request_user \<Rightarrow> (recruit_world, profile_name_response list) action" where
  "getRecruitRoleModerator env i user =
     authGroups [''it''] user
       (gets (\<lambda>w. map (\<lambda>p. profileNameResponse_fromModel (Some p))
          (getRoleModerators (env_lib env) (env_names env) i (tables w))))"

definition addRecruitRoleModerator ::
    "nat \<Rightarrow> uuid \<Rightarrow> profile_id_model \<Rightarrow> request_user \<Rightarrow> (recruit_world, unit) action" where
  "addRecruitRoleModerator nextId i profileId user =
     authGroups [''it''] user (onModerators (addRoleModerator nextId i (pid_uuid profileId)))"

definition removeRecruitRoleModerator ::
    "uuid \<Rightarrow> profile_id_model \<Rightarrow> request_user \<Rightarrow> (recruit_world, unit) action" where
  "removeRecruitRoleModerator i profileId user =
     authGroups [''it''] user (onModerators (removeRoleModerator i (pid_uuid profileId)))"

section \<open>RecruitFormV1Controller\<close>

text \<open>
  The id in the query is not checked to be a UUID: an empty one is falsy, and is then the parameter of
  the question query, which the server rejects.
\<close>

definition getRecruitFormCollection ::
    "recruit_env \<Rightarrow> uuid \<Rightarrow> uuid option \<Rightarrow> request_user \<Rightarrow> recruit_context \<Rightarrow> (recruit_world, recruit_form_collection_model) action" where
  "getRecruitFormCollection env i applicantId user ctx =
     authGroups [] user (forbidField ''applicantId'' [''nudch''] user applicantId
       (andThen (checkApplicantPermission env user applicantId) (\<lambda>_.
        andThen (case applicantId of
            Some a \<Rightarrow> ret (Some a)
          | None \<Rightarrow> if user_isAuthorized user [''nudch''] then ret (ctx_applicantId ctx)
                    else andThen (lift (applicantIdOrThrow ctx)) (\<lambda>a. ret (Some a))) (\<lambda>app.
        if app = Some [] then throw (JsError ''QueryFailedError'')
        else
          andThen (gets (\<lambda>w. case app of
              Some a \<Rightarrow> getApplicantFormCollectionWithCompletions a (currentSettingId ctx) (Some [i]) (tables w)
            | None \<Rightarrow> map recruitFormCollectionModel_fromEntity (getCollections [i] (tables w)))) (\<lambda>cs.
          andThen (gets (\<lambda>w. getQAByCollectionId i app (tables w))) (\<lambda>qs.
          case cs of [] \<Rightarrow> throw (NotFound []) | c # _ \<Rightarrow> ret (withQuestions (Some qs) c)))))))"

definition getRecruitFormCollections ::
    "request_user \<Rightarrow> recruit_context \<Rightarrow> (recruit_world, recruit_form_collection_model list) action" where
  "getRecruitFormCollections user ctx =
     authGroups [''nudch''] user
       (andThen (lift (hasPermissionOrThrow ctx)) (\<lambda>_.
        gets (\<lambda>w. map recruitFormCollectionModel_fromEntity
          (getCollectionsByRecruitId (currentSettingId ctx) (tables w)))))"

definition answerRecruitFormQuestions ::
    "recruit_env \<Rightarrow> (nat \<Rightarrow> uuid) \<Rightarrow> answer_dto list \<Rightarrow> request_user \<Rightarrow> recruit_context \<Rightarrow> (recruit_world, unit) action" where
  "answerRecruitFormQuestions env newIds items user ctx =
     authGroups [] user
       (andThen (lift (isRegistrationOpenOrThrow ctx (env_now env))) (\<lambda>_.
        andThen (lift (applicantOrThrow ctx)) (\<lambda>la.
        updateFormAnswers env newIds (la_applicant la) items)))"

definition createRecruitFormCollection ::
    "uuid \<Rightarrow> create_collection_dto \<Rightarrow> request_user \<Rightarrow> (recruit_world, recruit_form_collection_model) action" where
  "createRecruitFormCollection newId dto user =
     authGroups [''pr''] user
       (andThen (onCollections (createCollection newId dto)) (\<lambda>c. ret (recruitFormCollectionModel_fromEntity c)))"

definition updateRecruitFormCollection ::
    "uuid \<Rightarrow> update_collection_dto \<Rightarrow> request_user \<Rightarrow> (recruit_world, recruit_form_collection_model) action" where
  "updateRecruitFormCollection i dto user =
     authGroups [''pr''] user
       (andThen (onCollections (updateCollection i dto)) (\<lambda>c. ret (recruitFormCollectionModel_fromEntity c)))"

definition createRecruitFormQuestion ::
    "uuid \<Rightarrow> create_question_dto \<Rightarrow> request_user \<Rightarrow> recruit_context \<Rightarrow> (recruit_world, recruit_form_question_model) action" where
  "createRecruitFormQuestion newId dto user ctx =
     authGroups [''pr''] user
       (andThen (lift (hasPermissionOrThrow ctx)) (\<lambda>_.
        andThen (onQuestions (createQuestion newId dto)) (\<lambda>q. ret (recruitFormQuestionModel_fromEntity q))))"

definition updateRecruitFormQuestion ::
    "uuid \<Rightarrow> update_question_dto \<Rightarrow> request_user \<Rightarrow> recruit_context \<Rightarrow> (recruit_world, unit) action" where
  "updateRecruitFormQuestion i dto user ctx =
     authGroups [''pr''] user
       (andThen (lift (hasPermissionOrThrow ctx)) (\<lambda>_.
        andThen (onQuestions (updateQuestion i dto)) (\<lambda>_. ret ())))"

end
