(* ===== verification/Recruit_Offers.thy ===== *)
theory Recruit_Offers
  imports Recruit_Api
begin

text \<open>
  Offers, where controller and service act together: what a decision does, and that no applicant ever
  has two accepted offers, whatever is decided, offered and selected in whatever order. Then what the
  handlers do for a caller the guard refuses, and which handlers need a permission.
\<close>

lemma onTables_gets: "onTables (gets f) w = (Inr (f (tables w)), w)"
  by (simp add: onTables_def action_simps)

lemma checkReady_run:
  "onTables (checkApplicantReadyToAcceptOfferOrThrow a) w =
     (if \<exists>r \<in> set (applicantRoles (tables w)). ar_applicantId r = a \<and> ar_offerAccepted r
      then (Inl (Conflict ''Applicant already accepted an offer''), w) else (Inr (), w))"
  by (auto simp: onTables_def checkApplicantReadyToAcceptOfferOrThrow_def action_simps
      isApplicantAcceptAnyOffer_def findBy_def filter_empty_conv)

lemma decideOffer_run:
  "onTables (decideOffer i b now) w =
     (Inr (), w\<lparr>tables := onApplicantRoles (updateBy (\<lambda>r. ar_id r = i) (answerOffer (b, now))) (tables w)\<rparr>)"
  by (simp add: onTables_def decideOffer_def action_simps)

lemma offerApplicantRole_run:
  "onTables (offerApplicantRole i e) w =
     (Inr (), w\<lparr>tables := onApplicantRoles (updateBy (\<lambda>r. ar_id r = i) (makeOffer e)) (tables w)\<rparr>)"
  by (simp add: onTables_def offerApplicantRole_def action_simps)

section \<open>Deciding\<close>

lemma checkOffer_Inr: "checkApplicantOfferOrThrow e today = Inr now \<longleftrightarrow> now = today \<and> (\<exists>x. e = Some x \<and> today \<le> x)"
  by (auto simp: checkApplicantOfferOrThrow_def split: option.splits)

lemma decideRecruitApplicantOffer_cases:
  assumes "decideRecruitApplicantOffer env dto user ctx w = (res, w')"
  obtains (failed) e where "res = Inl e" "w' = w"
    | (decided) a ar x where "res = Inr ()" "ctx_applicantId ctx = Some a"
        "isAnnounced (currentSetting ctx) (env_now env)"
        "getApplicationRole a (or_roleId dto) (tables w) = Some ar"
        "ar_offerExpireAt ar = Some x" "env_now env \<le> x"
        "or_isAccepted dto \<longrightarrow> (\<forall>r \<in> set (applicantRoles (tables w)). ar_applicantId r = a \<longrightarrow> \<not> ar_offerAccepted r)"
        "w' = w\<lparr>tables := onApplicantRoles (updateBy (\<lambda>r. ar_id r = ar_id ar)
           (answerOffer (or_isAccepted dto, env_now env))) (tables w)\<rparr>"
proof (cases res)
  case (Inl e)
  have "w' = w"
    using assms Inl
    by (auto simp: decideRecruitApplicantOffer_def authGroups_run action_simps andThen_def checkReady_run decideOffer_run
        split: sum.splits if_splits option.splits)
  with Inl show ?thesis by (rule failed)
next
  case (Inr u)
  from assms Inr obtain a ar x where "applicantIdOrThrow ctx = Inr a"
      "isAnnounced (currentSetting ctx) (env_now env)"
      "getApplicationRole a (or_roleId dto) (tables w) = Some ar"
      "ar_offerExpireAt ar = Some x" "env_now env \<le> x"
      "or_isAccepted dto \<longrightarrow> (\<forall>r \<in> set (applicantRoles (tables w)). ar_applicantId r = a \<longrightarrow> \<not> ar_offerAccepted r)"
      "w' = w\<lparr>tables := onApplicantRoles (updateBy (\<lambda>r. ar_id r = ar_id ar)
           (answerOffer (or_isAccepted dto, env_now env))) (tables w)\<rparr>"
    by (auto simp: decideRecruitApplicantOffer_def authGroups_run action_simps andThen_def checkReady_run decideOffer_run
        checkOffer_Inr split: sum.splits if_splits option.splits)
  then show ?thesis using Inr
    by (intro decided [of a ar x]) (auto simp: applicantIdOrThrow_def truthyId_def split: if_splits option.splits)
qed

text \<open>
  Claim C6: an applicant's decision takes effect only after the announcement, on an offer that was made
  for that role and has not run out, and, to accept, only without an accepted offer; it then changes
  exactly the row of that role, which from then on shows as accepted or declined. In every other case it
  fails and changes nothing.
\<close>

theorem decideRecruitApplicantOffer_spec:
  assumes "decideRecruitApplicantOffer env dto user ctx w = (res, w')"
  shows "(\<exists>e. res = Inl e \<and> w' = w) \<or>
    (\<exists>a ar x. res = Inr () \<and> ctx_applicantId ctx = Some a \<and>
       rs_announceWhen (currentSetting ctx) \<le> env_now env \<and>
       ar \<in> set (applicantRoles (tables w)) \<and> ar_applicantId ar = a \<and> ar_roleId ar = or_roleId dto \<and>
       ar_offerExpireAt ar = Some x \<and> env_now env \<le> x \<and>
       (or_isAccepted dto \<longrightarrow> (\<forall>r \<in> set (applicantRoles (tables w)). ar_applicantId r = a \<longrightarrow> \<not> ar_offerAccepted r)) \<and>
       tables w' = (tables w)\<lparr>applicantRoles := applicantRoles (tables w')\<rparr> \<and>
       filter (\<lambda>r. ar_id r \<noteq> ar_id ar) (applicantRoles (tables w')) =
         filter (\<lambda>r. ar_id r \<noteq> ar_id ar) (applicantRoles (tables w)) \<and>
       (\<forall>r \<in> set (applicantRoles (tables w')). ar_id r = ar_id ar \<longrightarrow>
          determineOfferResponse r True m t = (if or_isAccepted dto then Accepted else Declined)))"
  using assms
proof (cases rule: decideRecruitApplicantOffer_cases)
  case (failed e)
  then show ?thesis by blast
next
  case (decided a ar x)
  let ?t = "applicantRoles (tables w)"
  let ?u = "updateBy (\<lambda>r. ar_id r = ar_id ar) (answerOffer (or_isAccepted dto, env_now env)) ?t"
  have t': "applicantRoles (tables w') = ?u" "tables w' = (tables w)\<lparr>applicantRoles := ?u\<rparr>"
    using decided(8) by (simp_all add: onApplicantRoles_def)
  have ar: "ar \<in> set ?t" "ar_applicantId ar = a" "ar_roleId ar = or_roleId dto"
    using decided(4) by (auto simp: getApplicationRole_def dest: findOneBy_SomeD)
  have "filter (\<lambda>r. ar_id r \<noteq> ar_id ar) ?u = filter (\<lambda>r. ar_id r \<noteq> ar_id ar) ?t"
    by (rule filter_updateBy_frame) (simp add: answerOffer_def)
  moreover have "determineOfferResponse r True m t = (if or_isAccepted dto then Accepted else Declined)"
    if "r \<in> set ?u" "ar_id r = ar_id ar" for r
    using that by (auto simp: answerOffer_def determineOfferResponse_def elim!: updateBy_memE split: if_splits)
  moreover have "rs_announceWhen (currentSetting ctx) \<le> env_now env" using decided(3) by (simp add: isAnnounced_def)
  moreover have "tables w' = (tables w)\<lparr>applicantRoles := applicantRoles (tables w')\<rparr>" using t' by simp
  ultimately show ?thesis
    unfolding t'(1) [symmetric] using decided(1,2,5-7) ar
    by (intro disjI2 exI [of _ a] exI [of _ ar] exI [of _ x]) blast
qed

definition offerCtx :: recruit_context where
  "offerCtx = \<lparr>currentSetting = \<lparr>rs_id = ''s'', rs_oid = None, rs_year = 2024, rs_name = ''r'', rs_openWhen = -3,
       rs_closeWhen = -2, rs_announceWhen = -1, rs_maximumRole = 1, rs_isActive = True\<rparr>,
     ctx_applicant = Some \<lparr>la_applicant = \<lparr>ra_id = ''a'', ra_oid = None, ra_profileId = ''p'', ra_recruitId = ''s''\<rparr>,
       la_roles = [], la_interviewSlots = []\<rparr>,
     manageableRecruitId = []\<rparr>"

definition offerWorld :: recruit_world where
  "offerWorld = bookWorld\<lparr>tables := bookDb\<lparr>applicantRoles := [\<lparr>ar_id = ''x'', ar_rank = 0,
     ar_applicantId = ''a'', ar_roleId = ''r'', ar_offerResponseAt = None, ar_offerAccepted = False,
     ar_offerExpireAt = Some 10\<rparr>]\<rparr>\<rparr>"

definition signedIn :: request_user where
  "signedIn = \<lparr>user_id = None, user_isAuthorized = (\<lambda>_. True), user_isAuthorizedOrThrow = (\<lambda>_. Inr True)\<rparr>"

theorem decideRecruitApplicantOffer_spec_witness:
  "\<exists>w'. decideRecruitApplicantOffer bookEnv \<lparr>or_isAccepted = True, or_roleId = ''r''\<rparr> signedIn offerCtx offerWorld = (Inr (), w') \<and>
     (\<exists>x. \<forall>r \<in> set (applicantRoles (tables w')). ar_id r = x \<longrightarrow> determineOfferResponse r True False 0 = Accepted)"
proof -
  obtain res w' where r: "decideRecruitApplicantOffer bookEnv \<lparr>or_isAccepted = True, or_roleId = ''r''\<rparr> signedIn offerCtx offerWorld
      = (res, w')" by fastforce
  have "fst (decideRecruitApplicantOffer bookEnv \<lparr>or_isAccepted = True, or_roleId = ''r''\<rparr> signedIn offerCtx offerWorld) = Inr ()"
    by code_simp
  with r have "res = Inr ()" by simp
  then show ?thesis using decideRecruitApplicantOffer_spec [OF r, of False 0] r by auto
qed

section \<open>At most one accepted offer\<close>

inductive offerStep :: "recruit_world \<Rightarrow> recruit_world \<Rightarrow> bool" where
  decide: "decideRecruitApplicantOffer env dto user ctx w = (res, w') \<Longrightarrow> offerStep w w'"
| offer: "offerApplicant env a odto user w = (res, w') \<Longrightarrow> offerStep w w'"
| select: "selectRecruitRoles env newIds roleIds user ctx w = (res, w') \<Longrightarrow> inj newIds \<Longrightarrow>
    \<forall>i. newIds i \<notin> ar_id ` set (applicantRoles (tables w)) \<Longrightarrow> offerStep w w'"
| elsewhere: "applicantRoles (tables w') = applicantRoles (tables w) \<Longrightarrow> offerStep w w'"

inductive_cases offerStepE: "offerStep w w'"

definition offersInvar :: "recruit_applicant_role list \<Rightarrow> bool" where
  "offersInvar t \<longleftrightarrow> distinct (map ar_id t) \<and>
     (\<forall>r \<in> set t. \<forall>q \<in> set t. ar_applicantId r = ar_applicantId q \<and> ar_offerAccepted r \<and> ar_offerAccepted q \<longrightarrow>
        ar_id r = ar_id q)"

lemma offersInvar_accepted_subset:
  assumes "offersInvar t" and "distinct (map ar_id t')"
    and "\<And>r. r \<in> set t' \<Longrightarrow> ar_offerAccepted r \<Longrightarrow>
      \<exists>q \<in> set t. ar_id q = ar_id r \<and> ar_offerAccepted q \<and> ar_applicantId q = ar_applicantId r"
  shows "offersInvar t'"
  using assms unfolding offersInvar_def by metis

lemma offersInvar_unaccept:
  assumes "offersInvar t" and "\<And>r. \<not> ar_offerAccepted (f r) \<and> ar_id (f r) = ar_id r"
  shows "offersInvar (updateBy p f t)"
proof (rule offersInvar_accepted_subset [OF assms(1)])
  have "map ar_id (updateBy p f t) = map ar_id t" using assms(2) by (simp add: updateBy_def)
  then show "distinct (map ar_id (updateBy p f t))" using assms(1) by (simp only: offersInvar_def)
  fix r
  assume "r \<in> set (updateBy p f t)" "ar_offerAccepted r"
  then have "r \<in> set t" using assms(2) by (auto elim!: updateBy_memE split: if_splits)
  then show "\<exists>q \<in> set t. ar_id q = ar_id r \<and> ar_offerAccepted q \<and> ar_applicantId q = ar_applicantId r"
    using \<open>ar_offerAccepted r\<close> by blast
qed

lemma offersInvar_accept:
  assumes "offersInvar t" and "ar \<in> set t"
    and none: "\<forall>r \<in> set t. ar_applicantId r = ar_applicantId ar \<longrightarrow> \<not> ar_offerAccepted r"
  shows "offersInvar (updateBy (\<lambda>r. ar_id r = ar_id ar) (answerOffer (b, now)) t)" (is "offersInvar ?u")
proof -
  have d: "distinct (map ar_id t)" using assms(1) by (simp add: offersInvar_def)
  have same: "r = ar" if "r \<in> set t" "ar_id r = ar_id ar" for r
    using that assms(2) d by (auto simp: distinct_map inj_on_def)
  have acc: "ar_id r = ar_id ar \<and> ar_applicantId r = ar_applicantId ar \<or> r \<in> set t \<and> ar_applicantId r \<noteq> ar_applicantId ar"
    if "r \<in> set ?u" "ar_offerAccepted r" for r
    using that none by (auto simp: answerOffer_def elim!: updateBy_memE split: if_splits dest: same)
  have "map ar_id ?u = map ar_id t" by (simp add: updateBy_def answerOffer_def)
  then have "distinct (map ar_id ?u)" using d by (simp only:)
  moreover have "ar_id r = ar_id q" if "r \<in> set ?u" "q \<in> set ?u" "ar_applicantId r = ar_applicantId q"
      "ar_offerAccepted r" "ar_offerAccepted q" for r q
    using acc [OF that(1,4)] acc [OF that(2,5)] that assms(1) unfolding offersInvar_def by metis
  ultimately show ?thesis unfolding offersInvar_def by blast
qed

lemma storedRoles_accepted:
  assumes "storeSelectedRoles newIds a roleIds t = (res, t')" and "r \<in> set t'" and "ar_offerAccepted r"
    and "distinct (map ar_id t)" and "\<forall>i. newIds i \<notin> ar_id ` set t" and "inj newIds"
  shows "\<exists>q \<in> set t. ar_id q = ar_id r \<and> ar_offerAccepted q \<and> ar_applicantId q = ar_applicantId r"
proof -
  define sel where "sel = sort_key ar_rank (findBy (\<lambda>r. ar_applicantId r = a) t)"
  define up where "up = updatedRoles newIds a roleIds sel"
  have dup: "distinct (map ar_id up)"
    using selected_cover(3) [OF assms(4-6), where a = a and roleIds = roleIds] by (simp add: up_def sel_def)
  have "r \<in> set (saveAll ar_id up t)"
    using assms(1,2) by (auto simp: storeSelectedRoles_run Let_def sel_def up_def)
  then have "r \<in> set up \<or> r \<in> set t" by (auto simp: set_saveAll [OF dup])
  then show ?thesis
  proof
    assume "r \<in> set up"
    then obtain i where i: "i < length roleIds"
      "r = fillRole a (roleIds ! i) i (if i < length sel then sel ! i else newApplicantRole (newIds i))"
      by (auto simp: up_def updatedRoles_def)
    then have "i < length sel" using assms(3) by (cases "i < length sel") (simp_all add: fillRole_def newApplicantRole_def)
    moreover from this have "sel ! i \<in> set t" "ar_applicantId (sel ! i) = a"
      using nth_mem [of i sel] by (simp_all add: sel_def)
    ultimately show ?thesis using i assms(3) by (intro bexI [of _ "sel ! i"]) (simp_all add: fillRole_def)
  next
    assume "r \<in> set t"
    then show ?thesis using assms(3) by blast
  qed
qed

lemma decide_offers:
  assumes "decideRecruitApplicantOffer env dto user ctx w = (res, w')" and "offersInvar (applicantRoles (tables w))"
  shows "offersInvar (applicantRoles (tables w'))"
  using assms(1)
proof (cases rule: decideRecruitApplicantOffer_cases)
  case (failed e)
  with assms(2) show ?thesis by simp
next
  case (decided a ar x)
  let ?t = "applicantRoles (tables w)"
  have ar: "ar \<in> set ?t" "ar_applicantId ar = a"
    using decided(4) by (auto simp: getApplicationRole_def dest: findOneBy_SomeD)
  have "offersInvar (updateBy (\<lambda>r. ar_id r = ar_id ar) (answerOffer (or_isAccepted dto, env_now env)) ?t)"
  proof (cases "or_isAccepted dto")
    case True
    then show ?thesis using decided(7) ar by (intro offersInvar_accept assms(2)) simp_all
  next
    case False
    then show ?thesis by (intro offersInvar_unaccept assms(2)) (simp add: answerOffer_def)
  qed
  then show ?thesis using decided(8) by (simp add: onApplicantRoles_def)
qed

lemma offerApplicant_cases:
  assumes "offerApplicant env a odto user w = (res, w')"
  obtains "w' = w" | i where
    "w' = w\<lparr>tables := onApplicantRoles (updateBy (\<lambda>r. ar_id r = i) (makeOffer (od_offerExpireAt odto))) (tables w)\<rparr>"
  using assms
  by (auto simp: offerApplicant_def authGroups_run checkApplicantPermission_def action_simps andThen_def
      offerApplicantRole_run split: sum.splits if_splits option.splits)

lemma offer_offers:
  assumes "offerApplicant env a odto user w = (res, w')" and "offersInvar (applicantRoles (tables w))"
  shows "offersInvar (applicantRoles (tables w'))"
  using assms(1)
proof (cases rule: offerApplicant_cases)
  case 1
  with assms(2) show ?thesis by simp
next
  case (2 i)
  then show ?thesis using offersInvar_unaccept [OF assms(2)] by (simp add: onApplicantRoles_def makeOffer_def)
qed

lemma select_offers:
  assumes "selectRecruitRoles env newIds roleIds user ctx w = (res, w')" and "inj newIds"
    and "\<forall>i. newIds i \<notin> ar_id ` set (applicantRoles (tables w))" and inv: "offersInvar (applicantRoles (tables w))"
  shows "offersInvar (applicantRoles (tables w'))"
proof -
  have d: "distinct (map ar_id (applicantRoles (tables w)))" using inv by (simp add: offersInvar_def)
  from assms(1) consider "w' = w" | app where "selectRoles env newIds app roleIds w = (res, w')"
    by (auto simp: selectRecruitRoles_def authGroups_run action_simps andThen_def split: sum.splits if_splits)
  then show ?thesis
  proof cases
    case 1
    with inv show ?thesis by simp
  next
    case (2 app)
    obtain tres v where tx: "transaction (env_commit env) undoTables
        (onApplicantRoleTable (storeSelectedRoles newIds (ra_id app) roleIds)) w = (tres, v)" by fastforce
    from tx show ?thesis
    proof (cases rule: transaction_undo_cases)
      case (failed e)
      with 2 tx inv show ?thesis by (auto simp: selectRoles_def andThen_def)
    next
      case (kept x)
      then obtain t' where st: "storeSelectedRoles newIds (ra_id app) roleIds (applicantRoles (tables w)) = (Inr x, t')"
        and v: "applicantRoles (tables v) = t'"
        by (auto simp: onApplicantRoleTable_def split: prod.splits)
      have "rebookSlot env (ra_recruitId app) (ra_id app) v = (res, w')"
        using 2 tx kept by (simp add: selectRoles_def andThen_def)
      from rebookSlot_frame(1) [OF this] have "tables w' = (tables v)\<lparr>slots := slotsOf w'\<rparr>" .
      then have "applicantRoles (tables w') = applicantRoles ((tables v)\<lparr>slots := slotsOf w'\<rparr>)" by (rule arg_cong)
      then have "applicantRoles (tables w') = t'" by (simp add: v)
      then show ?thesis
        using offersInvar_accepted_subset [OF inv storedRoles(3) [OF d assms(3,2) st]]
          storedRoles_accepted [OF st _ _ d assms(3,2)] by simp
    qed
  qed
qed

interpretation offerSystem: step_system "\<lambda>w. applicantRoles (tables w) = []" offerStep
  "\<lambda>w. offersInvar (applicantRoles (tables w))"
proof unfold_locales
  fix w w'
  assume "offerStep w w'" and inv: "offersInvar (applicantRoles (tables w))"
  then show "offersInvar (applicantRoles (tables w'))"
    by (elim offerStepE) (auto intro: decide_offers offer_offers select_offers)
qed (simp add: offersInvar_def)

text \<open>
  Claim C1: whatever is offered to applicants, decided by them, and selected by them, in whatever order, and
  whatever happens elsewhere, no applicant ever has two accepted offers.
\<close>

theorem one_accepted_offer:
  assumes "applicantRoles (tables w0) = []" and "offerStep\<^sup>*\<^sup>* w0 w"
  shows "length (filter (\<lambda>r. ar_applicantId r = a \<and> ar_offerAccepted r) (applicantRoles (tables w))) \<le> 1"
proof -
  let ?f = "filter (\<lambda>r. ar_applicantId r = a \<and> ar_offerAccepted r) (applicantRoles (tables w))"
  have inv: "offersInvar (applicantRoles (tables w))" using offerSystem.invar_reachable [OF assms] .
  then have d: "distinct (map ar_id ?f)" by (simp add: offersInvar_def distinct_map_filter)
  have same: "ar_id r = ar_id q" if "r \<in> set ?f" "q \<in> set ?f" for r q
    using that inv by (simp add: offersInvar_def)
  show ?thesis
  proof (cases ?f)
    case (Cons r rs)
    note f = this
    show ?thesis
    proof (cases rs)
      case (Cons q qs)
      then have "ar_id r = ar_id q" using same [of r q] unfolding f by simp
      then have False using d unfolding f Cons by simp
      then show ?thesis ..
    qed (simp add: f)
  qed simp
qed

theorem one_accepted_offer_witness:
  "\<exists>w w'. offerStep\<^sup>*\<^sup>* w w' \<and> applicantRoles (tables w) = [] \<and> applicantRoles (tables w') \<noteq> [] \<and>
     length (filter (\<lambda>r. ar_applicantId r = ''a'' \<and> ar_offerAccepted r) (applicantRoles (tables w'))) \<le> 1"
proof -
  let ?w = "bookWorld\<lparr>tables := bookDb\<lparr>applicantRoles := []\<rparr>\<rparr>" and ?ids = "\<lambda>i. replicate (Suc i) CHR ''n''"
  let ?ctx = "offerCtx\<lparr>currentSetting := (currentSetting offerCtx)\<lparr>rs_closeWhen := 1\<rparr>\<rparr>"
  obtain res w' where r: "selectRecruitRoles bookEnv ?ids [''r''] signedIn ?ctx ?w = (res, w')" by fastforce
  have "map ar_roleId (applicantRoles (tables (snd (selectRecruitRoles bookEnv ?ids [''r''] signedIn ?ctx ?w)))) = [''r'']"
    by code_simp
  with r have ne: "applicantRoles (tables w') \<noteq> []" by auto
  have "offerStep ?w w'" by (rule select [OF r]) (auto intro!: injI)
  then have s: "offerStep\<^sup>*\<^sup>* ?w w'" ..
  have e: "applicantRoles (tables ?w) = []" by simp
  show ?thesis using one_accepted_offer [OF e s, of "''a''"] s e ne by blast
qed

end
