(* ===== verification/Gallery_Data.thy ===== *)
theory Gallery_Data
  imports Accounts_Profile
begin

text \<open>
  The data of the photo gallery: the entities under \<open>entities/gallery\<close>, their enumerations under
  \<open>enums\<close>, the state a photo's columns stand for, the query for the photos of a state, and the response
  model \<open>gallery/dto/gallery-album-photo.model.ts\<close> with its progress bits.
\<close>

section \<open>Entities\<close>

datatype photo_state =
  StateCreated | StateAccepted | StateRejected | StateProcessed | StateApproved | StateFailed

datatype photo_next_state = NextValidation | NextProcessing | NextApproval

datatype reject_reason = Duplicated | Resolution | Timestamp | OtherReason

record gallery_photo =
  ph_id :: uuid
  ph_directory :: string
  ph_filename :: string
  ph_md5 :: "string option"
  ph_width :: "int option"
  ph_height :: "int option"
  ph_orientation :: "int option"
  ph_takenWhen :: "time option"
  ph_takenBy :: "uuid option"
  ph_color :: "int option"
  ph_validatedAt :: "time option"
  ph_processedAt :: "time option"
  ph_reviewedBy :: "uuid option"
  ph_rejectReason :: "reject_reason option"
  ph_rejectMessage :: "string option"
  ph_errorMessage :: "string option"
  ph_createdBy :: uuid
  ph_importId :: "uuid option"
  ph_albumId :: "string option"
  ph_createdAt :: time
  ph_deletedAt :: "time option"

record gallery_tag =
  tag_id :: "nat option"
  tag_title :: string

record gallery_activity =
  act_id :: string
  act_title :: string
  act_description :: "string option"
  act_cover :: "uuid option"
  act_time :: time
  act_published :: bool
  act_publishedAt :: "time option"
  act_tags :: "gallery_tag list"
  act_deletedAt :: "time option"

record gallery_album =
  alb_id :: string
  alb_title :: string
  alb_cover :: "uuid option"
  alb_rank :: int
  alb_activityId :: "string option"
  alb_published :: bool
  alb_publishedAt :: "time option"
  alb_uploadDirectory :: "string option"
  alb_watermarkPreset :: "string option"
  alb_minimumResolutionMp :: "int option"
  alb_takenAfter :: "time option"
  alb_takenBefore :: "time option"
  alb_deletedAt :: "time option"

record gallery_video =
  vid_id :: string
  vid_activityId :: "string option"

section \<open>The state of a photo\<close>

definition colorHex :: "gallery_photo \<Rightarrow> string option" where
  "colorHex p = map_option decToHex (ph_color p)"

definition photoState :: "gallery_photo \<Rightarrow> photo_state" where
  "photoState p =
     (if truthyId (ph_errorMessage p) then StateFailed
      else if ph_rejectReason p \<noteq> None then StateRejected
      else if truthyId (ph_reviewedBy p) then StateApproved
      else if ph_processedAt p \<noteq> None then StateProcessed
      else if ph_validatedAt p \<noteq> None then StateAccepted
      else StateCreated)"

definition photoNextState :: "gallery_photo \<Rightarrow> photo_next_state option" where
  "photoNextState p =
     (case photoState p of
        StateCreated \<Rightarrow> Some NextValidation
      | StateAccepted \<Rightarrow> Some NextProcessing
      | StateProcessed \<Rightarrow> Some NextApproval
      | _ \<Rightarrow> None)"

definition photoSource :: "gallery_photo \<Rightarrow> string" where
  "photoSource p = (if truthyId (ph_importId p) then ''import'' else ''upload'')"

definition photoFullpath :: "gallery_photo \<Rightarrow> string" where
  "photoFullpath p = pathJoin [ph_directory p, ph_filename p]"

definition stateFromNextState :: "photo_next_state option \<Rightarrow> photo_state option" where
  "stateFromNextState n =
     (case n of
        Some NextValidation \<Rightarrow> Some StateCreated
      | Some NextProcessing \<Rightarrow> Some StateAccepted
      | Some NextApproval \<Rightarrow> Some StateProcessed
      | None \<Rightarrow> None)"

text \<open>
  The condition object of a query: per column no condition, \<open>IsNull()\<close> or \<open>Not(IsNull())\<close>.
  The cases of the \<open>switch\<close> fall through from \<open>approved\<close> to \<open>created\<close>. The validation of the request
  lets no other state reach the \<open>default\<close> case.
\<close>

datatype null_test = IsNull | NotNull

record photo_where =
  where_errorMessage :: "null_test option"
  where_rejectReason :: "null_test option"
  where_reviewedBy :: "null_test option"
  where_processedAt :: "null_test option"
  where_validatedAt :: "null_test option"

definition noCondition :: photo_where where
  "noCondition = \<lparr>where_errorMessage = None, where_rejectReason = None, where_reviewedBy = None,
     where_processedAt = None, where_validatedAt = None\<rparr>"

definition findByStateOptionsWhere :: "photo_state option \<Rightarrow> photo_where" where
  "findByStateOptionsWhere state =
     (let optionsWhere = \<lparr>where_errorMessage = Some IsNull, where_rejectReason = Some IsNull,
            where_reviewedBy = Some IsNull, where_processedAt = Some IsNull,
            where_validatedAt = Some IsNull\<rparr>;
          created = (\<lambda>w. w);
          accepted = (\<lambda>w. created (w\<lparr>where_validatedAt := Some NotNull\<rparr>));
          processed = (\<lambda>w. accepted (w\<lparr>where_processedAt := Some NotNull\<rparr>));
          approved = (\<lambda>w. processed (w\<lparr>where_reviewedBy := Some NotNull\<rparr>))
      in case state of
           None \<Rightarrow> noCondition
         | Some StateFailed \<Rightarrow> noCondition\<lparr>where_errorMessage := Some NotNull\<rparr>
         | Some StateRejected \<Rightarrow> noCondition\<lparr>where_rejectReason := Some NotNull\<rparr>
         | Some StateApproved \<Rightarrow> approved optionsWhere
         | Some StateProcessed \<Rightarrow> processed optionsWhere
         | Some StateAccepted \<Rightarrow> accepted optionsWhere
         | Some StateCreated \<Rightarrow> created optionsWhere)"

definition passes :: "null_test option \<Rightarrow> 'v option \<Rightarrow> bool" where
  "passes t v = (case t of None \<Rightarrow> True | Some IsNull \<Rightarrow> v = None | Some NotNull \<Rightarrow> v \<noteq> None)"

definition matchesWhere :: "photo_where \<Rightarrow> gallery_photo \<Rightarrow> bool" where
  "matchesWhere w p \<longleftrightarrow>
     passes (where_errorMessage w) (ph_errorMessage p) \<and> passes (where_rejectReason w) (ph_rejectReason p)
     \<and> passes (where_reviewedBy w) (ph_reviewedBy p) \<and> passes (where_processedAt w) (ph_processedAt p)
     \<and> passes (where_validatedAt w) (ph_validatedAt p)"

section \<open>GalleryAlbumPhotoModel\<close>

definition FlowFailed :: int where "FlowFailed = 1"
definition FlowCreated :: int where "FlowCreated = 2"
definition FlowValidationPending :: int where "FlowValidationPending = 4"
definition FlowValidationFailed :: int where "FlowValidationFailed = 8"
definition FlowValidationRejected :: int where "FlowValidationRejected = 16"
definition FlowValidationAccepted :: int where "FlowValidationAccepted = 32"
definition FlowProcessing :: int where "FlowProcessing = 64"
definition FlowProcessingFailed :: int where "FlowProcessingFailed = 128"
definition FlowProcessed :: int where "FlowProcessed = 256"
definition FlowReviewPending :: int where "FlowReviewPending = 512"
definition FlowReviewRejected :: int where "FlowReviewRejected = 1024"
definition FlowReviewApproved :: int where "FlowReviewApproved = 2048"

lemmas flow_defs = FlowFailed_def FlowCreated_def FlowValidationPending_def FlowValidationFailed_def
  FlowValidationRejected_def FlowValidationAccepted_def FlowProcessing_def FlowProcessingFailed_def
  FlowProcessed_def FlowReviewPending_def FlowReviewRejected_def FlowReviewApproved_def

definition computeFlowProgress :: "gallery_photo \<Rightarrow> int option" where
  "computeFlowProgress e =
     (if ph_filename e = [] then None
      else
        let progress = 0;
            progress =
              (if truthyId (ph_reviewedBy e) then
                 or progress (if ph_rejectReason e \<noteq> None then FlowReviewRejected else FlowReviewApproved)
               else if photoNextState e = Some NextApproval then or progress FlowReviewPending
               else progress);
            progress =
              (if ph_processedAt e \<noteq> None then
                 or progress (if truthyId (ph_errorMessage e) then FlowProcessingFailed else FlowProcessed)
               else if photoNextState e = Some NextProcessing then or progress FlowProcessing
               else progress)
        in if ph_validatedAt e \<noteq> None then
             Some (or (if ph_rejectReason e \<noteq> None \<and> progress < FlowValidationAccepted
                       then or progress FlowValidationRejected
                       else if truthyId (ph_errorMessage e) \<and> progress < FlowValidationAccepted
                       then or progress FlowValidationFailed
                       else or progress FlowValidationAccepted) FlowCreated)
           else if photoNextState e = Some NextValidation then
             Some (or (or progress FlowValidationPending) FlowCreated)
           else if truthyId (ph_errorMessage e) then Some FlowFailed
           else Some (or progress FlowCreated))"

record album_photo_model =
  pm_id :: uuid
  pm_uuid :: uuid
  pm_width :: "int option"
  pm_height :: "int option"
  pm_timestamp :: "time option"
  pm_color :: "string option"
  pm_takenBy :: "profile_detail_response option"
  pm_directory :: "string option"
  pm_filename :: "string option"
  pm_md5 :: "string option"
  pm_state :: "photo_state option"
  pm_nextState :: "photo_next_state option"
  pm_rejectReason :: "reject_reason option"
  pm_rejectMessage :: "string option"
  pm_errorMessage :: "string option"
  pm_flowProgress :: "int option"
  pm_albumId :: "string option"
  pm_isProcessed :: bool

definition albumPhoto_fromEntity :: "id_lib \<Rightarrow> gallery_photo \<Rightarrow> album_photo_model" where
  "albumPhoto_fromEntity L e =
     \<lparr>pm_id = ph_id e, pm_uuid = ph_id e, pm_width = ph_width e, pm_height = ph_height e,
      pm_timestamp = ph_takenWhen e, pm_color = colorHex e,
      pm_takenBy = (if truthyId (ph_takenBy e)
        then Some \<lparr>pd_profileId = Some (toHexString L (the (ph_takenBy e))), pd_firstname = None,
                   pd_lastname = None, pd_nickname = None\<rparr>
        else None),
      pm_directory = Some (ph_directory e), pm_filename = Some (ph_filename e),
      pm_md5 = uuidToHex (ph_md5 e), pm_state = Some (photoState e), pm_nextState = photoNextState e,
      pm_rejectReason = ph_rejectReason e, pm_rejectMessage = ph_rejectMessage e,
      pm_errorMessage = ph_errorMessage e, pm_flowProgress = computeFlowProgress e,
      pm_albumId = ph_albumId e, pm_isProcessed = (ph_processedAt e \<noteq> None)\<rparr>"

definition withTakenBy :: "profile_detail_response option \<Rightarrow> album_photo_model \<Rightarrow> album_photo_model" where
  "withTakenBy takenBy m = (case takenBy of None \<Rightarrow> m | Some t \<Rightarrow> m\<lparr>pm_takenBy := Some t\<rparr>)"

text \<open>\<open>helpers/photo-url.helper.ts\<close>; the base address is a value of the configuration.\<close>

definition defaultUuid :: uuid where
  "defaultUuid = ''00000000-0000-0000-0000-000000000000''"

definition photoUrl :: "string \<Rightarrow> string \<Rightarrow> string \<Rightarrow> uuid option \<Rightarrow> string" where
  "photoUrl base kind ext u =
     base @ ''/photos/'' @ kind @ ''/'' @ (case u of None \<Rightarrow> defaultUuid | Some i \<Rightarrow> i) @ ''.'' @ ext"

definition coverUrl :: "string \<Rightarrow> uuid option \<Rightarrow> string" where
  "coverUrl base u = photoUrl base ''cover'' ''jpg'' u"

definition cardUrl :: "string \<Rightarrow> uuid option \<Rightarrow> string" where
  "cardUrl base u = photoUrl base ''card'' ''webp'' u"

definition thumbnailUrl :: "string \<Rightarrow> uuid option \<Rightarrow> string" where
  "thumbnailUrl base u = photoUrl base ''thumbnail'' ''webp'' u"

definition previewUrl :: "string \<Rightarrow> uuid option \<Rightarrow> string" where
  "previewUrl base u = photoUrl base ''preview'' ''webp'' u"

definition pm_thumbnail :: "string \<Rightarrow> album_photo_model \<Rightarrow> string option" where
  "pm_thumbnail base m = (if pm_isProcessed m then Some (thumbnailUrl base (Some (pm_uuid m))) else None)"

definition pm_preview :: "string \<Rightarrow> album_photo_model \<Rightarrow> string option" where
  "pm_preview base m = (if pm_isProcessed m then Some (previewUrl base (Some (pm_uuid m))) else None)"

section \<open>What the queries and the progress bits say\<close>

text \<open>
  Claim C32: The query the code builds for a state finds the photos whose state is that one, with three
  differences the equivalence spells out. Asking for rejected photos also finds those that were rejected
  and then failed. Asking for approved photos leaves out those approved before they were processed, and
  asking for processed photos those whose validation mark was cleared meanwhile. The two hypotheses say
  that no column holds an empty string, which is falsy but not null.
\<close>

theorem findByState_iff:
  assumes "ph_errorMessage p \<noteq> Some []" and "ph_reviewedBy p \<noteq> Some []"
  shows "matchesWhere (findByStateOptionsWhere (Some s)) p \<longleftrightarrow>
    (case s of
       StateFailed \<Rightarrow> photoState p = StateFailed
     | StateRejected \<Rightarrow> photoState p = StateRejected
                      \<or> photoState p = StateFailed \<and> ph_rejectReason p \<noteq> None
     | StateApproved \<Rightarrow> photoState p = StateApproved \<and> ph_processedAt p \<noteq> None \<and> ph_validatedAt p \<noteq> None
     | StateProcessed \<Rightarrow> photoState p = StateProcessed \<and> ph_validatedAt p \<noteq> None
     | StateAccepted \<Rightarrow> photoState p = StateAccepted
     | StateCreated \<Rightarrow> photoState p = StateCreated)"
  using assms
  by (cases s; cases "ph_errorMessage p"; cases "ph_reviewedBy p")
     (simp_all add: matchesWhere_def findByStateOptionsWhere_def noCondition_def passes_def photoState_def Let_def)

text \<open>A photo as uploaded, and one approved while its conversion was still to come.\<close>

definition newPhoto :: gallery_photo where
  "newPhoto = \<lparr>ph_id = ''p1'', ph_directory = ''/2024/camp'', ph_filename = ''a.jpg'', ph_md5 = None,
     ph_width = None, ph_height = None, ph_orientation = None, ph_takenWhen = None,
     ph_takenBy = Some ''ann'', ph_color = None, ph_validatedAt = None, ph_processedAt = None,
     ph_reviewedBy = None, ph_rejectReason = None, ph_rejectMessage = None, ph_errorMessage = None,
     ph_createdBy = ''ann'', ph_importId = None, ph_albumId = Some ''camp'', ph_createdAt = 1,
     ph_deletedAt = None\<rparr>"

definition earlyApproved :: gallery_photo where
  "earlyApproved = newPhoto\<lparr>ph_validatedAt := Some 2, ph_reviewedBy := Some ''bob''\<rparr>"

theorem findByState_iff_witness:
  "photoState earlyApproved = StateApproved
   \<and> \<not> matchesWhere (findByStateOptionsWhere (Some StateApproved)) earlyApproved"
proof
  show state: "photoState earlyApproved = StateApproved"
    by (simp add: photoState_def earlyApproved_def newPhoto_def)
  show "\<not> matchesWhere (findByStateOptionsWhere (Some StateApproved)) earlyApproved"
    by (subst findByState_iff) (simp_all add: earlyApproved_def newPhoto_def)
qed

text \<open>\<open>hasFlag n b\<close>: a reader of the number tests the bit of \<open>b\<close>.\<close>

definition hasFlag :: "int \<Rightarrow> int \<Rightarrow> bool" where
  "hasFlag n b \<longleftrightarrow> and n b \<noteq> 0"

text \<open>
  The progress number of a photo that carries its file name, unless it failed before it was
  validated, encodes the pipeline bit by bit: the photo was created; its review is approved, rejected or
  pending; its conversion is running, failed or done; its validation is pending, failed, rejected or accepted, and it
  counts as accepted as soon as a later stage was entered. A photo that failed before it was validated
  and is not waiting for anything has the bit of failure alone.
\<close>

lemma computeFlowProgress_bits:
  assumes "ph_filename e \<noteq> []"
  shows "\<exists>n. computeFlowProgress e = Some n \<and>
    (if ph_validatedAt e = None \<and> truthyId (ph_errorMessage e) then n = FlowFailed
     else hasFlag n FlowCreated \<and> \<not> hasFlag n FlowFailed
      \<and> (hasFlag n FlowReviewApproved \<longleftrightarrow> truthyId (ph_reviewedBy e) \<and> ph_rejectReason e = None)
      \<and> (hasFlag n FlowReviewRejected \<longleftrightarrow> truthyId (ph_reviewedBy e) \<and> ph_rejectReason e \<noteq> None)
      \<and> (hasFlag n FlowReviewPending \<longleftrightarrow> photoState e = StateProcessed)
      \<and> (hasFlag n FlowProcessed \<longleftrightarrow> ph_processedAt e \<noteq> None \<and> \<not> truthyId (ph_errorMessage e))
      \<and> (hasFlag n FlowProcessingFailed \<longleftrightarrow> ph_processedAt e \<noteq> None \<and> truthyId (ph_errorMessage e))
      \<and> (hasFlag n FlowProcessing \<longleftrightarrow> photoState e = StateAccepted)
      \<and> (hasFlag n FlowValidationPending \<longleftrightarrow> photoState e = StateCreated)
      \<and> (let later = truthyId (ph_reviewedBy e) \<or> ph_processedAt e \<noteq> None in
         (hasFlag n FlowValidationRejected \<longleftrightarrow> ph_validatedAt e \<noteq> None \<and> ph_rejectReason e \<noteq> None \<and> \<not> later)
       \<and> (hasFlag n FlowValidationFailed \<longleftrightarrow> ph_validatedAt e \<noteq> None \<and> ph_rejectReason e = None
              \<and> truthyId (ph_errorMessage e) \<and> \<not> later)
       \<and> (hasFlag n FlowValidationAccepted \<longleftrightarrow> ph_validatedAt e \<noteq> None
              \<and> (later \<or> ph_rejectReason e = None \<and> \<not> truthyId (ph_errorMessage e)))))"
proof -
  define err rev where "err = truthyId (ph_errorMessage e)" and "rev = truthyId (ph_reviewedBy e)"
  show ?thesis
    using assms
    unfolding computeFlowProgress_def photoNextState_def photoState_def err_def [symmetric] rev_def [symmetric]
    by (cases err; cases rev; cases "ph_rejectReason e"; cases "ph_processedAt e"; cases "ph_validatedAt e")
       (simp_all add: flow_defs hasFlag_def Let_def)
qed

lemma computeFlowProgress_bits_witness:
  "\<exists>n. computeFlowProgress earlyApproved = Some n \<and> hasFlag n FlowReviewApproved
     \<and> hasFlag n FlowValidationAccepted \<and> \<not> hasFlag n FlowProcessing"
  using computeFlowProgress_bits [of earlyApproved]
  by (auto simp: earlyApproved_def newPhoto_def photoState_def Let_def)

end
