(* ===== verification/Gallery_Rule.thy ===== *)
theory Gallery_Rule
  imports Gallery_Data
begin

text \<open>
  The rules an album sets for the photos uploaded to it, and their two encodings
  (\<open>gallery/photo/rules\<close>): a list of pattern strings kept with the upload task, and a buffer of the
  protocol buffer library. Instants are milliseconds; the patterns keep whole seconds.
\<close>

record upload_rule =
  ur_noDuplication :: "bool option"
  ur_takenAfter :: "time option"
  ur_takenBefore :: "time option"
  ur_minimumResoluionMp :: "int option"
  ur_watermarkPreset :: "string option"

section \<open>Requirements\<close>

definition isResolutionMetRequirement :: "upload_rule \<Rightarrow> int \<Rightarrow> bool" where
  "isResolutionMetRequirement r photoResolution =
     (let MEGA_PIXEL = 1000000;
          resolutionRequirement = (case ur_minimumResoluionMp r of None \<Rightarrow> 0 | Some m \<Rightarrow> m)
      in resolutionRequirement * MEGA_PIXEL \<le> photoResolution)"

definition isTakenAfterDateMetRequirement :: "upload_rule \<Rightarrow> time \<Rightarrow> bool" where
  "isTakenAfterDateMetRequirement r takenDate =
     (case ur_takenAfter r of None \<Rightarrow> True | Some t \<Rightarrow> t \<le> takenDate)"

definition isTakenBeforeDateMetRequirement :: "upload_rule \<Rightarrow> time \<Rightarrow> bool" where
  "isTakenBeforeDateMetRequirement r takenDate =
     (case ur_takenBefore r of None \<Rightarrow> True | Some t \<Rightarrow> takenDate \<le> t)"

section \<open>The patterns\<close>

text \<open>
  A regular expression \<open>^pre(\d+)post$\<close> and its group, and the first rule of the list that matches it
  (\<open>upload-task-rule.abstract.ts\<close>).
\<close>

definition captureDigits :: "string \<Rightarrow> string \<Rightarrow> string \<Rightarrow> string option" where
  "captureDigits pre post s =
     (let body = take (length s - length pre - length post) (drop (length pre) s) in
      if s = pre @ body @ post \<and> body \<noteq> [] \<and> list_all (isDigit 10) body then Some body else None)"

definition firstRule :: "(string \<Rightarrow> bool) \<Rightarrow> string list \<Rightarrow> string option" where
  "firstRule pattern rules = List.find pattern rules"

definition ruleGroup :: "string \<Rightarrow> string \<Rightarrow> string list \<Rightarrow> string option" where
  "ruleGroup pre post rules =
     Option.bind (firstRule (\<lambda>s. captureDigits pre post s \<noteq> None) rules) (captureDigits pre post)"

definition noDuplication_isValid :: "string list \<Rightarrow> bool" where
  "noDuplication_isValid rules = truthyId (firstRule (\<lambda>s. s = ''NO_DUP'') rules)"

definition ignoreRejected_isValid :: "string list \<Rightarrow> bool" where
  "ignoreRejected_isValid rules = truthyId (firstRule (\<lambda>s. s = ''IGNORE_REJECTED'') rules)"

definition pixelResolution_getValue :: "string list \<Rightarrow> int option" where
  "pixelResolution_getValue rules = Option.bind (ruleGroup ''PX_'' ''MP'' rules) (parseInt 10)"

definition pixelResolution_isValid :: "string list \<Rightarrow> int \<Rightarrow> bool" where
  "pixelResolution_isValid rules photoResolution =
     (let MEGA_PIXEL = 1000000;
          resolutionRequirement = (case pixelResolution_getValue rules of None \<Rightarrow> 0 | Some m \<Rightarrow> m)
      in resolutionRequirement * MEGA_PIXEL \<le> photoResolution)"

text \<open>\<open>dayjs.unix(+parsed)\<close>.\<close>

definition time_getValue :: "string \<Rightarrow> string list \<Rightarrow> time option" where
  "time_getValue pre rules = map_option (\<lambda>parsed. int (digitsVal 10 parsed) * 1000) (ruleGroup pre [] rules)"

definition takenAfter_isValid :: "string list \<Rightarrow> time \<Rightarrow> bool" where
  "takenAfter_isValid rules takenDate =
     (case time_getValue ''TA_'' rules of None \<Rightarrow> True | Some t \<Rightarrow> t \<le> takenDate)"

definition takenBefore_isValid :: "string list \<Rightarrow> time \<Rightarrow> bool" where
  "takenBefore_isValid rules takenDate =
     (case time_getValue ''TB_'' rules of None \<Rightarrow> True | Some t \<Rightarrow> takenDate \<le> t)"

definition watermark_getValue :: "string list \<Rightarrow> string option" where
  "watermark_getValue rules = ruleGroup ''WM_'' [] rules"

text \<open>
  The list literal of \<open>toPattern\<close> with its filter for strings: \<open>0 && s\<close> is the number zero and goes, but
  an empty preset is a string and stays.
\<close>

definition toPattern :: "upload_rule \<Rightarrow> string list" where
  "toPattern r = concat
     [if ur_noDuplication r = Some True then [''NO_DUP''] else [],
      case ur_minimumResoluionMp r of
        None \<Rightarrow> [] | Some m \<Rightarrow> if m = 0 then [] else [''PX_'' @ intToRadix 10 m @ ''MP''],
      case ur_takenAfter r of None \<Rightarrow> [] | Some t \<Rightarrow> [''TA_'' @ intToRadix 10 (t div 1000)],
      case ur_takenBefore r of None \<Rightarrow> [] | Some t \<Rightarrow> [''TB_'' @ intToRadix 10 (t div 1000)],
      case ur_watermarkPreset r of
        None \<Rightarrow> [] | Some w \<Rightarrow> if w = [] then [[]] else [''WM_'' @ w]]"

definition fromPattern :: "string list \<Rightarrow> upload_rule" where
  "fromPattern rules =
     \<lparr>ur_noDuplication = Some (noDuplication_isValid rules),
      ur_takenAfter = time_getValue ''TA_'' rules,
      ur_takenBefore = time_getValue ''TB_'' rules,
      ur_minimumResoluionMp = pixelResolution_getValue rules,
      ur_watermarkPreset = watermark_getValue rules\<rparr>"

definition fromAlbum :: "gallery_album \<Rightarrow> upload_rule" where
  "fromAlbum entity =
     \<lparr>ur_noDuplication = Some True,
      ur_takenAfter = alb_takenAfter entity,
      ur_takenBefore = alb_takenBefore entity,
      ur_minimumResoluionMp = (if alb_minimumResolutionMp entity = Some 0 then None else alb_minimumResolutionMp entity),
      ur_watermarkPreset = (if truthyId (alb_watermarkPreset entity) then alb_watermarkPreset entity else None)\<rparr>"

section \<open>The buffer\<close>

text \<open>
  The message of \<open>@nudchannel/protobuf\<close> and its binary form are the package's: the message type is the
  record of its fields, the two conversions are arguments.
\<close>

record rule_message =
  msg_takenAfter :: "time option"
  msg_takenBefore :: "time option"
  msg_minimumMegapixel :: "int option"
  msg_watermark :: "string option"

definition toBuffer :: "(rule_message \<Rightarrow> byte list) \<Rightarrow> upload_rule \<Rightarrow> byte list" where
  "toBuffer toBinary r = toBinary
     \<lparr>msg_takenAfter = ur_takenAfter r, msg_takenBefore = ur_takenBefore r,
      msg_minimumMegapixel = (if ur_minimumResoluionMp r = Some 0 then None else ur_minimumResoluionMp r),
      msg_watermark = (if truthyId (ur_watermarkPreset r) then ur_watermarkPreset r else None)\<rparr>"

definition fromBuffer :: "(byte list \<Rightarrow> rule_message) \<Rightarrow> byte list option \<Rightarrow> upload_rule option" where
  "fromBuffer fromBinary content = map_option (\<lambda>c. let payload = fromBinary c in
     \<lparr>ur_noDuplication = None, ur_takenAfter = msg_takenAfter payload,
      ur_takenBefore = msg_takenBefore payload, ur_minimumResoluionMp = msg_minimumMegapixel payload,
      ur_watermarkPreset = msg_watermark payload\<rparr>) content"

section \<open>What the patterns keep\<close>

lemma captureDigits_Some:
  "captureDigits pre post (pre @ body @ post) =
     (if body \<noteq> [] \<and> list_all (isDigit 10) body then Some body else None)"
  by (simp add: captureDigits_def Let_def)

lemma captureDigits_other: "take (length pre) s \<noteq> pre \<Longrightarrow> captureDigits pre post s = None"
  by (auto simp: captureDigits_def Let_def) (metis append_eq_conv_conj)

lemma list_all_toRadix_10: "list_all (isDigit 10) (toRadix 10 n)"
  using toRadix_digits [of 10 n] by (auto simp: list_all_iff)

lemma captureDigits_int:
  "captureDigits pre post (pre @ intToRadix 10 n @ post) =
     (if 0 \<le> n then Some (toRadix 10 (nat n)) else None)"
  by (auto simp: captureDigits_Some intToRadix_def list_all_toRadix_10 isDigit_def digitVal_def)

lemmas captureDigits_prefixed =
  captureDigits_int [where pre = "''PX_''" and post = "''MP''", simplified]
  captureDigits_int [where pre = "''TA_''" and post = "[]", simplified]
  captureDigits_int [where pre = "''TB_''" and post = "[]", simplified]
  captureDigits_Some [where pre = "''WM_''" and post = "[]", simplified]

lemma ruleGroup_Nil: "ruleGroup pre post [] = None"
  by (simp add: ruleGroup_def firstRule_def)

lemma ruleGroup_Cons:
  "ruleGroup pre post (s # rules) =
     (case captureDigits pre post s of None \<Rightarrow> ruleGroup pre post rules | Some b \<Rightarrow> Some b)"
  by (auto simp: ruleGroup_def firstRule_def split: option.splits)

lemma ruleGroup_append:
  "ruleGroup pre post (xs @ ys) =
     (case ruleGroup pre post xs of None \<Rightarrow> ruleGroup pre post ys | Some b \<Rightarrow> Some b)"
  by (induction xs) (simp_all add: ruleGroup_Nil ruleGroup_Cons split: option.splits)

lemmas ruleGroup_simps = ruleGroup_Nil ruleGroup_Cons ruleGroup_append

lemma ruleGroup_if: "ruleGroup pre post (if b then xs else ys) =
    (if b then ruleGroup pre post xs else ruleGroup pre post ys)"
  by simp

lemma concat_five: "concat [a, b, c, d, e] = a @ b @ c @ d @ e"
  by simp

lemmas ruleGroup_toPattern = toPattern_def concat_five ruleGroup_simps ruleGroup_if
  captureDigits_prefixed captureDigits_other

lemma ruleGroup_TA: "ruleGroup ''TA_'' [] (toPattern r) = Option.bind (ur_takenAfter r)
    (\<lambda>t. if 0 \<le> t div 1000 then Some (toRadix 10 (nat (t div 1000))) else None)"
  by (cases "ur_takenAfter r"; cases "ur_takenBefore r"; cases "ur_minimumResoluionMp r";
      cases "ur_watermarkPreset r") (simp_all add: ruleGroup_toPattern del: concat.simps)

lemma ruleGroup_TB: "ruleGroup ''TB_'' [] (toPattern r) = Option.bind (ur_takenBefore r)
    (\<lambda>t. if 0 \<le> t div 1000 then Some (toRadix 10 (nat (t div 1000))) else None)"
  by (cases "ur_takenAfter r"; cases "ur_takenBefore r"; cases "ur_minimumResoluionMp r";
      cases "ur_watermarkPreset r") (simp_all add: ruleGroup_toPattern del: concat.simps)

lemma ruleGroup_PX: "ruleGroup ''PX_'' ''MP'' (toPattern r) = Option.bind (ur_minimumResoluionMp r)
    (\<lambda>m. if 0 < m then Some (toRadix 10 (nat m)) else None)"
  by (cases "ur_takenAfter r"; cases "ur_takenBefore r"; cases "ur_minimumResoluionMp r";
      cases "ur_watermarkPreset r") (auto simp: ruleGroup_toPattern simp del: concat.simps)

lemma ruleGroup_WM: "ruleGroup ''WM_'' [] (toPattern r) = Option.bind (ur_watermarkPreset r)
    (\<lambda>w. if w \<noteq> [] \<and> list_all (isDigit 10) w then Some w else None)"
  by (cases "ur_takenAfter r"; cases "ur_takenBefore r"; cases "ur_minimumResoluionMp r";
      cases "ur_watermarkPreset r") (simp_all add: ruleGroup_toPattern del: concat.simps)

lemma noDuplication_toPattern: "noDuplication_isValid (toPattern r) = (ur_noDuplication r = Some True)"
proof (cases "ur_noDuplication r = Some True")
  case True
  then show ?thesis by (simp add: noDuplication_isValid_def firstRule_def toPattern_def)
next
  case False
  then have "\<forall>s \<in> set (toPattern r). s \<noteq> ''NO_DUP''"
    by (auto simp: toPattern_def split: option.splits if_splits)
  then have "firstRule (\<lambda>s. s = ''NO_DUP'') (toPattern r) = None"
    unfolding firstRule_def find_None_iff by blast
  with False show ?thesis by (simp add: noDuplication_isValid_def)
qed

text \<open>
  Parsing the patterns of a rule gives the rule back, up to what the patterns cannot hold, for every
  rule: an absent flag reads as false, instants before 1970 are lost and the others keep whole seconds, a
  resolution that is not positive is lost, and so is a watermark preset that is not a number.
\<close>

lemma fromPattern_toPattern:
  "fromPattern (toPattern r) =
     \<lparr>ur_noDuplication = Some (ur_noDuplication r = Some True),
      ur_takenAfter = Option.bind (ur_takenAfter r)
        (\<lambda>t. if 0 \<le> t div 1000 then Some (t div 1000 * 1000) else None),
      ur_takenBefore = Option.bind (ur_takenBefore r)
        (\<lambda>t. if 0 \<le> t div 1000 then Some (t div 1000 * 1000) else None),
      ur_minimumResoluionMp = Option.bind (ur_minimumResoluionMp r) (\<lambda>m. if 0 < m then Some m else None),
      ur_watermarkPreset = Option.bind (ur_watermarkPreset r)
        (\<lambda>w. if w \<noteq> [] \<and> list_all (isDigit 10) w then Some w else None)\<rparr>"
  by (simp add: fromPattern_def time_getValue_def pixelResolution_getValue_def watermark_getValue_def
      noDuplication_toPattern ruleGroup_TA ruleGroup_TB ruleGroup_PX ruleGroup_WM parseInt_toRadix
      digitsVal_toRadix split: option.splits Option.bind_splits)

text \<open>On the rules whose instants are whole seconds and whose preset is a number nothing is lost.\<close>

definition ruleOk :: "upload_rule \<Rightarrow> bool" where
  "ruleOk r \<longleftrightarrow> ur_noDuplication r \<noteq> None
     \<and> (\<forall>t. ur_takenAfter r = Some t \<or> ur_takenBefore r = Some t \<longrightarrow> 0 \<le> t \<and> t mod 1000 = 0)
     \<and> (\<forall>m. ur_minimumResoluionMp r = Some m \<longrightarrow> 0 < m)
     \<and> (\<forall>w. ur_watermarkPreset r = Some w \<longrightarrow> w \<noteq> [] \<and> list_all (isDigit 10) w)"

lemma toPattern_ok: "ruleOk r \<Longrightarrow> fromPattern (toPattern r) = r"
  by (cases r) (auto simp: ruleOk_def fromPattern_def time_getValue_def pixelResolution_getValue_def
      watermark_getValue_def noDuplication_toPattern ruleGroup_TA ruleGroup_TB ruleGroup_PX ruleGroup_WM
      parseInt_toRadix digitsVal_toRadix mod_eq_0_iff_dvd split: Option.bind_splits)

interpretation uploadRule: round_trip toPattern fromPattern "\<lambda>r. r" ruleOk
  by unfold_locales (rule toPattern_ok)

text \<open>
  The buffer keeps instants and preset when the package reads back what it wrote; it has no field for the
  duplication flag.
\<close>

lemma fromBuffer_toBuffer:
  assumes "\<And>m. fromBinary (toBinary m) = m"
  shows "fromBuffer fromBinary (Some (toBuffer toBinary r)) =
    Some \<lparr>ur_noDuplication = None, ur_takenAfter = ur_takenAfter r, ur_takenBefore = ur_takenBefore r,
      ur_minimumResoluionMp =
        (if ur_minimumResoluionMp r = Some 0 then None else ur_minimumResoluionMp r),
      ur_watermarkPreset = (if ur_watermarkPreset r = Some [] then None else ur_watermarkPreset r)\<rparr>"
  by (auto simp: fromBuffer_def toBuffer_def assms truthyId_def Let_def split: option.splits)

end
