(* ===== verification/Photo_Model.thy ===== *)
theory Photo_Model
  imports Object_Id Complex_Main
begin

text \<open>
  The values the photo services pass around: \<open>photo/models/exif.model.ts\<close>,
  \<open>photo/models/photo-path.model.ts\<close> with its helper, \<open>photo/models/profile-photo-path.model.ts\<close>, the
  enumerations of sizes, formats and fits, and the parameters of the image processor. The crop ratios of
  those parameters and the numbers computed with them are exact rationals here, floating point in the code.
\<close>

section \<open>Exif\<close>

record exif =
  ex_width :: int
  ex_height :: int
  ex_orientation :: "int option"
  ex_date :: time

text \<open>
  The seconds an image declares: \<open>Math.min\<close> of no numbers is infinite. Not a number and zero are falsy
  and never reach \<open>setDate\<close>; the first cannot be in the list, whose entries were filtered.
\<close>

datatype exif_seconds = Seconds int | Infinite

definition minSeconds :: "int list \<Rightarrow> exif_seconds" where
  "minSeconds dates = (case dates of [] \<Rightarrow> Infinite | d # ds \<Rightarrow> Seconds (foldl min d ds))"

definition isNeedSwapWidthHeight :: "int option \<Rightarrow> bool" where
  "isNeedSwapWidthHeight orientation \<longleftrightarrow> orientation = Some 6 \<or> orientation = Some 8"

text \<open>The pattern \<open>^([+-])?(\d{2}):(\d{2})$\<close>: whether the sign is a minus, and the duration.\<close>

definition parseOffset :: "string \<Rightarrow> (bool \<times> time) option" where
  "parseOffset s =
     (let sign = (s \<noteq> [] \<and> hd s \<in> {CHR ''+'', CHR ''-''}); t = (if sign then drop 1 s else s) in
      case t of
        [h1, h2, colon, m1, m2] \<Rightarrow>
          (if colon = CHR '':'' \<and> list_all (isDigit 10) [h1, h2, m1, m2]
           then Some (sign \<and> hd s = CHR ''-'',
                      (int (digitsVal 10 [h1, h2]) * 60 + int (digitsVal 10 [m1, m2])) * 60000)
           else None)
      | _ \<Rightarrow> None)"

definition getOffsetDay :: "time \<Rightarrow> string option \<Rightarrow> time" where
  "getOffsetDay day offset =
     (case parseOffset (case offset of None \<Rightarrow> [] | Some s \<Rightarrow> s) of
        None \<Rightarrow> day - 7 * 3600000
      | Some (negative, duration) \<Rightarrow> if negative then day + duration else day - duration)"

definition newExif :: "int \<Rightarrow> int \<Rightarrow> int option \<Rightarrow> exif_seconds \<Rightarrow> string option \<Rightarrow> exif" where
  "newExif width height orientation timestampSecond offset =
     (let swap = isNeedSwapWidthHeight orientation in
      \<lparr>ex_width = (if swap then height else width), ex_height = (if swap then width else height),
       ex_orientation = orientation,
       ex_date = (case timestampSecond of
           Infinite \<Rightarrow> getOffsetDay (25200 * 1000) offset
         | Seconds s \<Rightarrow> if s = 0 then 0 else getOffsetDay (s * 1000) offset)\<rparr>)"

section \<open>Sizes, formats, paths\<close>

datatype photo_size = SizeTiny | SizeThumbnail | SizeCard | SizeCover | SizePreview

primrec sizePx :: "photo_size \<Rightarrow> nat" where
  "sizePx SizeTiny = 10"
| "sizePx SizeThumbnail = 220"
| "sizePx SizeCard = 480"
| "sizePx SizeCover = 1200"
| "sizePx SizePreview = 2160"

text \<open>Sizes are ordered as the numbers of the enumeration.\<close>

lemma sizePx_inject [simp]: "sizePx s = sizePx t \<longleftrightarrow> s = t"
  by (cases s; cases t) simp_all

instantiation photo_size :: linorder
begin

definition less_eq_photo_size :: "photo_size \<Rightarrow> photo_size \<Rightarrow> bool" where
  "less_eq_photo_size s t = (sizePx s \<le> sizePx t)"

definition less_photo_size :: "photo_size \<Rightarrow> photo_size \<Rightarrow> bool" where
  "less_photo_size s t = (sizePx s < sizePx t)"

instance by standard (auto simp: less_eq_photo_size_def less_photo_size_def)

end

primrec sizeName :: "photo_size \<Rightarrow> string" where
  "sizeName SizeTiny = ''tiny''"
| "sizeName SizeThumbnail = ''thumbnail''"
| "sizeName SizeCard = ''card''"
| "sizeName SizeCover = ''cover''"
| "sizeName SizePreview = ''preview''"

datatype image_format = Jpeg | Webp | Png

primrec formatName :: "image_format \<Rightarrow> string" where
  "formatName Jpeg = ''jpeg''"
| "formatName Webp = ''webp''"
| "formatName Png = ''png''"

datatype image_fit = FitContain | FitCover | FitFill | FitInside | FitOutside

definition extToFormat :: "string \<Rightarrow> image_format" where
  "extToFormat ext = (if ext = ''webp'' then Webp else if ext = ''png'' then Png else Jpeg)"

definition formatToExt :: "image_format \<Rightarrow> string" where
  "formatToExt f = (if f = Webp then ''webp'' else if f = Png then ''png'' else ''jpg'')"

definition sizeFormat :: "photo_size \<Rightarrow> image_format" where
  "sizeFormat s = (if s \<in> {SizePreview, SizeThumbnail, SizeCard} then Webp else Jpeg)"

definition imageFit :: "photo_size \<Rightarrow> image_fit" where
  "imageFit s = (if s = SizeThumbnail then FitOutside else FitInside)"

record photo_path =
  pp_size :: photo_size
  pp_uuid :: uuid
  pp_format :: image_format

definition newPhotoPath :: "photo_size \<Rightarrow> uuid \<Rightarrow> image_format option \<Rightarrow> photo_path" where
  "newPhotoPath s u f =
     \<lparr>pp_size = s, pp_uuid = u, pp_format = (case f of None \<Rightarrow> sizeFormat s | Some f \<Rightarrow> f)\<rparr>"

definition pp_mime :: "photo_path \<Rightarrow> string" where
  "pp_mime p = ''image/'' @ formatName (pp_format p)"

definition pp_filename :: "photo_path \<Rightarrow> string" where
  "pp_filename p = pp_uuid p @ ''.'' @ formatToExt (pp_format p)"

definition buildFullPath :: "photo_path \<Rightarrow> photo_size \<Rightarrow> string option \<Rightarrow> string" where
  "buildFullPath p s ext = ''minio://'' @ sizeName s @ ''/'' @ pp_uuid p @ ''.''
     @ (case ext of None \<Rightarrow> formatToExt (sizeFormat s) | Some e \<Rightarrow> e)"

definition requestPath :: "photo_path \<Rightarrow> string" where
  "requestPath p = buildFullPath p (pp_size p) (Some (formatToExt (pp_format p)))"

definition sourcePath :: "photo_path \<Rightarrow> string" where
  "sourcePath p = buildFullPath p (pp_size p) None"

definition isRequestASource :: "photo_path \<Rightarrow> bool" where
  "isRequestASource p \<longleftrightarrow> requestPath p = sourcePath p"

definition nextFallback :: "photo_path \<Rightarrow> photo_path option" where
  "nextFallback p =
     (let bound = sizePx (pp_size p) + (if isRequestASource p then 1 else 0) in
      if bound \<le> sizePx SizeThumbnail then Some (newPhotoPath SizeThumbnail (pp_uuid p) None)
      else if bound \<le> sizePx SizePreview then Some (newPhotoPath SizePreview (pp_uuid p) None)
      else None)"

definition fromGetPhotoDto :: "photo_size \<Rightarrow> uuid \<Rightarrow> string \<Rightarrow> photo_path" where
  "fromGetPhotoDto s u ext = newPhotoPath s u (Some (extToFormat ext))"

definition fromDownloadPhotoDto :: "uuid \<Rightarrow> photo_path" where
  "fromDownloadPhotoDto u = newPhotoPath SizePreview u (Some Jpeg)"

text \<open>\<open>ProcessPhotoParams\<close>; the default quality is a value of the configuration.\<close>

record process_params =
  par_format :: image_format
  par_width :: "nat option"
  par_height :: "nat option"
  par_quality :: int
  par_fit :: image_fit
  par_watermark :: "string option"
  par_heightRatio :: rat
  par_widthRatio :: rat

definition newProcessPhotoParams :: "int \<Rightarrow> process_params" where
  "newProcessPhotoParams quality =
     \<lparr>par_format = Jpeg, par_width = None, par_height = None, par_quality = quality,
      par_fit = FitInside, par_watermark = None, par_heightRatio = 1 / 2, par_widthRatio = 1 / 2\<rparr>"

definition buildProcessParams :: "int \<Rightarrow> photo_path \<Rightarrow> string option \<Rightarrow> process_params" where
  "buildProcessParams quality p watermark =
     (newProcessPhotoParams quality)\<lparr>par_format := pp_format p, par_width := Some (sizePx (pp_size p)),
      par_height := Some (sizePx (pp_size p)), par_fit := imageFit (pp_size p),
      par_watermark := watermark\<rparr>"

record resize_options =
  rs_width :: "nat option"
  rs_height :: "nat option"
  rs_fit :: image_fit
  rs_withoutEnlargement :: bool

definition buildResizeOptions :: "process_params \<Rightarrow> resize_options" where
  "buildResizeOptions p =
     \<lparr>rs_width = par_width p, rs_height = par_height p, rs_fit = par_fit p, rs_withoutEnlargement = True\<rparr>"

record region =
  rg_width :: rat
  rg_height :: rat
  rg_top :: int
  rg_left :: int

text \<open>A size of zero is falsy.\<close>

definition buildPreExtractRegion :: "process_params \<Rightarrow> nat \<Rightarrow> nat \<Rightarrow> region" where
  "buildPreExtractRegion p width height =
     (if par_width p \<in> {None, Some 0} \<or> par_height p \<in> {None, Some 0}
      then \<lparr>rg_width = of_nat width, rg_height = of_nat height, rg_top = 0, rg_left = 0\<rparr>
      else
        let targetRatio = of_nat (the (par_width p)) / of_nat (the (par_height p)) in
        if width < height then
          let newWidth = of_nat width; newHeight = of_nat width * targetRatio in
          \<lparr>rg_width = newWidth, rg_height = newHeight,
           rg_top = \<lfloor>(of_nat height - newHeight) * par_heightRatio p\<rfloor>, rg_left = 0\<rparr>
        else
          let newWidth = of_nat height * targetRatio; newHeight = of_nat height in
          \<lparr>rg_width = newWidth, rg_height = newHeight, rg_top = 0,
           rg_left = \<lfloor>(of_nat width - newWidth) * par_widthRatio p\<rfloor>\<rparr>)"

record profile_photo_path =
  ppp_uuid :: uuid
  ppp_format :: image_format

definition ppp_path :: "profile_photo_path \<Rightarrow> string" where
  "ppp_path p = ''minio://profiles/'' @ ppp_uuid p @ ''.'' @ formatToExt (ppp_format p)"

definition ppp_mime :: "profile_photo_path \<Rightarrow> string" where
  "ppp_mime p = ''image/'' @ formatName (ppp_format p)"

definition ppp_filename :: "profile_photo_path \<Rightarrow> string" where
  "ppp_filename p = ppp_uuid p @ ''.'' @ formatToExt (ppp_format p)"

definition ppp_size :: "profile_photo_path \<Rightarrow> nat" where
  "ppp_size p = (if ppp_format p = Webp then 256 else 128)"

definition ppp_buildProcessParams :: "int \<Rightarrow> profile_photo_path \<Rightarrow> process_params" where
  "ppp_buildProcessParams quality p =
     (newProcessPhotoParams quality)\<lparr>par_format := ppp_format p, par_width := Some (ppp_size p),
      par_height := Some (ppp_size p), par_fit := FitCover, par_heightRatio := 1 / 10\<rparr>"

definition fromGetProfilePhotoDto :: "uuid \<Rightarrow> string \<Rightarrow> profile_photo_path" where
  "fromGetProfilePhotoDto u ext = \<lparr>ppp_uuid = u, ppp_format = extToFormat ext\<rparr>"

section \<open>Facts\<close>

lemma formatToExt_eq_iff [simp]: "formatToExt f = formatToExt g \<longleftrightarrow> f = g"
  by (cases f; cases g) (simp_all add: formatToExt_def)

interpretation extension: round_trip formatToExt extToFormat "\<lambda>f. f" "\<lambda>_. True"
  by unfold_locales (simp add: formatToExt_def extToFormat_def; metis image_format.exhaust)

lemma isRequestASource_iff: "isRequestASource p \<longleftrightarrow> pp_format p = sizeFormat (pp_size p)"
  by (simp add: isRequestASource_def requestPath_def sourcePath_def buildFullPath_def)

lemma isRequestASource_new [simp]: "isRequestASource (newPhotoPath s u None)"
  by (simp add: isRequestASource_iff newPhotoPath_def)

definition insideImage :: "region \<Rightarrow> nat \<Rightarrow> nat \<Rightarrow> bool" where
  "insideImage r width height \<longleftrightarrow> 0 \<le> rg_top r \<and> 0 \<le> rg_left r
     \<and> of_int (rg_left r) + rg_width r \<le> of_nat width \<and> of_int (rg_top r) + rg_height r \<le> of_nat height"

lemma floor_part:
  fixes r :: rat
  assumes "n \<le> m" and "0 \<le> r" and "r \<le> 1"
  shows "0 \<le> \<lfloor>(of_nat m - of_nat n) * r\<rfloor>"
    and "of_int \<lfloor>(of_nat m - of_nat n) * r\<rfloor> + of_nat n \<le> (of_nat m :: rat)"
proof -
  have d: "0 \<le> (of_nat m - of_nat n :: rat)" using assms(1) by simp
  then show "0 \<le> \<lfloor>(of_nat m - of_nat n) * r\<rfloor>" using assms(2) by simp
  have "of_int \<lfloor>(of_nat m - of_nat n) * r\<rfloor> \<le> (of_nat m - of_nat n) * r" by (rule of_int_floor_le)
  also have "\<dots> \<le> of_nat m - of_nat n" using d assms(3) by (simp add: mult_left_le)
  finally show "of_int \<lfloor>(of_nat m - of_nat n) * r\<rfloor> + of_nat n \<le> (of_nat m :: rat)" by simp
qed

text \<open>
  For a square target and crop ratios between zero and one, the region cut out of an image
  before it is resized is a square with the shorter side of the image, and lies inside the image.
\<close>

lemma preExtractRegion_square:
  assumes "par_width p = Some n" and "par_height p = Some n" and "0 < n"
    and "0 \<le> par_heightRatio p" and "par_heightRatio p \<le> 1"
    and "0 \<le> par_widthRatio p" and "par_widthRatio p \<le> 1"
  shows "rg_width (buildPreExtractRegion p width height) = of_nat (min width height)
    \<and> rg_height (buildPreExtractRegion p width height) = of_nat (min width height)
    \<and> insideImage (buildPreExtractRegion p width height) width height"
  using assms floor_part [of width height "par_heightRatio p"] floor_part [of height width "par_widthRatio p"]
  by (auto simp: buildPreExtractRegion_def insideImage_def Let_def min_def)

lemma preExtractRegion_square_witness:
  "let r = buildPreExtractRegion (ppp_buildProcessParams 80 \<lparr>ppp_uuid = ''u'', ppp_format = Webp\<rparr>) 600 800
   in rg_width r = 600 \<and> rg_height r = 600 \<and> insideImage r 600 800"
  using preExtractRegion_square
    [of "ppp_buildProcessParams 80 \<lparr>ppp_uuid = ''u'', ppp_format = Webp\<rparr>" 256 600 800]
  by (simp add: ppp_buildProcessParams_def newProcessPhotoParams_def ppp_size_def)

text \<open>
  For other targets the ratio is applied the wrong way round on portraits: a target twice as wide as
  high asks for a region twice as high as the image is wide.
\<close>

lemma preExtractRegion_portrait_outside:
  "\<not> insideImage (buildPreExtractRegion
      ((newProcessPhotoParams 80)\<lparr>par_width := Some 512, par_height := Some 256\<rparr>) 600 800) 600 800"
  by (simp add: buildPreExtractRegion_def insideImage_def newProcessPhotoParams_def)

end
