(* ===== verification/Storage_Service.thy ===== *)
theory Storage_Service
  imports Photo_Model
begin

text \<open>
  Where files live: \<open>storage/storage.service.ts\<close>, which chooses a backend by the prefix of the name, and
  the two backends \<open>minio-storage.abstract.service.ts\<close> and \<open>webdav-storage.service.ts\<close>. The clients of
  the backends are packages; their answers are the fields of \<open>storage_env\<close>. What the services
  write is recorded in order.
\<close>

datatype backend = Minio | Webdav

record backend_error =
  be_status :: "int option"
  be_code :: "string option"
  be_message :: string

record file_stat =
  stat_size :: nat
  stat_etag :: "string option"
  stat_isDirectory :: bool

record storage_env =
  st_stat :: "backend \<Rightarrow> string \<Rightarrow> backend_error + file_stat"
  st_exists :: "string \<Rightarrow> backend_error + bool" \<comment> \<open>of the WebDAV client\<close>
  st_read :: "backend \<Rightarrow> string \<Rightarrow> backend_error + byte list"
  st_list :: "backend \<Rightarrow> string \<Rightarrow> backend_error + string list"
  st_write :: "backend \<Rightarrow> string \<Rightarrow> byte list \<Rightarrow> backend_error option"
  st_remove :: "backend \<Rightarrow> string \<Rightarrow> backend_error option"

datatype storage_call =
    Put backend string "byte list"
  | Remove backend string
  | MakeDirectory string

definition thrown :: "backend_error + 'a \<Rightarrow> 'a outcome" where
  "thrown r = (case r of Inl e \<Rightarrow> Inl (JsError (be_message e)) | Inr a \<Rightarrow> Inr a)"

section \<open>Names\<close>

text \<open>\<open>file.split('://')\<close>.\<close>

fun splitScheme :: "string \<Rightarrow> string list" where
  "splitScheme [] = [[]]"
| "splitScheme (c # cs) =
     (if take 3 (c # cs) = ''://'' then [] # splitScheme (drop 2 cs)
      else case splitScheme cs of [] \<Rightarrow> [[c]] | w # ws \<Rightarrow> (c # w) # ws)"

definition getStorage :: "string \<Rightarrow> backend outcome" where
  "getStorage file =
     (let scheme = hd (splitScheme file) in
      if scheme = ''minio'' then Inr Minio
      else if scheme = ''webdav'' \<or> scheme = file then Inr Webdav
      else Inl (JsError ''INVALID_BACKEND_STORAGE''))"

definition getFilepath :: "string \<Rightarrow> string" where
  "getFilepath file =
     (let p = (case splitScheme file of _ # p # _ \<Rightarrow> p | _ \<Rightarrow> file)
      in CHR ''/'' # dropWhile (\<lambda>c. c = CHR ''/'') p)"

section \<open>The backends\<close>

definition backend_getSize :: "storage_env \<Rightarrow> backend \<Rightarrow> string \<Rightarrow> backend_error + nat" where
  "backend_getSize env b path =
     (case st_stat env b path of
        Inl e \<Rightarrow> Inl e
      | Inr s \<Rightarrow>
          if b = Webdav \<and> stat_isDirectory s
          then Inl \<lparr>be_status = Some 404, be_code = None, be_message = ''Not Found''\<rparr>
          else Inr (stat_size s))"

definition backend_isExist :: "storage_env \<Rightarrow> backend \<Rightarrow> string \<Rightarrow> backend_error + bool" where
  "backend_isExist env b path =
     (case b of
        Webdav \<Rightarrow> st_exists env path
      | Minio \<Rightarrow>
          (case backend_getSize env Minio path of
             Inr _ \<Rightarrow> Inr True
           | Inl e \<Rightarrow> if be_code e = Some ''NotFound'' then Inr False else Inl e))"

definition backend_getEtag :: "storage_env \<Rightarrow> backend \<Rightarrow> string \<Rightarrow> string option" where
  "backend_getEtag env b path =
     (case st_stat env b path of
        Inl _ \<Rightarrow> None
      | Inr s \<Rightarrow> if truthyId (stat_etag s) then stat_etag s else None)"

definition pathDirname :: "string \<Rightarrow> string" where
  "pathDirname p =
     (let q = rev (dropWhile (\<lambda>c. c = CHR ''/'') (rev p));
          d = rev (dropWhile (\<lambda>c. c = CHR ''/'') (dropWhile (\<lambda>c. c \<noteq> CHR ''/'') (rev q)))
      in if d \<noteq> [] then d else if p \<noteq> [] \<and> hd p = CHR ''/'' then ''/'' else ''.'')"

definition createDirectoryFromFullpathFilename :: "storage_env \<Rightarrow> string \<Rightarrow> (storage_call list, bool) action" where
  "createDirectoryFromFullpathFilename env path =
     andThen (lift (thrown (st_exists env (pathDirname path)))) (\<lambda>isExist.
     if isExist then ret False
     else andThen (modify (\<lambda>log. log @ [MakeDirectory (pathDirname path)])) (\<lambda>_. ret True))"

definition backend_putFile :: "storage_env \<Rightarrow> backend \<Rightarrow> string \<Rightarrow> byte list \<Rightarrow> (storage_call list, unit) action" where
  "backend_putFile env b path d =
     andThen (if b = Webdav then createDirectoryFromFullpathFilename env path else ret False) (\<lambda>_.
     case st_write env b path d of
       Some e \<Rightarrow> throw (JsError (be_message e))
     | None \<Rightarrow> modify (\<lambda>log. log @ [Put b path d]))"

definition backend_removeFile :: "storage_env \<Rightarrow> backend \<Rightarrow> string \<Rightarrow> (storage_call list, unit) action" where
  "backend_removeFile env b path =
     (case st_remove env b path of
        Some e \<Rightarrow> throw (JsError (be_message e))
      | None \<Rightarrow> modify (\<lambda>log. log @ [Remove b path]))"

section \<open>StorageService\<close>

definition throwIfFileDoesNotExist :: "storage_env \<Rightarrow> string \<Rightarrow> unit outcome" where
  "throwIfFileDoesNotExist env file =
     (case getStorage file of
        Inl _ \<Rightarrow> Inl (BadRequest ''INVALID_BACKEND_STORAGE'')
      | Inr b \<Rightarrow>
          (case backend_getSize env b (getFilepath file) of
             Inr fileSize \<Rightarrow> if fileSize = 0 then Inl (BadRequest ''No data'') else Inr ()
           | Inl e \<Rightarrow>
               if be_status e = Some 404 \<or> be_code e = Some ''NotFound'' then Inl (NotFound (be_message e))
               else if be_status e = Some 400 \<or> be_message e = ''INVALID_BACKEND_STORAGE''
               then Inl (BadRequest (be_message e))
               else Inl (InternalServerError (be_message e))))"

text \<open>\<open>getStream\<close> and \<open>getBuffer\<close> differ in the shape of what they return.\<close>

definition storage_getBuffer :: "storage_env \<Rightarrow> string \<Rightarrow> byte list outcome" where
  "storage_getBuffer env file =
     onSuccess (throwIfFileDoesNotExist env file) (\<lambda>_.
     onSuccess (getStorage file) (\<lambda>b. thrown (st_read env b (getFilepath file))))"

definition storage_listFiles :: "storage_env \<Rightarrow> string \<Rightarrow> string list outcome" where
  "storage_listFiles env path =
     onSuccess (getStorage path) (\<lambda>b. thrown (st_list env b (getFilepath path)))"

definition storage_isExist :: "storage_env \<Rightarrow> string \<Rightarrow> bool outcome" where
  "storage_isExist env file =
     onSuccess (getStorage file) (\<lambda>b. thrown (backend_isExist env b (getFilepath file)))"

definition storage_getSize :: "storage_env \<Rightarrow> string \<Rightarrow> nat outcome" where
  "storage_getSize env file =
     onSuccess (getStorage file) (\<lambda>b. thrown (backend_getSize env b (getFilepath file)))"

definition storage_getEtag :: "storage_env \<Rightarrow> string \<Rightarrow> string option outcome" where
  "storage_getEtag env file =
     onSuccess (getStorage file) (\<lambda>b. Inr (backend_getEtag env b (getFilepath file)))"

definition storage_putFile :: "storage_env \<Rightarrow> string \<Rightarrow> byte list \<Rightarrow> (storage_call list, unit) action" where
  "storage_putFile env file d =
     andThen (lift (getStorage file)) (\<lambda>b. backend_putFile env b (getFilepath file) d)"

definition storage_copyFile :: "storage_env \<Rightarrow> string \<Rightarrow> string \<Rightarrow> (storage_call list, unit) action" where
  "storage_copyFile env source destination =
     andThen (lift (storage_getBuffer env source)) (\<lambda>stream. storage_putFile env destination stream)"

definition storage_removeFile :: "storage_env \<Rightarrow> string \<Rightarrow> (storage_call list, unit) action" where
  "storage_removeFile env file =
     andThen (lift (getStorage file)) (\<lambda>b. backend_removeFile env b (getFilepath file))"

section \<open>Facts\<close>

text \<open>
  A name without a separator is a path of the WebDAV server; a name of one of the two schemes goes to its
  backend; every other name is refused.
\<close>

lemma splitScheme_nonempty [simp]: "splitScheme s \<noteq> []"
  by (induction s rule: splitScheme.induct) (auto split: list.splits)

lemma splitScheme_plain:
  "\<not> sublist ''://'' s \<Longrightarrow> splitScheme s = [s]"
proof (induction s rule: splitScheme.induct)
  case 1
  then show ?case by simp
next
  case (2 c cs)
  have "take 3 (c # cs) \<noteq> ''://''"
  proof
    assume "take 3 (c # cs) = ''://''"
    then have "prefix ''://'' (c # cs)" by (metis take_is_prefix)
    with "2.prems" show False by (auto dest: prefix_imp_sublist)
  qed
  moreover have "\<not> sublist ''://'' cs" using "2.prems" by (auto simp: sublist_Cons_right)
  ultimately show ?case using "2.IH"(2) by simp
qed

lemma getStorage_path: "\<not> sublist ''://'' file \<Longrightarrow> file \<noteq> ''minio'' \<Longrightarrow> getStorage file = Inr Webdav"
  by (simp add: getStorage_def splitScheme_plain Let_def)

lemma splitScheme_scheme:
  "\<not> sublist ''://'' (s @ '':/'') \<Longrightarrow> \<not> sublist ''://'' p \<Longrightarrow> splitScheme (s @ ''://'' @ p) = [s, p]"
proof (induction s)
  case Nil
  then show ?case by (simp add: splitScheme_plain)
next
  case (Cons c s)
  have "take 3 (c # s @ ''://'') \<noteq> ''://''"
  proof
    assume t: "take 3 (c # s @ ''://'') = ''://''"
    have "take 3 (c # s @ ''://'') = take 3 (c # s @ '':/'')" by (cases s; cases "tl s") auto
    with t have "prefix ''://'' ((c # s) @ '':/'')" by (metis append_Cons take_is_prefix)
    with Cons.prems(1) show False by (auto dest: prefix_imp_sublist)
  qed
  then have "take 3 (c # s @ ''://'' @ p) \<noteq> ''://''" by (cases s; cases "tl s") auto
  moreover have "\<not> sublist ''://'' (s @ '':/'')" using Cons.prems(1) by (auto simp: sublist_Cons_right)
  ultimately show ?case using Cons.IH Cons.prems(2) by simp
qed

text \<open>Whatever the name, the path handed to a backend is absolute and has one leading slash.\<close>

lemma getFilepath_absolute:
  "\<exists>p. getFilepath file = CHR ''/'' # p \<and> (p = [] \<or> hd p \<noteq> CHR ''/'')"
proof -
  have "dropWhile (\<lambda>c. c = CHR ''/'') s = [] \<or> hd (dropWhile (\<lambda>c. c = CHR ''/'') s) \<noteq> CHR ''/''" for s
    using hd_dropWhile [of "\<lambda>c. c = CHR ''/''" s] by blast
  then show ?thesis unfolding getFilepath_def Let_def by blast
qed

end
