(* ===== verification/Photo_Processing.thy ===== *)
theory Photo_Processing
  imports Storage_Service
begin

text \<open>
  Reading what an image says about itself (\<open>photo/processor/photo-metadata.service.ts\<close>) and producing
  its variants (\<open>photo-processor.service.ts\<close>, \<open>watermark.service.ts\<close>). The image library, the exif
  parser and the two colour finders are packages, their answers are fields of \<open>image_env\<close>. What the
  code decides is the list of steps it asks the image library for.
\<close>

record raw_exif =
  raw_width :: int
  raw_height :: int
  raw_createDate :: "int option" \<comment> \<open>as a number, when it is one\<close>
  raw_dateTimeOriginal :: "int option"
  raw_orientation :: "int option"
  raw_offset :: "string option"

record watermark_config =
  wm_file :: string
  wm_position :: string

datatype image_step =
    Extract region
  | Resize resize_options
  | CompositeBottomLeft watermark_config
  | EncodeWebp int
  | EncodeJpeg int

text \<open>
  \<open>im_render\<close> is the library's rendering of an image, turned upright, through the steps; \<open>im_watermark\<close>
  says whether loading and placing a watermark works.
\<close>

record image_env =
  im_exif :: "byte list \<Rightarrow> raw_exif outcome"
  im_dominantColor :: "byte list \<Rightarrow> string option"
  im_averageColor :: "byte list \<Rightarrow> string option"
  im_size :: "byte list \<Rightarrow> (nat \<times> nat) outcome"
  im_render :: "byte list \<Rightarrow> image_step list \<Rightarrow> byte list outcome"
  im_presets :: "string \<Rightarrow> watermark_config option"
  im_watermark :: "watermark_config \<Rightarrow> bool"
  im_quality :: int

section \<open>PhotoMetadataService\<close>

definition getFileExif :: "image_env \<Rightarrow> byte list \<Rightarrow> exif outcome" where
  "getFileExif env buffer =
     onSuccess (im_exif env buffer) (\<lambda>raw.
       let dates = concat (map (\<lambda>d. case d of None \<Rightarrow> [] | Some s \<Rightarrow> [s])
             [raw_createDate raw, raw_dateTimeOriginal raw])
       in Inr (newExif (raw_width raw) (raw_height raw) (raw_orientation raw) (minSeconds dates)
            (raw_offset raw)))"

section \<open>Watermarks and processing\<close>

definition insertWatermark :: "image_env \<Rightarrow> string option \<Rightarrow> image_step list" where
  "insertWatermark env preset =
     (if \<not> truthyId preset then []
      else case im_presets env (the preset) of
             None \<Rightarrow> []
           | Some config \<Rightarrow>
               if im_watermark env config \<and> wm_position config = ''bottom-left''
               then [CompositeBottomLeft config] else [])"

definition processSteps :: "image_env \<Rightarrow> process_params \<Rightarrow> nat \<times> nat \<Rightarrow> image_step list" where
  "processSteps env p dims =
     (if par_fit p = FitCover then [Extract (buildPreExtractRegion p (fst dims) (snd dims))] else [])
     @ (if par_width p \<notin> {None, Some 0} \<or> par_height p \<notin> {None, Some 0}
        then [Resize (buildResizeOptions p)] else [])
     @ insertWatermark env (par_watermark p)
     @ [if par_format p = Webp then EncodeWebp (par_quality p) else EncodeJpeg (par_quality p)]"

definition processPhoto :: "image_env \<Rightarrow> byte list \<Rightarrow> process_params \<Rightarrow> byte list outcome" where
  "processPhoto env fileBuffer p =
     onSuccess (if par_fit p = FitCover then im_size env fileBuffer else Inr (0, 0)) (\<lambda>dims.
     im_render env fileBuffer (processSteps env p dims))"

section \<open>Colours\<close>

definition getPhotoColorHex :: "image_env \<Rightarrow> byte list \<Rightarrow> string outcome" where
  "getPhotoColorHex env file =
     onSuccess (processPhoto env file ((newProcessPhotoParams (im_quality env))\<lparr>par_width := Some 200\<rparr>)) (\<lambda>buffer.
     Inr (case im_dominantColor env buffer of
            Some c \<Rightarrow> c
          | None \<Rightarrow> (case im_averageColor env buffer of Some c \<Rightarrow> c | None \<Rightarrow> ''#ffffff'')))"

text \<open>A string that is not a colour gives a number that is none.\<close>

definition getPhotoColor :: "image_env \<Rightarrow> byte list \<Rightarrow> int option outcome" where
  "getPhotoColor env file = onSuccess (getPhotoColorHex env file) (\<lambda>hex. Inr (hexToDec hex))"

section \<open>Facts\<close>

text \<open>Every image is encoded exactly once, as the last step, in the format asked for.\<close>

lemma processSteps_last:
  "last (processSteps env p d) =
     (if par_format p = Webp then EncodeWebp (par_quality p) else EncodeJpeg (par_quality p))"
  by (simp add: processSteps_def)

lemma insertWatermark_none [simp]: "insertWatermark env None = []"
  by (simp add: insertWatermark_def)

lemma getFileExif_date:
  assumes "im_exif env b = Inr raw"
    and "raw_createDate raw = Some s" and "raw_dateTimeOriginal raw = Some t" and "raw_offset raw = None"
    and "min s t \<noteq> 0"
  shows "map_sum id ex_date (getFileExif env b) = Inr (min s t * 1000 - 7 * 3600000)"
  using assms
  by (simp add: getFileExif_def newExif_def minSeconds_def getOffsetDay_def parseOffset_def Let_def)

section \<open>A concrete setting\<close>

definition demoStorage :: storage_env where
  "demoStorage = \<lparr>st_stat = (\<lambda>_ _. Inr \<lparr>stat_size = 3, stat_etag = None, stat_isDirectory = False\<rparr>),
     st_exists = (\<lambda>_. Inr True), st_read = (\<lambda>_ _. Inr [1, 2, 3]), st_list = (\<lambda>_ _. Inr []),
     st_write = (\<lambda>_ _ _. None), st_remove = (\<lambda>_ _. None)\<rparr>"

definition demoImage :: image_env where
  "demoImage = \<lparr>im_exif = (\<lambda>_. Inr \<lparr>raw_width = 4000, raw_height = 3000, raw_createDate = None,
       raw_dateTimeOriginal = Some 90000, raw_orientation = Some 1, raw_offset = None\<rparr>),
     im_dominantColor = (\<lambda>_. Some ''#ffffff''), im_averageColor = (\<lambda>_. None), im_size = (\<lambda>_. Inr (200, 150)),
     im_render = (\<lambda>b _. Inr b), im_presets = (\<lambda>_. None), im_watermark = (\<lambda>_. True), im_quality = 80\<rparr>"

end
