(* ===== verification/Gallery_Photo.thy ===== *)
theory Gallery_Photo
  imports Gallery_Rule Photo_Processing Request_Auth "HOL-Library.Product_Lexorder"
begin

text \<open>
  The life of a photo of the gallery: upload and import (\<open>gallery/photo/gallery-album-photo.service.ts\<close>),
  validation and conversion by the two queue workers (\<open>gallery-photo-validator-processor.service.ts\<close>,
  \<open>gallery-photo-converter-processor.service.ts\<close>), review, reprocessing, moving and deletion
  (\<open>gallery-photo.service.ts\<close>), and what an album shows. Each operation is one action on the world; the
  two workers run one job at a time, and the jobs they take are the entities that were queued.
  A query that reads leaves soft-deleted rows out, an update does not.
\<close>

section \<open>The world\<close>

record upload_task =
  task_album :: "string option"
  task_src_directory :: "string option"
  task_rules :: "string list"

record gallery_db =
  photos :: "gallery_photo list"
  galleryAlbums :: "gallery_album list"
  galleryActivities :: "gallery_activity list"
  galleryTags :: "gallery_tag list"
  galleryVideos :: "gallery_video list"

record gallery_world =
  gdb :: gallery_db
  validationQueue :: "gallery_photo list"
  conversionQueue :: "gallery_photo list"
  storageCalls :: "storage_call list"
  uploadTasks :: "upload_task list" \<comment> \<open>a collection of MongoDB, outside the transactions\<close>

text \<open>
  What a run takes from outside: the identifier library, the names, the clock, the digest, the storage
  and image environments, the server's answer when a transaction commits, and the text of the mapper's
  error for a missing row.
\<close>

record gallery_env =
  ge_lib :: id_lib
  ge_names :: "profile_name list"
  ge_now :: time
  ge_md5 :: "byte list \<Rightarrow> string"
  ge_storage :: storage_env
  ge_image :: image_env
  ge_commit :: "gallery_world \<Rightarrow> http_error option"
  ge_missingAlbum :: "string \<Rightarrow> string"

abbreviation onGalleryDb :: "(gallery_db, 'a) action \<Rightarrow> (gallery_world, 'a) action" where
  "onGalleryDb \<equiv> zoom gdb (\<lambda>db w. w\<lparr>gdb := db\<rparr>)"

abbreviation onPhotos :: "(gallery_photo list, 'a) action \<Rightarrow> (gallery_world, 'a) action" where
  "onPhotos \<equiv> \<lambda>m. onGalleryDb (zoom photos (\<lambda>t db. db\<lparr>photos := t\<rparr>) m)"

abbreviation onStorage :: "(storage_call list, 'a) action \<Rightarrow> (gallery_world, 'a) action" where
  "onStorage \<equiv> zoom storageCalls (\<lambda>t w. w\<lparr>storageCalls := t\<rparr>)"

definition updatePhotos :: "(gallery_photo \<Rightarrow> bool) \<Rightarrow> (gallery_photo \<Rightarrow> gallery_photo) \<Rightarrow> (gallery_world, unit) action" where
  "updatePhotos p f = onPhotos (modify (updateBy p f))"

definition queueValidation :: "gallery_photo list \<Rightarrow> (gallery_world, unit) action" where
  "queueValidation ps = modify (\<lambda>w. w\<lparr>validationQueue := validationQueue w @ ps\<rparr>)"

definition queueConversion :: "gallery_photo \<Rightarrow> (gallery_world, unit) action" where
  "queueConversion p = modify (\<lambda>w. w\<lparr>conversionQueue := conversionQueue w @ [p]\<rparr>)"

definition live :: "gallery_photo \<Rightarrow> bool" where
  "live p \<longleftrightarrow> ph_deletedAt p = None"

section \<open>GalleryPhotoService\<close>

definition photo_findById :: "uuid \<Rightarrow> gallery_world \<Rightarrow> gallery_photo option" where
  "photo_findById i w = findOneBy (\<lambda>p. ph_id p = i \<and> live p) (photos (gdb w))"

definition clearProcessing :: "gallery_photo \<Rightarrow> gallery_photo" where
  "clearProcessing p = p\<lparr>ph_validatedAt := None, ph_processedAt := None, ph_rejectReason := None,
     ph_rejectMessage := None, ph_errorMessage := None\<rparr>"

definition reprocess :: "uuid \<Rightarrow> (gallery_world, unit) action" where
  "reprocess photoId =
     andThen (gets (photo_findById photoId)) (\<lambda>photo.
     case photo of
       None \<Rightarrow> throw (NotFound ''Not Found'')
     | Some photo \<Rightarrow>
         andThen (throwIf (truthyId (ph_reviewedBy photo)) (Conflict ''The photo has already reviewed'')) (\<lambda>_.
         andThen (onPhotos (modify (saveRow ph_id (clearProcessing photo)))) (\<lambda>_.
         queueValidation [clearProcessing photo])))"

definition approvalPrecheck :: "uuid \<Rightarrow> uuid \<Rightarrow> (gallery_world, unit) action" where
  "approvalPrecheck photoId profileUid =
     andThen (gets (photo_findById photoId)) (\<lambda>photo.
     case photo of
       None \<Rightarrow> throw (NotFound ''Not Found'')
     | Some photo \<Rightarrow>
         andThen (throwIf (ph_validatedAt photo = None) (Conflict ''The photo is pending for validation'')) (\<lambda>_.
         andThen (throwIf (truthyId (ph_errorMessage photo)) (Conflict ''The photo has failed the processing pipeline'')) (\<lambda>_.
         andThen (throwIf (truthyId (ph_reviewedBy photo)) (Conflict ''The photo has already reviewed'')) (\<lambda>_.
         andThen (throwIf (ph_rejectReason photo \<noteq> None)
           (Conflict ''The photo has been rejected by system. Reset the approval to discard system rejection'')) (\<lambda>_.
         throwIf (ph_takenBy photo = Some profileUid)
           (Forbidden ''Approval could not be made by same photographer''))))))"

definition approvePhoto :: "uuid \<Rightarrow> profile_id_model \<Rightarrow> (gallery_world, unit) action" where
  "approvePhoto photoId profile =
     andThen (approvalPrecheck photoId (pid_uuid profile)) (\<lambda>_.
     updatePhotos (\<lambda>p. ph_id p = photoId) (\<lambda>p. p\<lparr>ph_reviewedBy := Some (pid_uuid profile)\<rparr>))"

definition rejectPhoto ::
    "uuid \<Rightarrow> profile_id_model \<Rightarrow> reject_reason \<Rightarrow> string option \<Rightarrow> (gallery_world, unit) action" where
  "rejectPhoto photoId profile reason message =
     andThen (approvalPrecheck photoId (pid_uuid profile)) (\<lambda>_.
     let trimmed = map_option trim message in
     updatePhotos (\<lambda>p. ph_id p = photoId)
       (\<lambda>p. p\<lparr>ph_reviewedBy := Some (pid_uuid profile), ph_rejectReason := Some reason,
              ph_rejectMessage := (if truthyId trimmed then trimmed else None)\<rparr>))"

definition resetApprovals :: "uuid \<Rightarrow> (gallery_world, unit) action" where
  "resetApprovals i = updatePhotos (\<lambda>p. ph_id p = i)
     (\<lambda>p. p\<lparr>ph_reviewedBy := None, ph_rejectReason := None, ph_rejectMessage := None\<rparr>)"

definition deletePhoto :: "time \<Rightarrow> uuid \<Rightarrow> (gallery_world, unit) action" where
  "deletePhoto now i = updatePhotos (\<lambda>p. ph_id p = i) (\<lambda>p. p\<lparr>ph_deletedAt := Some now\<rparr>)"

definition movePhotos :: "uuid list \<Rightarrow> string \<Rightarrow> (gallery_world, unit) action" where
  "movePhotos ids albumId =
     (if ids = [] then ret ()
      else updatePhotos (\<lambda>p. ph_id p \<in> set ids) (\<lambda>p. p\<lparr>ph_albumId := Some albumId\<rparr>))"

section \<open>GalleryPhotoValidatorProcessorService\<close>

text \<open>A resolution of zero is falsy, a date never is.\<close>

definition isValidResolution :: "exif \<Rightarrow> gallery_album \<Rightarrow> bool" where
  "isValidResolution e album =
     (let MEGA_PIXEL = 1000000;
          minimumResolution = (case alb_minimumResolutionMp album of
              None \<Rightarrow> 1 | Some m \<Rightarrow> if m = 0 then 1 else m * MEGA_PIXEL);
          photoResolution = ex_width e * ex_height e
      in minimumResolution \<le> photoResolution)"

definition isValidTimestamp :: "time \<Rightarrow> gallery_album \<Rightarrow> bool" where
  "isValidTimestamp takenDate album =
     ((case alb_takenAfter album of None \<Rightarrow> True | Some t \<Rightarrow> t \<le> takenDate)
      \<and> (case alb_takenBefore album of None \<Rightarrow> True | Some t \<Rightarrow> takenDate \<le> t))"

text \<open>The photos of one digest that are not rejected and did not fail, the most recent first, without the first.\<close>

definition nonrecentDuplicates :: "string \<Rightarrow> gallery_photo list \<Rightarrow> uuid list" where
  "nonrecentDuplicates md5Uuid t =
     map ph_id (drop 1 (sort_key (\<lambda>p. - ph_createdAt p)
       (findBy (\<lambda>p. ph_md5 p = Some md5Uuid \<and> ph_rejectReason p = None \<and> ph_errorMessage p = None \<and> live p) t)))"

definition rejectNonrecentDuplicatedFiles :: "string \<Rightarrow> uuid \<Rightarrow> (gallery_world, bool) action" where
  "rejectNonrecentDuplicatedFiles md5Uuid photoId =
     andThen (gets (\<lambda>w. nonrecentDuplicates md5Uuid (photos (gdb w)))) (\<lambda>rejectedFileIds.
     andThen (updatePhotos (\<lambda>p. ph_id p \<in> set rejectedFileIds) (\<lambda>p. p\<lparr>ph_rejectReason := Some Duplicated\<rparr>)) (\<lambda>_.
     ret (photoId \<in> set rejectedFileIds)))"

definition undoGallery :: "gallery_world \<Rightarrow> gallery_world \<Rightarrow> gallery_world" where
  "undoGallery old new = new\<lparr>gdb := gdb old\<rparr>"

definition photoValidate ::
    "gallery_env \<Rightarrow> gallery_photo \<Rightarrow> gallery_album \<Rightarrow> string \<Rightarrow> exif \<Rightarrow> int option \<Rightarrow> (gallery_world, bool) action" where
  "photoValidate env photo album md5Uuid e color =
     transaction (ge_commit env) undoGallery
       (andThen (updatePhotos (\<lambda>p. ph_id p = ph_id photo)
          (\<lambda>p. p\<lparr>ph_md5 := Some md5Uuid, ph_width := Some (ex_width e), ph_height := Some (ex_height e),
                 ph_orientation := (if ex_orientation e = Some 0 then None else ex_orientation e),
                 ph_takenWhen := Some (ex_date e), ph_color := color,
                 ph_validatedAt := Some (ge_now env)\<rparr>)) (\<lambda>_.
        andThen (rejectNonrecentDuplicatedFiles md5Uuid (ph_id photo)) (\<lambda>isRejectByDuplicated.
        if isRejectByDuplicated then ret False
        else if \<not> isValidResolution e album then
          andThen (updatePhotos (\<lambda>p. ph_id p = ph_id photo) (\<lambda>p. p\<lparr>ph_rejectReason := Some Resolution\<rparr>))
            (\<lambda>_. ret False)
        else if \<not> isValidTimestamp (ex_date e) album then
          andThen (updatePhotos (\<lambda>p. ph_id p = ph_id photo) (\<lambda>p. p\<lparr>ph_rejectReason := Some Timestamp\<rparr>))
            (\<lambda>_. ret False)
        else ret True)))"

definition findAlbum :: "string \<Rightarrow> gallery_world \<Rightarrow> gallery_album option" where
  "findAlbum i w = findOneBy (\<lambda>a. alb_id a = i \<and> alb_deletedAt a = None) (galleryAlbums (gdb w))"

definition albumOrFail :: "gallery_env \<Rightarrow> gallery_photo \<Rightarrow> (gallery_world, gallery_album) action" where
  "albumOrFail env photo =
     andThen (throwIf (\<not> truthyId (ph_albumId photo)) (JsError (''Photo '' @ ph_id photo @ '' has no albumId''))) (\<lambda>_.
     andThen (gets (findAlbum (the (ph_albumId photo)))) (\<lambda>album.
     case album of
       None \<Rightarrow> throw (JsError (ge_missingAlbum env (the (ph_albumId photo))))
     | Some a \<Rightarrow> ret a))"

definition rethrowAs :: "string \<Rightarrow> http_error \<Rightarrow> (gallery_world, 'a) action" where
  "rethrowAs what err = throw (JsError (what @ '' \"'' @ errMessage err @ ''\"''))"

definition validatorProcess :: "gallery_env \<Rightarrow> gallery_photo \<Rightarrow> (gallery_world, unit) action" where
  "validatorProcess env photo =
     tryCatch
       (andThen (albumOrFail env photo) (\<lambda>album.
        andThen (lift (storage_getBuffer (ge_storage env) (photoFullpath photo))) (\<lambda>photoBuffer.
        andThen (throwIf (photoBuffer = []) (JsError ''File has no content'')) (\<lambda>_.
        let md5uuid = the (hexToUuid (Some (ge_md5 env photoBuffer))) in
        andThen (lift (getFileExif (ge_image env) photoBuffer)) (\<lambda>e.
        andThen (lift (getPhotoColor (ge_image env) photoBuffer)) (\<lambda>color.
        andThen (photoValidate env photo album md5uuid e color) (\<lambda>result.
        if result then queueConversion photo else ret ())))))))
       (rethrowAs ''Error during validation'')"

text \<open>The event \<open>failed\<close> of a worker: its reason may be missing.\<close>

definition failure :: "string option \<Rightarrow> string" where
  "failure reason = (case reason of None \<Rightarrow> ''InternalServerErrorException'' | Some r \<Rightarrow> r)"

definition validatorOnFailed :: "gallery_env \<Rightarrow> gallery_photo \<Rightarrow> string option \<Rightarrow> (gallery_world, unit) action" where
  "validatorOnFailed env job reason =
     updatePhotos (\<lambda>p. ph_id p = ph_id job)
       (\<lambda>p. p\<lparr>ph_validatedAt := Some (ge_now env), ph_errorMessage := Some (failure reason)\<rparr>)"

section \<open>GalleryPhotoConverterProcessorService\<close>

definition converterProcess :: "gallery_env \<Rightarrow> gallery_photo \<Rightarrow> (gallery_world, unit) action" where
  "converterProcess env photo =
     tryCatch
       (andThen (albumOrFail env photo) (\<lambda>album.
        let previewPath = newPhotoPath SizePreview (ph_id photo) None;
            thumbnailPath = newPhotoPath SizeThumbnail (ph_id photo) None;
            image = ge_image env; storage = ge_storage env in
        andThen (lift (storage_getBuffer storage (photoFullpath photo))) (\<lambda>originalBuffer.
        andThen (lift (processPhoto image originalBuffer
          (buildProcessParams (im_quality image) previewPath (alb_watermarkPreset album)))) (\<lambda>previewBuffer.
        andThen (attempt (onStorage (storage_putFile storage (sourcePath previewPath) previewBuffer))) (\<lambda>uploadPreviewP.
        andThen (lift (processPhoto image previewBuffer
          (buildProcessParams (im_quality image) thumbnailPath None))) (\<lambda>thumbnailBuffer.
        andThen (attempt (onStorage (storage_putFile storage (sourcePath thumbnailPath) thumbnailBuffer))) (\<lambda>uploadThumbnailP.
        andThen (lift uploadPreviewP) (\<lambda>_.
        andThen (lift uploadThumbnailP) (\<lambda>_.
        updatePhotos (\<lambda>p. ph_id p = ph_id photo) (\<lambda>p. p\<lparr>ph_processedAt := Some (ge_now env)\<rparr>))))))))))
       (rethrowAs ''Error during conversion'')"

definition converterOnFailed :: "gallery_env \<Rightarrow> gallery_photo \<Rightarrow> string option \<Rightarrow> (gallery_world, unit) action" where
  "converterOnFailed env job reason =
     updatePhotos (\<lambda>p. ph_id p = ph_id job)
       (\<lambda>p. p\<lparr>ph_processedAt := Some (ge_now env), ph_errorMessage := Some (failure reason)\<rparr>)"

section \<open>GalleryAlbumPhotoService\<close>

text \<open>\<open>takenWhen\<close> in ascending order; the server sorts missing values last.\<close>

definition takenWhenKey :: "gallery_photo \<Rightarrow> nat \<times> time" where
  "takenWhenKey p = (case ph_takenWhen p of None \<Rightarrow> (1, 0) | Some t \<Rightarrow> (0, t))"

definition uploadedPhotos :: "string \<Rightarrow> uuid option \<Rightarrow> photo_state option \<Rightarrow> gallery_world \<Rightarrow> gallery_photo list" where
  "uploadedPhotos albumId takenBy state w = sort_key takenWhenKey
     (findBy (\<lambda>p. live p \<and> ph_albumId p = Some albumId
                 \<and> (case takenBy of None \<Rightarrow> True | Some u \<Rightarrow> ph_takenBy p = Some u)
                 \<and> matchesWhere (findByStateOptionsWhere state) p) (photos (gdb w)))"

text \<open>Without \<open>selectAll\<close> the query selects seven columns; the others are \<open>undefined\<close> in the entity.\<close>

definition maskPhoto :: "bool \<Rightarrow> gallery_photo \<Rightarrow> gallery_photo" where
  "maskPhoto selectAll p =
     (if selectAll then p
      else p\<lparr>ph_directory := [], ph_filename := [], ph_md5 := None, ph_orientation := None,
             ph_validatedAt := None, ph_reviewedBy := None, ph_rejectReason := None,
             ph_rejectMessage := None, ph_errorMessage := None, ph_createdBy := [], ph_importId := None,
             ph_albumId := None\<rparr>)"

record album_photos_model =
  apm_contributors :: "profile_detail_response list"
  apm_photos :: "album_photo_model list"

definition takers :: "gallery_photo list \<Rightarrow> uuid list" where
  "takers ps = distinctInOrder (List.map_filter ph_takenBy ps)"

definition nameRows :: "gallery_env \<Rightarrow> uuid list \<Rightarrow> (string \<times> name_doc) list" where
  "nameRows env uids =
     map (\<lambda>d. (hexString (the (pn_profile (docName d))), d))
       (getProfilesName (ge_names env) (map (toObjectId (ge_lib env)) uids) En)"

text \<open>The two columns that are never null are \<open>undefined\<close> in the model of a masked entity.\<close>

definition albumPhotoOf :: "id_lib \<Rightarrow> bool \<Rightarrow> gallery_photo \<Rightarrow> album_photo_model" where
  "albumPhotoOf L selectAll p =
     (let m = albumPhoto_fromEntity L p
      in if selectAll then m else m\<lparr>pm_directory := None, pm_filename := None\<rparr>)"

definition getUploadPhotos ::
    "gallery_env \<Rightarrow> string \<Rightarrow> uuid option \<Rightarrow> photo_state option \<Rightarrow> bool \<Rightarrow> gallery_world \<Rightarrow> album_photos_model" where
  "getUploadPhotos env albumId uploadBy state selectAll w =
     (let ps = map (maskPhoto selectAll) (uploadedPhotos albumId uploadBy state w);
          rows = nameRows env (takers ps);
          nameOf = (\<lambda>u. map_option (\<lambda>d. profileDetail_fromModel (Some d))
            (mapOfPairs rows (hexString (toObjectId (ge_lib env) u))))
      in \<lparr>apm_contributors = map (\<lambda>d. profileDetail_fromModel (Some d)) (mapValues rows),
          apm_photos = map (\<lambda>p. withTakenBy
              (if truthyId (ph_takenBy p) then nameOf (the (ph_takenBy p)) else None)
              (albumPhotoOf (ge_lib env) selectAll p)) ps\<rparr>)"

definition getGalleryAlbumPhotos :: "gallery_env \<Rightarrow> string \<Rightarrow> gallery_world \<Rightarrow> album_photos_model" where
  "getGalleryAlbumPhotos env albumId w = getUploadPhotos env albumId None (Some StateApproved) False w"

definition getUploadContributors :: "gallery_env \<Rightarrow> string \<Rightarrow> gallery_world \<Rightarrow> profile_detail_response list" where
  "getUploadContributors env albumId w =
     (let uids = takers (findBy (\<lambda>p. live p \<and> ph_albumId p = Some albumId) (photos (gdb w)))
      in map (\<lambda>d. profileDetail_fromModel (Some d))
           (getProfilesName (ge_names env) (map (toObjectId (ge_lib env)) uids) En))"

text \<open>
  \<open>insert\<close>: the primary key refuses a second row of an id. The column of the digest has the type
  \<open>uuid\<close>; the server stores a digest without dashes in its canonical form.
\<close>

definition storedPhoto :: "time \<Rightarrow> gallery_photo \<Rightarrow> gallery_photo" where
  "storedPhoto now p =
     p\<lparr>ph_md5 := hexToUuid (uuidToHex (ph_md5 p)), ph_createdAt := now, ph_deletedAt := None\<rparr>"

definition insertPhotos :: "time \<Rightarrow> gallery_photo list \<Rightarrow> (gallery_world, unit) action" where
  "insertPhotos now es =
     andThen (gets (\<lambda>w. distinct (map ph_id es) \<and> set (map ph_id es) \<inter> set (map ph_id (photos (gdb w))) = {})) (\<lambda>free.
     andThen (throwIf (\<not> free) (JsError ''duplicate key value violates unique constraint'')) (\<lambda>_.
     onPhotos (modify (\<lambda>t. t @ map (storedPhoto now) es))))"

definition freshPhoto :: "uuid \<Rightarrow> string \<Rightarrow> string \<Rightarrow> uuid \<Rightarrow> string \<Rightarrow> gallery_photo" where
  "freshPhoto newId directory filename createdBy albumId =
     \<lparr>ph_id = newId, ph_directory = directory, ph_filename = filename, ph_md5 = None, ph_width = None,
      ph_height = None, ph_orientation = None, ph_takenWhen = None, ph_takenBy = None, ph_color = None,
      ph_validatedAt = None, ph_processedAt = None, ph_reviewedBy = None, ph_rejectReason = None,
      ph_rejectMessage = None, ph_errorMessage = None, ph_createdBy = createdBy, ph_importId = None,
      ph_albumId = Some albumId, ph_createdAt = 0, ph_deletedAt = None\<rparr>"

definition uploadFile ::
    "gallery_env \<Rightarrow> uuid \<Rightarrow> string \<Rightarrow> profile_id_model \<Rightarrow> string \<Rightarrow> byte list \<Rightarrow> (gallery_world, gallery_photo) action" where
  "uploadFile env newId albumId profileId originalname buffer =
     andThen (gets (findAlbum albumId)) (\<lambda>album.
     let profileDirectory =
           (case getNickNameWithFirstNameAndInitial (ge_names env) (pid_objectId (ge_lib env) profileId) of
              None \<Rightarrow> pid_uuid profileId | Some d \<Rightarrow> d);
         uploadDirectory = Option.bind album alb_uploadDirectory;
         entity = (freshPhoto newId (pathJoin [the uploadDirectory, profileDirectory]) originalname
             (pid_uuid profileId) albumId)
           \<lparr>ph_md5 := Some (ge_md5 env buffer), ph_takenBy := Some (pid_uuid profileId)\<rparr> in
     andThen (throwIf (\<not> truthyId uploadDirectory) (NotFound ''Not Found'')) (\<lambda>_.
     andThen (onStorage (storage_putFile (ge_storage env) (photoFullpath entity) buffer)) (\<lambda>_.
     andThen (insertPhotos (ge_now env) [entity]) (\<lambda>_.
     andThen (queueValidation [entity]) (\<lambda>_. ret entity)))))"

text \<open>The identifiers of the imported photos are drawn one by one; \<open>newIds\<close> is the sequence they are drawn from.\<close>

definition importFiles ::
    "gallery_env \<Rightarrow> uuid list \<Rightarrow> uuid \<Rightarrow> string \<Rightarrow> string \<Rightarrow> profile_id_model \<Rightarrow> profile_id_model option
       \<Rightarrow> (gallery_world, gallery_photo list) action" where
  "importFiles env newIds importId albumId directory importByUid takenByUid =
     andThen (lift (storage_listFiles (ge_storage env) directory)) (\<lambda>files.
     andThen (gets (findAlbum albumId)) (\<lambda>album.
     let uploadDirectory = Option.bind album alb_uploadDirectory;
         entities = map (\<lambda>(i, file). (freshPhoto i directory (pathBasename file) (pid_uuid importByUid) albumId)
             \<lparr>ph_takenBy := map_option pid_uuid takenByUid, ph_importId := Some importId\<rparr>) (zip newIds files) in
     andThen (throwIf (\<not> truthyId uploadDirectory) (NotFound ''Not Found'')) (\<lambda>_.
     andThen (throwIf (\<not> strIncludes directory (the uploadDirectory)) (BadRequest ''Directory mismatch'')) (\<lambda>_.
     andThen (insertPhotos (ge_now env) entities) (\<lambda>_.
     andThen (queueValidation entities) (\<lambda>_. ret entities))))))"

definition validateMimeOrThrow :: "string \<Rightarrow> unit outcome" where
  "validateMimeOrThrow mimeType =
     (if prefix ''image/'' mimeType then Inr () else Inl (BadRequest ''UNSUPPORTED_MIMETYPE''))"

end
