(* ===== verification/Gallery_Flow.thy ===== *)
theory Gallery_Flow
  imports Gallery_Photo
begin

text \<open>
  The handlers of the two photo controllers (\<open>gallery/photo/gallery-photo.v1.controller.ts\<close>,
  \<open>gallery-album-photo.v1.controller.ts\<close>), and what holds of every run of the photo component: requests,
  workers and failures in any order. The audit log is left out.
\<close>

section \<open>GalleryPhotoV1Controller\<close>

definition getGalleryPhotoInfo :: "gallery_env \<Rightarrow> uuid \<Rightarrow> request_user \<Rightarrow> (gallery_world, album_photo_model) action" where
  "getGalleryPhotoInfo env i user =
     authGroups [''nudch''] user
       (andThen (gets (photo_findById i)) (\<lambda>photo.
        case photo of
          None \<Rightarrow> throw (NotFound ''Not Found'')
        | Some p \<Rightarrow> ret (albumPhoto_fromEntity (ge_lib env) p)))"

text \<open>\<open>Promise.all\<close> of the calls: all of them are made, the first error is thrown.\<close>

primrec reprocessAll :: "uuid list \<Rightarrow> (gallery_world, unit) action" where
  "reprocessAll [] = ret ()"
| "reprocessAll (i # is) =
     andThen (attempt (reprocess i)) (\<lambda>r.
     andThen (attempt (reprocessAll is)) (\<lambda>rs.
     lift (onSuccess r (\<lambda>_. rs))))"

definition reprocessGalleryPhotos :: "uuid list \<Rightarrow> request_user \<Rightarrow> (gallery_world, unit) action" where
  "reprocessGalleryPhotos ids user = authGroups [''nudch''] user (reprocessAll ids)"

definition reprocessGalleryPhoto :: "uuid \<Rightarrow> request_user \<Rightarrow> (gallery_world, unit) action" where
  "reprocessGalleryPhoto i user = authGroups [''nudch''] user (reprocess i)"

definition moveGalleryPhotos :: "uuid list \<Rightarrow> string \<Rightarrow> request_user \<Rightarrow> (gallery_world, unit) action" where
  "moveGalleryPhotos ids albumId user = authGroups [''pr''] user (movePhotos ids albumId)"

definition approveGalleryPhoto :: "gallery_env \<Rightarrow> uuid \<Rightarrow> request_user \<Rightarrow> (gallery_world, unit) action" where
  "approveGalleryPhoto env i user =
     authGroups [''pr'', ''photo''] user
       (andThen (lift (pid_fromObjectIdOrThrow (ge_lib env) (user_id user))) (approvePhoto i))"

definition rejectGalleryPhoto ::
    "gallery_env \<Rightarrow> uuid \<Rightarrow> reject_reason \<Rightarrow> string option \<Rightarrow> request_user \<Rightarrow> (gallery_world, unit) action" where
  "rejectGalleryPhoto env i reason message user =
     authGroups [''pr'', ''photo''] user
       (andThen (lift (pid_fromObjectIdOrThrow (ge_lib env) (user_id user))) (\<lambda>profile.
        rejectPhoto i profile reason message))"

definition resetGalleryPhotoApprovals :: "uuid \<Rightarrow> request_user \<Rightarrow> (gallery_world, unit) action" where
  "resetGalleryPhotoApprovals i user = authGroups [''it'', ''pr''] user (resetApprovals i)"

definition deleteGalleryPhoto :: "gallery_env \<Rightarrow> uuid \<Rightarrow> request_user \<Rightarrow> (gallery_world, unit) action" where
  "deleteGalleryPhoto env i user = authGroups [''pr''] user (deletePhoto (ge_now env) i)"

section \<open>GalleryAlbumPhotoV1Controller\<close>

definition getPublicAlbumPhotos :: "gallery_env \<Rightarrow> string \<Rightarrow> (gallery_world, album_photos_model) action" where
  "getPublicAlbumPhotos env albumId = gets (getGalleryAlbumPhotos env albumId)"

definition getUploadedGalleryAlbumPhotos ::
    "gallery_env \<Rightarrow> string \<Rightarrow> object_id_arg option \<Rightarrow> photo_state option \<Rightarrow> photo_next_state option
       \<Rightarrow> request_user \<Rightarrow> (gallery_world, album_photos_model) action" where
  "getUploadedGalleryAlbumPhotos env albumId takenBy state next user =
     authGroups [''nudch''] user
       (gets (\<lambda>w. \<lparr>apm_contributors = getUploadContributors env albumId w,
          apm_photos = apm_photos (getUploadPhotos env albumId (toUuid (ge_lib env) takenBy)
            (case state of None \<Rightarrow> stateFromNextState next | Some s \<Rightarrow> Some s) True w)\<rparr>))"

record upload_file =
  uf_mimetype :: string
  uf_originalname :: string
  uf_buffer :: "byte list"

definition uploadGalleryAlbumPhoto ::
    "gallery_env \<Rightarrow> uuid \<Rightarrow> string \<Rightarrow> upload_file \<Rightarrow> request_user \<Rightarrow> (gallery_world, album_photo_model) action" where
  "uploadGalleryAlbumPhoto env newId albumId file user =
     authGroups [''nudch''] user
       (andThen (lift (validateMimeOrThrow (uf_mimetype file))) (\<lambda>_.
        andThen (lift (pid_fromObjectIdOrThrow (ge_lib env) (user_id user))) (\<lambda>profile.
        andThen (uploadFile env newId albumId profile (uf_originalname file) (uf_buffer file)) (\<lambda>photo.
        ret (albumPhoto_fromEntity (ge_lib env) photo)))))"

definition importGalleryAlbumPhotos ::
    "gallery_env \<Rightarrow> uuid list \<Rightarrow> uuid \<Rightarrow> string \<Rightarrow> string \<Rightarrow> object_id_arg option \<Rightarrow> request_user
       \<Rightarrow> (gallery_world, album_photo_model list) action" where
  "importGalleryAlbumPhotos env newIds importId albumId directory takenBy user =
     authGroups [''it''] user
       (andThen (lift (pid_fromObjectIdOrThrow (ge_lib env) (user_id user))) (\<lambda>importBy.
        andThen (lift (pid_fromObjectIdOrThrow (ge_lib env) takenBy)) (\<lambda>taken.
        andThen (importFiles env newIds importId albumId directory importBy (Some taken)) (\<lambda>ps.
        ret (map (albumPhoto_fromEntity (ge_lib env)) ps)))))"

section \<open>Runs\<close>

datatype gallery_op =
    Reprocess uuid
  | Approve uuid profile_id_model
  | Reject uuid profile_id_model reject_reason "string option"
  | ResetApprovals uuid
  | DeletePhoto uuid
  | MovePhotos "uuid list" string
  | Upload uuid string profile_id_model string "byte list"
  | Import "uuid list" uuid string string profile_id_model "profile_id_model option"
  | ValidateJob gallery_photo
  | ValidateFailed gallery_photo "string option"
  | ConvertJob gallery_photo
  | ConvertFailed gallery_photo "string option"

primrec galleryOp :: "gallery_env \<Rightarrow> gallery_op \<Rightarrow> (gallery_world, unit) action" where
  "galleryOp env (Reprocess i) = reprocess i"
| "galleryOp env (Approve i p) = approvePhoto i p"
| "galleryOp env (Reject i p r m) = rejectPhoto i p r m"
| "galleryOp env (ResetApprovals i) = resetApprovals i"
| "galleryOp env (DeletePhoto i) = deletePhoto (ge_now env) i"
| "galleryOp env (MovePhotos is a) = movePhotos is a"
| "galleryOp env (Upload i a p n b) = discard (uploadFile env i a p n b)"
| "galleryOp env (Import is i a d p t) = discard (importFiles env is i a d p t)"
| "galleryOp env (ValidateJob j) = validatorProcess env j"
| "galleryOp env (ValidateFailed j r) = validatorOnFailed env j r"
| "galleryOp env (ConvertJob j) = converterProcess env j"
| "galleryOp env (ConvertFailed j r) = converterOnFailed env j r"

inductive galleryStep :: "gallery_world \<Rightarrow> gallery_world \<Rightarrow> bool" where
  op: "galleryStep w (snd (galleryOp env x w))"

inductive_cases galleryStepE: "galleryStep w w'"

primrec galleryRun :: "(gallery_env \<times> gallery_op) list \<Rightarrow> gallery_world \<Rightarrow> gallery_world" where
  "galleryRun [] w = w"
| "galleryRun (x # xs) w = galleryRun xs (snd (galleryOp (fst x) (snd x) w))"

lemma galleryRun_append: "galleryRun (xs @ ys) w = galleryRun ys (galleryRun xs w)"
  by (induction xs arbitrary: w) simp_all

section \<open>What the operations do to the rows\<close>

abbreviation rows :: "gallery_world \<Rightarrow> gallery_photo list" where
  "rows w \<equiv> photos (gdb w)"

lemma rows_updatePhotos [simp]: "rows (snd (updatePhotos p f w)) = updateBy p f (rows w)"
  by (simp add: updatePhotos_def zoom_def modify_def)

lemma updatePhotos_run [action_simps]:
  "updatePhotos p f w = (Inr (), w\<lparr>gdb := (gdb w)\<lparr>photos := updateBy p f (rows w)\<rparr>\<rparr>)"
  by (simp add: updatePhotos_def zoom_def modify_def)

lemma approvalPrecheck_run:
  "approvalPrecheck i u w =
     (case photo_findById i w of
        None \<Rightarrow> (Inl (NotFound ''Not Found''), w)
      | Some p \<Rightarrow>
          (if ph_validatedAt p = None then Inl (Conflict ''The photo is pending for validation'')
           else if truthyId (ph_errorMessage p) then Inl (Conflict ''The photo has failed the processing pipeline'')
           else if truthyId (ph_reviewedBy p) then Inl (Conflict ''The photo has already reviewed'')
           else if ph_rejectReason p \<noteq> None
             then Inl (Conflict ''The photo has been rejected by system. Reset the approval to discard system rejection'')
           else if ph_takenBy p = Some u
             then Inl (Forbidden ''Approval could not be made by same photographer'')
           else Inr (), w))"
  by (simp add: approvalPrecheck_def action_simps split: option.split)

text \<open>When the precheck passes, and what it leaves alone.\<close>

definition approvable :: "uuid \<Rightarrow> gallery_photo \<Rightarrow> bool" where
  "approvable u p \<longleftrightarrow> ph_validatedAt p \<noteq> None \<and> \<not> truthyId (ph_errorMessage p)
     \<and> \<not> truthyId (ph_reviewedBy p) \<and> ph_rejectReason p = None \<and> ph_takenBy p \<noteq> Some u"

lemma approvalPrecheck_state [simp]: "snd (approvalPrecheck i u w) = w"
  by (simp add: approvalPrecheck_run split: option.split)

lemma approvalPrecheck_Inr:
  "fst (approvalPrecheck i u w) = Inr x \<longleftrightarrow> (\<exists>p. photo_findById i w = Some p \<and> approvable u p)"
  by (auto simp: approvalPrecheck_run approvable_def split: option.splits if_splits)

lemma approvalPrecheck_cases:
  obtains (refused) e where "approvalPrecheck i u w = (Inl e, w)"
    | (passed) p where "photo_findById i w = Some p" and "approvable u p" and "approvalPrecheck i u w = (Inr (), w)"
proof (cases "fst (approvalPrecheck i u w)")
  case (Inl e)
  then have "approvalPrecheck i u w = (Inl e, w)" by (metis approvalPrecheck_state prod.collapse)
  then show ?thesis by (rule refused)
next
  case (Inr x)
  with approvalPrecheck_Inr obtain p where "photo_findById i w = Some p" "approvable u p" by blast
  moreover have "approvalPrecheck i u w = (Inr (), w)" using Inr by (metis approvalPrecheck_state old.unit.exhaust prod.collapse)
  ultimately show ?thesis by (rule passed)
qed

lemma photo_findByIdD: "photo_findById i w = Some p \<Longrightarrow> p \<in> set (rows w) \<and> ph_id p = i \<and> live p"
  by (auto simp: photo_findById_def dest: findOneBy_SomeD)

section \<open>What any operation but a verdict may do\<close>

text \<open>
  The workers, moving and deleting update rows quietly: id, photographer, reviewer and message stay, and
  a mark of validation or a reason that is set stays set. A relation on worlds that allows quiet
  updates, the insertion of unreviewed photos and everything outside the database allows these
  operations as they are composed.
\<close>

definition quiet :: "(gallery_photo \<Rightarrow> gallery_photo) \<Rightarrow> bool" where
  "quiet f \<longleftrightarrow> (\<forall>p. ph_id (f p) = ph_id p \<and> ph_takenBy (f p) = ph_takenBy p
     \<and> ph_reviewedBy (f p) = ph_reviewedBy p \<and> ph_rejectMessage (f p) = ph_rejectMessage p
     \<and> (ph_validatedAt p \<noteq> None \<longrightarrow> ph_validatedAt (f p) \<noteq> None)
     \<and> (ph_rejectReason p \<noteq> None \<longrightarrow> ph_rejectReason (f p) \<noteq> None))"

definition unreviewed :: "gallery_photo \<Rightarrow> bool" where
  "unreviewed p \<longleftrightarrow> ph_reviewedBy p = None \<and> ph_rejectMessage p = None"

lemma insertPhotos_cases:
  obtains "snd (insertPhotos now es w) = w"
    | "distinct (map ph_id es)" and "set (map ph_id es) \<inter> set (map ph_id (rows w)) = {}"
      and "rows (snd (insertPhotos now es w)) = rows w @ map (storedPhoto now) es"
proof (cases "distinct (map ph_id es) \<and> set (map ph_id es) \<inter> set (map ph_id (rows w)) = {}")
  case True
  then have "rows (snd (insertPhotos now es w)) = rows w @ map (storedPhoto now) es"
    by (simp add: insertPhotos_def action_simps zoom_def)
  with True that(2) show ?thesis by blast
next
  case False
  then have "snd (insertPhotos now es w) = w" by (simp only: insertPhotos_def action_simps) simp
  with that(1) show ?thesis by blast
qed

lemma id_storedPhoto: "ph_id \<circ> storedPhoto now = ph_id"
  by (simp add: storedPhoto_def fun_eq_iff)

lemma id_storedPhoto_image: "ph_id ` storedPhoto now ` P = ph_id ` P"
  by (simp add: image_image storedPhoto_def)

locale gallery_frame = action_frame R for R :: "gallery_world \<Rightarrow> gallery_world \<Rightarrow> bool" +
  assumes same_db: "gdb w' = gdb w \<Longrightarrow> R w w'"
    and quiet_update: "quiet f \<Longrightarrow> R w (snd (updatePhotos q f w))"
    and fresh_insert: "(\<And>e. e \<in> set es \<Longrightarrow> unreviewed e) \<Longrightarrow> R w (snd (insertPhotos now es w))"
begin

lemma stays_outside:
  "staysIn R (queueValidation ps)" "staysIn R (queueConversion p)" "staysIn R (onStorage m)"
  unfolding queueValidation_def queueConversion_def
  by (auto intro!: stays_modify stays_zoom same_db)

lemma stays_update: "quiet f \<Longrightarrow> staysIn R (updatePhotos q f)"
  by (rule staysInI) (rule quiet_update)

lemma stays_insert: "(\<And>e. e \<in> set es \<Longrightarrow> unreviewed e) \<Longrightarrow> staysIn R (insertPhotos now es)"
  by (rule staysInI) (rule fresh_insert)

lemma stays_albumOrFail: "staysIn R (albumOrFail env photo)"
  unfolding albumOrFail_def by (intro stays_rules)

lemma stays_rethrowAs: "staysIn R (rethrowAs what e)"
  unfolding rethrowAs_def by (intro stays_rules)

lemma stays_rejectNonrecent: "staysIn R (rejectNonrecentDuplicatedFiles md5 i)"
  unfolding rejectNonrecentDuplicatedFiles_def by (intro stays_rules stays_update) (simp add: quiet_def)

lemma stays_photoValidate: "staysIn R (photoValidate env photo album md5 e color)"
  unfolding photoValidate_def
  by (intro stays_transaction stays_rules stays_rejectNonrecent stays_update)
     (auto simp: quiet_def undoGallery_def intro: same_db)

lemma stays_workers:
  "staysIn R (validatorProcess env photo)" "staysIn R (converterProcess env photo)"
  "staysIn R (validatorOnFailed env photo reason)" "staysIn R (converterOnFailed env photo reason)"
  unfolding validatorProcess_def converterProcess_def validatorOnFailed_def converterOnFailed_def Let_def
  by (intro stays_rules stays_outside stays_albumOrFail stays_photoValidate stays_rethrowAs stays_update;
      simp add: quiet_def)+

lemma stays_uploads:
  "staysIn R (uploadFile env i a profile n buffer)"
  "staysIn R (importFiles env is j a d by t)"
  unfolding uploadFile_def importFiles_def Let_def
  by (intro stays_rules stays_outside stays_insert; auto simp: freshPhoto_def unreviewed_def)+

lemma stays_quiet_ops:
  "staysIn R (deletePhoto now i)" "staysIn R (movePhotos is a)"
  unfolding deletePhoto_def movePhotos_def by (auto intro!: stays_rules stays_update simp: quiet_def)

end

section \<open>The invariant\<close>

text \<open>
  A reviewed photo was reviewed by somebody other than its photographer, after it had been validated; a
  message of rejection comes with a reason and is not blank. Ids are unique.
\<close>

definition photoOk :: "gallery_photo \<Rightarrow> bool" where
  "photoOk p \<longleftrightarrow>
     (ph_reviewedBy p \<noteq> None \<longrightarrow> ph_takenBy p \<noteq> ph_reviewedBy p)
     \<and> (truthyId (ph_reviewedBy p) \<longrightarrow> ph_validatedAt p \<noteq> None)
     \<and> (ph_rejectMessage p \<noteq> None \<longrightarrow> ph_rejectReason p \<noteq> None \<and> ph_rejectMessage p \<noteq> Some [])"

definition galleryInv :: "gallery_world \<Rightarrow> bool" where
  "galleryInv w \<longleftrightarrow> distinct (map ph_id (rows w)) \<and> (\<forall>p \<in> set (rows w). photoOk p)"

definition keepsGallery :: "gallery_world \<Rightarrow> gallery_world \<Rightarrow> bool" where
  "keepsGallery w w' \<longleftrightarrow> (galleryInv w \<longrightarrow> galleryInv w')"

lemma keeps_updatePhotos:
  assumes f: "\<And>p. photoOk p \<Longrightarrow> q p \<Longrightarrow> photoOk (f p) \<and> ph_id (f p) = ph_id p"
  shows "keepsGallery w (snd (updatePhotos q f w))"
  unfolding keepsGallery_def galleryInv_def rows_updatePhotos
proof
  assume inv: "distinct (map ph_id (rows w)) \<and> (\<forall>p \<in> set (rows w). photoOk p)"
  then have "map ph_id (updateBy q f (rows w)) = map ph_id (rows w)"
    using f by (auto simp: updateBy_def)
  with inv show "distinct (map ph_id (updateBy q f (rows w))) \<and> (\<forall>p \<in> set (updateBy q f (rows w)). photoOk p)"
    using f by (auto simp: set_updateBy)
qed

interpretation keepsGallery: gallery_frame keepsGallery
proof
  fix w w' and f :: "gallery_photo \<Rightarrow> gallery_photo" and q es now
  show "keepsGallery w w" by (simp add: keepsGallery_def)
  show "keepsGallery w w'' \<Longrightarrow> keepsGallery w'' w' \<Longrightarrow> keepsGallery w w'" for w''
    by (simp add: keepsGallery_def)
  show "gdb w' = gdb w \<Longrightarrow> keepsGallery w w'" by (simp add: keepsGallery_def galleryInv_def)
  show "quiet f \<Longrightarrow> keepsGallery w (snd (updatePhotos q f w))"
    by (rule keeps_updatePhotos) (auto simp: quiet_def photoOk_def)
  assume new: "\<And>e. e \<in> set es \<Longrightarrow> unreviewed e"
  show "keepsGallery w (snd (insertPhotos now es w))"
  proof (cases rule: insertPhotos_cases [of now es w])
    case 1
    then show ?thesis by (simp add: keepsGallery_def)
  next
    case 2
    have "photoOk (storedPhoto now e)" if "e \<in> set es" for e
      using new [OF that] by (simp add: photoOk_def unreviewed_def storedPhoto_def)
    with 2 show ?thesis
      by (auto simp: keepsGallery_def galleryInv_def id_storedPhoto id_storedPhoto_image)
  qed
qed

text \<open>A verdict: the precheck, then an update by the photo's id that keeps the row in order.\<close>

lemma keeps_verdict:
  assumes f: "\<And>p. approvable u p \<Longrightarrow> photoOk p \<Longrightarrow> photoOk (f p) \<and> ph_id (f p) = ph_id p"
  shows "staysIn keepsGallery (andThen (approvalPrecheck i u) (\<lambda>_. updatePhotos (\<lambda>p. ph_id p = i) f))"
proof (rule staysInI)
  fix w
  show "keepsGallery w (snd (andThen (approvalPrecheck i u) (\<lambda>_. updatePhotos (\<lambda>p. ph_id p = i) f) w))"
  proof (cases rule: approvalPrecheck_cases [of i u w])
    case (refused e)
    then show ?thesis by (simp add: andThen_throw keepsGallery_def)
  next
    case (passed p)
    note p = photo_findByIdD [OF passed(1)]
    show ?thesis unfolding keepsGallery_def
    proof
      assume inv: "galleryInv w"
      have one: "q = p" if "q \<in> set (rows w)" "ph_id q = i" for q
        using that p inv by (auto simp: galleryInv_def distinct_map dest: inj_onD)
      have "map ph_id (updateBy (\<lambda>p. ph_id p = i) f (rows w)) = map ph_id (rows w)"
        using f [OF passed(2)] p inv one by (auto simp: updateBy_def galleryInv_def)
      moreover have "photoOk (f p)" using f [OF passed(2)] p inv by (auto simp: galleryInv_def)
      ultimately show "galleryInv (snd (andThen (approvalPrecheck i u) (\<lambda>_. updatePhotos (\<lambda>p. ph_id p = i) f) w))"
        using inv one by (auto simp: andThen_ret [where m = "approvalPrecheck i u", OF passed(3)] galleryInv_def set_updateBy)
    qed
  qed
qed

lemma keeps_approvePhoto: "staysIn keepsGallery (approvePhoto i profile)"
  unfolding approvePhoto_def by (rule keeps_verdict) (auto simp: approvable_def photoOk_def)

lemma keeps_rejectPhoto: "staysIn keepsGallery (rejectPhoto i profile reason message)"
  unfolding rejectPhoto_def Let_def
  by (rule keeps_verdict) (auto simp: approvable_def photoOk_def truthyId_def split: option.splits)

lemma clearProcessing_ok: "photoOk p \<Longrightarrow> \<not> truthyId (ph_reviewedBy p) \<Longrightarrow> photoOk (clearProcessing p)"
  by (auto simp: photoOk_def clearProcessing_def)

lemma keeps_reprocess: "staysIn keepsGallery (reprocess i)"
proof (rule staysInI)
  fix w
  show "keepsGallery w (snd (reprocess i w))" unfolding keepsGallery_def
  proof
    assume inv: "galleryInv w"
    show "galleryInv (snd (reprocess i w))"
    proof (cases "photo_findById i w")
      case None
      then show ?thesis using inv by (simp add: reprocess_def action_simps)
    next
      case (Some p)
      then have "photoOk p" using inv by (auto simp: galleryInv_def dest: photo_findByIdD)
      then have "\<not> truthyId (ph_reviewedBy p) \<Longrightarrow> photoOk (clearProcessing p)" by (rule clearProcessing_ok)
      then show ?thesis using inv Some
        by (auto simp: reprocess_def action_simps zoom_def andThen_def queueValidation_def galleryInv_def
            distinct_saveRow set_saveRow)
    qed
  qed
qed

lemma keeps_resetApprovals: "staysIn keepsGallery (resetApprovals i)"
  unfolding resetApprovals_def by (intro staysInI keeps_updatePhotos) (simp add: photoOk_def)

lemma keeps_galleryOp: "staysIn keepsGallery (galleryOp env x)"
  by (cases x)
     (auto simp: keepsGallery.stays_workers keepsGallery.stays_quiet_ops keeps_approvePhoto keeps_rejectPhoto
       keeps_resetApprovals keeps_reprocess
       intro!: keepsGallery.stays_rules keepsGallery.stays_uploads)

interpretation gallerySystem: step_system "\<lambda>w. rows w = []" galleryStep galleryInv
proof
  fix w w'
  show "rows w = [] \<Longrightarrow> galleryInv w" by (simp add: galleryInv_def)
  assume "galleryStep w w'" and "galleryInv w"
  moreover have "keepsGallery w (snd (galleryOp env x w))" for env x
    by (rule staysInD [OF keeps_galleryOp])
  ultimately show "galleryInv w'" by (auto elim!: galleryStepE simp: keepsGallery_def)
qed

lemma galleryStep_run: "galleryStep\<^sup>*\<^sup>* w (galleryRun xs w)"
proof (induction xs arbitrary: w)
  case Nil
  then show ?case by simp
next
  case (Cons x xs)
  have "galleryStep w (snd (galleryOp (fst x) (snd x) w))" by (rule galleryStep.op)
  with Cons.IH show ?case by (simp add: converse_rtranclp_into_rtranclp)
qed

section \<open>A concrete setting\<close>

definition demoGallery :: gallery_env where
  "demoGallery = \<lparr>ge_lib = standardLib, ge_names = [], ge_now = 10,
     ge_md5 = (\<lambda>_. replicate 32 (CHR ''a'')), ge_storage = demoStorage, ge_image = demoImage,
     ge_commit = (\<lambda>_. None), ge_missingAlbum = (\<lambda>i. ''no album '' @ i)\<rparr>"

definition demoAlbum :: gallery_album where
  "demoAlbum = \<lparr>alb_id = ''camp'', alb_title = ''Camp'', alb_cover = None, alb_rank = 0,
     alb_activityId = Some ''act'', alb_published = True, alb_publishedAt = Some 0,
     alb_uploadDirectory = Some ''/2024/camp'', alb_watermarkPreset = None,
     alb_minimumResolutionMp = Some 5, alb_takenAfter = None, alb_takenBefore = None, alb_deletedAt = None\<rparr>"

definition galleryWith :: "gallery_photo list \<Rightarrow> gallery_album list \<Rightarrow> gallery_world" where
  "galleryWith ps as = \<lparr>gdb = \<lparr>photos = ps, galleryAlbums = as, galleryActivities = [], galleryTags = [],
       galleryVideos = []\<rparr>, validationQueue = [], conversionQueue = [], storageCalls = [], uploadTasks = []\<rparr>"

end
