(* ===== verification/Gallery_Review.thy ===== *)
theory Gallery_Review
  imports Gallery_Flow
begin

text \<open>
  What the photo component guarantees: who reviewed what an album shows, that a verdict stands until it
  is reset, what validation does to duplicates, that a failed validation changes nothing, and what the
  public listing tells about a photo.
\<close>

section \<open>Where verdicts come from\<close>

text \<open>\<open>reviewed u i w\<close>: the row of the photo \<open>i\<close> names \<open>u\<close> as its reviewer.\<close>

definition reviewed :: "uuid \<Rightarrow> uuid \<Rightarrow> gallery_world \<Rightarrow> bool" where
  "reviewed u i w \<longleftrightarrow> (\<exists>p \<in> set (rows w). ph_id p = i \<and> ph_reviewedBy p = Some u)"

definition verdictOf :: "uuid \<Rightarrow> uuid \<Rightarrow> gallery_op \<Rightarrow> bool" where
  "verdictOf u i x =
     (case x of
        Approve j profile \<Rightarrow> j = i \<and> pid_uuid profile = u
      | Reject j profile _ _ \<Rightarrow> j = i \<and> pid_uuid profile = u
      | _ \<Rightarrow> False)"

definition noNewVerdict :: "gallery_world \<Rightarrow> gallery_world \<Rightarrow> bool" where
  "noNewVerdict w w' \<longleftrightarrow> (\<forall>u i. reviewed u i w' \<longrightarrow> reviewed u i w)"

lemma noNewVerdict_update:
  "(\<And>p. ph_id (f p) = ph_id p \<and> (ph_reviewedBy (f p) = ph_reviewedBy p \<or> ph_reviewedBy (f p) = None))
    \<Longrightarrow> noNewVerdict w (snd (updatePhotos q f w))"
  unfolding noNewVerdict_def reviewed_def rows_updatePhotos set_updateBy
  by (auto split: if_splits) (metis option.distinct(1))

interpretation noNewVerdict: gallery_frame noNewVerdict
proof
  fix w w' and f :: "gallery_photo \<Rightarrow> gallery_photo" and q es now
  show "noNewVerdict w w" by (simp add: noNewVerdict_def)
  show "noNewVerdict w w'' \<Longrightarrow> noNewVerdict w'' w' \<Longrightarrow> noNewVerdict w w'" for w''
    by (simp add: noNewVerdict_def)
  show "gdb w' = gdb w \<Longrightarrow> noNewVerdict w w'" by (simp add: noNewVerdict_def reviewed_def)
  show "quiet f \<Longrightarrow> noNewVerdict w (snd (updatePhotos q f w))"
    by (rule noNewVerdict_update) (simp add: quiet_def)
  assume new: "\<And>e. e \<in> set es \<Longrightarrow> unreviewed e"
  show "noNewVerdict w (snd (insertPhotos now es w))"
    using new by (cases rule: insertPhotos_cases [of now es w])
      (auto simp: noNewVerdict_def reviewed_def storedPhoto_def unreviewed_def)
qed

lemma noNewVerdict_reprocess: "staysIn noNewVerdict (reprocess i)"
proof (rule staysInI)
  fix w
  show "noNewVerdict w (snd (reprocess i w))"
    by (auto simp: reprocess_def action_simps zoom_def andThen_def queueValidation_def noNewVerdict_def
        reviewed_def set_saveRow clearProcessing_def split: option.split dest!: photo_findByIdD)
qed

lemma noNewVerdict_reset: "staysIn noNewVerdict (resetApprovals i)"
  unfolding resetApprovals_def by (intro staysInI noNewVerdict_update) simp

lemma noNewVerdict_ops:
  "(\<And>i p. x \<noteq> Approve i p) \<Longrightarrow> (\<And>i p r m. x \<noteq> Reject i p r m) \<Longrightarrow> staysIn noNewVerdict (galleryOp env x)"
  by (cases x)
     (auto simp: noNewVerdict.stays_workers noNewVerdict.stays_quiet_ops noNewVerdict_reprocess
       noNewVerdict_reset intro!: noNewVerdict.stays_discard noNewVerdict.stays_uploads)

lemma resetApprovals_clears: "\<not> reviewed u i (snd (resetApprovals i w))"
proof
  assume "reviewed u i (snd (resetApprovals i w))"
  then obtain p where p: "p \<in> set (rows (snd (resetApprovals i w)))" "ph_id p = i" "ph_reviewedBy p = Some u"
    unfolding reviewed_def by blast
  from p(1) obtain q where "p = (if ph_id q = i
      then q\<lparr>ph_reviewedBy := None, ph_rejectReason := None, ph_rejectMessage := None\<rparr> else q)"
    unfolding resetApprovals_def rows_updatePhotos by (rule updateBy_memE)
  with p(2,3) show False by (cases "ph_id q = i") auto
qed

lemma verdict_reviewed:
  assumes "reviewed u i (snd (andThen (approvalPrecheck j v) (\<lambda>_. updatePhotos (\<lambda>p. ph_id p = j) f) w))"
    and f: "\<And>p. ph_id (f p) = ph_id p \<and> ph_reviewedBy (f p) = Some v"
  shows "reviewed u i w \<or> (i = j \<and> u = v \<and> (\<exists>q. photo_findById i w = Some q \<and> approvable u q))"
proof (cases rule: approvalPrecheck_cases [of j v w])
  case (refused e)
  with assms(1) show ?thesis by (simp add: andThen_throw)
next
  case (passed q)
  with assms(1) have "reviewed u i (snd (updatePhotos (\<lambda>p. ph_id p = j) f w))"
    by (simp add: andThen_ret [where m = "approvalPrecheck j v", OF passed(3)])
  then have "reviewed u i w \<or> (i = j \<and> u = v)"
    using f by (auto simp: reviewed_def set_updateBy split: if_splits)
  with passed show ?thesis by blast
qed

lemma reviewed_step:
  assumes "reviewed u i (snd (galleryOp env x w))"
  shows "reviewed u i w \<and> x \<noteq> ResetApprovals i
    \<or> verdictOf u i x \<and> (\<exists>q. photo_findById i w = Some q \<and> approvable u q)"
proof (cases "(\<exists>j p. x = Approve j p) \<or> (\<exists>j p r m. x = Reject j p r m)")
  case False
  then have "staysIn noNewVerdict (galleryOp env x)" by (intro noNewVerdict_ops) blast+
  then have "noNewVerdict w (snd (galleryOp env x w))" by (rule staysInD)
  with assms have "reviewed u i w" unfolding noNewVerdict_def by blast
  moreover have "x \<noteq> ResetApprovals i" using assms resetApprovals_clears by auto
  ultimately show ?thesis by blast
next
  case True
  then show ?thesis
  proof (elim disjE exE)
    fix j p
    assume x: "x = Approve j p"
    with assms show ?thesis
      by (auto simp: approvePhoto_def verdictOf_def dest!: verdict_reviewed)
  next
    fix j p r m
    assume x: "x = Reject j p r m"
    with assms show ?thesis
      by (auto simp: rejectPhoto_def Let_def verdictOf_def dest!: verdict_reviewed)
  qed
qed

text \<open>
  Claim C10: A verdict can be traced back. If a photo had no reviewer and, after any sequence of requests, worker
  runs and failures, carries the reviewer \<open>u\<close>, then the sequence contains an approval or rejection of this photo by
  \<open>u\<close>, made when the photo was validated, not failed, not rejected, not reviewed, and taken by somebody
  other than \<open>u\<close>; and nobody has reset the approvals of the photo since.
\<close>

theorem verdict_traceback:
  assumes "\<not> reviewed u i w" and "reviewed u i (galleryRun xs w)"
  shows "\<exists>before env x later. xs = before @ (env, x) # later \<and> verdictOf u i x
    \<and> (\<exists>q. photo_findById i (galleryRun before w) = Some q \<and> approvable u q)
    \<and> ResetApprovals i \<notin> snd ` set later"
  using assms
proof (induction xs rule: rev_induct)
  case Nil
  then show ?case by simp
next
  case (snoc x xs)
  let ?w = "galleryRun xs w"
  have "reviewed u i (snd (galleryOp (fst x) (snd x) ?w))" using snoc.prems(2) by (simp add: galleryRun_append)
  then consider "reviewed u i ?w" "snd x \<noteq> ResetApprovals i"
    | "verdictOf u i (snd x)" "\<exists>q. photo_findById i ?w = Some q \<and> approvable u q"
    by (auto dest: reviewed_step)
  then show ?case
  proof cases
    case 1
    with snoc obtain before env y later where "xs = before @ (env, y) # later" "verdictOf u i y"
      "\<exists>q. photo_findById i (galleryRun before w) = Some q \<and> approvable u q"
      "ResetApprovals i \<notin> snd ` set later" by blast
    with 1(2) show ?thesis
      by (intro exI [of _ before] exI [of _ env] exI [of _ y] exI [of _ "later @ [x]"]) auto
  next
    case 2
    then show ?thesis
      by (intro exI [of _ xs] exI [of _ "fst x"] exI [of _ "snd x"] exI [of _ "[]"]) simp
  qed
qed

definition bob :: profile_id_model where
  "bob = \<lparr>pid_uuid = ''bob''\<rparr>"

definition validatedPhoto :: gallery_photo where
  "validatedPhoto = newPhoto\<lparr>ph_validatedAt := Some 2\<rparr>"

theorem verdict_traceback_witness:
  "\<exists>before env x later. [(demoGallery, DeletePhoto ''p2''), (demoGallery, Approve ''p1'' bob)] = before @ (env, x) # later
    \<and> verdictOf ''bob'' ''p1'' x"
proof -
  let ?w = "galleryWith [validatedPhoto] [demoAlbum]"
  let ?xs = "[(demoGallery, DeletePhoto ''p2''), (demoGallery, Approve ''p1'' bob)]"
  have before: "\<not> reviewed ''bob'' ''p1'' ?w" by code_simp
  have after: "reviewed ''bob'' ''p1'' (galleryRun ?xs ?w)" by code_simp
  show ?thesis using verdict_traceback [OF before after] by blast
qed

section \<open>Every reachable state\<close>

text \<open>
  Claim C8: In every state the photo component can reach from an empty table, photo ids are unique, no
  photo was reviewed by the person who took it, a reviewed photo has been validated, and a message of
  rejection comes with a reason and is not blank. What an album shows in public are therefore photos that
  were validated, converted and approved by somebody else, and that are neither rejected nor failed nor deleted.
\<close>

theorem published_photos_reviewed:
  assumes "rows w\<^sub>0 = []" and "galleryStep\<^sup>*\<^sup>* w\<^sub>0 w"
  shows "galleryInv w
    \<and> (\<forall>p \<in> set (uploadedPhotos albumId takenBy (Some StateApproved) w).
          live p \<and> ph_albumId p = Some albumId \<and> ph_validatedAt p \<noteq> None \<and> ph_processedAt p \<noteq> None
        \<and> ph_rejectReason p = None \<and> ph_errorMessage p = None
        \<and> (\<exists>u. ph_reviewedBy p = Some u \<and> ph_takenBy p \<noteq> Some u))"
proof
  show inv: "galleryInv w" using assms by (rule gallerySystem.invar_reachable)
  show "\<forall>p \<in> set (uploadedPhotos albumId takenBy (Some StateApproved) w).
      live p \<and> ph_albumId p = Some albumId \<and> ph_validatedAt p \<noteq> None \<and> ph_processedAt p \<noteq> None
      \<and> ph_rejectReason p = None \<and> ph_errorMessage p = None
      \<and> (\<exists>u. ph_reviewedBy p = Some u \<and> ph_takenBy p \<noteq> Some u)"
  proof
    fix p
    assume "p \<in> set (uploadedPhotos albumId takenBy (Some StateApproved) w)"
    then have p: "p \<in> set (rows w)" "live p" "ph_albumId p = Some albumId"
        "matchesWhere (findByStateOptionsWhere (Some StateApproved)) p"
      by (simp_all add: uploadedPhotos_def)
    from inv p(1) have "photoOk p" by (simp add: galleryInv_def)
    with p(2-4) show "live p \<and> ph_albumId p = Some albumId \<and> ph_validatedAt p \<noteq> None \<and> ph_processedAt p \<noteq> None
        \<and> ph_rejectReason p = None \<and> ph_errorMessage p = None
        \<and> (\<exists>u. ph_reviewedBy p = Some u \<and> ph_takenBy p \<noteq> Some u)"
      by (auto simp: matchesWhere_def findByStateOptionsWhere_def passes_def photoOk_def Let_def)
  qed
qed

theorem published_photos_reviewed_witness:
  "let w = galleryRun [(demoGallery, Upload ''p1'' ''camp'' \<lparr>pid_uuid = ''ann''\<rparr> ''a.jpg'' [1])]
             (galleryWith [] [demoAlbum])
   in map ph_id (rows w) = [''p1''] \<and> galleryInv w"
proof -
  let ?xs = "[(demoGallery, Upload ''p1'' ''camp'' \<lparr>pid_uuid = ''ann''\<rparr> ''a.jpg'' [1])]"
  have "rows (galleryWith [] [demoAlbum]) = []" by (simp add: galleryWith_def)
  from published_photos_reviewed [OF this galleryStep_run [where xs = ?xs]]
  have "galleryInv (galleryRun ?xs (galleryWith [] [demoAlbum]))" by blast
  moreover have "map ph_id (rows (galleryRun ?xs (galleryWith [] [demoAlbum]))) = [''p1'']" by code_simp
  ultimately show ?thesis by simp
qed

section \<open>Verdicts\<close>

lemma approvePhoto_run:
  "approvePhoto i profile w =
     (case approvalPrecheck i (pid_uuid profile) w of
        (Inl e, w') \<Rightarrow> (Inl e, w')
      | (Inr _, w') \<Rightarrow> updatePhotos (\<lambda>p. ph_id p = i) (\<lambda>p. p\<lparr>ph_reviewedBy := Some (pid_uuid profile)\<rparr>) w')"
  by (simp add: approvePhoto_def andThen_def)

lemma photo_findById_updated:
  assumes inv: "distinct (map ph_id (rows w))" and p: "photo_findById i w = Some p"
    and f: "\<And>q. ph_id (f q) = ph_id q \<and> ph_deletedAt (f q) = ph_deletedAt q"
  shows "photo_findById i (snd (updatePhotos (\<lambda>q. ph_id q = i) f w)) = Some (f p)"
proof -
  note member = photo_findByIdD [OF p]
  have "f p \<in> set (rows (snd (updatePhotos (\<lambda>q. ph_id q = i) f w)))"
    using member by (force simp: set_updateBy)
  moreover have "ph_id (f p) = i \<and> live (f p)" using f member by (simp add: live_def)
  ultimately have "photo_findById i (snd (updatePhotos (\<lambda>q. ph_id q = i) f w)) \<noteq> None"
    unfolding photo_findById_def findOneBy_None by blast
  then obtain r where r: "photo_findById i (snd (updatePhotos (\<lambda>q. ph_id q = i) f w)) = Some r" by blast
  then have "r \<in> set (updateBy (\<lambda>q. ph_id q = i) f (rows w))" "ph_id r = i"
    by (auto dest: photo_findByIdD)
  then obtain q where q: "q \<in> set (rows w)" "ph_id q = i" "r = f q"
    using f by (auto simp: set_updateBy split: if_splits)
  then have "q = p" using inv member by (auto simp: distinct_map dest: inj_onD)
  with r q show ?thesis by simp
qed

text \<open>
  Claim C11: An approval succeeds exactly when the photo exists, is validated, has not failed, has been neither reviewed
  nor rejected, and was taken by somebody else. It then puts the photo into the approved state and touches no
  other photo, and every later approval or rejection, by whomever, is refused and changes nothing. A
  refused approval changes nothing either.
\<close>

theorem approvePhoto_spec:
  assumes "distinct (map ph_id (rows w))" and "pid_uuid profile \<noteq> []"
  shows "(fst (approvePhoto i profile w) = Inr () \<longleftrightarrow>
       (\<exists>p. photo_findById i w = Some p \<and> approvable (pid_uuid profile) p))
    \<and> (case approvePhoto i profile w of
         (Inl e, w') \<Rightarrow> w' = w
       | (Inr _, w') \<Rightarrow>
           (\<exists>p. photo_findById i w' = Some p \<and> photoState p = StateApproved \<and> ph_reviewedBy p = Some (pid_uuid profile))
           \<and> filter (\<lambda>p. ph_id p \<noteq> i) (rows w') = filter (\<lambda>p. ph_id p \<noteq> i) (rows w)
           \<and> (\<forall>someone reason message. \<exists>e. approvePhoto i someone w' = (Inl e, w')
                \<and> rejectPhoto i someone reason message w' = (Inl e, w')))"
proof (cases rule: approvalPrecheck_cases [of i "pid_uuid profile" w])
  case (refused e)
  then have "approvePhoto i profile w = (Inl e, w)" by (simp add: approvePhoto_run)
  moreover have "\<not> (\<exists>p. photo_findById i w = Some p \<and> approvable (pid_uuid profile) p)"
    using approvalPrecheck_Inr [of i "pid_uuid profile" w "()"] refused by simp
  ultimately show ?thesis by simp
next
  case (passed p)
  let ?f = "\<lambda>p. p\<lparr>ph_reviewedBy := Some (pid_uuid profile)\<rparr>"
  let ?v = "snd (updatePhotos (\<lambda>q. ph_id q = i) ?f w)"
  have run: "approvePhoto i profile w = (Inr (), ?v)"
    by (simp add: approvePhoto_run passed(3) action_simps)
  have found: "photo_findById i ?v = Some (?f p)"
    by (rule photo_findById_updated [OF assms(1) passed(1)]) simp
  have "photoState (?f p) = StateApproved"
    using passed(2) assms(2) by (simp add: photoState_def approvable_def)
  moreover have "filter (\<lambda>p. ph_id p \<noteq> i) (rows ?v) = filter (\<lambda>p. ph_id p \<noteq> i) (rows w)"
    unfolding rows_updatePhotos by (rule filter_updateBy_frame) simp
  moreover have "\<exists>e. approvePhoto i someone ?v = (Inl e, ?v) \<and> rejectPhoto i someone reason message ?v = (Inl e, ?v)"
    for someone reason message
  proof (cases rule: approvalPrecheck_cases [of i "pid_uuid someone" ?v])
    case (refused e)
    then show ?thesis by (simp add: approvePhoto_def rejectPhoto_def andThen_throw Let_def)
  next
    case (passed q)
    with found assms(2) show ?thesis by (simp add: approvable_def)
  qed
  ultimately show ?thesis using run found passed(1,2) by auto
qed

theorem approvePhoto_spec_witness:
  "fst (approvePhoto ''p1'' bob (galleryWith [validatedPhoto] [demoAlbum])) = Inr ()
   \<and> fst (approvePhoto ''p1'' \<lparr>pid_uuid = ''ann''\<rparr> (galleryWith [validatedPhoto] [demoAlbum])) \<noteq> Inr ()"
proof -
  let ?w = "galleryWith [validatedPhoto] [demoAlbum]"
  have d: "distinct (map ph_id (rows ?w))" by (simp add: galleryWith_def)
  have found: "photo_findById ''p1'' ?w = Some validatedPhoto" by code_simp
  have "approvable ''bob'' validatedPhoto" and "\<not> approvable ''ann'' validatedPhoto"
    by (simp_all add: approvable_def validatedPhoto_def newPhoto_def)
  with found approvePhoto_spec [OF d, of bob "''p1''"] approvePhoto_spec [OF d, of "\<lparr>pid_uuid = ''ann''\<rparr>" "''p1''"]
  show ?thesis by (simp add: bob_def)
qed

section \<open>Validation\<close>

text \<open>The photos that count as copies of a digest.\<close>

definition activeCopy :: "string \<Rightarrow> gallery_photo \<Rightarrow> bool" where
  "activeCopy md5 p \<longleftrightarrow> ph_md5 p = Some md5 \<and> ph_rejectReason p = None \<and> ph_errorMessage p = None \<and> live p"

definition mostRecentFirst :: "string \<Rightarrow> gallery_photo list \<Rightarrow> gallery_photo list" where
  "mostRecentFirst md5 t = sort_key (\<lambda>p. - ph_createdAt p) (filter (activeCopy md5) t)"

lemma nonrecentDuplicates_eq: "nonrecentDuplicates md5 t = map ph_id (drop 1 (mostRecentFirst md5 t))"
  unfolding nonrecentDuplicates_def mostRecentFirst_def findBy_def activeCopy_def by simp

lemma mostRecentFirst_head:
  assumes "p \<in> set t" and "activeCopy md5 p" and "distinct (map ph_id t)"
    and "ph_id p \<notin> set (nonrecentDuplicates md5 t)"
  shows "\<exists>ps. mostRecentFirst md5 t = p # ps \<and> (\<forall>q \<in> set ps. ph_createdAt q \<le> ph_createdAt p)"
proof -
  have member: "p \<in> set (mostRecentFirst md5 t)" using assms(1,2) by (simp add: mostRecentFirst_def)
  then obtain h ps where hps: "mostRecentFirst md5 t = h # ps" by (cases "mostRecentFirst md5 t") auto
  have "p = h" using member hps assms(4) by (auto simp: nonrecentDuplicates_eq)
  moreover have "sorted (map (\<lambda>p. - ph_createdAt p) (h # ps))"
    unfolding hps [symmetric] mostRecentFirst_def by simp
  ultimately show ?thesis using hps by auto
qed

definition validatedRows :: "gallery_env \<Rightarrow> uuid \<Rightarrow> string \<Rightarrow> exif \<Rightarrow> int option \<Rightarrow> gallery_photo list \<Rightarrow> gallery_photo list" where
  "validatedRows env i md5 e color t = updateBy (\<lambda>p. ph_id p = i)
     (\<lambda>p. p\<lparr>ph_md5 := Some md5, ph_width := Some (ex_width e), ph_height := Some (ex_height e),
            ph_orientation := (if ex_orientation e = Some 0 then None else ex_orientation e),
            ph_takenWhen := Some (ex_date e), ph_color := color, ph_validatedAt := Some (ge_now env)\<rparr>) t"

definition markAs :: "reject_reason \<Rightarrow> uuid set \<Rightarrow> gallery_photo list \<Rightarrow> gallery_photo list" where
  "markAs reason is t = updateBy (\<lambda>p. ph_id p \<in> is) (\<lambda>p. p\<lparr>ph_rejectReason := Some reason\<rparr>) t"

lemma photoValidate_Inr:
  assumes "photoValidate env photo album md5 e color w = (Inr ok, w')"
  defines "t \<equiv> validatedRows env (ph_id photo) md5 e color (rows w)"
  defines "dups \<equiv> set (nonrecentDuplicates md5 t)"
  shows "ok \<longleftrightarrow> ph_id photo \<notin> dups \<and> isValidResolution e album \<and> isValidTimestamp (ex_date e) album"
    and "rows w' = (let u = markAs Duplicated dups t in
       if ph_id photo \<in> dups \<or> ok then u
       else markAs (if isValidResolution e album then Timestamp else Resolution) {ph_id photo} u)"
  using assms(1) unfolding photoValidate_def transaction_Inr
  by (auto simp: action_simps rejectNonrecentDuplicatedFiles_def t_def dups_def validatedRows_def markAs_def
      Let_def split: if_splits)

lemma markAs_active: "p \<in> set (markAs reason is t) \<Longrightarrow> activeCopy md5 p \<Longrightarrow> p \<in> set t \<and> ph_id p \<notin> is"
  by (auto simp: markAs_def set_updateBy activeCopy_def split: if_splits)

lemma markAs_same: "p \<in> set t \<Longrightarrow> ph_id p \<notin> is \<Longrightarrow> p \<in> set (markAs reason is t)"
  by (force simp: markAs_def set_updateBy)


text \<open>
  A published photo, and the same bytes uploaded again to an album that wants photos of another time.
\<close>

definition demoDigest :: string where
  "demoDigest = ''aaaaaaaa-aaaa-aaaa-aaaa-aaaaaaaaaaaa''"

definition publishedCopy :: gallery_photo where
  "publishedCopy = newPhoto\<lparr>ph_id := ''old'', ph_md5 := Some demoDigest, ph_validatedAt := Some 2,
     ph_processedAt := Some 3, ph_reviewedBy := Some ''bob''\<rparr>"

definition reuploadedCopy :: gallery_photo where
  "reuploadedCopy = newPhoto\<lparr>ph_albumId := Some ''strict'', ph_createdAt := 5\<rparr>"

definition strictAlbum :: gallery_album where
  "strictAlbum = demoAlbum\<lparr>alb_id := ''strict'', alb_takenAfter := Some 100000000\<rparr>"

definition reuploadWorld :: gallery_world where
  "reuploadWorld = galleryWith [publishedCopy, reuploadedCopy] [demoAlbum, strictAlbum]"

definition demoExif :: exif where
  "demoExif = \<lparr>ex_width = 4000, ex_height = 3000, ex_orientation = Some 1, ex_date = 64800000\<rparr>"

lemma reupload_run:
  "map_prod id (\<lambda>w. map (\<lambda>p. (ph_id p, ph_rejectReason p)) (rows w))
     (photoValidate demoGallery reuploadedCopy strictAlbum demoDigest demoExif None reuploadWorld)
   = (Inr False, [(''old'', Some Duplicated), (''p1'', Some Timestamp)])"
  by code_simp


text \<open>So a new upload can take a published photo off its album without replacing it.\<close>

lemma reupload_unpublishes:
  "map ph_id (uploadedPhotos ''camp'' None (Some StateApproved) reuploadWorld) = [''old'']"
  "let w = snd (photoValidate demoGallery reuploadedCopy strictAlbum demoDigest demoExif None reuploadWorld) in
   uploadedPhotos ''camp'' None (Some StateApproved) w = [] \<and> uploadedPhotos ''strict'' None (Some StateApproved) w = []"
  by code_simp+

section \<open>Failures of the workers\<close>

definition onlyDb :: "gallery_world \<Rightarrow> gallery_world \<Rightarrow> bool" where
  "onlyDb w w' \<longleftrightarrow> validationQueue w' = validationQueue w \<and> conversionQueue w' = conversionQueue w
     \<and> storageCalls w' = storageCalls w \<and> uploadTasks w' = uploadTasks w"

interpretation onlyDb: action_frame onlyDb
  by unfold_locales (simp_all add: onlyDb_def)

lemma onlyDb_update: "staysIn onlyDb (updatePhotos p f)"
  by (rule staysInI) (simp add: action_simps onlyDb_def)

lemma photoValidate_onlyDb: "staysIn onlyDb (photoValidate env photo album md5 e color)"
  unfolding photoValidate_def rejectNonrecentDuplicatedFiles_def
  by (intro onlyDb.stays_transaction onlyDb.stays_rules onlyDb_update) (simp add: onlyDb_def undoGallery_def)

lemma photoValidate_failsClean: "failsClean (photoValidate env photo album md5 e color)"
  unfolding failsClean_def
proof (intro allI impI)
  fix w err w'
  assume run: "photoValidate env photo album md5 e color w = (Inl err, w')"
  then obtain v where "w' = undoGallery w v"
    unfolding photoValidate_def by (blast dest: transaction_Inl_undone)
  then have "gdb w' = gdb w" by (simp add: undoGallery_def)
  moreover have "onlyDb w w'"
    using staysInD [OF photoValidate_onlyDb, of w env photo album md5 e color] run by simp
  ultimately show "w' = w" by (simp add: onlyDb_def)
qed

lemma albumOrFail_readsOnly: "readsOnly (albumOrFail env photo)"
  unfolding albumOrFail_def by (intro readsOnly_rules)

lemma validatorProcess_failsClean: "failsClean (validatorProcess env photo)"
  unfolding validatorProcess_def Let_def rethrowAs_def queueConversion_def
  by (intro failsClean_tryCatch failsClean_last failsClean_read photoValidate_failsClean albumOrFail_readsOnly
      neverThrows_if neverThrows_basic readsOnly_failsClean readsOnly_basic)

lemma tryCatch_rethrow_Inl:
  "tryCatch m (rethrowAs what) w = (Inl e, w') \<Longrightarrow> \<exists>err. e = JsError (what @ '' \"'' @ errMessage err @ ''\"'')"
  by (auto simp: tryCatch_def rethrowAs_def action_simps split: sum.splits prod.splits)



section \<open>The requirements of an album\<close>

text \<open>
  The validator and the upload rule built from an album agree on every photo that has a pixel: on
  its resolution and on the time it was taken. For an album with a positive minimum and instants that are whole
  seconds not before 1970, the rule read back from the stored patterns agrees as well.
\<close>

lemma album_requirements_agree:
  assumes "0 < ex_width e * ex_height e"
  shows "(isValidResolution e album \<longleftrightarrow> isResolutionMetRequirement (fromAlbum album) (ex_width e * ex_height e))
    \<and> (isValidTimestamp t album \<longleftrightarrow>
           isTakenAfterDateMetRequirement (fromAlbum album) t \<and> isTakenBeforeDateMetRequirement (fromAlbum album) t)
    \<and> (ruleOk (fromAlbum album) \<longrightarrow>
           isValidResolution e album = pixelResolution_isValid (toPattern (fromAlbum album)) (ex_width e * ex_height e)
         \<and> isValidTimestamp t album = (takenAfter_isValid (toPattern (fromAlbum album)) t
              \<and> takenBefore_isValid (toPattern (fromAlbum album)) t))"
proof (intro conjI impI)
  show resolution: "isValidResolution e album \<longleftrightarrow>
      isResolutionMetRequirement (fromAlbum album) (ex_width e * ex_height e)"
    using assms by (auto simp: isValidResolution_def isResolutionMetRequirement_def fromAlbum_def split: option.split)
  show times: "isValidTimestamp t album \<longleftrightarrow>
      isTakenAfterDateMetRequirement (fromAlbum album) t \<and> isTakenBeforeDateMetRequirement (fromAlbum album) t"
    by (simp add: isValidTimestamp_def isTakenAfterDateMetRequirement_def isTakenBeforeDateMetRequirement_def
        fromAlbum_def)
  assume ok: "ruleOk (fromAlbum album)"
  then have "fromPattern (toPattern (fromAlbum album)) = fromAlbum album" by (rule toPattern_ok)
  then have "pixelResolution_getValue (toPattern (fromAlbum album)) = ur_minimumResoluionMp (fromAlbum album)"
    and "time_getValue ''TA_'' (toPattern (fromAlbum album)) = ur_takenAfter (fromAlbum album)"
    and "time_getValue ''TB_'' (toPattern (fromAlbum album)) = ur_takenBefore (fromAlbum album)"
    unfolding fromPattern_def by (metis upload_rule.select_convs)+
  note parsed = this
  show "isValidResolution e album = pixelResolution_isValid (toPattern (fromAlbum album)) (ex_width e * ex_height e)"
    unfolding resolution using parsed by (simp add: pixelResolution_isValid_def isResolutionMetRequirement_def)
  show "isValidTimestamp t album = (takenAfter_isValid (toPattern (fromAlbum album)) t
      \<and> takenBefore_isValid (toPattern (fromAlbum album)) t)"
    unfolding times using parsed
    by (simp add: takenAfter_isValid_def takenBefore_isValid_def isTakenAfterDateMetRequirement_def
        isTakenBeforeDateMetRequirement_def)
qed

lemma album_requirements_agree_witness:
  "isValidResolution demoExif strictAlbum
     = pixelResolution_isValid (toPattern (fromAlbum strictAlbum)) 12000000
   \<and> isValidTimestamp 64800000 strictAlbum = (takenAfter_isValid (toPattern (fromAlbum strictAlbum)) 64800000
        \<and> takenBefore_isValid (toPattern (fromAlbum strictAlbum)) 64800000)"
proof -
  have "ruleOk (fromAlbum strictAlbum)" by (simp add: strictAlbum_def demoAlbum_def ruleOk_def fromAlbum_def)
  moreover have area: "ex_width demoExif * ex_height demoExif = 12000000" by (simp add: demoExif_def)
  moreover have "0 < (12000000 :: int)" by simp
  ultimately show ?thesis
    using album_requirements_agree [of demoExif strictAlbum 64800000, unfolded area] by blast
qed

section \<open>What the public listing tells\<close>

lemma public_ids:
  "map pm_id (apm_photos (getGalleryAlbumPhotos env a w)) = map ph_id (uploadedPhotos a None (Some StateApproved) w)"
proof -
  have takenBy: "withTakenBy t m = m\<lparr>pm_takenBy := pm_takenBy (withTakenBy t m)\<rparr>" for t m
    by (simp add: withTakenBy_def split: option.split)
  have "pm_id (withTakenBy t (albumPhotoOf (ge_lib env) False (maskPhoto False p))) = ph_id p" for p t
    by (subst takenBy) (simp add: albumPhotoOf_def albumPhoto_fromEntity_def maskPhoto_def Let_def)
  then show ?thesis
    unfolding getGalleryAlbumPhotos_def getUploadPhotos_def Let_def album_photos_model.simps by (simp add: comp_def)
qed

text \<open>
  Claim C34: The public listing of an album contains exactly the approved photos the query finds, in the
  order they were taken, and tells nothing of their files, messages and reviewers. But it computes the state from the columns
  it selected, which leave the reviewer out: every photo is reported as processed and waiting for
  approval, although all of them are approved.
\<close>

theorem public_listing:
  "map pm_id (apm_photos (getGalleryAlbumPhotos env albumId w))
     = map ph_id (uploadedPhotos albumId None (Some StateApproved) w)
   \<and> (\<forall>m \<in> set (apm_photos (getGalleryAlbumPhotos env albumId w)).
        pm_directory m = None \<and> pm_filename m = None \<and> pm_md5 m = None \<and> pm_rejectMessage m = None
      \<and> pm_errorMessage m = None \<and> pm_flowProgress m = None \<and> pm_isProcessed m
      \<and> pm_state m = Some StateProcessed \<and> pm_nextState m = Some NextApproval)"
proof -
  have takenBy: "withTakenBy t m = m\<lparr>pm_takenBy := pm_takenBy (withTakenBy t m)\<rparr>" for t m
    by (simp add: withTakenBy_def split: option.split)
  let ?model = "\<lambda>p t. withTakenBy t (albumPhotoOf (ge_lib env) False (maskPhoto False p))"
  have model: "pm_directory (?model p t) = None \<and> pm_filename (?model p t) = None \<and> pm_md5 (?model p t) = None
      \<and> pm_rejectMessage (?model p t) = None \<and> pm_errorMessage (?model p t) = None
      \<and> pm_flowProgress (?model p t) = None \<and> pm_isProcessed (?model p t)
      \<and> pm_state (?model p t) = Some StateProcessed \<and> pm_nextState (?model p t) = Some NextApproval"
    if "p \<in> set (uploadedPhotos albumId None (Some StateApproved) w)" for p t
  proof -
    have "ph_processedAt p \<noteq> None"
      using that by (auto simp: uploadedPhotos_def matchesWhere_def findByStateOptionsWhere_def passes_def Let_def)
    then show ?thesis
      by (subst (1 2 3 4 5 6 7 8 9) takenBy)
         (simp add: albumPhotoOf_def albumPhoto_fromEntity_def maskPhoto_def photoState_def photoNextState_def
           computeFlowProgress_def uuidToHex_def Let_def)
  qed
  show ?thesis
    using public_ids [of env albumId w] model
    unfolding getGalleryAlbumPhotos_def getUploadPhotos_def Let_def album_photos_model.simps by auto
qed

theorem public_listing_witness:
  "\<exists>m. apm_photos (getGalleryAlbumPhotos demoGallery ''camp'' reuploadWorld) = [m] \<and> pm_id m = ''old''
     \<and> pm_state m = Some StateProcessed"
proof -
  have "map pm_id (apm_photos (getGalleryAlbumPhotos demoGallery ''camp'' reuploadWorld)) = [''old'']"
    using public_listing [of demoGallery "''camp''" reuploadWorld] reupload_unpublishes(1) by simp
  then obtain m where m: "apm_photos (getGalleryAlbumPhotos demoGallery ''camp'' reuploadWorld) = [m]" "pm_id m = ''old''"
    by auto
  with public_listing [of demoGallery "''camp''" reuploadWorld] show ?thesis by simp
qed

end
