(* ===== verification/Photo_Stream.thy ===== *)
theory Photo_Stream
  imports Photo_Processing "HOL-Library.Option_ord" "HOL-Library.Product_Lexorder" "HOL-Library.List_Lexorder" "HOL-Library.Char_ord"
begin

text \<open>
  Serving images: \<open>photo/stream/photo-stream.service.ts\<close> and its controller, with the look-up of the
  original in \<open>photo/photo-v1.service.ts\<close> and the models under \<open>models/photo\<close>. A stream is the bytes it
  delivers. A request is answered by the stored file, else by processing the next larger stored variant,
  else by processing the original.
\<close>

section \<open>Originals\<close>

datatype upload_file_state =
    FileReady | FileWaitForValidation | FileValidating | FileAccepted | FileRejected | FileSkipped
  | FileWaitForProcessing | FileProcessing | FileAborted | FileProcessed | FileError

record upload_batch_file =
  bf_uuid :: uuid
  bf_batch :: string
  bf_directory :: string
  bf_filename :: string
  bf_md5 :: "string option"
  bf_taken_timestamp :: "time option"
  bf_state :: "upload_file_state option"
  bf_deleted :: bool

record upload_batch_job =
  bj_id :: string
  bj_task :: "string option"
  bj_owner :: "object_id option"
  bj_deleted :: bool

record upload_task_doc =
  td_id :: string
  td_album :: string
  td_rules :: "string list"

record photo_db =
  pdb_files :: "upload_batch_file list"
  pdb_batches :: "upload_batch_job list"
  pdb_tasks :: "upload_task_doc list"

definition isValidating :: "upload_batch_file \<Rightarrow> bool" where
  "isValidating f \<longleftrightarrow> bf_state f = Some FileWaitForValidation \<or> bf_state f = Some FileValidating"

definition isProcessing :: "upload_batch_file \<Rightarrow> bool" where
  "isProcessing f \<longleftrightarrow> bf_state f = Some FileWaitForProcessing \<or> bf_state f = Some FileProcessing"

definition getBatchProfilePairs :: "string \<Rightarrow> photo_db \<Rightarrow> (string \<times> object_id option) list" where
  "getBatchProfilePairs albumId db =
     (let taskIds = map td_id (findBy (\<lambda>t. td_album t = albumId) (pdb_tasks db)) in
      map (\<lambda>b. (bj_id b, bj_owner b))
        (findBy (\<lambda>b. (\<exists>t \<in> set taskIds. bj_task b = Some t) \<and> \<not> bj_deleted b) (pdb_batches db)))"

text \<open>Each file is compared with its predecessor in the list before filtering.\<close>

definition deduplicate :: "upload_batch_file list \<Rightarrow> upload_batch_file list" where
  "deduplicate files =
     map (\<lambda>i. files ! i) (filter (\<lambda>i. \<not> (0 < i \<and> bf_md5 (files ! i) = bf_md5 (files ! (i - 1)))
        \<and> \<not> (i = 0 \<and> bf_md5 (files ! i) = None)) [0..<length files])"

text \<open>A field that is missing sorts before every value.\<close>

definition byTimeThenMd5 :: "upload_batch_file \<Rightarrow> time option \<times> string option" where
  "byTimeThenMd5 f = (bf_taken_timestamp f, bf_md5 f)"

definition getBatchesProcessedPhotos :: "string list \<Rightarrow> photo_db \<Rightarrow> upload_batch_file list" where
  "getBatchesProcessedPhotos batchIds db =
     deduplicate (sort_key byTimeThenMd5
       (findBy (\<lambda>f. bf_batch f \<in> set batchIds \<and> bf_state f = Some FileProcessed \<and> \<not> bf_deleted f) (pdb_files db)))"

text \<open>The pattern \<open>^WM_(\d+)$\<close> of \<open>photo/upload-rules\<close>, on the first rule that matches.\<close>

definition watermarkDigits :: "string \<Rightarrow> string option" where
  "watermarkDigits rule =
     (if take 3 rule = ''WM_'' \<and> drop 3 rule \<noteq> [] \<and> list_all (isDigit 10) (drop 3 rule)
      then Some (drop 3 rule) else None)"

definition photoRuleWatermark :: "string list \<Rightarrow> string option" where
  "photoRuleWatermark rules =
     Option.bind (List.find (\<lambda>r. watermarkDigits r \<noteq> None) rules) watermarkDigits"

definition getFileInfo :: "photo_db \<Rightarrow> uuid \<Rightarrow> (upload_task_doc \<times> upload_batch_job \<times> upload_batch_file) outcome" where
  "getFileInfo db u =
     (case findOneBy (\<lambda>f. bf_uuid f = u \<and> \<not> bf_deleted f) (pdb_files db) of
        None \<Rightarrow> Inl (JsError ''No document found'')
      | Some file \<Rightarrow>
          (case findOneBy (\<lambda>b. bj_id b = bf_batch file) (pdb_batches db) of
             None \<Rightarrow> Inl (JsError ''Cannot populate'')
           | Some batch \<Rightarrow>
               (case findOneBy (\<lambda>t. bj_task batch = Some (td_id t)) (pdb_tasks db) of
                  None \<Rightarrow> Inl (JsError ''Cannot populate'')
                | Some task \<Rightarrow> Inr (task, batch, file))))"

definition getOriginalSourceFullPath :: "upload_batch_file \<Rightarrow> string" where
  "getOriginalSourceFullPath f = ''webdav://'' @ pathJoin [bf_directory f, bf_filename f]"

definition getFileReprocessPhotoPath :: "int \<Rightarrow> photo_db \<Rightarrow> photo_path \<Rightarrow> (string \<times> process_params) outcome" where
  "getFileReprocessPhotoPath quality db p =
     onSuccess (getFileInfo db (pp_uuid p)) (\<lambda>(task, batch, file).
     if bf_state file \<noteq> Some FileProcessed then Inl (NotFound ''Not Found'')
     else Inr (getOriginalSourceFullPath file,
       buildProcessParams quality (newPhotoPath (pp_size p) (pp_uuid p) (Some (pp_format p)))
         (photoRuleWatermark (td_rules task))))"

section \<open>PhotoStreamService\<close>

record stream_env =
  se_storage :: storage_env
  se_image :: image_env
  se_db :: photo_db
  se_upload :: bool \<comment> \<open>the setting that processed images are stored\<close>
  se_etag :: "byte list \<Rightarrow> string"
  se_gravatar :: "string \<Rightarrow> byte list option" \<comment> \<open>the answer of a request to an address, when its status is OK\<close>

record stream_world =
  sw_calls :: "storage_call list"
  sw_etag :: "string option" \<comment> \<open>the header of the response\<close>
  sw_notModified :: bool

abbreviation onCalls :: "(storage_call list, 'a) action \<Rightarrow> (stream_world, 'a) action" where
  "onCalls \<equiv> zoom sw_calls (\<lambda>t w. w\<lparr>sw_calls := t\<rparr>)"

definition isNotModified :: "string option \<Rightarrow> string option \<Rightarrow> (stream_world, bool) action" where
  "isNotModified requestEtag responseEtag =
     (let same = truthyId responseEtag \<and> requestEtag = responseEtag in
      andThen (modify (\<lambda>w. w\<lparr>sw_etag := responseEtag, sw_notModified := sw_notModified w \<or> same\<rparr>)) (\<lambda>_. ret same))"

text \<open>\<open>responseWithStream\<close> and \<open>responseWithBuffer\<close>: the digest is computed when the storage had none.\<close>

definition responseWith ::
    "stream_env \<Rightarrow> byte list \<Rightarrow> string option \<Rightarrow> string option \<Rightarrow> (stream_world, byte list option) action" where
  "responseWith env body requestEtag responseEtag =
     (let tag = (if truthyId responseEtag then responseEtag else Some (se_etag env body)) in
      andThen (isNotModified requestEtag tag) (\<lambda>same. ret (if same then None else Some body)))"

definition tryStream :: "stream_env \<Rightarrow> string \<Rightarrow> byte list option" where
  "tryStream env path = (case storage_getBuffer (se_storage env) path of Inl _ \<Rightarrow> None | Inr b \<Rightarrow> Some b)"

text \<open>The call is not awaited: its error reaches nobody.\<close>

definition saveProcssedBuffer :: "stream_env \<Rightarrow> photo_path \<Rightarrow> byte list \<Rightarrow> (stream_world, unit) action" where
  "saveProcssedBuffer env p b =
     (if isRequestASource p \<and> se_upload env
      then discard (attempt (onCalls (storage_putFile (se_storage env) (sourcePath p) b)))
      else ret ())"

definition tryProcess :: "stream_env \<Rightarrow> photo_path \<Rightarrow> photo_path \<Rightarrow> (stream_world, byte list option) action" where
  "tryProcess env processPath targetPath =
     (case onSuccess (storage_getBuffer (se_storage env) (sourcePath processPath))
             (\<lambda>b. processPhoto (se_image env) b (buildProcessParams (im_quality (se_image env)) targetPath None)) of
        Inl _ \<Rightarrow> ret None
      | Inr processed \<Rightarrow> andThen (saveProcssedBuffer env targetPath processed) (\<lambda>_. ret (Some processed)))"

definition tryOriginal :: "stream_env \<Rightarrow> photo_path \<Rightarrow> (stream_world, byte list option) action" where
  "tryOriginal env p =
     (case onSuccess (getFileReprocessPhotoPath (im_quality (se_image env)) (se_db env) p) (\<lambda>(filename, params).
             onSuccess (storage_getBuffer (se_storage env) filename) (\<lambda>b. processPhoto (se_image env) b params)) of
        Inl _ \<Rightarrow> ret None
      | Inr processed \<Rightarrow> andThen (saveProcssedBuffer env p processed) (\<lambda>_. ret (Some processed)))"

text \<open>The loop over \<open>nextFallback\<close>: the key of a path, its size and whether it is stored, grows.\<close>

definition fallbackKey :: "photo_path \<Rightarrow> nat" where
  "fallbackKey p = sizePx (pp_size p) + (if isRequestASource p then 1 else 0)"

lemma nextFallback_key: "nextFallback p = Some q \<Longrightarrow> fallbackKey p < fallbackKey q \<and> fallbackKey p \<le> 2160"
  by (auto simp: nextFallback_def fallbackKey_def Let_def newPhotoPath_def isRequestASource_iff split: if_splits)

function fallbacks :: "photo_path \<Rightarrow> photo_path list" where
  "fallbacks p = (case nextFallback p of None \<Rightarrow> [] | Some q \<Rightarrow> q # fallbacks q)"
  by pat_completeness auto
termination
proof (relation "measure (\<lambda>p. 2161 - fallbackKey p)")
  show "wf (measure (\<lambda>p. 2161 - fallbackKey p))" by simp
  fix p q
  assume "nextFallback p = Some q"
  from nextFallback_key [OF this] show "(q, p) \<in> measure (\<lambda>p. 2161 - fallbackKey p)" by auto
qed

declare fallbacks.simps [simp del]

primrec processFirst :: "stream_env \<Rightarrow> photo_path \<Rightarrow> photo_path list \<Rightarrow> (stream_world, byte list option) action" where
  "processFirst env target [] = ret None"
| "processFirst env target (p # ps) =
     andThen (tryProcess env p target) (\<lambda>b. case b of None \<Rightarrow> processFirst env target ps | Some _ \<Rightarrow> ret b)"

definition processAndRespond :: "stream_env \<Rightarrow> photo_path \<Rightarrow> string option \<Rightarrow> (stream_world, byte list option) action" where
  "processAndRespond env p requestEtag =
     andThen (processFirst env p (fallbacks p)) (\<lambda>b. case b of
       Some body \<Rightarrow> responseWith env body requestEtag None
     | None \<Rightarrow>
         andThen (tryOriginal env p) (\<lambda>b. case b of
           Some body \<Rightarrow> responseWith env body requestEtag None
         | None \<Rightarrow> throw (NotFound ''Not Found'')))"

definition getPhotoStream :: "stream_env \<Rightarrow> photo_path \<Rightarrow> string option \<Rightarrow> (stream_world, byte list option) action" where
  "getPhotoStream env originalPath requestEtag =
     (if isRequestASource originalPath then
        andThen (lift (storage_getEtag (se_storage env) (requestPath originalPath))) (\<lambda>currentEtag.
        andThen (isNotModified requestEtag currentEtag) (\<lambda>same.
        if same then ret None
        else case tryStream env (requestPath originalPath) of
               Some body \<Rightarrow> responseWith env body requestEtag currentEtag
             | None \<Rightarrow> processAndRespond env originalPath requestEtag))
      else processAndRespond env originalPath requestEtag)"

definition getPhotoProfileStream ::
    "stream_env \<Rightarrow> profile_photo_path \<Rightarrow> string option \<Rightarrow> (stream_world, byte list option) action" where
  "getPhotoProfileStream env p requestEtag =
     andThen (lift (storage_getEtag (se_storage env) (ppp_path p))) (\<lambda>currentEtag.
     andThen (isNotModified requestEtag currentEtag) (\<lambda>same.
     if same then ret None
     else case tryStream env (ppp_path p) of
            Some body \<Rightarrow> responseWith env body requestEtag currentEtag
          | None \<Rightarrow> throw (NotFound ''Not Found'')))"

definition gravatarUrl :: "string \<Rightarrow> nat option \<Rightarrow> string" where
  "gravatarUrl hash px = ''https://secure.gravatar.com/avatar/'' @ hash @ ''?d=identicon''
     @ (if px \<in> {None, Some 0} then [] else ''&s='' @ toRadix 10 (the px))"

definition getGravatarStream ::
    "stream_env \<Rightarrow> string \<Rightarrow> nat option \<Rightarrow> string option \<Rightarrow> (stream_world, byte list option) action" where
  "getGravatarStream env hash px requestEtag =
     andThen (lift (storage_getEtag (se_storage env) (''minio://avatar/'' @ hash))) (\<lambda>currentEtag.
     andThen (isNotModified requestEtag currentEtag) (\<lambda>same.
     if same then ret None
     else case tryStream env (''minio://avatar/'' @ hash) of
            Some body \<Rightarrow> responseWith env body requestEtag currentEtag
          | None \<Rightarrow>
              (case se_gravatar env (gravatarUrl hash px) of
                 Some body \<Rightarrow> responseWith env body requestEtag currentEtag
               | None \<Rightarrow> throw (NotFound ''Not Found''))))"

section \<open>PhotoStreamController\<close>

record stream_response =
  sr_body :: "byte list"
  sr_mime :: string
  sr_disposition :: string

definition responseStream :: "string \<Rightarrow> string \<Rightarrow> string \<Rightarrow> byte list option \<Rightarrow> stream_response option" where
  "responseStream mime filename disposition body =
     map_option (\<lambda>b. \<lparr>sr_body = b, sr_mime = mime, sr_disposition = disposition @ '';filename='' @ filename\<rparr>) body"

definition getPhoto ::
    "stream_env \<Rightarrow> photo_size \<Rightarrow> uuid \<Rightarrow> string \<Rightarrow> string option \<Rightarrow> (stream_world, stream_response option) action" where
  "getPhoto env s u ext requestEtag =
     (let p = fromGetPhotoDto s u ext in
      andThen (getPhotoStream env p requestEtag) (\<lambda>stream.
      ret (responseStream (pp_mime p) (pp_filename p) ''inline'' stream)))"

definition downloadPhoto ::
    "stream_env \<Rightarrow> uuid \<Rightarrow> string option \<Rightarrow> (stream_world, stream_response option) action" where
  "downloadPhoto env u requestEtag =
     (let p = fromDownloadPhotoDto u in
      andThen (getPhotoStream env p requestEtag) (\<lambda>stream.
      ret (responseStream (pp_mime p) (pp_filename p) ''attachment'' stream)))"

definition getProfilePhoto ::
    "stream_env \<Rightarrow> uuid \<Rightarrow> string \<Rightarrow> string option \<Rightarrow> (stream_world, stream_response option) action" where
  "getProfilePhoto env u ext requestEtag =
     (let p = fromGetProfilePhotoDto u ext in
      andThen (getPhotoProfileStream env p requestEtag) (\<lambda>stream.
      ret (responseStream (ppp_mime p) (ppp_filename p) ''inline'' stream)))"

definition getAvatarImage ::
    "stream_env \<Rightarrow> string \<Rightarrow> nat option \<Rightarrow> string option \<Rightarrow> (stream_world, stream_response option) action" where
  "getAvatarImage env hash px requestEtag =
     andThen (getGravatarStream env hash px requestEtag) (\<lambda>stream.
     ret (responseStream ''image/jpeg'' (hash @ ''.jpeg'') ''inline'' stream))"

section \<open>Facts\<close>

text \<open>
  The photos of batches are listed once each: no two share time and digest, and every file with a digest is
  there or one with the same digest is.
\<close>

lemma distinct_deduplicate:
  assumes "sorted (map byTimeThenMd5 fs)"
  shows "distinct (map byTimeThenMd5 (deduplicate fs))"
proof -
  let ?keep = "\<lambda>i. \<not> (0 < i \<and> bf_md5 (fs ! i) = bf_md5 (fs ! (i - 1))) \<and> \<not> (i = 0 \<and> bf_md5 (fs ! i) = None)"
  have gone: "\<not> ?keep j" if "i < j" "j < length fs" "byTimeThenMd5 (fs ! i) = byTimeThenMd5 (fs ! j)" for i j
  proof -
    have "byTimeThenMd5 (fs ! i) \<le> byTimeThenMd5 (fs ! (j - 1))" "byTimeThenMd5 (fs ! (j - 1)) \<le> byTimeThenMd5 (fs ! j)"
      using sorted_nth_mono [OF assms, of i "j - 1"] sorted_nth_mono [OF assms, of "j - 1" j] that by simp_all
    then have "byTimeThenMd5 (fs ! (j - 1)) = byTimeThenMd5 (fs ! j)" using that(3) by simp
    then show ?thesis using that(1) by (simp add: byTimeThenMd5_def)
  qed
  have "inj_on (\<lambda>i. byTimeThenMd5 (fs ! i)) (set (filter ?keep [0..<length fs]))"
  proof (rule linorder_inj_onI)
    fix i j assume "i < j" "j \<in> set (filter ?keep [0..<length fs])"
    then show "byTimeThenMd5 (fs ! i) \<noteq> byTimeThenMd5 (fs ! j)" using gone [of i j] by auto
  qed auto
  then show ?thesis by (simp add: deduplicate_def distinct_map comp_def)
qed

lemma deduplicate_represents:
  "i < length fs \<Longrightarrow> bf_md5 (fs ! i) = Some m \<Longrightarrow> \<exists>f \<in> set (deduplicate fs). bf_md5 f = Some m"
proof (induction i)
  case 0
  then have "fs ! 0 \<in> set (deduplicate fs)" by (auto simp: deduplicate_def)
  then show ?case using "0.prems"(2) by blast
next
  case (Suc i)
  then show ?case
  proof (cases "bf_md5 (fs ! i) = Some m")
    case False
    with Suc.prems have "fs ! Suc i \<in> set (deduplicate fs)" by (auto simp: deduplicate_def intro!: image_eqI)
    then show ?thesis using Suc.prems(2) by blast
  qed simp
qed

lemma getBatchesProcessedPhotos_once:
  "distinct (map byTimeThenMd5 (getBatchesProcessedPhotos batchIds db))"
  unfolding getBatchesProcessedPhotos_def by (rule distinct_deduplicate) simp

lemma getBatchesProcessedPhotos_all:
  assumes "f \<in> set (pdb_files db)" and "bf_batch f \<in> set batchIds" and "bf_state f = Some FileProcessed"
    and "\<not> bf_deleted f" and "bf_md5 f = Some m"
  shows "\<exists>g \<in> set (getBatchesProcessedPhotos batchIds db). bf_md5 g = Some m"
proof -
  let ?fs = "sort_key byTimeThenMd5
       (findBy (\<lambda>f. bf_batch f \<in> set batchIds \<and> bf_state f = Some FileProcessed \<and> \<not> bf_deleted f) (pdb_files db))"
  have "f \<in> set ?fs" using assms by (simp add: findBy_def)
  then obtain i where "i < length ?fs" "?fs ! i = f" by (meson in_set_conv_nth)
  then show ?thesis using deduplicate_represents [of i ?fs m] assms(5) by (simp add: getBatchesProcessedPhotos_def)
qed


lemma fallbacks_unfold: "fallbacks p = (case nextFallback p of None \<Rightarrow> [] | Some q \<Rightarrow> q # fallbacks q)"
  by (subst fallbacks.simps) simp

text \<open>Every fallback is at least as large as what was asked for, and they grow.\<close>

lemma nextFallback_size: "nextFallback p = Some q \<Longrightarrow> pp_size p \<le> pp_size q"
  by (auto simp: nextFallback_def Let_def newPhotoPath_def less_eq_photo_size_def split: if_splits)

lemma fallbacks_sorted: "sorted (map pp_size (p # fallbacks p))"
proof (induction p rule: fallbacks.induct)
  case (1 p)
  then show ?case
    by (cases "nextFallback p") (force simp: fallbacks_unfold [of p] dest: nextFallback_size)+
qed

lemma fallbacks_stored:
  "fallbacks (newPhotoPath SizeThumbnail u None) = [newPhotoPath SizePreview u None]"
  "fallbacks (newPhotoPath SizePreview u None) = []"
proof -
  show preview: "fallbacks (newPhotoPath SizePreview u None) = []"
    by (subst fallbacks_unfold) (simp add: nextFallback_def newPhotoPath_def isRequestASource_iff Let_def)
  then show "fallbacks (newPhotoPath SizeThumbnail u None) = [newPhotoPath SizePreview u None]"
    by (subst fallbacks_unfold) (simp add: nextFallback_def newPhotoPath_def isRequestASource_iff Let_def)
qed

lemma preview_in_fallbacks:
  assumes "p \<noteq> newPhotoPath SizePreview (pp_uuid p) None"
  shows "newPhotoPath SizePreview (pp_uuid p) None \<in> set (fallbacks p)"
proof (cases p)
  case (fields size u f)
  show ?thesis using assms unfolding fields
    by (subst fallbacks_unfold, cases size)
       (auto simp: nextFallback_def newPhotoPath_def isRequestASource_iff sizeFormat_def Let_def
         fallbacks_stored [unfolded newPhotoPath_def sizeFormat_def, simplified])
qed

text \<open>
  Claim C35: The search for a stored variant to process ends. For every request it tries the thumbnail when
  it is at least as large as what was asked for, then the preview when it is, each at most once, and nothing
  smaller; it never tries the very file the request names.
\<close>

theorem fallbacks_eq:
  "fallbacks p =
     (let thumbnail = newPhotoPath SizeThumbnail (pp_uuid p) None;
          preview = newPhotoPath SizePreview (pp_uuid p) None in
      (if pp_size p = SizeTiny \<or> pp_size p = SizeThumbnail \<and> p \<noteq> thumbnail then [thumbnail] else [])
      @ (if p \<noteq> preview then [preview] else []))"
proof (cases p)
  case (fields size u f)
  show ?thesis unfolding fields
    by (subst fallbacks_unfold, cases size)
       (auto simp: nextFallback_def newPhotoPath_def isRequestASource_iff sizeFormat_def Let_def
         fallbacks_stored [unfolded newPhotoPath_def sizeFormat_def, simplified])
qed

text \<open>What is stored goes to the object store, under the size and the id of the photo.\<close>

lemma getStorage_sourcePath: "getStorage (sourcePath p) = Inr Minio"
  by (simp add: getStorage_def sourcePath_def buildFullPath_def Let_def)

lemma tryProcess_cases:
  "fst (tryProcess env q p w) =
     (case onSuccess (storage_getBuffer (se_storage env) (sourcePath q))
             (\<lambda>b. processPhoto (se_image env) b (buildProcessParams (im_quality (se_image env)) p None)) of
        Inl _ \<Rightarrow> Inr None | Inr b \<Rightarrow> Inr (Some b))"
  by (auto simp: tryProcess_def saveProcssedBuffer_def discard_def attempt_def action_simps andThen_def
      split: sum.split prod.split)

lemma processFirst_finds:
  assumes "q \<in> set ps"
    and "onSuccess (storage_getBuffer (se_storage env) (sourcePath q))
           (\<lambda>b. processPhoto (se_image env) b (buildProcessParams (im_quality (se_image env)) p None)) = Inr b"
  shows "\<exists>body. fst (processFirst env p ps w) = Inr (Some body)"
  using assms(1)
proof (induction ps arbitrary: w)
  case Nil
  then show ?case by simp
next
  case (Cons x xs)
  obtain r v where run: "tryProcess env x p w = (Inr r, v)"
    using tryProcess_cases [of env x p w] by (cases "tryProcess env x p w") (auto split: sum.splits)
  show ?case
  proof (cases r)
    case None
    then have "x \<noteq> q" using run tryProcess_cases [of env q p w] assms(2) by auto
    then show ?thesis using Cons None run by (auto simp: andThen_def)
  next
    case (Some body)
    with run show ?thesis by (simp add: andThen_def action_simps)
  qed
qed

text \<open>An answer: a body, or the mark that the client's copy is current, never both.\<close>

definition answered :: "(stream_world, byte list option) action \<Rightarrow> stream_world \<Rightarrow> bool" where
  "answered m w \<longleftrightarrow> (\<exists>r v. m w = (Inr r, v) \<and> (r = None \<longleftrightarrow> sw_notModified v))"

lemma responseWith_answered: "\<not> sw_notModified w \<Longrightarrow> answered (responseWith env body tag etag) w"
  by (simp add: answered_def responseWith_def isNotModified_def action_simps Let_def)

definition sameMark :: "stream_world \<Rightarrow> stream_world \<Rightarrow> bool" where
  "sameMark w v \<longleftrightarrow> sw_notModified v = sw_notModified w"

interpretation sameMark: action_frame sameMark
  by unfold_locales (simp_all add: sameMark_def)

lemma saveProcssedBuffer_mark: "staysIn sameMark (saveProcssedBuffer env p b)"
  unfolding saveProcssedBuffer_def
  by (intro sameMark.stays_rules sameMark.stays_zoom) (simp add: sameMark_def)

lemma tryProcess_mark: "staysIn sameMark (tryProcess env q p)"
  unfolding tryProcess_def
  by (auto split: sum.split intro!: sameMark.stays_rules saveProcssedBuffer_mark)

lemma processFirst_mark: "staysIn sameMark (processFirst env p ps)"
  by (induction ps) (auto intro!: sameMark.stays_rules tryProcess_mark)

lemma processAndRespond_answered:
  assumes "q \<in> set (fallbacks p)" and "\<not> sw_notModified w"
    and "onSuccess (storage_getBuffer (se_storage env) (sourcePath q))
           (\<lambda>b. processPhoto (se_image env) b (buildProcessParams (im_quality (se_image env)) p None)) = Inr b"
  shows "answered (processAndRespond env p tag) w"
proof -
  obtain body where "fst (processFirst env p (fallbacks p) w) = Inr (Some body)"
    using processFirst_finds [OF assms(1,3)] by blast
  then obtain v where run: "processFirst env p (fallbacks p) w = (Inr (Some body), v)" by (metis prod.collapse)
  have "\<not> sw_notModified v"
    using staysInD [OF processFirst_mark, of w env p "fallbacks p"] run assms(2) by (simp add: sameMark_def)
  then have "answered (responseWith env body tag None) v" by (rule responseWith_answered)
  then show ?thesis by (simp add: answered_def processAndRespond_def andThen_def run)
qed

text \<open>What a request for a stored variant does, with the digest of the storage as a variable.\<close>

lemma getPhotoStream_source:
  fixes stored :: "string option"
  assumes "isRequestASource p" and "storage_getEtag (se_storage env) (requestPath p) = Inr stored"
    and "\<And>v. \<not> sw_notModified v \<Longrightarrow> answered (processAndRespond env p tag) v"
    and "\<not> sw_notModified w"
  shows "answered (getPhotoStream env p tag) w"
proof -
  obtain same v where mark: "isNotModified tag stored w = (Inr same, v)" and set: "sw_notModified v = same"
    using assms(4) by (simp add: isNotModified_def action_simps Let_def)
  have run: "getPhotoStream env p tag w =
      (if same then (Inr None, v)
       else (case tryStream env (requestPath p) of
               Some body \<Rightarrow> responseWith env body tag stored
             | None \<Rightarrow> processAndRespond env p tag) v)"
    unfolding getPhotoStream_def if_P [OF assms(1)] assms(2)
    by (simp add: andThen_def lift_def mark ret_def)
  show ?thesis
  proof (cases same)
    case True
    then show ?thesis using set by (simp add: answered_def run)
  next
    case False
    with set have clear: "\<not> sw_notModified v" by simp
    show ?thesis
    proof (cases "tryStream env (requestPath p)")
      case None
      then show ?thesis using assms(3) [OF clear] False by (simp add: answered_def run)
    next
      case (Some body)
      then show ?thesis using responseWith_answered [OF clear, of env body tag stored] False
        by (simp add: answered_def run)
    qed
  qed
qed

text \<open>
  Claim C33: When the preview of a photo can be read and processed into what is asked for, every request for
  the photo other than for the preview itself is answered, whatever else is missing: with an image, or with the mark
  that the client's copy is current, and with exactly one of the two.
\<close>

theorem getPhotoStream_answers:
  assumes "storage_getBuffer (se_storage env) (sourcePath (newPhotoPath SizePreview (pp_uuid p) None)) = Inr preview"
    and "processPhoto (se_image env) preview (buildProcessParams (im_quality (se_image env)) p None) = Inr out"
    and "p \<noteq> newPhotoPath SizePreview (pp_uuid p) None"
    and "\<not> sw_notModified w"
  shows "answered (getPhotoStream env p tag) w"
proof -
  let ?preview = "newPhotoPath SizePreview (pp_uuid p) None"
  have work: "onSuccess (storage_getBuffer (se_storage env) (sourcePath ?preview))
      (\<lambda>b. processPhoto (se_image env) b (buildProcessParams (im_quality (se_image env)) p None)) = Inr out"
    using assms(1,2) by simp
  have rest: "answered (processAndRespond env p tag) v" if "\<not> sw_notModified v" for v
    using preview_in_fallbacks [OF assms(3)] that work by (rule processAndRespond_answered)
  show ?thesis
  proof (cases "isRequestASource p")
    case False
    then show ?thesis using rest [OF assms(4)] by (simp add: getPhotoStream_def)
  next
    case True
    then have "requestPath p = sourcePath p" by (simp add: isRequestASource_def)
    then have "storage_getEtag (se_storage env) (requestPath p) =
        Inr (backend_getEtag (se_storage env) Minio (getFilepath (sourcePath p)))"
      by (simp add: storage_getEtag_def getStorage_sourcePath)
    then show ?thesis using getPhotoStream_source [OF True _ rest assms(4)] by blast
  qed
qed

definition demoStream :: stream_env where
  "demoStream = \<lparr>se_storage = demoStorage, se_image = demoImage,
     se_db = \<lparr>pdb_files = [], pdb_batches = [], pdb_tasks = []\<rparr>, se_upload = True,
     se_etag = (\<lambda>_. ''tag''), se_gravatar = (\<lambda>_. None)\<rparr>"

theorem getPhotoStream_answers_witness:
  "answered (getPhotoStream demoStream (newPhotoPath SizeCard ''u'' None) None)
     \<lparr>sw_calls = [], sw_etag = None, sw_notModified = False\<rparr>"
proof (rule getPhotoStream_answers)
  show "storage_getBuffer (se_storage demoStream)
      (sourcePath (newPhotoPath SizePreview (pp_uuid (newPhotoPath SizeCard ''u'' None)) None)) = Inr [1, 2, 3]"
    by code_simp
  show "processPhoto (se_image demoStream) [1, 2, 3]
      (buildProcessParams (im_quality (se_image demoStream)) (newPhotoPath SizeCard ''u'' None) None) = Inr [1, 2, 3]"
    by (simp add: demoStream_def demoImage_def processPhoto_def buildProcessParams_def newPhotoPath_def imageFit_def)
qed (simp_all add: newPhotoPath_def)

end
