(* ===== verification/Gallery_Pipeline.thy ===== *)
theory Gallery_Pipeline
  imports Gallery_Review Photo_Stream
begin

text \<open>
  The way of a photo from its upload to the public page of its album, through the handlers, the two workers and the
  stores they share: what each station leaves for the next, and the whole way.
\<close>

section \<open>A row along the stations\<close>

definition tracked :: "gallery_photo \<Rightarrow> gallery_world \<Rightarrow> bool" where
  "tracked p w \<longleftrightarrow> distinct (map ph_id (rows w)) \<and> p \<in> set (rows w) \<and> live p"

lemma tracked_unique: "tracked p w \<Longrightarrow> q \<in> set (rows w) \<Longrightarrow> ph_id q = ph_id p \<Longrightarrow> q = p"
  unfolding tracked_def distinct_map by (metis inj_onD)

lemma tracked_findById: "tracked p w \<Longrightarrow> photo_findById (ph_id p) w = Some p"
proof -
  assume t: "tracked p w"
  then have "photo_findById (ph_id p) w \<noteq> None" by (auto simp: tracked_def photo_findById_def findOneBy_None)
  then obtain q where q: "photo_findById (ph_id p) w = Some q" by blast
  then have "q \<in> set (rows w)" "ph_id q = ph_id p" by (auto dest: photo_findByIdD)
  then have "q = p" using tracked_unique [OF t] by blast
  with q show ?thesis by simp
qed

lemma tracked_update:
  assumes "tracked p w" and "rows w' = updateBy q f (rows w)"
    and "\<And>p. ph_id (f p) = ph_id p \<and> ph_deletedAt (f p) = ph_deletedAt p"
  shows "tracked (if q p then f p else p) w'"
proof -
  have "map ph_id (updateBy q f (rows w)) = map ph_id (rows w)" using assms(3) by (auto simp: updateBy_def)
  then show ?thesis using assms by (auto simp: tracked_def set_updateBy live_def)
qed

lemma tracked_uploaded:
  "tracked p w \<Longrightarrow> p \<in> set (uploadedPhotos a None s w)
     \<longleftrightarrow> ph_albumId p = Some a \<and> matchesWhere (findByStateOptionsWhere s) p"
  by (auto simp: tracked_def uploadedPhotos_def)

lemma tracked_public:
  assumes "tracked p w"
  shows "ph_id p \<in> set (map ph_id (uploadedPhotos a None s w))
     \<longleftrightarrow> ph_albumId p = Some a \<and> matchesWhere (findByStateOptionsWhere s) p"
proof -
  have "ph_id p \<in> set (map ph_id (uploadedPhotos a None s w)) \<longleftrightarrow> p \<in> set (uploadedPhotos a None s w)"
    using assms by (auto simp: tracked_def uploadedPhotos_def distinct_map dest: inj_onD)
  with tracked_uploaded [OF assms] show ?thesis by simp
qed

section \<open>The stations\<close>

lemma storeAndQueue_run:
  assumes "andThen (onStorage m) (\<lambda>_. andThen (insertPhotos now [e]) (\<lambda>_. andThen (queueValidation [e]) (\<lambda>_. ret e))) w = (Inr p, w')"
  shows "p = e \<and> ph_id e \<notin> set (map ph_id (rows w)) \<and> rows w' = rows w @ [storedPhoto now e]
    \<and> galleryAlbums (gdb w') = galleryAlbums (gdb w) \<and> validationQueue w' = validationQueue w @ [e]"
  using assms by (auto simp: andThen_def insertPhotos_def queueValidation_def action_simps zoom_def split: prod.splits sum.splits if_splits)

lemma uploadFile_run:
  assumes "uploadFile env i a profile n b w = (Inr photo, w')" and "distinct (map ph_id (rows w))"
  shows "\<exists>d. photo = (freshPhoto i d n (pid_uuid profile) a)
      \<lparr>ph_md5 := Some (ge_md5 env b), ph_takenBy := Some (pid_uuid profile)\<rparr>"
    and "tracked (storedPhoto (ge_now env) photo) w'" and "rows w' = rows w @ [storedPhoto (ge_now env) photo]"
    and "galleryAlbums (gdb w') = galleryAlbums (gdb w)" and "validationQueue w' = validationQueue w @ [photo]"
proof -
  obtain d e where e: "e = (freshPhoto i d n (pid_uuid profile) a)
      \<lparr>ph_md5 := Some (ge_md5 env b), ph_takenBy := Some (pid_uuid profile)\<rparr>"
    and run: "andThen (throwIf (\<not> truthyId (Option.bind (findAlbum a w) alb_uploadDirectory)) (NotFound ''Not Found'')) (\<lambda>_.
      andThen (onStorage (storage_putFile (ge_storage env) (photoFullpath e) b)) (\<lambda>_.
      andThen (insertPhotos (ge_now env) [e]) (\<lambda>_. andThen (queueValidation [e]) (\<lambda>_. ret e)))) w = (Inr photo, w')"
    using assms(1) unfolding uploadFile_def andThen_gets Let_def by blast
  from run have "andThen (onStorage (storage_putFile (ge_storage env) (photoFullpath e) b)) (\<lambda>_.
      andThen (insertPhotos (ge_now env) [e]) (\<lambda>_. andThen (queueValidation [e]) (\<lambda>_. ret e))) w = (Inr photo, w')"
    by (simp add: andThen_throwIf split: if_splits)
  note stored = storeAndQueue_run [OF this]
  then show "\<exists>d. photo = (freshPhoto i d n (pid_uuid profile) a)
      \<lparr>ph_md5 := Some (ge_md5 env b), ph_takenBy := Some (pid_uuid profile)\<rparr>" using e by blast
  from stored show "rows w' = rows w @ [storedPhoto (ge_now env) photo]" "galleryAlbums (gdb w') = galleryAlbums (gdb w)"
    "validationQueue w' = validationQueue w @ [photo]" by simp_all
  with stored assms(2) show "tracked (storedPhoto (ge_now env) photo) w'" by (auto simp: tracked_def storedPhoto_def live_def)
qed

lemma newest_not_duplicate:
  assumes "p \<in> set t" and "activeCopy md5 p" and "distinct (map ph_id t)"
    and "\<And>q. q \<in> set t \<Longrightarrow> activeCopy md5 q \<Longrightarrow> q \<noteq> p \<Longrightarrow> ph_createdAt q < ph_createdAt p"
  shows "ph_id p \<notin> set (nonrecentDuplicates md5 t)"
proof -
  have member: "p \<in> set (mostRecentFirst md5 t)" using assms(1,2) by (simp add: mostRecentFirst_def)
  then obtain h ps where hps: "mostRecentFirst md5 t = h # ps" by (cases "mostRecentFirst md5 t") auto
  have "sorted (map (\<lambda>p. - ph_createdAt p) (h # ps))" unfolding hps [symmetric] mostRecentFirst_def by simp
  then have "ph_createdAt p \<le> ph_createdAt h" using member hps by auto
  moreover have "h \<in> set (mostRecentFirst md5 t)" using hps by simp
  ultimately have "h = p" using assms(4) [of h] by (fastforce simp: mostRecentFirst_def)
  moreover have "distinct (map ph_id (mostRecentFirst md5 t))"
    using assms(3) by (auto simp: mostRecentFirst_def distinct_map intro: inj_on_subset)
  ultimately show ?thesis by (auto simp: nonrecentDuplicates_eq hps)
qed

lemma photoValidate_passes:
  assumes "ge_commit env = (\<lambda>_. None)" and "isValidResolution e album" and "isValidTimestamp (ex_date e) album"
    and "ph_id photo \<notin> set (nonrecentDuplicates md5 (validatedRows env (ph_id photo) md5 e color (rows w)))"
  defines "t \<equiv> validatedRows env (ph_id photo) md5 e color (rows w)"
  shows "photoValidate env photo album md5 e color w =
    (Inr True, w\<lparr>gdb := (gdb w)\<lparr>photos := markAs Duplicated (set (nonrecentDuplicates md5 t)) t\<rparr>\<rparr>)"
  using assms(1-4) unfolding photoValidate_def transaction_Inr t_def
  by (simp add: action_simps rejectNonrecentDuplicatedFiles_def validatedRows_def markAs_def)


text \<open>What a validated row has learnt about its photo.\<close>

definition validatedRow :: "gallery_env \<Rightarrow> string \<Rightarrow> exif \<Rightarrow> int option \<Rightarrow> gallery_photo \<Rightarrow> gallery_photo" where
  "validatedRow env md5 e color p = p\<lparr>ph_md5 := Some md5, ph_width := Some (ex_width e), ph_height := Some (ex_height e),
     ph_orientation := (if ex_orientation e = Some 0 then None else ex_orientation e),
     ph_takenWhen := Some (ex_date e), ph_color := color, ph_validatedAt := Some (ge_now env)\<rparr>"

lemma validatedRows_eq: "validatedRows env i md5 e color t = updateBy (\<lambda>p. ph_id p = i) (validatedRow env md5 e color) t"
  by (simp add: validatedRows_def validatedRow_def [abs_def])

lemma validatedRow_simps [simp]:
  "ph_id (validatedRow env md5 e color p) = ph_id p" "ph_deletedAt (validatedRow env md5 e color p) = ph_deletedAt p"
  "ph_createdAt (validatedRow env md5 e color p) = ph_createdAt p" "ph_rejectReason (validatedRow env md5 e color p) = ph_rejectReason p"
  "ph_errorMessage (validatedRow env md5 e color p) = ph_errorMessage p"
  by (simp_all add: validatedRow_def)

lemma validatorProcess_passes:
  assumes "tracked p w" and "ph_id job = ph_id p" and "ph_albumId job = Some a" and "a \<noteq> []" and "findAlbum a w = Some album"
    and "storage_getBuffer (ge_storage env) (photoFullpath job) = Inr b" and "b \<noteq> []"
    and "hexToUuid (Some (ge_md5 env b)) = Some md5" and "getFileExif (ge_image env) b = Inr e"
    and "getPhotoColor (ge_image env) b = Inr color" and "ge_commit env = (\<lambda>_. None)"
    and "isValidResolution e album" and "isValidTimestamp (ex_date e) album"
    and "ph_rejectReason p = None" and "ph_errorMessage p = None"
    and newest: "\<And>q. q \<in> set (rows w) \<Longrightarrow> activeCopy md5 q \<Longrightarrow> q \<noteq> p \<Longrightarrow> ph_createdAt q < ph_createdAt p"
  shows "\<exists>w'. validatorProcess env job w = (Inr (), w') \<and> tracked (validatedRow env md5 e color p) w'
    \<and> galleryAlbums (gdb w') = galleryAlbums (gdb w) \<and> conversionQueue w' = conversionQueue w @ [job]"
proof -
  let ?t = "validatedRows env (ph_id job) md5 e color (rows w)" and ?p = "validatedRow env md5 e color p"
  let ?w = "w\<lparr>gdb := (gdb w)\<lparr>photos := markAs Duplicated (set (nonrecentDuplicates md5 ?t)) ?t\<rparr>\<rparr>"
  have t: "tracked ?p (w\<lparr>gdb := (gdb w)\<lparr>photos := ?t\<rparr>\<rparr>)"
    using tracked_update [OF assms(1), of "w\<lparr>gdb := (gdb w)\<lparr>photos := ?t\<rparr>\<rparr>" "\<lambda>p. ph_id p = ph_id job" "validatedRow env md5 e color"]
    by (simp add: validatedRows_eq assms(2))
  have "ph_id ?p \<notin> set (nonrecentDuplicates md5 ?t)"
  proof (rule newest_not_duplicate)
    show "?p \<in> set ?t" "distinct (map ph_id ?t)" using t by (simp_all add: tracked_def)
    show "activeCopy md5 ?p" using t assms(14,15) by (simp add: activeCopy_def tracked_def validatedRow_def)
    fix q assume q: "q \<in> set ?t" "activeCopy md5 q" "q \<noteq> ?p"
    then obtain r where r: "r \<in> set (rows w)" "q = (if ph_id r = ph_id job then validatedRow env md5 e color r else r)"
      unfolding validatedRows_eq by (auto elim!: updateBy_memE)
    have "r = p" if "ph_id r = ph_id p" using tracked_unique [OF assms(1) r(1) that] .
    with r(2) q(3) assms(2) have other: "ph_id r \<noteq> ph_id p" by auto
    then have "q = r" using r(2) assms(2) by simp
    with r(1) q(2) other show "ph_createdAt q < ph_createdAt ?p" using newest [of r] by auto
  qed
  then have fresh: "ph_id job \<notin> set (nonrecentDuplicates md5 ?t)" by (simp add: assms(2))
  have valid: "photoValidate env job album md5 e color w = (Inr True, ?w)"
    by (rule photoValidate_passes [OF assms(11-13) fresh])
  have "tracked ?p ?w"
    using tracked_update [OF t, of ?w "\<lambda>p. ph_id p \<in> set (nonrecentDuplicates md5 ?t)" "\<lambda>p. p\<lparr>ph_rejectReason := Some Duplicated\<rparr>"] fresh
    by (simp add: markAs_def assms(2))
  moreover have "albumOrFail env job w = (Inr album, w)"
    using assms(3-5) by (simp add: albumOrFail_def action_simps truthyId_def)
  ultimately show ?thesis
    using assms(6-10) by (simp add: validatorProcess_def tryCatch_def andThen_ret [where m = "albumOrFail env job"] action_simps
        andThen_ret [where m = "photoValidate env job album md5 e color", OF valid] queueConversion_def tracked_def)
qed


lemma putSource_run:
  assumes "\<And>path c. st_write st Minio path c = None"
  shows "onStorage (storage_putFile st (sourcePath q) b) w =
    (Inr (), w\<lparr>storageCalls := storageCalls w @ [Put Minio (getFilepath (sourcePath q)) b]\<rparr>)"
  using assms by (simp add: zoom_def storage_putFile_def backend_putFile_def getStorage_sourcePath action_simps
      andThen_ret [OF run_ret])

lemma converterProcess_run:
  assumes "tracked p w" and "ph_id job = ph_id p" and "ph_albumId job = Some a" and "a \<noteq> []" and "findAlbum a w = Some album"
    and "storage_getBuffer (ge_storage env) (photoFullpath job) = Inr original"
    and "processPhoto (ge_image env) original (buildProcessParams (im_quality (ge_image env))
           (newPhotoPath SizePreview (ph_id p) None) (alb_watermarkPreset album)) = Inr preview"
    and "processPhoto (ge_image env) preview (buildProcessParams (im_quality (ge_image env))
           (newPhotoPath SizeThumbnail (ph_id p) None) None) = Inr thumbnail"
    and "\<And>path c. st_write (ge_storage env) Minio path c = None"
  shows "\<exists>w'. converterProcess env job w = (Inr (), w') \<and> tracked (p\<lparr>ph_processedAt := Some (ge_now env)\<rparr>) w'
    \<and> storageCalls w' = storageCalls w @ [Put Minio (getFilepath (sourcePath (newPhotoPath SizePreview (ph_id p) None))) preview,
        Put Minio (getFilepath (sourcePath (newPhotoPath SizeThumbnail (ph_id p) None))) thumbnail]"
proof -
  let ?put = "\<lambda>s b. Put Minio (getFilepath (sourcePath (newPhotoPath s (ph_id p) None))) b"
  let ?f = "\<lambda>q. q\<lparr>ph_processedAt := Some (ge_now env)\<rparr>"
  let ?w = "w\<lparr>storageCalls := storageCalls w @ [?put SizePreview preview, ?put SizeThumbnail thumbnail],
    gdb := (gdb w)\<lparr>photos := updateBy (\<lambda>q. ph_id q = ph_id p) ?f (rows w)\<rparr>\<rparr>"
  have stored: "attempt (onStorage (storage_putFile (ge_storage env) (sourcePath q) b)) v =
      (Inr (Inr ()), v\<lparr>storageCalls := storageCalls v @ [Put Minio (getFilepath (sourcePath q)) b]\<rparr>)" for q b v
    using putSource_run [of "ge_storage env", OF assms(9)] by (simp add: attempt_def)
  have "albumOrFail env job w = (Inr album, w)"
    using assms(3-5) by (simp add: albumOrFail_def action_simps truthyId_def)
  then have "converterProcess env job w = (Inr (), ?w)"
    using assms(2,6-8) by (simp add: converterProcess_def tryCatch_def Let_def andThen_ret [where m = "albumOrFail env job"]
        action_simps andThen_ret [OF stored])
  moreover have "tracked (?f p) ?w"
    using tracked_update [OF assms(1), of ?w "\<lambda>q. ph_id q = ph_id p" ?f] by simp
  ultimately show ?thesis by simp
qed

lemma approvePhoto_tracked:
  assumes "tracked p w" and "approvable (pid_uuid profile) p"
  shows "\<exists>w'. approvePhoto (ph_id p) profile w = (Inr (), w') \<and> tracked (p\<lparr>ph_reviewedBy := Some (pid_uuid profile)\<rparr>) w'
    \<and> storageCalls w' = storageCalls w"
proof -
  let ?f = "\<lambda>q. q\<lparr>ph_reviewedBy := Some (pid_uuid profile)\<rparr>"
  let ?w = "w\<lparr>gdb := (gdb w)\<lparr>photos := updateBy (\<lambda>q. ph_id q = ph_id p) ?f (rows w)\<rparr>\<rparr>"
  have "approvePhoto (ph_id p) profile w = (Inr (), ?w)"
    using assms(2) tracked_findById [OF assms(1)] by (simp add: approvePhoto_run approvalPrecheck_run approvable_def action_simps)
  moreover have "tracked (?f p) ?w"
    using tracked_update [OF assms(1), of ?w "\<lambda>q. ph_id q = ph_id p" ?f] by simp
  ultimately show ?thesis by simp
qed


section \<open>The stores\<close>

text \<open>What a trace of writes leaves under a name of the object store, and a storage that gives back what was left there.\<close>

definition lastPut :: "string \<Rightarrow> storage_call list \<Rightarrow> byte list option" where
  "lastPut path calls = foldl (\<lambda>r c. case c of
       Put b p d \<Rightarrow> if b = Minio \<and> p = path then Some d else r
     | Remove b p \<Rightarrow> if b = Minio \<and> p = path then None else r
     | MakeDirectory p \<Rightarrow> r) None calls"

definition holdsWrites :: "storage_call list \<Rightarrow> storage_env \<Rightarrow> bool" where
  "holdsWrites calls st \<longleftrightarrow> (\<forall>path d. lastPut path calls = Some d \<longrightarrow>
     st_read st Minio path = Inr d \<and> (\<exists>s. st_stat st Minio path = Inr s \<and> stat_size s = length d))"

lemma lastPut_snoc: "lastPut path (calls @ [Put Minio p d]) = (if p = path then Some d else lastPut path calls)"
  by (simp add: lastPut_def)

lemma splitScheme_head: "c \<noteq> CHR '':'' \<Longrightarrow> \<exists>w ws. splitScheme (c # cs) = (c # w) # ws"
  by (auto split: list.split)

lemma sourceFile_head: "hd (tl (getFilepath (sourcePath (newPhotoPath s u None)))) = hd (sizeName s)"
proof -
  let ?path = "sizeName s @ ''/'' @ u @ ''.'' @ formatToExt (sizeFormat s)"
  obtain c t where c: "sizeName s = c # t" "c \<noteq> CHR ''/''" "c \<noteq> CHR '':''" by (cases s) simp_all
  then obtain w ws where "splitScheme ?path = (c # w) # ws" using splitScheme_head [of c "t @ ''/'' @ u @ ''.'' @ formatToExt (sizeFormat s)"] by auto
  then have "splitScheme (sourcePath (newPhotoPath s u None)) = ''minio'' # (c # w) # ws"
    by (simp add: sourcePath_def newPhotoPath_def buildFullPath_def)
  then show ?thesis using c by (simp add: getFilepath_def)
qed

lemma source_files_differ: "getFilepath (sourcePath (newPhotoPath SizePreview u None)) \<noteq> getFilepath (sourcePath (newPhotoPath SizeThumbnail u None))"
  using sourceFile_head [of SizePreview u] sourceFile_head [of SizeThumbnail u] by auto

lemma served_from_store:
  assumes "holdsWrites calls (se_storage env)" and "lastPut (getFilepath (sourcePath q)) calls = Some d" and "d \<noteq> []"
    and "isRequestASource q"
  shows "fst (getPhotoStream env q None v) = Inr (Some d)"
proof -
  obtain s where "st_read (se_storage env) Minio (getFilepath (sourcePath q)) = Inr d"
    "st_stat (se_storage env) Minio (getFilepath (sourcePath q)) = Inr s" "stat_size s = length d"
    using assms(1,2) unfolding holdsWrites_def by blast
  then have "storage_getBuffer (se_storage env) (sourcePath q) = Inr d"
    using assms(3) by (simp add: storage_getBuffer_def throwIfFileDoesNotExist_def getStorage_sourcePath backend_getSize_def thrown_def)
  moreover have "requestPath q = sourcePath q" using assms(4) by (simp add: isRequestASource_def)
  moreover have "truthyId r \<Longrightarrow> r \<noteq> None" for r by (cases r) (simp_all add: truthyId_def)
  ultimately show ?thesis
    using assms(4) by (auto simp: getPhotoStream_def storage_getEtag_def getStorage_sourcePath action_simps isNotModified_def
        tryStream_def responseWith_def Let_def)
qed


section \<open>The whole way\<close>

abbreviation publicIds :: "gallery_env \<Rightarrow> string \<Rightarrow> gallery_world \<Rightarrow> uuid list" where
  "publicIds env a w \<equiv> map pm_id (apm_photos (getGalleryAlbumPhotos env a w))"

lemma uploadedRow:
  assumes "photo = (freshPhoto i d n (pid_uuid uploader) a)\<lparr>ph_md5 := m, ph_takenBy := Some (pid_uuid uploader)\<rparr>"
  shows "ph_id (storedPhoto now photo) = i" "ph_albumId (storedPhoto now photo) = Some a"
    "ph_takenBy (storedPhoto now photo) = Some (pid_uuid uploader)" "ph_reviewedBy (storedPhoto now photo) = None"
    "ph_rejectReason (storedPhoto now photo) = None" "ph_errorMessage (storedPhoto now photo) = None"
    "ph_processedAt (storedPhoto now photo) = None" "ph_createdAt (storedPhoto now photo) = now"
    "ph_id photo = i" "ph_albumId photo = Some a"
  by (simp_all add: assms storedPhoto_def freshPhoto_def)

text \<open>
  Claim C9: A photo that is uploaded reaches the public page of its album. When its file can be read and
  processed, fits the album, and is more recent than every copy of the same bytes, then the job the upload queued validates,
  the job that queues converts, and an approval by anybody but the photographer succeeds. Until the approval the
  album does not show the photo, after it the album does, and a stream over any storage that gives back what
  was written answers with the two images the conversion made.
\<close>

theorem upload_to_public_page:
  assumes "distinct (map ph_id (rows w))" and "uploadFile e0 i a uploader n buffer w = (Inr photo, w1)"
    and "a \<noteq> []" and "findAlbum a w = Some album"
    and "storage_getBuffer (ge_storage e1) (photoFullpath photo) = Inr b" and "b \<noteq> []"
    and "hexToUuid (Some (ge_md5 e1 b)) = Some md5" and "getFileExif (ge_image e1) b = Inr e"
    and "getPhotoColor (ge_image e1) b = Inr color" and "ge_commit e1 = (\<lambda>_. None)"
    and "isValidResolution e album" and "isValidTimestamp (ex_date e) album"
    and "\<And>q. q \<in> set (rows w) \<Longrightarrow> activeCopy md5 q \<Longrightarrow> ph_createdAt q < ge_now e0"
    and "storage_getBuffer (ge_storage e2) (photoFullpath photo) = Inr original"
    and "processPhoto (ge_image e2) original (buildProcessParams (im_quality (ge_image e2))
           (newPhotoPath SizePreview i None) (alb_watermarkPreset album)) = Inr preview"
    and "processPhoto (ge_image e2) preview (buildProcessParams (im_quality (ge_image e2))
           (newPhotoPath SizeThumbnail i None) None) = Inr thumbnail"
    and "\<And>path c. st_write (ge_storage e2) Minio path c = None" and "preview \<noteq> []" and "thumbnail \<noteq> []"
    and "pid_uuid reviewer \<noteq> pid_uuid uploader"
  shows "\<exists>w2 w3 w4. validatorProcess e1 photo w1 = (Inr (), w2) \<and> converterProcess e2 photo w2 = (Inr (), w3)
    \<and> approvePhoto i reviewer w3 = (Inr (), w4)
    \<and> validationQueue w1 = validationQueue w @ [photo] \<and> conversionQueue w2 = conversionQueue w1 @ [photo]
    \<and> i \<notin> set (publicIds env a w3) \<and> i \<in> set (publicIds env a w4)
    \<and> (\<forall>st v. holdsWrites (storageCalls w4) (se_storage st) \<longrightarrow>
          fst (getPhotoStream st (newPhotoPath SizePreview i None) None v) = Inr (Some preview)
        \<and> fst (getPhotoStream st (newPhotoPath SizeThumbnail i None) None v) = Inr (Some thumbnail))"
proof -
  note up = uploadFile_run [OF assms(2,1)]
  obtain d where photo: "photo = (freshPhoto i d n (pid_uuid uploader) a)
      \<lparr>ph_md5 := Some (ge_md5 e0 buffer), ph_takenBy := Some (pid_uuid uploader)\<rparr>" using up(1) by blast
  note row = uploadedRow(1-8) [OF photo, of "ge_now e0"] and job = uploadedRow(9,10) [OF photo]
  let ?p = "storedPhoto (ge_now e0) photo"
  have found: "findAlbum a v = Some album" if "galleryAlbums (gdb v) = galleryAlbums (gdb w)" for v
    using assms(4) that by (simp add: findAlbum_def)
  obtain w2 where w2: "validatorProcess e1 photo w1 = (Inr (), w2)" "tracked (validatedRow e1 md5 e color ?p) w2"
    "galleryAlbums (gdb w2) = galleryAlbums (gdb w)" "conversionQueue w2 = conversionQueue w1 @ [photo]"
    using validatorProcess_passes [OF up(2) _ job(2) assms(3) found [OF up(4)] assms(5-12) row(5,6)] assms(13) up(3,4) row(1,8) job(1) by auto
  let ?v = "validatedRow e1 md5 e color ?p"
  have v: "ph_id ?v = i" using row(1) by simp
  obtain w3 where w3: "converterProcess e2 photo w2 = (Inr (), w3)" "tracked (?v\<lparr>ph_processedAt := Some (ge_now e2)\<rparr>) w3"
    "storageCalls w3 = storageCalls w2 @ [Put Minio (getFilepath (sourcePath (newPhotoPath SizePreview i None))) preview,
        Put Minio (getFilepath (sourcePath (newPhotoPath SizeThumbnail i None))) thumbnail]"
    using converterProcess_run [OF w2(2) _ job(2) assms(3) found [OF w2(3)] assms(14) _ _ assms(17), unfolded v, OF job(1) assms(15,16)] by blast
  let ?c = "?v\<lparr>ph_processedAt := Some (ge_now e2)\<rparr>"
  have "approvable (pid_uuid reviewer) ?c" and c: "ph_id ?c = i" "ph_albumId ?c = Some a" "ph_reviewedBy ?c = None"
    using row assms(20) by (simp_all add: approvable_def validatedRow_def)
  from approvePhoto_tracked [OF w3(2) this(1)] obtain w4 where w4: "approvePhoto i reviewer w3 = (Inr (), w4)"
    "tracked (?c\<lparr>ph_reviewedBy := Some (pid_uuid reviewer)\<rparr>) w4" "storageCalls w4 = storageCalls w3" using c(1) by auto
  have "i \<notin> set (publicIds env a w3)"
    using tracked_public [OF w3(2), of a "Some StateApproved"] c
    by (simp add: public_ids matchesWhere_def findByStateOptionsWhere_def passes_def Let_def)
  moreover have "i \<in> set (publicIds env a w4)"
    using tracked_public [OF w4(2), of a "Some StateApproved"] c row
    by (simp add: public_ids matchesWhere_def findByStateOptionsWhere_def passes_def Let_def validatedRow_def)
  moreover have "lastPut (getFilepath (sourcePath (newPhotoPath SizePreview i None))) (storageCalls w4) = Some preview"
    "lastPut (getFilepath (sourcePath (newPhotoPath SizeThumbnail i None))) (storageCalls w4) = Some thumbnail"
    using source_files_differ [of i] by (simp_all add: w4(3) w3(3) lastPut_def)
  moreover have "isRequestASource (newPhotoPath s i None)" for s by (simp add: isRequestASource_iff newPhotoPath_def)
  ultimately show ?thesis using w2(1,4) w3(1) w4(1) up(5) served_from_store assms(18,19) by blast
qed

definition annsUpload :: gallery_photo where
  "annsUpload = (freshPhoto ''p1'' ''/2024/camp/ann'' ''a.jpg'' ''ann'' ''camp'')
     \<lparr>ph_md5 := Some (replicate 32 (CHR ''a'')), ph_takenBy := Some ''ann''\<rparr>"

lemma annsUpload_run: "fst (uploadFile demoGallery ''p1'' ''camp'' \<lparr>pid_uuid = ''ann''\<rparr> ''a.jpg'' [1] (galleryWith [] [demoAlbum])) = Inr annsUpload"
  by code_simp

theorem upload_to_public_page_witness:
  "\<exists>w1 w2 w3 w4. uploadFile demoGallery ''p1'' ''camp'' \<lparr>pid_uuid = ''ann''\<rparr> ''a.jpg'' [1] (galleryWith [] [demoAlbum]) = (Inr annsUpload, w1)
     \<and> validatorProcess demoGallery annsUpload w1 = (Inr (), w2) \<and> converterProcess demoGallery annsUpload w2 = (Inr (), w3)
     \<and> approvePhoto ''p1'' bob w3 = (Inr (), w4) \<and> ''p1'' \<in> set (publicIds demoGallery ''camp'' w4)"
proof -
  let ?w = "galleryWith [] [demoAlbum]"
  obtain w1 where up: "uploadFile demoGallery ''p1'' ''camp'' \<lparr>pid_uuid = ''ann''\<rparr> ''a.jpg'' [1] ?w = (Inr annsUpload, w1)"
    using annsUpload_run by (metis prod.collapse)
  have path: "photoFullpath annsUpload = ''/2024/camp/ann/a.jpg''" by code_simp
  have reads: "storage_getBuffer (ge_storage demoGallery) (photoFullpath annsUpload) = Inr [1, 2, 3]"
    unfolding path by code_simp
  have digest: "hexToUuid (Some (ge_md5 demoGallery [1, 2, 3])) = Some demoDigest" by code_simp
  have exif: "getFileExif (ge_image demoGallery) [1, 2, 3] = Inr demoExif"
    by (simp add: getFileExif_def demoGallery_def demoImage_def newExif_def minSeconds_def getOffsetDay_def parseOffset_def isNeedSwapWidthHeight_def demoExif_def Let_def)
  have fits: "isValidResolution demoExif demoAlbum" "isValidTimestamp (ex_date demoExif) demoAlbum"
    by (simp_all add: isValidResolution_def isValidTimestamp_def demoExif_def demoAlbum_def)
  have images: "processPhoto (ge_image demoGallery) [1, 2, 3] q = Inr [1, 2, 3]" for q
    by (simp add: processPhoto_def demoImage_def demoGallery_def onSuccess_def)
  have tint: "getPhotoColor (ge_image demoGallery) [1, 2, 3] = Inr (hexToDec ''#ffffff'')"
    using images by (simp add: getPhotoColor_def getPhotoColorHex_def demoGallery_def demoImage_def)
  have setting: "ge_commit demoGallery = (\<lambda>_. None)" "findAlbum ''camp'' ?w = Some demoAlbum" "rows ?w = []"
    "st_write (ge_storage demoGallery) Minio path c = None" for path c
    by (simp_all add: demoGallery_def demoStorage_def findAlbum_def findOneBy_def galleryWith_def demoAlbum_def)
  have no_rows: "distinct (map ph_id (rows ?w))"
    and newest: "q \<in> set (rows ?w) \<Longrightarrow> activeCopy demoDigest q \<Longrightarrow> ph_createdAt q < ge_now demoGallery" for q
    using setting(3) by simp_all
  have others: "''camp'' \<noteq> []" "[1, 2, 3] \<noteq> ([] :: byte list)" "pid_uuid bob \<noteq> pid_uuid \<lparr>pid_uuid = ''ann''\<rparr>"
    by (simp_all add: bob_def)
  from upload_to_public_page [where env = demoGallery, OF no_rows up others(1) setting(2) reads others(2) digest exif tint setting(1) fits
      newest reads images images setting(4) others(2,2,3)] up
  show ?thesis by blast
qed
end
