(* ===== verification/Gallery_Album.thy ===== *)
theory Gallery_Album
  imports Gallery_Photo
begin

text \<open>
  Albums, activities and videos: \<open>gallery/album/gallery-album.service.ts\<close>,
  \<open>gallery/activity/gallery-activity.service.ts\<close>, \<open>gallery/video/gallery-video.service.ts\<close> with
  \<open>google/youtube.service.ts\<close>, their request bodies and response models. A field of a request body may be
  absent (\<open>undefined\<close>), null or given; merging an entity into a row skips what is absent.
\<close>

section \<open>Request bodies\<close>

datatype 'a field = Absent | Null | Given 'a

primrec fieldOption :: "'a field \<Rightarrow> 'a option" where
  "fieldOption Absent = None"
| "fieldOption Null = None"
| "fieldOption (Given x) = Some x"

text \<open>\<open>mergeObject\<close> (\<open>helpers/merge-object.helper.ts\<close>) on one nullable column.\<close>

primrec mergeField :: "'a field \<Rightarrow> 'a option \<Rightarrow> 'a option" where
  "mergeField Absent old = old"
| "mergeField Null old = None"
| "mergeField (Given x) old = Some x"

record album_dto =
  ad_title :: string
  ad_cover :: "uuid field"
  ad_published :: bool
  ad_publishedAt :: "time field"
  ad_uploadDirectory :: "string field"
  ad_watermarkPreset :: "string field"
  ad_takenAfter :: "time field"
  ad_takenBefore :: "time field"

definition MINIMUM_PHOTO_RESOLUTION_MP :: int where
  "MINIMUM_PHOTO_RESOLUTION_MP = 5"

definition albumDto_minimum :: "album_dto \<Rightarrow> int field" where
  "albumDto_minimum d =
     (if truthyId (fieldOption (ad_uploadDirectory d)) then Given MINIMUM_PHOTO_RESOLUTION_MP else Absent)"

text \<open>The entity of a request body, as a row: the columns that were not given are null.\<close>

definition albumDto_toEntity :: "album_dto \<Rightarrow> string \<Rightarrow> string option \<Rightarrow> int \<Rightarrow> gallery_album" where
  "albumDto_toEntity d i activityId rank =
     \<lparr>alb_id = i, alb_title = ad_title d, alb_cover = fieldOption (ad_cover d), alb_rank = rank,
      alb_activityId = activityId, alb_published = ad_published d,
      alb_publishedAt = fieldOption (ad_publishedAt d),
      alb_uploadDirectory = fieldOption (ad_uploadDirectory d),
      alb_watermarkPreset = fieldOption (ad_watermarkPreset d),
      alb_minimumResolutionMp = fieldOption (albumDto_minimum d),
      alb_takenAfter = fieldOption (ad_takenAfter d), alb_takenBefore = fieldOption (ad_takenBefore d),
      alb_deletedAt = None\<rparr>"

definition mergeAlbum :: "album_dto \<Rightarrow> gallery_album \<Rightarrow> gallery_album" where
  "mergeAlbum d a =
     a\<lparr>alb_title := ad_title d, alb_cover := mergeField (ad_cover d) (alb_cover a),
       alb_published := ad_published d, alb_publishedAt := mergeField (ad_publishedAt d) (alb_publishedAt a),
       alb_uploadDirectory := mergeField (ad_uploadDirectory d) (alb_uploadDirectory a),
       alb_watermarkPreset := mergeField (ad_watermarkPreset d) (alb_watermarkPreset a),
       alb_minimumResolutionMp := mergeField (albumDto_minimum d) (alb_minimumResolutionMp a),
       alb_takenAfter := mergeField (ad_takenAfter d) (alb_takenAfter a),
       alb_takenBefore := mergeField (ad_takenBefore d) (alb_takenBefore a)\<rparr>"

record activity_dto =
  cd_title :: string
  cd_time :: time
  cd_description :: "string field"
  cd_cover :: "uuid field"
  cd_published :: bool
  cd_publishedAt :: "time field"
  cd_tags :: "string list"

abbreviation onAlbums :: "(gallery_album list, 'a) action \<Rightarrow> (gallery_world, 'a) action" where
  "onAlbums \<equiv> \<lambda>m. onGalleryDb (zoom galleryAlbums (\<lambda>t db. db\<lparr>galleryAlbums := t\<rparr>) m)"

abbreviation onActivities :: "(gallery_activity list, 'a) action \<Rightarrow> (gallery_world, 'a) action" where
  "onActivities \<equiv> \<lambda>m. onGalleryDb (zoom galleryActivities (\<lambda>t db. db\<lparr>galleryActivities := t\<rparr>) m)"

abbreviation onTags :: "(gallery_tag list, 'a) action \<Rightarrow> (gallery_world, 'a) action" where
  "onTags \<equiv> \<lambda>m. onGalleryDb (zoom galleryTags (\<lambda>t db. db\<lparr>galleryTags := t\<rparr>) m)"

abbreviation onVideos :: "(gallery_video list, 'a) action \<Rightarrow> (gallery_world, 'a) action" where
  "onVideos \<equiv> \<lambda>m. onGalleryDb (zoom galleryVideos (\<lambda>t db. db\<lparr>galleryVideos := t\<rparr>) m)"

section \<open>GalleryAlbumService\<close>

text \<open>Of an activity or album, to a visitor: published, with a publication instant that has come.\<close>

definition isPublic :: "time \<Rightarrow> bool \<Rightarrow> time option \<Rightarrow> bool" where
  "isPublic now published publishedAt \<longleftrightarrow>
     published \<and> (case publishedAt of None \<Rightarrow> False | Some t \<Rightarrow> t \<le> now)"

definition albumsOfActivity :: "time \<Rightarrow> string \<Rightarrow> bool \<Rightarrow> gallery_album list \<Rightarrow> gallery_album list" where
  "albumsOfActivity now activityId includesUnpublished t =
     sort_key alb_rank (findBy (\<lambda>a. alb_deletedAt a = None \<and> alb_activityId a = Some activityId
       \<and> (includesUnpublished \<or> isPublic now (alb_published a) (alb_publishedAt a))) t)"

definition isUploadable :: "gallery_album \<Rightarrow> bool" where
  "isUploadable entity \<longleftrightarrow>
     truthyId (alb_uploadDirectory entity) \<and> alb_minimumResolutionMp entity \<notin> {None, Some 0}
     \<and> alb_takenAfter entity \<noteq> None \<and> alb_takenBefore entity \<noteq> None"

text \<open>
  \<open>findOneAndUpdate\<close> with \<open>upsert\<close>. The album of the filter is the id of the entity; an entity without an id
  asks for the document without an album.
\<close>

definition upsertUploadTaskInfo :: "string option \<Rightarrow> gallery_album \<Rightarrow> (gallery_world, unit) action" where
  "upsertUploadTaskInfo entityId entity =
     (if isUploadable entity then
        modify (\<lambda>w. w\<lparr>uploadTasks := saveRow task_album
          \<lparr>task_album = entityId, task_src_directory = alb_uploadDirectory entity,
           task_rules = toPattern (fromAlbum entity)\<rparr> (uploadTasks w)\<rparr>)
      else ret ())"

definition findUploadTaskInfo :: "string \<Rightarrow> gallery_world \<Rightarrow> upload_task option" where
  "findUploadTaskInfo albumId w = findOneBy (\<lambda>t. task_album t = Some albumId) (uploadTasks w)"

text \<open>\<open>save\<close> of a new entity whose random id is taken updates the row of that id.\<close>

definition createAlbum :: "gallery_env \<Rightarrow> string \<Rightarrow> string \<Rightarrow> album_dto \<Rightarrow> (gallery_world, gallery_album) action" where
  "createAlbum env newId activityId dto =
     transaction (ge_commit env) undoGallery
       (andThen (gets (\<lambda>w. galleryAlbums (gdb w))) (\<lambda>t.
        let rank = int (length (albumsOfActivity (ge_now env) activityId True t));
            entity = albumDto_toEntity dto newId (Some activityId) rank;
            album = (case findOneBy (\<lambda>a. alb_id a = newId) t of
                None \<Rightarrow> entity
              | Some old \<Rightarrow> (mergeAlbum dto old)\<lparr>alb_activityId := Some activityId, alb_rank := rank\<rparr>) in
        andThen (onAlbums (modify (saveRow alb_id album))) (\<lambda>_.
        andThen (upsertUploadTaskInfo (Some newId) entity) (\<lambda>_.
        ret album))))"

definition updateAlbum :: "gallery_env \<Rightarrow> string \<Rightarrow> album_dto \<Rightarrow> (gallery_world, bool) action" where
  "updateAlbum env i dto =
     transaction (ge_commit env) undoGallery
       (andThen (gets (findAlbum i)) (\<lambda>album.
        case album of
          None \<Rightarrow> ret False
        | Some a \<Rightarrow>
            andThen (onAlbums (modify (saveRow alb_id (mergeAlbum dto a)))) (\<lambda>_.
            andThen (upsertUploadTaskInfo None (albumDto_toEntity dto [] None 0)) (\<lambda>_.
            ret True))))"

text \<open>\<open>Object.fromEntries\<close> of the ids with their positions: a later position wins.\<close>

definition rankOf :: "string list \<Rightarrow> string \<Rightarrow> int" where
  "rankOf albumIds i =
     (case mapOfPairs (zip albumIds [0..<length albumIds]) i of None \<Rightarrow> int (length albumIds) | Some n \<Rightarrow> int n)"

definition rankAlbums :: "gallery_env \<Rightarrow> string \<Rightarrow> string list \<Rightarrow> (gallery_world, gallery_album list) action" where
  "rankAlbums env activityId albumIds =
     transaction (ge_commit env) undoGallery
       (andThen (gets (\<lambda>w. albumsOfActivity (ge_now env) activityId True (galleryAlbums (gdb w)))) (\<lambda>found.
        let albums = map (\<lambda>a. a\<lparr>alb_rank := rankOf albumIds (alb_id a)\<rparr>) found in
        andThen (onAlbums (modify (saveAll alb_id albums))) (\<lambda>_.
        ret (sort_key alb_rank albums))))"

definition removeAlbum :: "time \<Rightarrow> string \<Rightarrow> (gallery_world, bool) action" where
  "removeAlbum now i =
     andThen (gets (\<lambda>w. affected (\<lambda>a. alb_id a = i) (galleryAlbums (gdb w)))) (\<lambda>n.
     andThen (onAlbums (modify (updateBy (\<lambda>a. alb_id a = i) (\<lambda>a. a\<lparr>alb_deletedAt := Some now\<rparr>)))) (\<lambda>_.
     ret (0 < n)))"

section \<open>GalleryActivityService\<close>

definition activity_findById :: "string \<Rightarrow> gallery_world \<Rightarrow> gallery_activity option" where
  "activity_findById i w = findOneBy (\<lambda>a. act_id a = i \<and> act_deletedAt a = None) (galleryActivities (gdb w))"

text \<open>
  \<open>resolveTagEntities\<close>: all titles are looked up before the missing ones are saved; the unique constraint
  on the title refuses to save one twice. \<open>tagIds\<close> are the numbers the server hands out.
\<close>

primrec saveTags :: "nat list \<Rightarrow> (string \<times> gallery_tag option) list \<Rightarrow> (gallery_tag list, gallery_tag list) action" where
  "saveTags tagIds [] = ret []"
| "saveTags tagIds (x # xs) =
     (case snd x of
        Some tag \<Rightarrow> andThen (saveTags tagIds xs) (\<lambda>tags. ret (tag # tags))
      | None \<Rightarrow>
          andThen (gets (\<lambda>t. fst x \<in> tag_title ` set t)) (\<lambda>taken.
          andThen (throwIf taken (JsError ''duplicate key value violates unique constraint'')) (\<lambda>_.
          let tag = \<lparr>tag_id = Some (hd tagIds), tag_title = fst x\<rparr> in
          andThen (modify (\<lambda>t. t @ [tag])) (\<lambda>_.
          andThen (saveTags (tl tagIds) xs) (\<lambda>tags. ret (tag # tags))))))"

definition resolveTagEntities :: "nat list \<Rightarrow> string list \<Rightarrow> (gallery_tag list, gallery_tag list) action" where
  "resolveTagEntities tagIds titles =
     andThen (gets (\<lambda>t. map (\<lambda>title. (title, findOneBy (\<lambda>g. tag_title g = title) t)) titles)) (saveTags tagIds)"

definition mergeActivity :: "activity_dto \<Rightarrow> gallery_tag list \<Rightarrow> gallery_activity \<Rightarrow> gallery_activity" where
  "mergeActivity d tags a =
     a\<lparr>act_title := cd_title d, act_description := mergeField (cd_description d) (act_description a),
       act_cover := mergeField (cd_cover d) (act_cover a), act_time := cd_time d,
       act_published := cd_published d, act_publishedAt := mergeField (cd_publishedAt d) (act_publishedAt a),
       act_tags := tags\<rparr>"

definition activityDto_toEntity :: "activity_dto \<Rightarrow> string \<Rightarrow> gallery_tag list \<Rightarrow> gallery_activity" where
  "activityDto_toEntity d i tags =
     \<lparr>act_id = i, act_title = cd_title d, act_description = fieldOption (cd_description d),
      act_cover = fieldOption (cd_cover d), act_time = cd_time d, act_published = cd_published d,
      act_publishedAt = fieldOption (cd_publishedAt d), act_tags = tags, act_deletedAt = None\<rparr>"

definition createActivity :: "gallery_env \<Rightarrow> nat list \<Rightarrow> string \<Rightarrow> activity_dto \<Rightarrow> (gallery_world, gallery_activity) action" where
  "createActivity env tagIds newId dto =
     transaction (ge_commit env) undoGallery
       (andThen (onTags (resolveTagEntities tagIds (cd_tags dto))) (\<lambda>tags.
        andThen (gets (\<lambda>w. findOneBy (\<lambda>a. act_id a = newId) (galleryActivities (gdb w)))) (\<lambda>taken.
        let activity = (case taken of
              None \<Rightarrow> activityDto_toEntity dto newId tags
            | Some old \<Rightarrow> mergeActivity dto tags old) in
        andThen (onActivities (modify (saveRow act_id activity))) (\<lambda>_. ret activity))))"

definition updateActivity :: "gallery_env \<Rightarrow> nat list \<Rightarrow> string \<Rightarrow> activity_dto \<Rightarrow> (gallery_world, bool) action" where
  "updateActivity env tagIds i dto =
     transaction (ge_commit env) undoGallery
       (andThen (onTags (resolveTagEntities tagIds (cd_tags dto))) (\<lambda>tags.
        andThen (gets (activity_findById i)) (\<lambda>activity.
        case activity of
          None \<Rightarrow> ret False
        | Some a \<Rightarrow> andThen (onActivities (modify (saveRow act_id (mergeActivity dto tags a)))) (\<lambda>_. ret True))))"

definition removeActivity :: "time \<Rightarrow> string \<Rightarrow> (gallery_world, bool) action" where
  "removeActivity now i =
     andThen (gets (\<lambda>w. affected (\<lambda>a. act_id a = i) (galleryActivities (gdb w)))) (\<lambda>n.
     andThen (onActivities (modify (updateBy (\<lambda>a. act_id a = i) (\<lambda>a. a\<lparr>act_deletedAt := Some now\<rparr>)))) (\<lambda>_.
     ret (0 < n)))"

subsection \<open>Searching activities\<close>

text \<open>The operator \<open>ILIKE\<close> of PostgreSQL; letters match without regard to case.\<close>

fun ilike :: "string \<Rightarrow> string \<Rightarrow> bool" where
  "ilike [] s = (s = [])"
| "ilike (p # ps) s =
     (if p = CHR ''%'' then (\<exists>n \<in> set [0..<Suc (length s)]. ilike ps (drop n s))
      else if p = CHR ''_'' then (case s of [] \<Rightarrow> False | _ # cs \<Rightarrow> ilike ps cs)
      else if p = CHR 0x5C then
        (case ps of
           [] \<Rightarrow> False
         | q # qs \<Rightarrow> (case s of [] \<Rightarrow> False | c # cs \<Rightarrow> lowerChar c = lowerChar q \<and> ilike qs cs))
      else (case s of [] \<Rightarrow> False | c # cs \<Rightarrow> lowerChar c = lowerChar p \<and> ilike ps cs))"

definition keywordPattern :: "string list \<Rightarrow> string" where
  "keywordPattern keywords = ''%'' @ joinWith ''%'' keywords @ ''%''"

text \<open>\<open>search.split(/\s+/)\<close> and the keywords long enough to search for.\<close>

lemma length_dropWhile_less [termination_simp]: "length (dropWhile P xs) < Suc (length xs)"
  by (simp add: length_dropWhile_le less_Suc_eq_le)

fun splitSpaces :: "string \<Rightarrow> string list" where
  "splitSpaces [] = [[]]"
| "splitSpaces (c # cs) =
     (if isSpace c then [] # splitSpaces (dropWhile isSpace cs)
      else case splitSpaces cs of [] \<Rightarrow> [[c]] | w # ws \<Rightarrow> (c # w) # ws)"

definition searchKeywords :: "string option \<Rightarrow> string list" where
  "searchKeywords search = (case search of None \<Rightarrow> [] | Some s \<Rightarrow> filter (\<lambda>el. 3 \<le> length el) (splitSpaces s))"

definition selectEailerDate :: "time option \<Rightarrow> time option \<Rightarrow> time option" where
  "selectEailerDate a b =
     (case (a, b) of (Some x, Some y) \<Rightarrow> Some (if x < y then x else y) | (Some x, None) \<Rightarrow> Some x | (None, y) \<Rightarrow> y)"

text \<open>
  The first of May at midnight, local time. \<open>localDate y m d\<close> is \<open>new Date(y, m, d, 0, 0, 0, 0)\<close>; the time
  zone is the process's. The year zero is falsy.
\<close>

definition academicYearStartDate :: "(int \<Rightarrow> nat \<Rightarrow> nat \<Rightarrow> time) \<Rightarrow> int option \<Rightarrow> time option" where
  "academicYearStartDate localDate year =
     (case year of None \<Rightarrow> None | Some y \<Rightarrow> if y = 0 then None else Some (localDate y 4 1))"

definition academicYearEndDate :: "(int \<Rightarrow> nat \<Rightarrow> nat \<Rightarrow> time) \<Rightarrow> int option \<Rightarrow> time option" where
  "academicYearEndDate localDate year =
     (case year of None \<Rightarrow> None | Some y \<Rightarrow> if y = 0 then None else academicYearStartDate localDate (Some (y + 1)))"

definition timeQuery :: "time option \<Rightarrow> time option \<Rightarrow> time \<Rightarrow> bool" where
  "timeQuery afterDate beforeDate t \<longleftrightarrow>
     (case afterDate of None \<Rightarrow> True | Some a \<Rightarrow> a < t) \<and> (case beforeDate of None \<Rightarrow> True | Some b \<Rightarrow> t < b)"

definition findFromAlbumTitle :: "string list \<Rightarrow> gallery_world \<Rightarrow> string list" where
  "findFromAlbumTitle keywords w =
     (if keywords = [] then []
      else List.map_filter alb_activityId
        (findBy (\<lambda>a. alb_deletedAt a = None \<and> ilike (keywordPattern keywords) (alb_title a)) (galleryAlbums (gdb w))))"

text \<open>
  The query of \<open>findActivities\<close>. The alternatives of the condition are joined by \<open>or\<close>; in the third the
  id is \<open>undefined\<close>, hence no condition, when no album matches. A limit of zero is no limit.
\<close>

definition findActivities ::
    "gallery_env \<Rightarrow> (int \<Rightarrow> nat \<Rightarrow> nat \<Rightarrow> time) \<Rightarrow> nat \<Rightarrow> time option \<Rightarrow> int option \<Rightarrow> string option \<Rightarrow> bool
       \<Rightarrow> gallery_world \<Rightarrow> gallery_activity list" where
  "findActivities env localDate limit before year search includesUnpublished w =
     (let beforeDate = selectEailerDate before (academicYearEndDate localDate year);
          afterDate = academicYearStartDate localDate year;
          keywords = searchKeywords search;
          baseCondition = (\<lambda>a. act_deletedAt a = None \<and> timeQuery afterDate beforeDate (act_time a)
            \<and> (includesUnpublished \<or> isPublic (ge_now env) (act_published a) (act_publishedAt a)));
          activityIds = findFromAlbumTitle keywords w;
          matches = (\<lambda>a. if keywords = [] then baseCondition a
            else ilike (keywordPattern keywords) (act_title a) \<and> baseCondition a
              \<or> (\<exists>tag \<in> set (act_tags a). tag_title tag \<in> set keywords) \<and> baseCondition a
              \<or> (activityIds = [] \<or> act_id a \<in> set activityIds) \<and> baseCondition a);
          found = sort_key (\<lambda>a. - act_time a) (findBy matches (galleryActivities (gdb w)))
      in if limit = 0 then found else take limit found)"

section \<open>Videos\<close>

record youtube_video =
  yt_id :: string
  yt_title :: string
  yt_cover :: string
  yt_url :: string
  yt_published :: bool
  yt_publishedAt :: time

text \<open>An item of the API's answer; its fields may be missing.\<close>

record youtube_item =
  item_title :: "string option"
  item_cover :: "string option"
  item_privacyStatus :: "string option"
  item_publishedAt :: "time option"

definition fetchVideo :: "time \<Rightarrow> (string \<Rightarrow> youtube_item option outcome) \<Rightarrow> string \<Rightarrow> youtube_video outcome" where
  "fetchVideo now list i =
     onSuccess (list i) (\<lambda>video. Inr
       \<lparr>yt_id = i, yt_title = (case Option.bind video item_title of None \<Rightarrow> [] | Some t \<Rightarrow> t),
        yt_cover = (case Option.bind video item_cover of
            None \<Rightarrow> ''https://i.ytimg.com/vi/'' @ i @ ''/maxresdefault.jpg'' | Some c \<Rightarrow> c),
        yt_url = ''https://youtu.be/'' @ i,
        yt_published = (Option.bind video item_privacyStatus = Some ''public''),
        yt_publishedAt = (case Option.bind video item_publishedAt of None \<Rightarrow> now | Some t \<Rightarrow> t)\<rparr>)"

text \<open>\<open>getVideo\<close> with its cache; an entry whose id is empty counts as missing.\<close>

definition getVideo ::
    "time \<Rightarrow> (string \<Rightarrow> youtube_item option outcome) \<Rightarrow> string \<Rightarrow> (string \<Rightarrow> youtube_video option, youtube_video) action" where
  "getVideo now list i =
     andThen (gets (\<lambda>cache. cache (''youtube:video:'' @ i))) (\<lambda>cached.
     case cached of
       Some v \<Rightarrow>
         (if yt_id v \<noteq> [] then ret v
          else andThen (lift (fetchVideo now list i)) (\<lambda>video.
               andThen (modify (\<lambda>cache. cache(''youtube:video:'' @ i \<mapsto> video))) (\<lambda>_. ret video)))
     | None \<Rightarrow>
         andThen (lift (fetchVideo now list i)) (\<lambda>video.
         andThen (modify (\<lambda>cache. cache(''youtube:video:'' @ i \<mapsto> video))) (\<lambda>_. ret video)))"

text \<open>The calls of \<open>Promise.all\<close>; the first error is thrown.\<close>

primrec allVideos :: "(string \<Rightarrow> youtube_video outcome) \<Rightarrow> string list \<Rightarrow> youtube_video list outcome" where
  "allVideos video [] = Inr []"
| "allVideos video (i # is) = onSuccess (video i) (\<lambda>v. onSuccess (allVideos video is) (\<lambda>vs. Inr (v # vs)))"

definition videosOfActivity ::
    "(string \<Rightarrow> youtube_video outcome) \<Rightarrow> string \<Rightarrow> bool \<Rightarrow> gallery_world \<Rightarrow> youtube_video list outcome" where
  "videosOfActivity video activityId includesUnpublished w =
     onSuccess (allVideos video (map vid_id (findBy (\<lambda>v. vid_activityId v = Some activityId) (galleryVideos (gdb w)))))
       (\<lambda>vs. Inr (sort_key yt_publishedAt (filter (\<lambda>v. includesUnpublished \<or> yt_published v) vs)))"

definition createVideo ::
    "gallery_env \<Rightarrow> (string \<Rightarrow> youtube_video outcome) \<Rightarrow> string \<Rightarrow> string \<Rightarrow> (gallery_world, youtube_video) action" where
  "createVideo env video activityId youtubeId =
     transaction (ge_commit env) undoGallery
       (andThen (onVideos (modify (saveRow vid_id \<lparr>vid_id = youtubeId, vid_activityId = Some activityId\<rparr>))) (\<lambda>_.
        lift (video youtubeId)))"

definition removeVideo :: "string \<Rightarrow> (gallery_world, unit) action" where
  "removeVideo i = onVideos (modify (deleteBy (\<lambda>v. vid_id v = i)))"

end
