(* ===== verification/Gallery_Catalog.thy ===== *)
theory Gallery_Catalog
  imports Gallery_Album Gallery_Flow
begin

text \<open>
  The response models of albums, activities and videos, the handlers of their controllers, and the
  guarantees: ranking, what a visitor sees, searching, the academic year, upload tasks. The audit log is
  left out.
\<close>

section \<open>Response models\<close>

record video_response =
  vr_video :: youtube_video
  vr_youtubeId :: string

definition videoResponse :: "youtube_video \<Rightarrow> video_response" where
  "videoResponse v = \<lparr>vr_video = v, vr_youtubeId = yt_id v\<rparr>"

record activity_response =
  cr_id :: string
  cr_title :: string
  cr_description :: "string option"
  cr_cover :: "uuid option"
  cr_time :: time
  cr_published :: bool
  cr_publishedAt :: "time option"
  cr_tags :: "string list"

record album_response =
  ar_albumId :: string
  ar_title :: string
  ar_rank :: int
  ar_cover :: "uuid option"
  ar_published :: bool
  ar_publishedAt :: "time option"
  ar_uploadDirectory :: "string option"
  ar_watermarkPreset :: "string option"
  ar_takenAfter :: "time option"
  ar_takenBefore :: "time option"
  ar_activity :: "activity_response option"

record activity_detail_response =
  dr_activity :: activity_response
  dr_albums :: "album_response list"
  dr_videos :: "video_response list"

definition activityResponse_fromEntity :: "gallery_activity \<Rightarrow> activity_response" where
  "activityResponse_fromEntity e =
     \<lparr>cr_id = act_id e, cr_title = act_title e, cr_description = act_description e, cr_cover = act_cover e,
      cr_time = act_time e, cr_published = act_published e, cr_publishedAt = act_publishedAt e,
      cr_tags = map tag_title (act_tags e)\<rparr>"

text \<open>The activity is there when the query has joined it.\<close>

definition truthyPart :: "string option \<Rightarrow> string option" where
  "truthyPart s = (if truthyId s then s else None)"

definition albumResponse_fromEntity :: "gallery_activity option \<Rightarrow> gallery_album \<Rightarrow> album_response" where
  "albumResponse_fromEntity activity e =
     \<lparr>ar_albumId = alb_id e, ar_title = alb_title e, ar_rank = alb_rank e, ar_cover = alb_cover e,
      ar_published = alb_published e, ar_publishedAt = alb_publishedAt e,
      ar_uploadDirectory = truthyPart (alb_uploadDirectory e),
      ar_watermarkPreset = truthyPart (alb_watermarkPreset e),
      ar_takenAfter = alb_takenAfter e, ar_takenBefore = alb_takenBefore e,
      ar_activity = map_option activityResponse_fromEntity activity\<rparr>"

definition orElse :: "'a option \<Rightarrow> 'a option \<Rightarrow> 'a option" where
  "orElse a b = (case a of None \<Rightarrow> b | Some x \<Rightarrow> Some x)"

definition withUploadInfo :: "upload_task option \<Rightarrow> album_response \<Rightarrow> album_response" where
  "withUploadInfo model r =
     (case model of
        None \<Rightarrow> r
      | Some task \<Rightarrow>
          let rule = fromPattern (task_rules task) in
          r\<lparr>ar_uploadDirectory := orElse (ar_uploadDirectory r) (task_src_directory task),
            ar_watermarkPreset := orElse (ar_watermarkPreset r) (ur_watermarkPreset rule),
            ar_takenAfter := orElse (ar_takenAfter r) (ur_takenAfter rule),
            ar_takenBefore := orElse (ar_takenBefore r) (ur_takenBefore rule)\<rparr>)"

definition ar_coverUrl :: "string \<Rightarrow> album_response \<Rightarrow> string" where
  "ar_coverUrl base r = coverUrl base (ar_cover r)"

definition ar_cardUrl :: "string \<Rightarrow> album_response \<Rightarrow> string" where
  "ar_cardUrl base r = cardUrl base (ar_cover r)"

section \<open>Query flags\<close>

text \<open>
  The flag \<open>all\<close> of a query string. Most bodies turn it into a flag with \<open>value === 'true'\<close>; the list of
  albums converts the string to a Boolean, so that every text but the empty one is true.
\<close>

definition flagIsTrue :: "string option \<Rightarrow> bool" where
  "flagIsTrue v = (v = Some ''true'')"

definition flagIsGiven :: "string option \<Rightarrow> bool" where
  "flagIsGiven v = truthyId v"

section \<open>GalleryAlbumV1Controller\<close>

definition getGalleryAlbumsByActivityId ::
    "gallery_env \<Rightarrow> string \<Rightarrow> string option \<Rightarrow> request_user \<Rightarrow> (gallery_world, album_response list) action" where
  "getGalleryAlbumsByActivityId env activityId all user =
     forbidField ''all'' [''nudch''] user all
       (gets (\<lambda>w. map (albumResponse_fromEntity None)
          (albumsOfActivity (ge_now env) activityId (flagIsGiven all) (galleryAlbums (gdb w)))))"

definition createGalleryAlbum ::
    "gallery_env \<Rightarrow> string \<Rightarrow> string \<Rightarrow> album_dto \<Rightarrow> request_user \<Rightarrow> (gallery_world, album_response) action" where
  "createGalleryAlbum env newId activityId body user =
     authGroups [''pr''] user
       (andThen (createAlbum env newId activityId body) (\<lambda>album. ret (albumResponse_fromEntity None album)))"

definition rankGalleryAlbum ::
    "gallery_env \<Rightarrow> string \<Rightarrow> string list \<Rightarrow> request_user \<Rightarrow> (gallery_world, album_response list) action" where
  "rankGalleryAlbum env activityId albumIds user =
     authGroups [''pr''] user
       (andThen (rankAlbums env activityId albumIds) (\<lambda>albums. ret (map (albumResponse_fromEntity None) albums)))"

text \<open>The relation is joined without its deleted rows.\<close>

definition getGalleryAlbumById :: "string \<Rightarrow> bool \<Rightarrow> (gallery_world, album_response) action" where
  "getGalleryAlbumById albumId isSignedIn =
     andThen (gets (findAlbum albumId)) (\<lambda>album.
     case album of
       None \<Rightarrow> throw (NotFound ''Not Found'')
     | Some a \<Rightarrow>
         andThen (gets (\<lambda>w. Option.bind (alb_activityId a) (\<lambda>i. activity_findById i w))) (\<lambda>activity.
         let response = albumResponse_fromEntity activity a in
         if isSignedIn
         then andThen (gets (findUploadTaskInfo albumId)) (\<lambda>uploadInfo. ret (withUploadInfo uploadInfo response))
         else ret response))"

definition updateGalleryAlbumById ::
    "gallery_env \<Rightarrow> string \<Rightarrow> album_dto \<Rightarrow> request_user \<Rightarrow> (gallery_world, unit) action" where
  "updateGalleryAlbumById env albumId body user =
     authGroups [''pr''] user
       (andThen (updateAlbum env albumId body) (\<lambda>album. throwIf (\<not> album) (NotFound ''Not Found'')))"

definition deleteGalleryAlbumById :: "gallery_env \<Rightarrow> string \<Rightarrow> request_user \<Rightarrow> (gallery_world, unit) action" where
  "deleteGalleryAlbumById env albumId user =
     authGroups [''pr''] user (discard (removeAlbum (ge_now env) albumId))"

section \<open>GalleryActivityV1Controller\<close>

definition findGalleryActivities ::
    "gallery_env \<Rightarrow> (int \<Rightarrow> nat \<Rightarrow> nat \<Rightarrow> time) \<Rightarrow> nat \<Rightarrow> time option \<Rightarrow> string option \<Rightarrow> int option \<Rightarrow> string option
       \<Rightarrow> request_user \<Rightarrow> (gallery_world, activity_response list) action" where
  "findGalleryActivities env localDate limit before search year all user =
     forbidField ''all'' [''nudch''] user all
       (gets (\<lambda>w. map activityResponse_fromEntity
          (findActivities env localDate limit before year search (flagIsTrue all) w)))"

definition createGalleryActivity ::
    "gallery_env \<Rightarrow> nat list \<Rightarrow> string \<Rightarrow> activity_dto \<Rightarrow> request_user \<Rightarrow> (gallery_world, activity_response) action" where
  "createGalleryActivity env tagIds newId body user =
     authGroups [''pr''] user
       (andThen (createActivity env tagIds newId body) (\<lambda>activity. ret (activityResponse_fromEntity activity)))"

text \<open>The three look-ups are made whether or not the activity exists.\<close>

definition getGalleryActivityById ::
    "gallery_env \<Rightarrow> (string \<Rightarrow> youtube_video outcome) \<Rightarrow> string \<Rightarrow> string option \<Rightarrow> request_user
       \<Rightarrow> (gallery_world, activity_detail_response) action" where
  "getGalleryActivityById env video activityId all user =
     forbidField ''all'' [''nudch''] user all
       (andThen (gets (activity_findById activityId)) (\<lambda>activity.
        andThen (gets (\<lambda>w. albumsOfActivity (ge_now env) activityId (flagIsTrue all) (galleryAlbums (gdb w)))) (\<lambda>albums.
        andThen (gets (videosOfActivity video activityId (flagIsTrue all))) (\<lambda>found.
        andThen (lift found) (\<lambda>videos.
        case activity of
          None \<Rightarrow> throw (NotFound ''Not Found'')
        | Some a \<Rightarrow> ret \<lparr>dr_activity = activityResponse_fromEntity a,
              dr_albums = map (albumResponse_fromEntity None) albums,
              dr_videos = map videoResponse videos\<rparr>)))))"

definition updateGalleryActivityById ::
    "gallery_env \<Rightarrow> nat list \<Rightarrow> string \<Rightarrow> activity_dto \<Rightarrow> request_user \<Rightarrow> (gallery_world, unit) action" where
  "updateGalleryActivityById env tagIds activityId body user =
     authGroups [''pr''] user
       (andThen (updateActivity env tagIds activityId body) (\<lambda>found. throwIf (\<not> found) (NotFound ''Not Found'')))"

definition deleteGalleryActivityById :: "gallery_env \<Rightarrow> string \<Rightarrow> request_user \<Rightarrow> (gallery_world, unit) action" where
  "deleteGalleryActivityById env activityId user =
     authGroups [''pr''] user
       (andThen (removeActivity (ge_now env) activityId) (\<lambda>found. throwIf (\<not> found) (NotFound ''Not Found'')))"

section \<open>GalleryVideoV1Controller\<close>

definition getGalleryVideosByActivityId ::
    "(string \<Rightarrow> youtube_video outcome) \<Rightarrow> string \<Rightarrow> string option \<Rightarrow> request_user \<Rightarrow> (gallery_world, video_response list) action" where
  "getGalleryVideosByActivityId video activityId all user =
     forbidField ''all'' [''nudch''] user all
       (andThen (gets (videosOfActivity video activityId (flagIsTrue all))) (\<lambda>found.
        andThen (lift found) (\<lambda>videos. ret (map videoResponse videos))))"

definition createGalleryVideo ::
    "gallery_env \<Rightarrow> (string \<Rightarrow> youtube_video outcome) \<Rightarrow> string \<Rightarrow> string \<Rightarrow> request_user \<Rightarrow> (gallery_world, video_response) action" where
  "createGalleryVideo env video activityId youtubeId user =
     authGroups [''pr''] user
       (andThen (createVideo env video activityId youtubeId) (\<lambda>v. ret (videoResponse v)))"

definition deleteGalleryVideo :: "string \<Rightarrow> request_user \<Rightarrow> (gallery_world, unit) action" where
  "deleteGalleryVideo videoId user = authGroups [''pr''] user (removeVideo videoId)"

section \<open>Ranking\<close>

lemma rankOf_nth:
  assumes "distinct ids" and "k < length ids"
  shows "rankOf ids (ids ! k) = int k"
proof -
  have "mapOfPairs (zip ids [0..<length ids]) = map_of (zip ids [0..<length ids])"
    by (rule mapOfPairs_distinct) (simp add: assms(1))
  with assms show ?thesis by (simp add: rankOf_def map_of_zip_nth)
qed

lemma map_rankOf: "distinct ids \<Longrightarrow> map (rankOf ids) ids = map int [0..<length ids]"
  by (rule nth_equalityI) (simp_all add: rankOf_nth)

lemma inj_rankOf: "distinct ids \<Longrightarrow> inj_on (rankOf ids) (set ids)"
  by (auto simp: inj_on_def in_set_conv_nth rankOf_nth)

lemma sort_by_rankOf:
  assumes ids: "distinct ids" and as: "distinct (map alb_id as)" and same: "alb_id ` set as = set ids"
    and rank: "\<And>a. a \<in> set as \<Longrightarrow> alb_rank a = rankOf ids (alb_id a)"
  shows "map alb_id (sort_key alb_rank as) = ids"
proof -
  let ?bs = "sort_key alb_rank as"
  have b: "set ?bs = set as" "distinct (map alb_id ?bs)"
    using as by (simp_all add: distinct_map)
  have ranks: "map (rankOf ids) (map alb_id ?bs) = map alb_rank ?bs" using rank b by simp
  have "sorted (map alb_rank ?bs)" by simp
  moreover have "distinct (map alb_rank ?bs)"
    unfolding ranks [symmetric] using b same inj_rankOf [OF ids]
    by (simp add: distinct_map del: map_map)
  moreover have "set (map alb_rank ?bs) = set (map int [0..<length ids])"
    unfolding ranks [symmetric] map_rankOf [OF ids, symmetric] using b(1) same by (metis image_set set_map)
  ultimately have "map alb_rank ?bs = map int [0..<length ids]"
    by (intro sorted_distinct_set_unique) (simp_all add: distinct_map inj_on_def sorted_map)
  then have "map (rankOf ids) (map alb_id ?bs) = map (rankOf ids) ids"
    unfolding ranks by (simp only: map_rankOf [OF ids])
  then show ?thesis
  proof (rule map_inj_on)
    have "set (map alb_id ?bs) = set ids" using b(1) same by simp
    then show "inj_on (rankOf ids) (set (map alb_id ?bs) \<union> set ids)" using inj_rankOf [OF ids] by simp
  qed
qed

definition albumsOf :: "string \<Rightarrow> gallery_world \<Rightarrow> gallery_album list" where
  "albumsOf activityId w =
     filter (\<lambda>a. alb_deletedAt a = None \<and> alb_activityId a = Some activityId) (galleryAlbums (gdb w))"

lemma albumsOfActivity_all:
  "albumsOfActivity now activityId True (galleryAlbums (gdb w)) = sort_key alb_rank (albumsOf activityId w)"
  by (simp add: albumsOfActivity_def albumsOf_def findBy_def)

lemma rankAlbums_Inr:
  assumes "rankAlbums env activityId ids w = (Inr albums, w')"
  shows "albums = sort_key alb_rank (map (\<lambda>a. a\<lparr>alb_rank := rankOf ids (alb_id a)\<rparr>)
            (sort_key alb_rank (albumsOf activityId w)))"
    and "galleryAlbums (gdb w') = saveAll alb_id (map (\<lambda>a. a\<lparr>alb_rank := rankOf ids (alb_id a)\<rparr>)
            (sort_key alb_rank (albumsOf activityId w))) (galleryAlbums (gdb w))"
  using assms unfolding rankAlbums_def transaction_Inr albumsOfActivity_all
  by (auto simp: action_simps zoom_def andThen_def Let_def)

text \<open>Saving the albums of an activity again, with other ranks, leaves it exactly these albums.\<close>

lemma albumsOf_saved:
  assumes "galleryAlbums (gdb w') = saveAll alb_id new (galleryAlbums (gdb w))" and "distinct (map alb_id new)"
    and "alb_id ` set new = alb_id ` set (albumsOf activityId w)"
    and "\<forall>x \<in> set new. alb_deletedAt x = None \<and> alb_activityId x = Some activityId"
  shows "set (albumsOf activityId w') = set new"
proof -
  have "{x \<in> {x \<in> set (galleryAlbums (gdb w)). alb_id x \<notin> alb_id ` set new}.
      alb_deletedAt x = None \<and> alb_activityId x = Some activityId} = {}"
    unfolding assms(3) by (auto simp: albumsOf_def)
  moreover have "set (galleryAlbums (gdb w')) = set new \<union> {x \<in> set (galleryAlbums (gdb w)). alb_id x \<notin> alb_id ` set new}"
    unfolding assms(1) using assms(2) by (rule set_saveAll)
  ultimately show ?thesis using assms(4) unfolding albumsOf_def [of _ w'] set_filter by blast
qed

text \<open>
  Ranking an activity's albums with a list of exactly their ids stores the positions in the list as
  their ranks: it returns the albums in the order of the list, and reading the albums of the activity
  afterwards returns the same rows in the same order. Every other row of the table is untouched.
\<close>

lemma rankAlbums_order:
  assumes key: "distinct (map alb_id (galleryAlbums (gdb w)))" and ids: "distinct ids"
    and same: "set ids = alb_id ` set (albumsOf activityId w)"
    and run: "rankAlbums env activityId ids w = (Inr albums, w')"
  shows "map alb_id albums = ids
    \<and> albumsOfActivity now activityId True (galleryAlbums (gdb w')) = albums
    \<and> filter (\<lambda>a. a \<notin> set (albumsOf activityId w)) (galleryAlbums (gdb w)) =
        filter (\<lambda>a. alb_id a \<notin> set ids) (galleryAlbums (gdb w'))"
proof -
  let ?old = "albumsOf activityId w"
  let ?new = "map (\<lambda>a. a\<lparr>alb_rank := rankOf ids (alb_id a)\<rparr>) (sort_key alb_rank ?old)"
  let ?t = "galleryAlbums (gdb w)" and ?t' = "galleryAlbums (gdb w')"
  note albums = rankAlbums_Inr(1) [OF run] and t' = rankAlbums_Inr(2) [OF run]
  have old: "distinct (map alb_id ?old)" using key unfolding albumsOf_def by (rule distinct_map_filter)
  have new_ids: "map alb_id ?new = map alb_id (sort_key alb_rank ?old)" by simp
  have new: "distinct (map alb_id ?new)" "alb_id ` set ?new = set ids"
    using old same by (simp_all add: distinct_map comp_def inj_on_def image_image)
  have order: "map alb_id albums = ids"
    unfolding albums using ids new by (rule sort_by_rankOf) auto
  have reread: "set (albumsOf activityId w') = set ?new"
    using t' new(1) by (rule albumsOf_saved) (use new(2) same in \<open>auto simp: albumsOf_def\<close>)
  have t'_key: "distinct (map alb_id ?t')" unfolding t' using key by (rule distinct_saveAll)
  then have reread_key: "distinct (map alb_id (albumsOf activityId w'))"
    unfolding albumsOf_def by (rule distinct_map_filter)
  have "map alb_id (sort_key alb_rank (albumsOf activityId w')) = ids"
    using ids reread_key by (rule sort_by_rankOf) (use reread new in auto)
  then have "sort_key alb_rank (albumsOf activityId w') = albums"
  proof (intro map_inj_on [where f = alb_id])
    show "map alb_id (sort_key alb_rank (albumsOf activityId w')) = map alb_id albums"
      if "map alb_id (sort_key alb_rank (albumsOf activityId w')) = ids" using that order by simp
    have "set albums = set ?new" unfolding albums by (rule set_sort)
    moreover have "inj_on alb_id (set ?new)" using new(1) unfolding distinct_map by (rule conjunct2)
    ultimately show "inj_on alb_id (set (sort_key alb_rank (albumsOf activityId w')) \<union> set albums)"
      by (simp only: set_sort reread Un_absorb)
  qed
  moreover have "filter (\<lambda>a. alb_id a \<notin> set ids) ?t' = filter (\<lambda>a. alb_id a \<notin> set ids) ?t"
    unfolding t' by (rule filter_saveAll_frame) (use new in auto)
  moreover have "filter (\<lambda>a. alb_id a \<notin> set ids) ?t = filter (\<lambda>a. a \<notin> set ?old) ?t"
  proof (rule filter_cong [OF refl])
    fix a
    assume a: "a \<in> set ?t"
    have "alb_id a \<in> alb_id ` set ?old \<longleftrightarrow> a \<in> set ?old"
      using key a by (intro inj_on_image_mem_iff [of _ "set ?t"]) (auto simp: distinct_map albumsOf_def)
    then show "(alb_id a \<notin> set ids) = (a \<notin> set ?old)" using same by simp
  qed
  ultimately show ?thesis using order by (simp add: albumsOfActivity_all)
qed

definition twoAlbums :: gallery_world where
  "twoAlbums = galleryWith [] [demoAlbum, demoAlbum\<lparr>alb_id := ''trip'', alb_rank := 1\<rparr>,
     demoAlbum\<lparr>alb_id := ''other'', alb_activityId := None\<rparr>]"

lemma rankAlbums_order_witness:
  "\<exists>albums w'. rankAlbums demoGallery ''act'' [''trip'', ''camp''] twoAlbums = (Inr albums, w')
     \<and> map alb_id albums = [''trip'', ''camp'']
     \<and> albumsOfActivity 0 ''act'' True (galleryAlbums (gdb w')) = albums"
proof -
  have "\<exists>albums. fst (rankAlbums demoGallery ''act'' [''trip'', ''camp''] twoAlbums) = Inr albums"
    by (simp add: rankAlbums_def transaction_def action_simps zoom_def andThen_def Let_def demoGallery_def)
  then obtain albums w' where run: "rankAlbums demoGallery ''act'' [''trip'', ''camp''] twoAlbums = (Inr albums, w')"
    by (metis prod.collapse)
  have "distinct (map alb_id (galleryAlbums (gdb twoAlbums)))"
    by (simp add: twoAlbums_def galleryWith_def demoAlbum_def)
  moreover have "set [''trip'', ''camp''] = alb_id ` set (albumsOf ''act'' twoAlbums)"
    by (simp add: twoAlbums_def galleryWith_def demoAlbum_def albumsOf_def insert_commute)
  ultimately show ?thesis using rankAlbums_order [OF _ _ _ run, of 0] run by simp
qed

section \<open>Upload tasks\<close>

lemma findUploadTaskInfo_upsert_None:
  "findUploadTaskInfo j (snd (upsertUploadTaskInfo None entity w)) = findUploadTaskInfo j w"
  by (simp add: upsertUploadTaskInfo_def findUploadTaskInfo_def action_simps findOneBy_saveRow_other)

lemma upsertUploadTaskInfo_run:
  "upsertUploadTaskInfo i entity w = (Inr (), snd (upsertUploadTaskInfo i entity w))"
  by (simp add: upsertUploadTaskInfo_def action_simps)

lemma upsertUploadTaskInfo_db [simp]: "gdb (snd (upsertUploadTaskInfo i entity w)) = gdb w"
  by (simp add: upsertUploadTaskInfo_def action_simps)

lemma updateAlbum_missing: "findAlbum i w = None \<Longrightarrow> updateAlbum env i dto w \<noteq> (Inr True, w')"
  unfolding updateAlbum_def transaction_Inr by (simp add: action_simps)

lemma updateAlbum_found:
  assumes "findAlbum i w = Some a" and "updateAlbum env i dto w = (Inr b, w')"
  shows "w' = snd (upsertUploadTaskInfo None (albumDto_toEntity dto [] None 0)
    (w\<lparr>gdb := (gdb w)\<lparr>galleryAlbums := saveRow alb_id (mergeAlbum dto a) (galleryAlbums (gdb w))\<rparr>\<rparr>))"
  using assms unfolding updateAlbum_def transaction_Inr
  by (cases "isUploadable (albumDto_toEntity dto [] None 0)")
     (simp_all add: action_simps zoom_def andThen_def upsertUploadTaskInfo_def)

text \<open>
  A successful update of an album changes its row as the request asks, but the upload task of no album,
  neither the directory nor the rules: the task is written for an entity without an id. When the request
  describes an album that takes uploads, its directory and rules end up in a task of no album.
\<close>

lemma updateAlbum_tasks:
  assumes "distinct (map alb_id (galleryAlbums (gdb w)))"
    and "updateAlbum env i dto w = (Inr True, w')"
  shows "(\<exists>a. findAlbum i w = Some a \<and> findAlbum i w' = Some (mergeAlbum dto a))
    \<and> (\<forall>j. findUploadTaskInfo j w' = findUploadTaskInfo j w)
    \<and> (isUploadable (albumDto_toEntity dto [] None 0) \<longrightarrow>
         (\<exists>task \<in> set (uploadTasks w'). task_album task = None
            \<and> task_src_directory task = fieldOption (ad_uploadDirectory dto)))"
proof -
  let ?entity = "albumDto_toEntity dto [] None 0"
  obtain a where a: "findAlbum i w = Some a" using assms(2) updateAlbum_missing by (cases "findAlbum i w") blast+
  let ?v = "w\<lparr>gdb := (gdb w)\<lparr>galleryAlbums := saveRow alb_id (mergeAlbum dto a) (galleryAlbums (gdb w))\<rparr>\<rparr>"
  have w': "w' = snd (upsertUploadTaskInfo None ?entity ?v)" by (rule updateAlbum_found [OF a assms(2)])
  have "alb_id (mergeAlbum dto a) = i" "alb_deletedAt (mergeAlbum dto a) = None"
    using a by (auto simp: findAlbum_def mergeAlbum_def dest: findOneBy_SomeD)
  then have "findAlbum i w' = Some (mergeAlbum dto a)"
    unfolding w' findAlbum_def 
    using findOneBy_saveRow [OF assms(1), of "\<lambda>a. alb_id a = i \<and> alb_deletedAt a = None" "mergeAlbum dto a"] by simp
  moreover have "findUploadTaskInfo j w' = findUploadTaskInfo j w" for j
    unfolding w' findUploadTaskInfo_upsert_None by (simp add: findUploadTaskInfo_def)
  moreover have "\<exists>task \<in> set (uploadTasks w'). task_album task = None
      \<and> task_src_directory task = fieldOption (ad_uploadDirectory dto)" if "isUploadable ?entity"
    using that unfolding w'
    by (auto simp: upsertUploadTaskInfo_def action_simps set_saveRow albumDto_toEntity_def)
  ultimately show ?thesis using a by blast
qed

definition campDto :: album_dto where
  "campDto = \<lparr>ad_title = ''Camp 2024'', ad_cover = Absent, ad_published = True, ad_publishedAt = Absent,
     ad_uploadDirectory = Given ''/2024/new'', ad_watermarkPreset = Absent, ad_takenAfter = Given 5000,
     ad_takenBefore = Given 9000\<rparr>"

lemma updateAlbum_tasks_witness:
  "\<exists>w'. updateAlbum demoGallery ''camp'' campDto twoAlbums = (Inr True, w')
     \<and> map_option alb_uploadDirectory (findAlbum ''camp'' w') = Some (Some ''/2024/new'')
     \<and> findUploadTaskInfo ''camp'' w' = None
     \<and> (\<exists>task \<in> set (uploadTasks w'). task_album task = None)"
proof -
  have "fst (updateAlbum demoGallery ''camp'' campDto twoAlbums) = Inr True" by code_simp
  then obtain w' where run: "updateAlbum demoGallery ''camp'' campDto twoAlbums = (Inr True, w')"
    by (metis prod.collapse)
  have "distinct (map alb_id (galleryAlbums (gdb twoAlbums)))"
    by (simp add: twoAlbums_def galleryWith_def demoAlbum_def)
  note spec = updateAlbum_tasks [OF this run]
  have "isUploadable (albumDto_toEntity campDto [] None 0)" by code_simp
  moreover have "findUploadTaskInfo ''camp'' twoAlbums = None" by code_simp
  ultimately show ?thesis using spec run by (auto simp: mergeAlbum_def campDto_def)
qed

section \<open>Searching\<close>

text \<open>
  A search whose keywords match the title of no album filters nothing: it returns the same
  activities as no search at all.
\<close>

lemma search_without_album_match:
  assumes "findFromAlbumTitle (searchKeywords search) w = []"
  shows "findActivities env localDate limit before year search all w
       = findActivities env localDate limit before year None all w"
proof -
  have absorb: "(x \<and> b \<or> y \<and> b \<or> (([] :: string list) = [] \<or> z) \<and> b) = b" for x y z b by blast
  have none: "searchKeywords None = []" by (simp add: searchKeywords_def)
  show ?thesis unfolding findActivities_def Let_def assms absorb none if_cancel by simp
qed

definition campActivity :: gallery_activity where
  "campActivity = \<lparr>act_id = ''act'', act_title = ''Camp'', act_description = None, act_cover = None, act_time = 100,
     act_published = True, act_publishedAt = Some 0, act_tags = [], act_deletedAt = None\<rparr>"

definition activityWorld :: gallery_world where
  "activityWorld = twoAlbums\<lparr>gdb := (gdb twoAlbums)\<lparr>galleryActivities := [campActivity]\<rparr>\<rparr>"

definition noonZone :: "int \<Rightarrow> nat \<Rightarrow> nat \<Rightarrow> time" where
  "noonZone y m d = y * 31536000000 + int m * 2592000000 + int d * 86400000"

lemma search_without_album_match_witness:
  "map act_id (findActivities demoGallery noonZone 10 None None (Some ''xylophone'') False activityWorld) = [''act'']"
proof -
  have "findFromAlbumTitle (searchKeywords (Some ''xylophone'')) activityWorld = []" by code_simp
  then have "findActivities demoGallery noonZone 10 None None (Some ''xylophone'') False activityWorld
      = findActivities demoGallery noonZone 10 None None None False activityWorld"
    by (rule search_without_album_match)
  also have "map act_id \<dots> = [''act'']" by code_simp
  finally show ?thesis .
qed

text \<open>
  A visitor who does not ask for unpublished activities gets only activities that are not deleted, are
  published with a publication instant in the past, and lie strictly between the first of May of the academic year and
  the first of May after it, latest first and never more than the limit. An activity at the first instant
  of an academic year is therefore found in no year.
\<close>

lemma findActivities_sound:
  assumes "a \<in> set (findActivities env localDate limit before (Some year) search False w)" and "year \<noteq> 0" and "year \<noteq> -1"
  shows "a \<in> set (galleryActivities (gdb w)) \<and> act_deletedAt a = None
    \<and> isPublic (ge_now env) (act_published a) (act_publishedAt a)
    \<and> localDate year 4 1 < act_time a \<and> act_time a < localDate (year + 1) 4 1
    \<and> (\<forall>t. before = Some t \<longrightarrow> act_time a < t)
    \<and> sorted_wrt (\<lambda>x y. act_time y \<le> act_time x) (findActivities env localDate limit before (Some year) search False w)
    \<and> (limit \<noteq> 0 \<longrightarrow> length (findActivities env localDate limit before (Some year) search False w) \<le> limit)"
proof -
  let ?found = "findActivities env localDate limit before (Some year) search False w"
  have base: "a \<in> set (galleryActivities (gdb w)) \<and> act_deletedAt a = None
      \<and> isPublic (ge_now env) (act_published a) (act_publishedAt a)
      \<and> timeQuery (Some (localDate year 4 1)) (selectEailerDate before (Some (localDate (year + 1) 4 1))) (act_time a)"
    using assms
    by (auto simp: findActivities_def academicYearStartDate_def academicYearEndDate_def Let_def
        split: if_splits dest!: in_set_takeD)
  have sorted: "sorted_wrt (\<lambda>x y. act_time y \<le> act_time x) (sort_key (\<lambda>a. - act_time a) as)" for as
  proof -
    have "sorted (map (\<lambda>a. - act_time a) (sort_key (\<lambda>a. - act_time a) as))" by (rule sorted_sort_key)
    then show ?thesis by (simp add: sorted_wrt_map)
  qed
  then have "sorted_wrt (\<lambda>x y. act_time y \<le> act_time x) ?found"
    unfolding findActivities_def Let_def by (auto intro: sorted_wrt_take)
  moreover have "limit \<noteq> 0 \<longrightarrow> length ?found \<le> limit" unfolding findActivities_def Let_def by auto
  ultimately show ?thesis
    using base by (auto simp: timeQuery_def selectEailerDate_def split: option.splits if_splits)
qed

lemma findActivities_sound_witness:
  "\<exists>a. a \<in> set (findActivities demoGallery (\<lambda>y m d. (y - 2020) * 60) 10 None (Some 2021) None False activityWorld)
     \<and> act_time a < 120 \<and> isPublic 10 (act_published a) (act_publishedAt a)"
proof -
  let ?zone = "\<lambda>(y :: int) (m :: nat) (d :: nat). (y - 2020) * 60 :: int"
  have "findActivities demoGallery ?zone 10 None (Some 2021) None False activityWorld = [campActivity]" by code_simp
  then have "campActivity \<in> set (findActivities demoGallery ?zone 10 None (Some 2021) None False activityWorld)" by simp
  moreover from findActivities_sound [OF this]
  have "act_time campActivity < 120 \<and> isPublic 10 (act_published campActivity) (act_publishedAt campActivity)"
    by (simp add: demoGallery_def)
  ultimately show ?thesis by blast
qed

end
