(* ===== verification/Account_Data.thy ===== *)
theory Account_Data
  imports Gallery_Data Request_Auth
begin

text \<open>
  The accounts: the entities of \<open>entities/accounts\<close> and the documents of \<open>models/accounts\<close>, one record
  each, the world their services work on, and what a request takes from outside. The world keeps, beside
  the tables, what was done to the response (its cookies) and the access tokens that were signed.
\<close>

section \<open>Tables\<close>

record refresh_token =
  rt_id :: uuid
  rt_profileId :: uuid
  rt_expiresAt :: time
  rt_nextToken :: "uuid option"
  rt_isMfaEnabled :: bool
  rt_createdAt :: time

record local_user =
  lu_id :: int
  lu_profileId :: uuid
  lu_username :: string
  lu_password :: string
  lu_passwordLastSet :: time
  lu_disabled :: bool

record profile_discord =
  dc_id :: string
  dc_profileId :: uuid
  dc_rank :: int
  dc_avatar :: "string option"
  dc_mfaEnabled :: bool

record profile_gitlab =
  gl_id :: int
  gl_profileId :: uuid
  gl_mfaEnabled :: bool

text \<open>The document of a profile has, beside what other components read, the ids of its external accounts.\<close>

record account_profile = profile +
  pr_google_ids :: "string list option"
  pr_gitlab_ids :: "string list option"

record group_doc =
  gd_id :: int
  gd_name :: string

record user_group =
  ug_profile :: object_id
  ug_group :: int

text \<open>What is known of somebody who is about to register.\<close>

record partial_profile =
  pp_emails :: "string list option"
  pp_google_ids :: "string list option"
  pp_discord_ids :: "string list option"
  pp_gitlab_ids :: "string list option"

record registration_token =
  rg_id :: uuid
  rg_profile :: "partial_profile option"
  rg_expires_at :: time
  rg_sign_in :: bool

record accounts_db =
  refreshTokens :: "refresh_token list"
  localUsers :: "local_user list"
  discordProfiles :: "profile_discord list"
  gitlabProfiles :: "profile_gitlab list"
  profiles :: "account_profile list"
  profileNames :: "profile_name list"
  groupDocs :: "group_doc list"
  groupCounter :: int \<comment> \<open>the last id the auto increment plugin gave\<close>
  userGroups :: "user_group list"
  registrations :: "registration_token list"

section \<open>The world and the environment\<close>

datatype cookie_call =
    SetCookie string string "time option" bool \<comment> \<open>name, value, expires, httpOnly\<close>
  | ClearCookie string

record access_claims =
  cl_profileId :: string
  cl_groups :: "string list"
  cl_name :: string
  cl_photo :: string

record accounts_world =
  adb :: accounts_db
  cookieCalls :: "cookie_call list"
  signedTokens :: "(object_id \<times> access_claims) list" \<comment> \<open>the profile a token was made for, and its content\<close>

text \<open>The users the external providers answer with, as far as the code reads them.\<close>

record discord_user =
  du_id :: string
  du_email :: "string option"
  du_avatar :: "string option"
  du_mfa_enabled :: "bool option"

record google_user =
  gu_id :: "string option"
  gu_email :: "string option"

record gitlab_user =
  glu_id :: int
  glu_email :: string
  glu_two_factor_enabled :: bool

text \<open>
  What a request takes from outside: the identifier library; the clocks of the server and of the database;
  the identifiers it generates; the signing and verification of access tokens (the package
  \<open>@nudchannel/auth\<close>); the password hash (argon2); the three OAuth2 clients, each with an exchange of the
  code for credentials and a request for the user; and the configuration.
\<close>

record accounts_env =
  ae_lib :: id_lib
  ae_now :: time
  ae_dbNow :: time
  ae_newToken :: uuid
  ae_newRegistration :: uuid
  ae_newProfile :: object_id
  ae_newUserId :: int
  ae_sign :: "access_claims \<Rightarrow> string"
  ae_verify :: "string \<Rightarrow> request_user outcome"
  ae_verifyHeaders :: "(string \<times> string) list \<Rightarrow> request_user outcome"
  ae_isSignedIn :: "request_user \<Rightarrow> bool"
  ae_guest :: request_user
  ae_hash :: "string \<Rightarrow> string"
  ae_verifyHash :: "string \<Rightarrow> string \<Rightarrow> bool outcome"
  ae_mfaRequired :: bool
  ae_secure :: bool
  ae_photoBaseUrl :: string
  ae_castEmail :: "string \<Rightarrow> string" \<comment> \<open>the setters of the schema's field \<open>emails\<close>\<close>
  ae_googleExchange :: "string \<Rightarrow> string \<Rightarrow> string outcome"
  ae_googleUser :: "string \<Rightarrow> google_user outcome"
  ae_discordExchange :: "string \<Rightarrow> string \<Rightarrow> string outcome"
  ae_discordUser :: "string \<Rightarrow> discord_user outcome"
  ae_gitlabExchange :: "string \<Rightarrow> string \<Rightarrow> string outcome"
  ae_gitlabUser :: "string \<Rightarrow> gitlab_user outcome"

abbreviation onAccountsDb :: "(accounts_db, 'a) action \<Rightarrow> (accounts_world, 'a) action" where
  "onAccountsDb \<equiv> zoom adb (\<lambda>db w. w\<lparr>adb := db\<rparr>)"

abbreviation onRefreshTokens :: "(refresh_token list, 'a) action \<Rightarrow> (accounts_world, 'a) action" where
  "onRefreshTokens \<equiv> \<lambda>m. onAccountsDb (zoom refreshTokens (\<lambda>t db. db\<lparr>refreshTokens := t\<rparr>) m)"

abbreviation onLocalUsers :: "(local_user list, 'a) action \<Rightarrow> (accounts_world, 'a) action" where
  "onLocalUsers \<equiv> \<lambda>m. onAccountsDb (zoom localUsers (\<lambda>t db. db\<lparr>localUsers := t\<rparr>) m)"

definition setCookies :: "cookie_call list \<Rightarrow> (accounts_world, unit) action" where
  "setCookies cs = modify (\<lambda>w. w\<lparr>cookieCalls := cookieCalls w @ cs\<rparr>)"

section \<open>UUIDs of profiles\<close>

text \<open>The UUID columns hold the UUIDs of ObjectIds; whatever was converted comes back the same.\<close>

definition profileUid :: "id_lib \<Rightarrow> object_id \<Rightarrow> uuid" where
  "profileUid L p = the (toUuid L (Some (OidObject p)))"

definition isProfileUid :: "id_lib \<Rightarrow> uuid \<Rightarrow> bool" where
  "isProfileUid L u \<longleftrightarrow> (\<exists>a. u = the (toUuid L (Some a)))"

lemma length_setBytes: "off + length src \<le> length a \<Longrightarrow> length (setBytes a src off) = length a"
  by (simp add: setBytes_def)

lemma nth_setBytes:
  assumes "off + length src \<le> length a" and "i < length a"
  shows "setBytes a src off ! i = (if off \<le> i \<and> i < off + length src then src ! (i - off) else a ! i)"
  using assms by (auto simp: setBytes_def nth_append)

lemma length_slice_le: "length (slice i j xs) \<le> j - i"
  by (simp add: slice_def)

lemma paddedBytes_ok:
  "length (paddedBytes b) = 16" "paddedBytes b ! 6 = 0x80" "paddedBytes b ! 8 = 0x80"
  "paddedBytes b ! 7 = 0" "paddedBytes b ! 15 = 0"
proof -
  let ?z = "replicate 16 (0 :: byte)"
  have a: "length (slice 0 6 b) \<le> 6" "length (slice 6 12 b) \<le> 6"
    using length_slice_le [of 0 6 b] length_slice_le [of 6 12 b] by simp_all
  have l1: "length (setBytes ?z (slice 0 6 b) 0) = 16" using a by (subst length_setBytes) simp_all
  have l2: "length (setBytes (setBytes ?z (slice 0 6 b) 0) [0x80, 0, 0x80] 6) = 16"
    using l1 by (subst length_setBytes) simp_all
  show "length (paddedBytes b) = 16"
    unfolding paddedBytes_def using l2 a by (subst length_setBytes) simp_all
  show "paddedBytes b ! 6 = 0x80" "paddedBytes b ! 8 = 0x80" "paddedBytes b ! 7 = 0" "paddedBytes b ! 15 = 0"
    unfolding paddedBytes_def using a l1 l2 by (simp_all add: nth_setBytes)
qed

lemma toObjectIdBytes_any:
  assumes "id_lib_ok L"
  shows "length (toObjectIdBytes L (uuidStringify L (paddedBytes b))) = 12"
    and "paddedBytes (toObjectIdBytes L (uuidStringify L (paddedBytes b))) = paddedBytes b"
proof -
  let ?P = "paddedBytes b"
  have parsed: "uuidParse L (uuidStringify L ?P) = ?P"
    by (rule id_lib_okD(2) [OF assms paddedBytes_ok(1-3)])
  obtain x0 x1 x2 x3 x4 x5 x6 x7 x8 x9 x10 x11 x12 x13 x14 x15
    where P: "?P = [x0, x1, x2, x3, x4, x5, x6, x7, x8, x9, x10, x11, x12, x13, x14, x15]"
    using paddedBytes_ok(1) [of b] by (auto simp: length_Suc_conv numeral_eq_Suc)
  have oid: "toObjectIdBytes L (uuidStringify L ?P) = [x0, x1, x2, x3, x4, x5, x9, x10, x11, x12, x13, x14]"
    by (simp add: toObjectIdBytes_def parsed [unfolded P] P Let_def setBytes_def slice_def numeral_eq_Suc)
  have fixed: "x6 = 0x80" "x7 = 0" "x8 = 0x80" "x15 = 0"
    using paddedBytes_ok(2-5) [of b] by (simp_all add: P)
  show "length (toObjectIdBytes L (uuidStringify L ?P)) = 12" by (simp add: oid)
  show "paddedBytes (toObjectIdBytes L (uuidStringify L ?P)) = ?P"
    unfolding oid unfolding P paddedBytes_12 by (simp add: fixed)
qed

lemma profileUid_toObjectId:
  assumes "id_lib_ok L" and "isProfileUid L u"
  shows "profileUid L (toObjectId L u) = u" and "length (toObjectId L u) = 12"
proof -
  obtain a where u: "u = uuidStringify L (paddedBytes (oidBytes a))"
    using assms(2) by (auto simp: isProfileUid_def toUuid_def)
  have "length u = 36" unfolding u by (rule id_lib_okD(1) [OF assms(1) paddedBytes_ok(1-3)])
  then have oid: "toObjectId L u = toObjectIdBytes L u" by (simp add: toObjectId_def not_isObjectIdString_36)
  note trip = toObjectIdBytes_any [OF assms(1), of "oidBytes a", folded u]
  have "profileUid L (toObjectId L u) = uuidStringify L (paddedBytes (toObjectIdBytes L u))"
    by (simp add: oid profileUid_def toUuid_def oidBytes_def)
  also have "\<dots> = uuidStringify L (paddedBytes (oidBytes a))" by (simp only: trip(2))
  finally show "profileUid L (toObjectId L u) = u" by (simp only: u [symmetric])
  show "length (toObjectId L u) = 12" using trip(1) by (simp only: oid)
qed

lemma profileUid_inject:
  assumes "id_lib_ok L" and "length p = 12" and "length q = 12"
  shows "profileUid L p = profileUid L q \<longleftrightarrow> p = q"
  using toObjectIdBytes_toUuid [OF assms(1)] assms(2,3) by (simp add: profileUid_def toUuid_def oidBytes_def) metis

lemma isProfileUid_profileUid [simp]: "isProfileUid L (profileUid L p)"
  by (auto simp: isProfileUid_def profileUid_def)

end
