(* ===== verification/Account_Group.thy ===== *)
theory Account_Group
  imports Account_Data
begin

text \<open>
  The groups of a profile: \<open>accounts/group/group.service.ts\<close> and \<open>accounts/user/user-group.service.ts\<close>.
  Calls that run in \<open>Promise.all\<close> send their queries before the first answer: all look-ups of a batch of
  creations see the groups as they were.
\<close>

section \<open>GroupService\<close>

definition getGroupsNames :: "int list \<Rightarrow> accounts_db \<Rightarrow> string list" where
  "getGroupsNames ids db = distinctInOrder (map gd_name (findBy (\<lambda>g. gd_id g \<in> set ids) (groupDocs db)))"

definition getGroupsIds :: "string list \<Rightarrow> accounts_db \<Rightarrow> int list" where
  "getGroupsIds names db = distinctInOrder (map gd_id (findBy (\<lambda>g. gd_name g \<in> set names) (groupDocs db)))"

definition group_findById :: "int \<Rightarrow> accounts_db \<Rightarrow> group_doc option" where
  "group_findById i db = findOneBy (\<lambda>g. gd_id g = i) (groupDocs db)"

definition group_findByName :: "string \<Rightarrow> accounts_db \<Rightarrow> group_doc option" where
  "group_findByName name db = findOneBy (\<lambda>g. gd_name g = name) (groupDocs db)"

text \<open>The plugin counts up on every attempt; the name is unique.\<close>

definition insertGroup :: "accounts_db \<Rightarrow> string \<Rightarrow> accounts_db" where
  "insertGroup db name =
     (let i = groupCounter db + 1 in
      db\<lparr>groupCounter := i,
         groupDocs := (if name \<in> gd_name ` set (groupDocs db) then groupDocs db
                       else groupDocs db @ [\<lparr>gd_id = i, gd_name = name\<rparr>])\<rparr>)"

definition duplicateKey :: http_error where
  "duplicateKey = JsError ''E11000 duplicate key error''"

definition group_create :: "string \<Rightarrow> (accounts_db, group_doc) action" where
  "group_create name =
     andThen (gets (group_findByName name)) (\<lambda>existing.
     case existing of
       Some g \<Rightarrow> ret g
     | None \<Rightarrow>
         andThen (modify (\<lambda>db. insertGroup db name)) (\<lambda>_.
         gets (\<lambda>db. the (group_findByName name db))))"

definition createGroups :: "string list \<Rightarrow> (accounts_db, unit) action" where
  "createGroups names =
     andThen (gets (\<lambda>db. filter (\<lambda>n. group_findByName n db = None) names)) (\<lambda>missing.
     andThen (modify (\<lambda>db. foldl insertGroup db missing)) (\<lambda>_.
     throwIf (\<not> distinct missing) duplicateKey))"

section \<open>UserGroupService\<close>

definition getAllGroups :: "accounts_db \<Rightarrow> string list" where
  "getAllGroups db = getGroupsNames (distinctInOrder (map ug_group (userGroups db))) db"

definition getProfileGroups :: "object_id \<Rightarrow> accounts_db \<Rightarrow> string list" where
  "getProfileGroups profileId db =
     getGroupsNames (distinctInOrder (map ug_group (findBy (\<lambda>u. ug_profile u = profileId) (userGroups db)))) db"

definition addGroups :: "object_id \<Rightarrow> int list \<Rightarrow> (accounts_db, unit) action" where
  "addGroups profileId gs =
     modify (\<lambda>db. db\<lparr>userGroups := userGroups db @ map (\<lambda>g. \<lparr>ug_profile = profileId, ug_group = g\<rparr>) gs\<rparr>)"

definition removeGroups :: "object_id \<Rightarrow> int list \<Rightarrow> (accounts_db, unit) action" where
  "removeGroups profileId gs =
     modify (\<lambda>db. db\<lparr>userGroups := deleteBy (\<lambda>u. ug_profile u = profileId \<and> ug_group u \<in> set gs) (userGroups db)\<rparr>)"

definition updateProfileGroups :: "object_id \<Rightarrow> string list \<Rightarrow> (accounts_db, string list) action" where
  "updateProfileGroups profileId groups =
     andThen (gets (getProfileGroups profileId)) (\<lambda>currentGroups.
     let toRemoveNames = filter (\<lambda>g. g \<notin> set groups) currentGroups;
         toAddNames = filter (\<lambda>g. g \<notin> set currentGroups) groups in
     andThen (createGroups toAddNames) (\<lambda>_.
     andThen (gets (getGroupsIds toRemoveNames)) (\<lambda>toRemoveIds.
     andThen (gets (getGroupsIds toAddNames)) (\<lambda>toAddIds.
     andThen (removeGroups profileId toRemoveIds) (\<lambda>_.
     andThen (addGroups profileId toAddIds) (\<lambda>_.
     ret groups))))))"

section \<open>Facts\<close>

text \<open>What the indexes keep: one document for an id and for a name, and no id above the counter.\<close>

definition groupsOk :: "accounts_db \<Rightarrow> bool" where
  "groupsOk db \<longleftrightarrow> distinct (map gd_id (groupDocs db)) \<and> distinct (map gd_name (groupDocs db))
     \<and> (\<forall>g \<in> set (groupDocs db). gd_id g \<le> groupCounter db)
     \<and> (\<forall>u \<in> set (userGroups db). ug_group u \<le> groupCounter db)"

text \<open>The abstract view: the names of a profile's groups, as a set.\<close>

definition groupsOf :: "accounts_db \<Rightarrow> object_id \<Rightarrow> string set" where
  "groupsOf db p = gd_name ` {g \<in> set (groupDocs db).
     \<exists>u \<in> set (userGroups db). ug_profile u = p \<and> ug_group u = gd_id g}"

lemma set_getProfileGroups: "set (getProfileGroups p db) = groupsOf db p"
proof -
  have "{g \<in> set (groupDocs db). gd_id g \<in> ug_group ` {u \<in> set (userGroups db). ug_profile u = p}} =
      {g \<in> set (groupDocs db). \<exists>u \<in> set (userGroups db). ug_profile u = p \<and> ug_group u = gd_id g}"
    by (rule Collect_cong) (simp add: image_iff Bex_def, metis)
  then show ?thesis by (simp add: getProfileGroups_def getGroupsNames_def groupsOf_def)
qed

lemma set_getGroupsIds: "set (getGroupsIds names db) = gd_id ` {g \<in> set (groupDocs db). gd_name g \<in> set names}"
  by (auto simp: getGroupsIds_def)

lemma group_findByName_None: "group_findByName n db = None \<longleftrightarrow> n \<notin> gd_name ` set (groupDocs db)"
  by (auto simp: group_findByName_def findOneBy_None)

lemma insertGroup_new:
  assumes "groupsOk db" and "n \<notin> gd_name ` set (groupDocs db)"
  shows "groupsOk (insertGroup db n)"
    and "set (groupDocs (insertGroup db n)) = insert \<lparr>gd_id = groupCounter db + 1, gd_name = n\<rparr> (set (groupDocs db))"
  using assms by (auto simp: insertGroup_def groupsOk_def Let_def)

lemma insertGroup_userGroups [simp]: "userGroups (insertGroup db n) = userGroups db"
  by (simp add: insertGroup_def Let_def)

lemma userGroups_foldl [simp]: "userGroups (foldl insertGroup db ns) = userGroups db"
  by (induction ns arbitrary: db) simp_all

text \<open>Creating groups that are missing adds one document for each, with an id nobody uses.\<close>

lemma foldl_insertGroup:
  assumes "groupsOk db" and "distinct ns" and "\<forall>n \<in> set ns. n \<notin> gd_name ` set (groupDocs db)"
  shows "groupsOk (foldl insertGroup db ns)
    \<and> set (groupDocs db) \<subseteq> set (groupDocs (foldl insertGroup db ns))
    \<and> gd_name ` set (groupDocs (foldl insertGroup db ns)) = gd_name ` set (groupDocs db) \<union> set ns
    \<and> (\<forall>g \<in> set (groupDocs (foldl insertGroup db ns)) - set (groupDocs db). gd_name g \<in> set ns \<and> groupCounter db < gd_id g)"
  using assms
proof (induction ns arbitrary: db)
  case Nil
  then show ?case by simp
next
  case (Cons n ns)
  have new: "n \<notin> gd_name ` set (groupDocs db)" using Cons.prems by simp
  note step = insertGroup_new [OF Cons.prems(1) new]
  have rest: "\<forall>m \<in> set ns. m \<notin> gd_name ` set (groupDocs (insertGroup db n))"
    using Cons.prems by (auto simp: step(2))
  have counter: "groupCounter (insertGroup db n) = groupCounter db + 1" by (simp add: insertGroup_def Let_def)
  let ?new = "\<lparr>gd_id = groupCounter db + 1, gd_name = n\<rparr>"
  let ?final = "foldl insertGroup (insertGroup db n) ns"
  have IH: "groupsOk ?final" "set (groupDocs (insertGroup db n)) \<subseteq> set (groupDocs ?final)"
    "gd_name ` set (groupDocs ?final) = gd_name ` set (groupDocs (insertGroup db n)) \<union> set ns"
    "\<forall>g \<in> set (groupDocs ?final) - set (groupDocs (insertGroup db n)).
       gd_name g \<in> set ns \<and> groupCounter (insertGroup db n) < gd_id g"
    using Cons.IH [OF step(1) _ rest] Cons.prems(2) by simp_all
  have "gd_name g \<in> set (n # ns) \<and> groupCounter db < gd_id g"
    if g: "g \<in> set (groupDocs ?final)" "g \<notin> set (groupDocs db)" for g
  proof (cases "g = ?new")
    case False
    with g IH(4) have "gd_name g \<in> set ns \<and> groupCounter db + 1 < gd_id g"
      unfolding step(2) counter by blast
    then show ?thesis by simp
  qed simp
  moreover have "gd_name ` set (groupDocs ?final) = gd_name ` set (groupDocs db) \<union> set (n # ns)"
    unfolding IH(3) step(2) by auto
  moreover have "set (groupDocs db) \<subseteq> set (groupDocs ?final)" using IH(2) unfolding step(2) by blast
  ultimately show ?case using IH(1) by simp
qed

lemma createGroups_run:
  assumes "groupsOk db" and "distinct names"
  obtains db' where "createGroups names db = (Inr (), db')" and "groupsOk db'"
    and "userGroups db' = userGroups db"
    and "set (groupDocs db) \<subseteq> set (groupDocs db')"
    and "gd_name ` set (groupDocs db') = gd_name ` set (groupDocs db) \<union> set names"
    and "\<And>g. g \<in> set (groupDocs db') \<Longrightarrow> g \<notin> set (groupDocs db) \<Longrightarrow> groupCounter db < gd_id g"
proof -
  let ?missing = "filter (\<lambda>n. group_findByName n db = None) names"
  have new: "\<forall>n \<in> set ?missing. n \<notin> gd_name ` set (groupDocs db)" by (simp add: group_findByName_None)
  have all: "gd_name ` set (groupDocs db) \<union> set ?missing = gd_name ` set (groupDocs db) \<union> set names"
    by (auto simp: group_findByName_None)
  have "createGroups names db = (Inr (), foldl insertGroup db ?missing)"
    using assms(2) by (simp add: createGroups_def action_simps)
  with that show thesis
    using foldl_insertGroup [OF assms(1) _ new] assms(2) all by auto
qed

lemma gd_id_in_getGroupsIds:
  assumes "groupsOk db" and "g \<in> set (groupDocs db)"
  shows "gd_id g \<in> set (getGroupsIds names db) \<longleftrightarrow> gd_name g \<in> set names"
  using assms by (auto simp: set_getGroupsIds groupsOk_def distinct_map dest: inj_onD)

text \<open>What the update does once the missing groups exist: \<open>db'\<close> is the state after that.\<close>

lemma groupsOf_updated:
  assumes ok: "groupsOk db" and ok': "groupsOk db'" and same: "userGroups db' = userGroups db"
    and grow: "set (groupDocs db) \<subseteq> set (groupDocs db')"
    and fresh: "\<And>g. g \<in> set (groupDocs db') \<Longrightarrow> g \<notin> set (groupDocs db) \<Longrightarrow> groupCounter db < gd_id g"
  shows "groupsOf (db'\<lparr>userGroups := deleteBy (\<lambda>u. ug_profile u = p \<and> ug_group u \<in> set (getGroupsIds rs db')) (userGroups db')
      @ map (\<lambda>g. \<lparr>ug_profile = p, ug_group = g\<rparr>) (getGroupsIds as db')\<rparr>) q =
    (if q = p then (groupsOf db p - set rs) \<union> (set as \<inter> gd_name ` set (groupDocs db')) else groupsOf db q)"
proof -
  have linked: "g \<in> set (groupDocs db)"
    if "g \<in> set (groupDocs db')" "u \<in> set (userGroups db)" "ug_group u = gd_id g" for g u
  proof (rule ccontr)
    assume "g \<notin> set (groupDocs db)"
    from fresh [OF that(1) this] have "groupCounter db < gd_id g" .
    moreover have "ug_group u \<le> groupCounter db" using ok that(2) by (simp add: groupsOk_def)
    ultimately show False using that(3) by simp
  qed
  note ids = gd_id_in_getGroupsIds [OF ok']
  show ?thesis
  proof (cases "q = p")
    case False
    then show ?thesis using linked grow by (auto simp: groupsOf_def same image_iff)
  next
    case True
    let ?R = "set (getGroupsIds rs db')" and ?A = "set (getGroupsIds as db')"
    let ?users = "deleteBy (\<lambda>u. ug_profile u = p \<and> ug_group u \<in> ?R) (userGroups db')
      @ map (\<lambda>g. \<lparr>ug_profile = p, ug_group = g\<rparr>) (getGroupsIds as db')"
    have member: "(\<exists>u \<in> set ?users. ug_profile u = p \<and> ug_group u = i) \<longleftrightarrow>
        (\<exists>u \<in> set (userGroups db). ug_profile u = p \<and> ug_group u = i) \<and> i \<notin> ?R \<or> i \<in> ?A" for i
      by (simp add: same bex_Un) blast
    have "{g \<in> set (groupDocs db'). \<exists>u \<in> set ?users. ug_profile u = p \<and> ug_group u = gd_id g} =
        {g \<in> set (groupDocs db). (\<exists>u \<in> set (userGroups db). ug_profile u = p \<and> ug_group u = gd_id g) \<and> gd_name g \<notin> set rs}
        \<union> {g \<in> set (groupDocs db'). gd_name g \<in> set as}"
    proof (rule set_eqI)
      fix g
      show "g \<in> {g \<in> set (groupDocs db'). \<exists>u \<in> set ?users. ug_profile u = p \<and> ug_group u = gd_id g} \<longleftrightarrow>
        g \<in> {g \<in> set (groupDocs db). (\<exists>u \<in> set (userGroups db). ug_profile u = p \<and> ug_group u = gd_id g) \<and> gd_name g \<notin> set rs}
          \<union> {g \<in> set (groupDocs db'). gd_name g \<in> set as}"
        unfolding mem_Collect_eq Un_iff member using ids [of g] linked [of g] subsetD [OF grow, of g] by blast
    qed
    then show ?thesis using True unfolding groupsOf_def by auto
  qed
qed

text \<open>
  Claim C16: Setting the groups of a profile refines the update of a function from profiles to sets of group
  names: afterwards the profile is in exactly the groups asked for, whether they existed or not, every other
  profile is in the groups it was in, and the indexes hold.
\<close>

theorem updateProfileGroups_refines:
  assumes "groupsOk db" and "distinct groups"
  shows "\<exists>db'. updateProfileGroups p groups db = (Inr groups, db') \<and> groupsOk db'
    \<and> (\<lambda>q. set (getProfileGroups q db')) = (\<lambda>q. set (getProfileGroups q db)) (p := set groups)"
proof -
  let ?current = "getProfileGroups p db"
  let ?remove = "filter (\<lambda>g. g \<notin> set groups) ?current"
  let ?add = "filter (\<lambda>g. g \<notin> set ?current) groups"
  obtain db1 where create: "createGroups ?add db = (Inr (), db1)" and ok1: "groupsOk db1"
    and same: "userGroups db1 = userGroups db" and grow: "set (groupDocs db) \<subseteq> set (groupDocs db1)"
    and names: "gd_name ` set (groupDocs db1) = gd_name ` set (groupDocs db) \<union> set ?add"
    and fresh: "\<And>g. g \<in> set (groupDocs db1) \<Longrightarrow> g \<notin> set (groupDocs db) \<Longrightarrow> groupCounter db < gd_id g"
    using createGroups_run [OF assms(1), of ?add] assms(2) by auto
  let ?db = "db1\<lparr>userGroups := deleteBy (\<lambda>u. ug_profile u = p \<and> ug_group u \<in> set (getGroupsIds ?remove db1)) (userGroups db1)
      @ map (\<lambda>g. \<lparr>ug_profile = p, ug_group = g\<rparr>) (getGroupsIds ?add db1)\<rparr>"
  have run: "updateProfileGroups p groups db = (Inr groups, ?db)"
    unfolding updateProfileGroups_def Let_def
    by (simp add: action_simps andThen_ret [where m = "createGroups ?add", OF create] removeGroups_def addGroups_def)
  have "groupsOk ?db" using ok1 by (auto simp: groupsOk_def set_getGroupsIds)
  moreover have "groupsOf ?db q = (if q = p then set groups else groupsOf db q)" for q
  proof -
    have "set ?add \<subseteq> gd_name ` set (groupDocs db1)" using names by blast
    then have "(groupsOf db p - set ?remove) \<union> (set ?add \<inter> gd_name ` set (groupDocs db1)) = set groups"
      by (auto simp: set_getProfileGroups)
    then show ?thesis
      using groupsOf_updated [OF assms(1) ok1 same grow fresh, of p ?remove ?add q] by simp
  qed
  ultimately show ?thesis using run by (auto simp: set_getProfileGroups fun_eq_iff)
qed

definition demoGroups :: accounts_db where
  "demoGroups = \<lparr>refreshTokens = [], localUsers = [], discordProfiles = [], gitlabProfiles = [], profiles = [],
     profileNames = [], groupDocs = [\<lparr>gd_id = 1, gd_name = ''it''\<rparr>, \<lparr>gd_id = 2, gd_name = ''pr''\<rparr>], groupCounter = 2,
     userGroups = [\<lparr>ug_profile = [7], ug_group = 1\<rparr>, \<lparr>ug_profile = [8], ug_group = 1\<rparr>], registrations = []\<rparr>"

theorem updateProfileGroups_refines_witness:
  "groupsOk demoGroups \<and> (\<exists>db'. updateProfileGroups [7] [''pr'', ''nudch''] demoGroups = (Inr [''pr'', ''nudch''], db')
     \<and> set (getProfileGroups [7] db') = {''pr'', ''nudch''} \<and> set (getProfileGroups [8] db') = {''it''})"
proof -
  have ok: "groupsOk demoGroups" by (simp add: groupsOk_def demoGroups_def)
  have it: "getProfileGroups [8] demoGroups = [''it'']"
    by code_simp
  have d: "distinct [''pr'', ''nudch'']" by simp
  obtain db' where "updateProfileGroups [7] [''pr'', ''nudch''] demoGroups = (Inr [''pr'', ''nudch''], db')"
    and upd: "(\<lambda>q. set (getProfileGroups q db')) = (\<lambda>q. set (getProfileGroups q demoGroups)) ([7] := set [''pr'', ''nudch''])"
    using updateProfileGroups_refines [OF ok d, of "[7]"] by blast
  moreover have "set (getProfileGroups [7] db') = {''pr'', ''nudch''}" "set (getProfileGroups [8] db') = {''it''}"
    using fun_cong [OF upd, of "[7]"] fun_cong [OF upd, of "[8]"] it by simp_all
  ultimately show ?thesis using ok by blast
qed

section \<open>A small installation\<close>

text \<open>Concrete data for the witnesses: tokens are words anybody could forge, and a hash is the password with a mark.\<close>

definition demoUser :: "object_id \<Rightarrow> request_user" where
  "demoUser p = \<lparr>user_id = Some (OidObject p), user_isAuthorized = (\<lambda>_. True), user_isAuthorizedOrThrow = (\<lambda>_. Inr True)\<rparr>"

definition demoGuest :: request_user where
  "demoGuest = \<lparr>user_id = None, user_isAuthorized = (\<lambda>_. False), user_isAuthorizedOrThrow = (\<lambda>_. Inl (Unauthorized []))\<rparr>"

definition demoEnv :: "time \<Rightarrow> uuid \<Rightarrow> accounts_env" where
  "demoEnv t fresh =
     \<lparr>ae_lib = standardLib, ae_now = t, ae_dbNow = t, ae_newToken = fresh, ae_newRegistration = fresh,
      ae_newProfile = replicate 12 9, ae_newUserId = 7,
      ae_sign = (\<lambda>c. ''signed '' @ cl_profileId c),
      ae_verify = (\<lambda>s. if take 7 s = ''signed '' then Inr (demoUser (hexToBytes (drop 7 s))) else Inl (Unauthorized [])),
      ae_verifyHeaders = (\<lambda>_. Inl (Unauthorized [])), ae_isSignedIn = (\<lambda>u. user_id u \<noteq> None), ae_guest = demoGuest,
      ae_hash = (\<lambda>p. CHR ''#'' # p), ae_verifyHash = (\<lambda>h p. Inr (h = CHR ''#'' # p)),
      ae_mfaRequired = False, ae_secure = True, ae_photoBaseUrl = ''https://photos'', ae_castEmail = (\<lambda>e. e),
      ae_googleExchange = (\<lambda>_ _. Inl (JsError [])), ae_googleUser = (\<lambda>_. Inl (JsError [])),
      ae_discordExchange = (\<lambda>_ _. Inl (JsError [])), ae_discordUser = (\<lambda>_. Inl (JsError [])),
      ae_gitlabExchange = (\<lambda>_ _. Inl (JsError [])), ae_gitlabUser = (\<lambda>_. Inl (JsError []))\<rparr>"

definition demoJane :: object_id where "demoJane = [1, 2, 3, 4, 5, 6, 7, 8, 9, 10, 11, 12]"
definition demoJohn :: object_id where "demoJohn = [2, 2, 3, 4, 5, 6, 7, 8, 9, 10, 11, 12]"

definition demoName :: "object_id \<Rightarrow> string \<Rightarrow> string \<Rightarrow> profile_name" where
  "demoName p given surname = \<lparr>pn_profile = Some p, pn_lang = Some En, pn_title = None, pn_firstname = Some given,
     pn_lastname = Some surname, pn_nickname = None\<rparr>"

definition demoToken :: refresh_token where
  "demoToken = \<lparr>rt_id = ''r1'', rt_profileId = profileUid standardLib demoJane, rt_expiresAt = 2592000000,
     rt_nextToken = None, rt_isMfaEnabled = True, rt_createdAt = 0\<rparr>"

definition demoWorld :: "refresh_token list \<Rightarrow> accounts_world" where
  "demoWorld ts = \<lparr>adb = demoGroups\<lparr>refreshTokens := ts,
       localUsers := [\<lparr>lu_id = 1, lu_profileId = profileUid standardLib demoJane, lu_username = ''janed'',
         lu_password = ''#secret'', lu_passwordLastSet = 0, lu_disabled = False\<rparr>],
       profileNames := [demoName demoJane ''Jane'' ''Doe'', demoName demoJohn ''Jane'' ''Dyer''],
       userGroups := [\<lparr>ug_profile = demoJane, ug_group = 1\<rparr>]\<rparr>,
     cookieCalls = [], signedTokens = []\<rparr>"

end
