(* ===== verification/Account_Session.thy ===== *)
theory Account_Session
  imports Account_Group
begin

text \<open>
  Sessions: \<open>accounts/refresh-token/refresh-token.service.ts\<close> with its controller,
  \<open>accounts/access-token/access-token.service.ts\<close>, the cookies (\<open>auth/cookie-token.ts\<close>), the middleware that
  finds the user of a request (\<open>auth/auth.middleware.ts\<close>), signing in a profile (\<open>sign-in.service.ts\<close>) and
  signing out. A request reads one instant from the server's clock; \<open>created_at\<close> is written by the
  database from its own.
\<close>

section \<open>RefreshTokenService\<close>

definition days :: "int \<Rightarrow> time" where "days n = n * 86400000"
definition hours :: "int \<Rightarrow> time" where "hours n = n * 3600000"
definition minutes :: "int \<Rightarrow> time" where "minutes n = n * 60000"
definition seconds :: "int \<Rightarrow> time" where "seconds n = n * 1000"

lemmas duration_defs = days_def hours_def minutes_def seconds_def

definition DEFAULT_REFRESH_TOKEN_DURATION :: time where
  "DEFAULT_REFRESH_TOKEN_DURATION = days 30"

definition SESSION_REFRESH_TOKEN_DURATION :: time where
  "SESSION_REFRESH_TOKEN_DURATION = hours 8"

definition refreshTokenExpires :: "accounts_env \<Rightarrow> bool \<Rightarrow> time" where
  "refreshTokenExpires env sessionToken =
     ae_now env + (if sessionToken then SESSION_REFRESH_TOKEN_DURATION else DEFAULT_REFRESH_TOKEN_DURATION)"

definition createRefreshToken :: "accounts_env \<Rightarrow> uuid \<Rightarrow> bool \<Rightarrow> bool \<Rightarrow> (accounts_world, refresh_token) action" where
  "createRefreshToken env uid sessionToken isMfaEnabled =
     (let refreshToken = \<lparr>rt_id = ae_newToken env, rt_profileId = uid,
            rt_expiresAt = refreshTokenExpires env sessionToken, rt_nextToken = None,
            rt_isMfaEnabled = isMfaEnabled, rt_createdAt = ae_dbNow env\<rparr> in
      andThen (onRefreshTokens (modify (saveRow rt_id refreshToken))) (\<lambda>_. ret refreshToken))"

definition updateRefreshToken :: "accounts_env \<Rightarrow> uuid \<Rightarrow> time \<Rightarrow> uuid \<Rightarrow> (accounts_world, bool) action" where
  "updateRefreshToken env refreshToken expiresAt newToken =
     (let p = (\<lambda>t. rt_id t = refreshToken \<and> ae_now env \<le> rt_expiresAt t) in
      andThen (gets (\<lambda>w. affected p (refreshTokens (adb w)))) (\<lambda>n.
      andThen (onRefreshTokens (modify (updateBy p (\<lambda>t. t\<lparr>rt_expiresAt := expiresAt, rt_nextToken := Some newToken\<rparr>)))) (\<lambda>_.
      ret (0 < n))))"

definition removeRefreshToken :: "uuid \<Rightarrow> (accounts_world, bool) action" where
  "removeRefreshToken refreshToken =
     (let p = (\<lambda>t. rt_id t = refreshToken) in
      andThen (gets (\<lambda>w. affected p (refreshTokens (adb w)))) (\<lambda>n.
      andThen (onRefreshTokens (modify (deleteBy p))) (\<lambda>_.
      ret (0 < n))))"

definition findRefreshToken :: "accounts_env \<Rightarrow> uuid \<Rightarrow> accounts_world \<Rightarrow> refresh_token option" where
  "findRefreshToken env refreshToken w =
     findOneBy (\<lambda>t. rt_id t = refreshToken \<and> ae_now env < rt_expiresAt t) (refreshTokens (adb w))"

definition revokeToken :: "accounts_env \<Rightarrow> uuid \<Rightarrow> uuid option \<Rightarrow> (accounts_world, bool) action" where
  "revokeToken env toRevokeRefreshToken newRefreshToken =
     (if truthyId newRefreshToken
      then updateRefreshToken env toRevokeRefreshToken (ae_now env + seconds 5) (the newRefreshToken)
      else removeRefreshToken toRevokeRefreshToken)"

definition isExpired :: "accounts_env \<Rightarrow> uuid \<Rightarrow> accounts_world \<Rightarrow> bool" where
  "isExpired env refreshToken w \<longleftrightarrow>
     \<not> (\<exists>t \<in> set (refreshTokens (adb w)). rt_id t = refreshToken \<and> ae_now env < rt_expiresAt t \<and> isNull (rt_nextToken t))"

definition isSessionToken :: "time \<Rightarrow> time \<Rightarrow> bool" where
  "isSessionToken createdAt expiresAt \<longleftrightarrow> expiresAt < createdAt + DEFAULT_REFRESH_TOKEN_DURATION - minutes 1"

definition tokenCookieExpires :: "accounts_env \<Rightarrow> refresh_token \<Rightarrow> time option" where
  "tokenCookieExpires env t =
     (if isSessionToken (rt_createdAt t) (rt_expiresAt t) then None else Some (refreshTokenExpires env False))"

definition shouldReIssue :: "accounts_env \<Rightarrow> refresh_token \<Rightarrow> bool" where
  "shouldReIssue env t \<longleftrightarrow> SESSION_REFRESH_TOKEN_DURATION - hours 1 \<le> ae_now env - rt_createdAt t"

text \<open>The entity that is returned keeps the dates of the token that was used, under the new identifier.\<close>

definition useRefreshToken :: "accounts_env \<Rightarrow> uuid \<Rightarrow> (accounts_world, refresh_token option) action" where
  "useRefreshToken env refreshToken =
     andThen (gets (findRefreshToken env refreshToken)) (\<lambda>current.
     case current of
       None \<Rightarrow> ret None
     | Some t \<Rightarrow>
         if truthyId (rt_nextToken t) then ret (Some (t\<lparr>rt_id := the (rt_nextToken t)\<rparr>))
         else if \<not> shouldReIssue env t then ret (Some t)
         else
           andThen (createRefreshToken env (rt_profileId t) (isSessionToken (rt_createdAt t) (rt_expiresAt t))
             (rt_isMfaEnabled t)) (\<lambda>new.
           andThen (revokeToken env refreshToken (Some (rt_id new))) (\<lambda>_.
           ret (Some (t\<lparr>rt_id := rt_id new\<rparr>)))))"

section \<open>AccessTokenService\<close>

definition ACCESS_TOKEN_COOKIE_NAME :: string where "ACCESS_TOKEN_COOKIE_NAME = ''access_token''"
definition REFRESH_TOKEN_COOKIE_NAME :: string where "REFRESH_TOKEN_COOKIE_NAME = ''refresh_token''"

definition profileJpg :: "string \<Rightarrow> string option \<Rightarrow> string" where
  "profileJpg base u = photoUrl base ''profiles'' ''jpg'' u"

definition accessClaims :: "accounts_env \<Rightarrow> accounts_db \<Rightarrow> object_id \<Rightarrow> bool \<Rightarrow> access_claims" where
  "accessClaims env db profileId withGroups =
     (let profile = findOneBy (\<lambda>p. pr_id p = profileId) (profiles db);
          name = docName (getProfileName (profileNames db) profileId En) in
      \<lparr>cl_profileId = hexString profileId,
       cl_groups = (if withGroups then getProfileGroups profileId db else []),
       cl_name = interpolate (pn_firstname name) @ '' '' @ interpolate (pn_lastname name),
       cl_photo = profileJpg (ae_photoBaseUrl env) (Option.bind profile pr_photo)\<rparr>)"

definition generateAccessToken :: "accounts_env \<Rightarrow> object_id \<Rightarrow> bool \<Rightarrow> (accounts_world, string) action" where
  "generateAccessToken env profileId withGroups =
     andThen (gets (\<lambda>w. accessClaims env (adb w) profileId withGroups)) (\<lambda>claims.
     andThen (modify (\<lambda>w. w\<lparr>signedTokens := signedTokens w @ [(profileId, claims)]\<rparr>)) (\<lambda>_.
     ret (ae_sign env claims)))"

definition setHttpAccessTokenCookie :: "string \<Rightarrow> time option \<Rightarrow> (accounts_world, unit) action" where
  "setHttpAccessTokenCookie accessToken expires = setCookies [SetCookie ACCESS_TOKEN_COOKIE_NAME accessToken expires False]"

definition setHttpRefreshTokenCookie :: "uuid \<Rightarrow> time option \<Rightarrow> (accounts_world, unit) action" where
  "setHttpRefreshTokenCookie refreshToken expires = setCookies [SetCookie REFRESH_TOKEN_COOKIE_NAME refreshToken expires True]"

definition orGuest :: "accounts_env \<Rightarrow> request_user outcome \<Rightarrow> request_user" where
  "orGuest env r = (case r of Inl _ \<Rightarrow> ae_guest env | Inr user \<Rightarrow> user)"

definition getUserFromHeaders :: "accounts_env \<Rightarrow> (string \<times> string) list \<Rightarrow> request_user" where
  "getUserFromHeaders env headers = orGuest env (ae_verifyHeaders env headers)"

definition getUserFromAccessToken :: "accounts_env \<Rightarrow> string \<Rightarrow> request_user" where
  "getUserFromAccessToken env accessToken = orGuest env (ae_verify env accessToken)"

section \<open>CookieToken\<close>

record cookie_token =
  ct_accessToken :: "string option"
  ct_refreshToken :: "string option"

definition fromCookies :: "(string \<Rightarrow> string option) \<Rightarrow> cookie_token" where
  "fromCookies cookies = \<lparr>ct_accessToken = cookies ACCESS_TOKEN_COOKIE_NAME, ct_refreshToken = cookies REFRESH_TOKEN_COOKIE_NAME\<rparr>"

definition refreshAccessToken :: "accounts_env \<Rightarrow> cookie_token \<Rightarrow> (accounts_world, cookie_token) action" where
  "refreshAccessToken env ct =
     andThen (useRefreshToken env (the (ct_refreshToken ct))) (\<lambda>r.
     case r of
       None \<Rightarrow> ret ct
     | Some refreshToken \<Rightarrow>
         let expires = tokenCookieExpires env refreshToken in
         andThen (generateAccessToken env (toObjectId (ae_lib env) (rt_profileId refreshToken))
           (rt_isMfaEnabled refreshToken)) (\<lambda>accessToken.
         andThen (setHttpAccessTokenCookie accessToken expires) (\<lambda>_.
         andThen (setHttpRefreshTokenCookie (rt_id refreshToken) expires) (\<lambda>_.
         ret \<lparr>ct_accessToken = Some accessToken, ct_refreshToken = Some (rt_id refreshToken)\<rparr>))))"

text \<open>The parameter \<open>isExpired\<close> defaults to the absence of an access token.\<close>

definition getUpdatedAccessToken :: "accounts_env \<Rightarrow> cookie_token \<Rightarrow> bool option \<Rightarrow> (accounts_world, string option) action" where
  "getUpdatedAccessToken env ct expired =
     (if (case expired of None \<Rightarrow> \<not> truthyId (ct_accessToken ct) | Some b \<Rightarrow> b) \<and> truthyId (ct_refreshToken ct)
      then andThen (refreshAccessToken env ct) (\<lambda>ct. ret (ct_accessToken ct))
      else ret (ct_accessToken ct))"

section \<open>Controllers and middleware\<close>

definition refreshTokenHandler :: "accounts_env \<Rightarrow> (string \<Rightarrow> string option) \<Rightarrow> (accounts_world, unit) action" where
  "refreshTokenHandler env cookies =
     (let ct = fromCookies cookies in
      andThen (throwIf (\<not> truthyId (ct_refreshToken ct)) (BadRequest ''No cookie name `refresh_token`'')) (\<lambda>_.
      andThen (getUpdatedAccessToken env ct None) (\<lambda>accessToken.
      throwIf (\<not> truthyId accessToken) (Unauthorized ''Refresh token expired''))))"

definition authMiddleware ::
    "accounts_env \<Rightarrow> (string \<times> string) list \<Rightarrow> (string \<Rightarrow> string option) \<Rightarrow> (accounts_world, request_user) action" where
  "authMiddleware env headers cookies =
     tryCatch
       (let user = getUserFromHeaders env headers in
        if ae_isSignedIn env user then ret user
        else
          let ct = fromCookies cookies;
              user = (if truthyId (ct_accessToken ct) then getUserFromAccessToken env (the (ct_accessToken ct)) else user) in
          if ae_isSignedIn env user then ret user
          else
            andThen (getUpdatedAccessToken env ct (Some True)) (\<lambda>accessToken.
            if \<not> truthyId accessToken then ret user
            else ret (getUserFromAccessToken env (the accessToken))))
       (\<lambda>_. ret (ae_guest env))"

definition setAccessRefreshTokenCookiesByProfile ::
    "accounts_env \<Rightarrow> object_id \<Rightarrow> bool \<Rightarrow> bool \<Rightarrow> (accounts_world, unit) action" where
  "setAccessRefreshTokenCookiesByProfile env profileId isSession isMfaEnabled =
     andThen (generateAccessToken env profileId isMfaEnabled) (\<lambda>accessToken.
     andThen (createRefreshToken env (profileUid (ae_lib env) profileId) isSession isMfaEnabled) (\<lambda>refreshToken.
     andThen (throwIf (rt_id refreshToken = []) (JsError ''Failed to create refreshToken'')) (\<lambda>_.
     let expires = tokenCookieExpires env refreshToken in
     andThen (setHttpAccessTokenCookie accessToken expires) (\<lambda>_.
     setHttpRefreshTokenCookie (rt_id refreshToken) expires))))"

definition signOut :: "accounts_env \<Rightarrow> (string \<Rightarrow> string option) \<Rightarrow> (accounts_world, unit) action" where
  "signOut env cookies =
     (let refreshToken = cookies REFRESH_TOKEN_COOKIE_NAME in
      andThen (if truthyId refreshToken then discard (revokeToken env (the refreshToken) None) else ret ()) (\<lambda>_.
      setCookies [ClearCookie ACCESS_TOKEN_COOKIE_NAME, ClearCookie REFRESH_TOKEN_COOKIE_NAME]))"

end
