(* ===== verification/Account_Local.thy ===== *)
theory Account_Local
  imports Account_Session
begin

text \<open>
  Local users: \<open>accounts/user/user-local.service.ts\<close> with its controller, and the four constraints a
  password has to meet (\<open>password-character\<close>, \<open>password-strength\<close>, \<open>non-password-password\<close>,
  \<open>is-pwned-password\<close> with \<open>have-i-been-pwned.service.ts\<close>). The password hash, the estimator zxcvbn, the
  digest SHA-1 and the answer of the service that knows leaked passwords are parameters.
\<close>

section \<open>Passwords\<close>

definition minLength :: nat where "minLength = 10"
definition minLowercase :: nat where "minLowercase = 1"
definition minUppercase :: nat where "minUppercase = 1"
definition minNumbers :: nat where "minNumbers = 1"
definition minSymbols :: nat where "minSymbols = 1"

definition validateLength :: "string \<Rightarrow> bool" where "validateLength v \<longleftrightarrow> minLength \<le> length v"
definition validateLowercase :: "string \<Rightarrow> bool" where "validateLowercase v \<longleftrightarrow> minLowercase \<le> length v"
definition validateUppercase :: "string \<Rightarrow> bool" where "validateUppercase v \<longleftrightarrow> minUppercase \<le> length v"
definition validateNumbers :: "string \<Rightarrow> bool" where "validateNumbers v \<longleftrightarrow> minNumbers \<le> length v"
definition validateSymbols :: "string \<Rightarrow> bool" where "validateSymbols v \<longleftrightarrow> minSymbols \<le> length v"

definition passwordCharacter_validate :: "string \<Rightarrow> bool" where
  "passwordCharacter_validate v \<longleftrightarrow>
     validateLength v \<and> validateLowercase v \<and> validateUppercase v \<and> validateNumbers v \<and> validateSymbols v"

definition atLeast :: "nat \<Rightarrow> string \<Rightarrow> string" where
  "atLeast n what = ''Password requires at least '' @ toRadix 10 n @ '' '' @ what"

definition passwordCharacter_message :: "string \<Rightarrow> string" where
  "passwordCharacter_message v =
     (if \<not> validateLength v then atLeast minLength ''character(s)''
      else if \<not> validateLowercase v then atLeast minLowercase ''lowercase character(s)''
      else if \<not> validateUppercase v then atLeast minUppercase ''uppercase character(s)''
      else if \<not> validateNumbers v then atLeast minNumbers ''number(s)''
      else if \<not> validateSymbols v then atLeast minSymbols ''symbol(s)''
      else ''Password is not strong enough'')"

record zxcvbn_result =
  zx_score :: nat
  zx_warning :: "string option"

definition passwordStrength_validate :: "(string \<Rightarrow> zxcvbn_result) \<Rightarrow> string \<Rightarrow> bool" where
  "passwordStrength_validate zxcvbn v \<longleftrightarrow> 0 < zx_score (zxcvbn v) \<and> \<not> truthyId (zx_warning (zxcvbn v))"

definition passwordStrength_message :: "(string \<Rightarrow> zxcvbn_result) \<Rightarrow> string \<Rightarrow> string" where
  "passwordStrength_message zxcvbn v =
     ''Password is not strong enough: ''
       @ (if truthyId (zx_warning (zxcvbn v)) then the (zx_warning (zxcvbn v)) else ''Password score is too low'')"

definition commonPassword :: "string list" where
  "commonPassword = [
    ''nudchannel'', ''nudchannel.com'', ''123456'', ''123456789'', ''12345678'', ''password'',
    ''qwerty123'', ''qwerty1'', ''111111'', ''12345'', ''secret'', ''123123'', ''1234567890'', ''1234567'',
    ''000000'', ''qwerty'', ''abc123'', ''password1'', ''iloveyou'', ''11111111'', ''dragon'', ''monkey'',
    ''123123123'', ''123321'', ''qwertyuiop'', ''00000000'', ''654321'', ''target123'', ''tinkle'',
    ''zag12wsx'', ''1g2w3e4r'', ''gwerty123'', ''gwerty'', ''666666'', ''1q2w3e4r5t'', ''987654321'',
    ''1q2w3e4r'', ''a123456'', ''1qaz2wsx'', ''121212'', ''abcd1234'', ''asdfghjkl'', ''123456a'',
    ''88888888'', ''qwerty123!'', ''qwerty1!'', ''112233'', ''q1w2e3r4t5y6'', ''football'', ''zxcvbnm'',
    ''princess'', ''aaaaaa'', ''sunshine'', ''147258369'', ''qwerty1234'', ''fuckyou'', ''qwerty12'',
    ''123qwe'', ''computer'', ''baseball'', ''159753'', ''superman'', ''azerty'', ''dearbook'', ''pokemon'',
    ''michael'', ''1234qwer'', ''1234561'', ''888888'', ''daniel'', ''111222tianya'', ''12345678910'',
    ''1qaz2wsx3edc'', ''123456789a'', ''123654'', ''p@ssw0rd'', ''qwer1234'', ''qwerty1?'', ''789456123'',
    ''qwerty123?'', ''q1w2e3r4'', ''shadow'', ''222222'', ''soccer'', ''qwe123'', ''7777777'', ''22535'',
    ''asdasd'', ''admin'', ''killer'', ''testing'', ''qazwsx'', ''asdf1234'', ''1314520'', ''555555'',
    ''12341234'', ''michelle'', ''a123456789'', ''charlie'', ''liverpool'', ''master'', ''123abc'',
    ''7758521'', ''woaini'', ''asdfgh'', ''password123'', ''starwars'', ''jordan'', ''jessica'', ''999999'',
    ''unknown'', ''1q2w3e'', ''1111111'', ''789456'', ''pakistan'', ''12qwaszx'', ''ashley'',
    ''1111111111'', ''welcome'', ''aa123456'', ''jennifer'', ''11223344'', ''thomas'', ''159357'',
    ''asd123'', ''andrew'', ''nicole'', ''anthony'', ''147258'', ''trustno1'', ''naruto'', ''jonathan'',
    ''hunter'', ''102030'', ''basketball'', ''cambiami'', ''letmein'', ''hello'', ''chocolate'', ''zinch'',
    ''internet'', ''samsung'', ''asdfasdf'', ''justin'', ''passw0rd'', ''purple'', ''blink182'',
    ''whatever'', ''g_czechout'', ''tigger'', ''indya123'', ''samantha'', ''joshua'', ''alexander'',
    ''hannah'', ''qazwsxedc'', ''11111'', ''andrea'', ''minecraft'', ''matthew'', ''changeme'', ''123456!'',
    ''87654321'', ''jordan23'', ''qq123456'', ''1qazxsw2'', ''william'', ''1234567891'', ''123456123'',
    ''12344321'', ''buster'', ''cookie'', ''babygirl'', ''butterfly'', ''batman'', ''lol123'', ''qwert'',
    ''robert'', ''summer'', ''amanda'', ''123654789'', ''aaaaaaaa'', ''benjamin'', ''myspace1'', ''333333'',
    ''facebook'', ''chelsea'', ''family'', ''hello123'', ''maggie'', ''freedom'', ''cheese'']"

definition nonCommonPassword_validate :: "string \<Rightarrow> bool" where
  "nonCommonPassword_validate v \<longleftrightarrow> toLowerCase v \<notin> set commonPassword"

text \<open>
  The service is sent the first five digits of the digest and answers with the other digits of every leaked
  password it knows under them, one a line, each with a colon and a count. No answer counts as no leak.
\<close>

definition toUpperHex :: "string \<Rightarrow> string" where
  "toUpperHex s = map (\<lambda>c. let n = (of_char c :: nat) in if 97 \<le> n \<and> n \<le> 102 then char_of (n - 32) else c) s"

definition pwnedCount :: "string \<Rightarrow> string \<Rightarrow> int option" where
  "pwnedCount hashSuffix body =
     (let line = List.find (\<lambda>l. take (length hashSuffix) l = hashSuffix) (splitOn (CHR 10) body);
          field = Option.bind line (\<lambda>l. let parts = splitOn (CHR '':'') l in if length parts > 1 then Some (parts ! 1) else None) in
      parseIntAuto (case field of None \<Rightarrow> ''0'' | Some f \<Rightarrow> f))"

definition isPwnedPassword :: "(string \<Rightarrow> string) \<Rightarrow> (string \<Rightarrow> string outcome) \<Rightarrow> string \<Rightarrow> bool" where
  "isPwnedPassword sha1Hex fetch password =
     (let sha1 = toUpperHex (sha1Hex password) in
      case fetch (''https://api.pwnedpasswords.com/range/'' @ take 5 sha1) of
        Inl _ \<Rightarrow> False
      | Inr body \<Rightarrow> (case pwnedCount (drop 5 sha1) body of None \<Rightarrow> False | Some count \<Rightarrow> count \<noteq> 0))"

record password_env =
  pw_zxcvbn :: "string \<Rightarrow> zxcvbn_result"
  pw_sha1Hex :: "string \<Rightarrow> string"
  pw_fetch :: "string \<Rightarrow> string outcome"

text \<open>What the body of a request for a new password is checked for.\<close>

definition newPassword_valid :: "password_env \<Rightarrow> string \<Rightarrow> bool" where
  "newPassword_valid pe v \<longleftrightarrow> passwordCharacter_validate v \<and> passwordStrength_validate (pw_zxcvbn pe) v
     \<and> nonCommonPassword_validate v \<and> \<not> isPwnedPassword (pw_sha1Hex pe) (pw_fetch pe) v"

section \<open>UserLocalService\<close>

definition findByUsername :: "string \<Rightarrow> accounts_world \<Rightarrow> local_user option" where
  "findByUsername username w = findOneBy (\<lambda>u. lu_username u = username) (localUsers (adb w))"

definition findByProfile :: "accounts_env \<Rightarrow> object_id \<Rightarrow> accounts_world \<Rightarrow> local_user option" where
  "findByProfile env profile w =
     findOneBy (\<lambda>u. lu_profileId u = profileUid (ae_lib env) profile) (localUsers (adb w))"

definition getUsersHashedPassword :: "string \<Rightarrow> accounts_world \<Rightarrow> string outcome" where
  "getUsersHashedPassword username w =
     (case findByUsername username w of
        None \<Rightarrow> Inl (JsError ''Username not found'')
      | Some u \<Rightarrow> Inr (lu_password u))"

definition isUsernameExists :: "string \<Rightarrow> accounts_world \<Rightarrow> bool" where
  "isUsernameExists username w \<longleftrightarrow> 0 < affected (\<lambda>u. lu_username u = username) (localUsers (adb w))"

definition isLowerLetter :: "char \<Rightarrow> bool" where
  "isLowerLetter c \<longleftrightarrow> (let n = (of_char c :: nat) in 97 \<le> n \<and> n \<le> 122)"

definition usernameCleanUp :: "string option \<Rightarrow> string option" where
  "usernameCleanUp name = map_option (\<lambda>n. filter isLowerLetter (toLowerCase n)) name"

text \<open>The names the loop tries: the first name with one letter of the last name, with two, and so on.\<close>

definition usernameCandidates :: "string \<Rightarrow> string \<Rightarrow> string list" where
  "usernameCandidates firstname lastname = map (\<lambda>i. firstname @ take i lastname) [1..<length lastname]"

definition requestUsername :: "accounts_env \<Rightarrow> object_id \<Rightarrow> accounts_world \<Rightarrow> string outcome" where
  "requestUsername env profileId w =
     (if 0 < affected (\<lambda>u. lu_profileId u = profileUid (ae_lib env) profileId) (localUsers (adb w))
      then Inl (JsError ''Username has already created'')
      else
        let name = docName (getProfileName (profileNames (adb w)) profileId En);
            firstname = usernameCleanUp (pn_firstname name);
            lastname = usernameCleanUp (pn_lastname name) in
        if pn_lang name \<noteq> Some En then Inl (JsError ''English fullname not found'')
        else if \<not> (truthyId firstname \<and> truthyId lastname) then Inl (JsError ''Fullname required'')
        else
          case List.find (\<lambda>u. \<not> isUsernameExists u w) (usernameCandidates (the firstname) (the lastname)) of
            Some username \<Rightarrow> Inr username
          | None \<Rightarrow> Inl (JsError ''No username available''))"

definition changePassword :: "accounts_env \<Rightarrow> string \<Rightarrow> string \<Rightarrow> (accounts_world, unit) action" where
  "changePassword env username plainPassword =
     onLocalUsers (modify (updateBy (\<lambda>u. lu_username u = username)
       (\<lambda>u. u\<lparr>lu_password := ae_hash env plainPassword, lu_passwordLastSet := ae_now env\<rparr>)))"

definition verifyAndChangePassword :: "accounts_env \<Rightarrow> object_id \<Rightarrow> string \<Rightarrow> string \<Rightarrow> (accounts_world, unit) action" where
  "verifyAndChangePassword env profileId currentPassword newPassword =
     andThen (gets (findByProfile env profileId)) (\<lambda>user.
     case user of
       None \<Rightarrow> throw (Forbidden ''Current profile has no local user'')
     | Some user \<Rightarrow>
         andThen (lift (ae_verifyHash env (lu_password user) currentPassword)) (\<lambda>isValidPassword.
         andThen (throwIf (\<not> isValidPassword) (BadRequest ''Invalid current password'')) (\<lambda>_.
         changePassword env (lu_username user) newPassword)))"

definition createLocalUser :: "accounts_env \<Rightarrow> string \<Rightarrow> string \<Rightarrow> object_id \<Rightarrow> (accounts_world, local_user) action" where
  "createLocalUser env username plainPassword profile =
     (let user = \<lparr>lu_id = ae_newUserId env, lu_profileId = profileUid (ae_lib env) profile, lu_username = username,
            lu_password = ae_hash env plainPassword, lu_passwordLastSet = ae_dbNow env, lu_disabled = False\<rparr> in
      andThen (gets (isUsernameExists username)) (\<lambda>taken.
      andThen (throwIf taken (JsError ''QueryFailedError'')) (\<lambda>_.
      andThen (onLocalUsers (modify (saveRow lu_id user))) (\<lambda>_.
      ret user))))"

definition disableUser :: "string \<Rightarrow> bool \<Rightarrow> (accounts_world, unit) action" where
  "disableUser username disabled =
     onLocalUsers (modify (updateBy (\<lambda>u. lu_username u = username) (\<lambda>u. u\<lparr>lu_disabled := disabled\<rparr>)))"

text \<open>Whatever goes wrong, the caller is told the same.\<close>

definition signInLocal :: "accounts_env \<Rightarrow> string \<Rightarrow> string \<Rightarrow> (accounts_world, local_user) action" where
  "signInLocal env username plainPassword =
     tryCatch
       (andThen (gets (findByUsername username)) (\<lambda>user.
        case user of
          None \<Rightarrow> throw (JsError ''User not found'')
        | Some user \<Rightarrow>
            andThen (throwIf (lu_disabled user) (JsError ''User has disabled'')) (\<lambda>_.
            andThen (lift (ae_verifyHash env (lu_password user) plainPassword)) (\<lambda>isValidPassword.
            andThen (throwIf (\<not> isValidPassword) (JsError ''Invalid password'')) (\<lambda>_.
            ret user)))))
       (\<lambda>_. throw (BadRequest ''Invalid credential''))"

section \<open>LocalUserV1Controller\<close>

definition callerObjectId :: "accounts_env \<Rightarrow> request_user \<Rightarrow> object_id outcome" where
  "callerObjectId env user =
     (case pid_fromObjectId (ae_lib env) (user_id user) of
        None \<Rightarrow> Inl (JsError ''Cannot read properties of undefined (reading objectId)'')
      | Some p \<Rightarrow> Inr (pid_objectId (ae_lib env) p))"

definition getLocalUser :: "accounts_env \<Rightarrow> request_user \<Rightarrow> (accounts_world, string) action" where
  "getLocalUser env user = authGroups [''nudch''] user
     (andThen (lift (callerObjectId env user)) (\<lambda>profileId.
      andThen (gets (findByProfile env profileId)) (\<lambda>localUser.
      case localUser of None \<Rightarrow> throw (NotFound ''Not Found'') | Some u \<Rightarrow> ret (lu_username u))))"

definition requestLocalUser :: "accounts_env \<Rightarrow> string \<Rightarrow> request_user \<Rightarrow> (accounts_world, string) action" where
  "requestLocalUser env newPassword user = authGroups [''nudch''] user
     (andThen (lift (callerObjectId env user)) (\<lambda>profileId.
      andThen (gets (requestUsername env profileId)) (\<lambda>r.
      andThen (lift r) (\<lambda>username.
      andThen (createLocalUser env username newPassword profileId) (\<lambda>_.
      ret username)))))"

definition changeLocalUserPassword :: "accounts_env \<Rightarrow> string \<Rightarrow> string \<Rightarrow> request_user \<Rightarrow> (accounts_world, unit) action" where
  "changeLocalUserPassword env currentPassword newPassword user = authGroups [] user
     (andThen (lift (callerObjectId env user)) (\<lambda>profileId.
      verifyAndChangePassword env profileId currentPassword newPassword))"

section \<open>Facts\<close>

lemma passwordCharacter_iff: "passwordCharacter_validate v \<longleftrightarrow> 10 \<le> length v"
  by (auto simp: passwordCharacter_validate_def validateLength_def validateLowercase_def validateUppercase_def
      validateNumbers_def validateSymbols_def minLength_def minLowercase_def minUppercase_def minNumbers_def minSymbols_def)

lemma find_map_upt:
  "List.find P (map f [a..<b]) = Some x \<longleftrightarrow> (\<exists>i. a \<le> i \<and> i < b \<and> x = f i \<and> P x \<and> (\<forall>j. a \<le> j \<and> j < i \<longrightarrow> \<not> P (f j)))"
proof -
  have "List.find P (map f [a..<b]) = Some x \<longleftrightarrow>
      (\<exists>k < b - a. P (f (a + k)) \<and> x = f (a + k) \<and> (\<forall>j < k. \<not> P (f (a + j))))"
    by (auto simp: find_Some_iff)
  also have "\<dots> \<longleftrightarrow> (\<exists>i. a \<le> i \<and> i < b \<and> x = f i \<and> P x \<and> (\<forall>j. a \<le> j \<and> j < i \<longrightarrow> \<not> P (f j)))"
  proof
    assume "\<exists>k < b - a. P (f (a + k)) \<and> x = f (a + k) \<and> (\<forall>j < k. \<not> P (f (a + j)))"
    then obtain k where k: "k < b - a" "P (f (a + k))" "x = f (a + k)" "\<forall>j < k. \<not> P (f (a + j))" by blast
    have "\<not> P (f j)" if "a \<le> j \<and> j < a + k" for j using k(4) that by (metis add_less_cancel_left le_Suc_ex)
    then show "\<exists>i. a \<le> i \<and> i < b \<and> x = f i \<and> P x \<and> (\<forall>j. a \<le> j \<and> j < i \<longrightarrow> \<not> P (f j))"
      using k by (intro exI [of _ "a + k"]) auto
  next
    assume "\<exists>i. a \<le> i \<and> i < b \<and> x = f i \<and> P x \<and> (\<forall>j. a \<le> j \<and> j < i \<longrightarrow> \<not> P (f j))"
    then obtain i where i: "a \<le> i" "i < b" "x = f i" "P x" "\<forall>j. a \<le> j \<and> j < i \<longrightarrow> \<not> P (f j)" by blast
    then show "\<exists>k < b - a. P (f (a + k)) \<and> x = f (a + k) \<and> (\<forall>j < k. \<not> P (f (a + j)))"
      by (intro exI [of _ "i - a"]) auto
  qed
  finally show ?thesis .
qed

lemma isUsernameExists_iff: "isUsernameExists u w \<longleftrightarrow> u \<in> lu_username ` set (localUsers (adb w))"
  using affected_eq_0 [of "\<lambda>x. lu_username x = u" "localUsers (adb w)"]
  by (auto simp: isUsernameExists_def image_iff)

text \<open>
  Claim C23: For a profile with an English name and no local user yet, the username that is offered is free and
  is the first name followed by the shortest proper, non-empty prefix of the last name that makes it so; when
  every such name is taken, which for a last name of one letter is always, the request fails.
\<close>

theorem requestUsername_shortest:
  assumes "\<forall>u \<in> set (localUsers (adb w)). lu_profileId u \<noteq> profileUid (ae_lib env) p"
    and "docName (getProfileName (profileNames (adb w)) p En) = name" and "pn_lang name = Some En"
    and "usernameCleanUp (pn_firstname name) = Some given" and "given \<noteq> []"
    and "usernameCleanUp (pn_lastname name) = Some surname" and "surname \<noteq> []"
  shows "(requestUsername env p w = Inr u \<longleftrightarrow>
      (\<exists>i. 1 \<le> i \<and> i < length surname \<and> u = given @ take i surname \<and> u \<notin> lu_username ` set (localUsers (adb w))
        \<and> (\<forall>j. 1 \<le> j \<and> j < i \<longrightarrow> given @ take j surname \<in> lu_username ` set (localUsers (adb w)))))
    \<and> (requestUsername env p w = Inl (JsError ''No username available'') \<longleftrightarrow>
      (\<forall>i. 1 \<le> i \<and> i < length surname \<longrightarrow> given @ take i surname \<in> lu_username ` set (localUsers (adb w))))"
proof -
  let ?found = "List.find (\<lambda>u. \<not> isUsernameExists u w) (usernameCandidates given surname)"
  have none: "affected (\<lambda>u. lu_profileId u = profileUid (ae_lib env) p) (localUsers (adb w)) = 0"
    using assms(1) by (simp add: affected_eq_0)
  have run: "requestUsername env p w =
      (case ?found of Some username \<Rightarrow> Inr username | None \<Rightarrow> Inl (JsError ''No username available''))"
    using assms(2-) none by (simp add: requestUsername_def Let_def)
  have "?found = Some u \<longleftrightarrow> (\<exists>i. 1 \<le> i \<and> i < length surname \<and> u = given @ take i surname
      \<and> u \<notin> lu_username ` set (localUsers (adb w))
      \<and> (\<forall>j. 1 \<le> j \<and> j < i \<longrightarrow> given @ take j surname \<in> lu_username ` set (localUsers (adb w))))" for u
    unfolding usernameCandidates_def find_map_upt isUsernameExists_iff by simp
  moreover have "?found = None \<longleftrightarrow>
      (\<forall>i. 1 \<le> i \<and> i < length surname \<longrightarrow> given @ take i surname \<in> lu_username ` set (localUsers (adb w)))"
    by (auto simp: find_None_iff usernameCandidates_def isUsernameExists_iff)
  ultimately show ?thesis unfolding run by (cases ?found) auto
qed

theorem requestUsername_shortest_witness:
  "requestUsername (demoEnv 0 ''n'') demoJohn (demoWorld []) = Inr ''janedy''
   \<and> requestUsername (demoEnv 0 ''n'') demoJohn (demoWorld []) \<noteq> Inl (JsError ''No username available'')"
proof -
  let ?env = "demoEnv 0 ''n''" and ?w = "demoWorld []"
  have 1: "\<forall>u \<in> set (localUsers (adb ?w)). lu_profileId u \<noteq> profileUid (ae_lib ?env) demoJohn" by code_simp
  have 2: "docName (getProfileName (profileNames (adb ?w)) demoJohn En) = demoName demoJohn ''Jane'' ''Dyer''" by code_simp
  have 3: "pn_lang (demoName demoJohn ''Jane'' ''Dyer'') = Some En" by code_simp
  have 4: "usernameCleanUp (pn_firstname (demoName demoJohn ''Jane'' ''Dyer'')) = Some ''jane''" by code_simp
  have 5: "usernameCleanUp (pn_lastname (demoName demoJohn ''Jane'' ''Dyer'')) = Some ''dyer''" by code_simp
  have users: "lu_username ` set (localUsers (adb ?w)) = {''janed''}" by (simp add: demoWorld_def)
  have "requestUsername ?env demoJohn ?w = Inr ''janedy''"
    unfolding requestUsername_shortest [OF 1 2 3 4 _ 5, THEN conjunct1, simplified] users
    by (rule exI [of _ 2]) (auto simp: numeral_2_eq_2 le_Suc_eq less_Suc_eq)
  then show ?thesis by simp
qed

lemma signInLocal_run:
  "signInLocal env username plain w =
     (case findByUsername username w of
        Some u \<Rightarrow> if \<not> lu_disabled u \<and> ae_verifyHash env (lu_password u) plain = Inr True then Inr u
                  else Inl (BadRequest ''Invalid credential'')
      | None \<Rightarrow> Inl (BadRequest ''Invalid credential''), w)"
  by (auto simp: signInLocal_def tryCatch_def action_simps andThen_def split: option.split sum.split)

text \<open>
  A local sign-in succeeds exactly for the user with the name, when it is not disabled and the
  password verifies against the stored hash; every other attempt, whether the name is unknown, the
  user disabled, the password wrong or the hash malformed, gets one and the same answer, and no attempt
  changes anything.
\<close>

lemma signInLocal_iff:
  "(fst (signInLocal env username plain w) = Inr u \<longleftrightarrow>
      findByUsername username w = Some u \<and> \<not> lu_disabled u \<and> ae_verifyHash env (lu_password u) plain = Inr True)
    \<and> fst (signInLocal env username plain w) \<in> insert (Inl (BadRequest ''Invalid credential'')) (range Inr)
    \<and> snd (signInLocal env username plain w) = w"
  unfolding signInLocal_run by (auto split: option.split)

end
