(* ===== verification/Account_SignIn.thy ===== *)
theory Account_SignIn
  imports Account_Local
begin

text \<open>
  Signing in and registering: the look-ups and writes of \<open>accounts/profile/profile.service.ts\<close>,
  \<open>accounts/registration\<close>, the three external providers (\<open>accounts/sign-in/oidc\<close>) and the controller
  \<open>sign-in.v1.controller.ts\<close>. A redirect is the value a handler returns.
\<close>

section \<open>ProfileService\<close>

definition has_id :: "string list option \<Rightarrow> string \<Rightarrow> bool" where
  "has_id xs x \<longleftrightarrow> (case xs of None \<Rightarrow> False | Some ys \<Rightarrow> x \<in> set ys)"

definition findByGoogleId :: "string \<Rightarrow> accounts_world \<Rightarrow> account_profile option" where
  "findByGoogleId googleId w = findOneBy (\<lambda>p. has_id (pr_google_ids p) googleId) (profiles (adb w))"

definition findByDiscordId :: "string \<Rightarrow> accounts_world \<Rightarrow> profile_discord option" where
  "findByDiscordId discordId w = findOneBy (\<lambda>d. dc_id d = discordId) (discordProfiles (adb w))"

definition findByGitlabId :: "int \<Rightarrow> accounts_world \<Rightarrow> profile_gitlab option" where
  "findByGitlabId gitlabId w = findOneBy (\<lambda>g. gl_id g = gitlabId) (gitlabProfiles (adb w))"

definition findByEmail :: "accounts_env \<Rightarrow> string \<Rightarrow> accounts_world \<Rightarrow> account_profile option" where
  "findByEmail env email w = findOneBy (\<lambda>p. has_id (pr_emails p) (ae_castEmail env email)) (profiles (adb w))"

definition findAllDiscordIds :: "accounts_world \<Rightarrow> string list" where
  "findAllDiscordIds w = concat (map (\<lambda>p. case pr_discord_ids p of None \<Rightarrow> [] | Some ids \<Rightarrow> ids) (profiles (adb w)))"

definition discordIdsFromEmails :: "accounts_env \<Rightarrow> string list \<Rightarrow> accounts_world \<Rightarrow> string list" where
  "discordIdsFromEmails env emails w =
     concat (map (\<lambda>p. take 1 (case pr_discord_ids p of None \<Rightarrow> [] | Some ids \<Rightarrow> ids))
       (findBy (\<lambda>p. \<exists>e \<in> set emails. has_id (pr_emails p) (ae_castEmail env e)) (profiles (adb w))))"

text \<open>A column whose value is \<open>undefined\<close> is left out of an update, and has its default in a new row.\<close>

definition upsertDiscordProfile :: "accounts_env \<Rightarrow> discord_user \<Rightarrow> object_id \<Rightarrow> (accounts_world, unit) action" where
  "upsertDiscordProfile env discord profileId =
     (let uid = profileUid (ae_lib env) profileId in
      andThen (gets (findByDiscordId (du_id discord))) (\<lambda>discordProfile.
      onAccountsDb (modify (\<lambda>db. db\<lparr>discordProfiles :=
        (case discordProfile of
           Some _ \<Rightarrow> updateBy (\<lambda>d. dc_id d = du_id discord)
             (\<lambda>d. d\<lparr>dc_avatar := du_avatar discord,
                    dc_mfaEnabled := (case du_mfa_enabled discord of None \<Rightarrow> dc_mfaEnabled d | Some b \<Rightarrow> b)\<rparr>) (discordProfiles db)
         | None \<Rightarrow> saveRow dc_id
             \<lparr>dc_id = du_id discord, dc_profileId = uid,
              dc_rank = int (affected (\<lambda>d. dc_profileId d = uid) (discordProfiles db)),
              dc_avatar = du_avatar discord,
              dc_mfaEnabled = (case du_mfa_enabled discord of None \<Rightarrow> False | Some b \<Rightarrow> b)\<rparr> (discordProfiles db))\<rparr>))))"

definition upsertGitlabProfile :: "accounts_env \<Rightarrow> gitlab_user \<Rightarrow> object_id \<Rightarrow> (accounts_world, unit) action" where
  "upsertGitlabProfile env gitlab profileId =
     andThen (gets (findByGitlabId (glu_id gitlab))) (\<lambda>gitlabProfile.
     onAccountsDb (modify (\<lambda>db. db\<lparr>gitlabProfiles :=
       (case gitlabProfile of
          Some _ \<Rightarrow> updateBy (\<lambda>g. gl_id g = glu_id gitlab)
            (\<lambda>g. g\<lparr>gl_mfaEnabled := glu_two_factor_enabled gitlab\<rparr>) (gitlabProfiles db)
        | None \<Rightarrow> saveRow gl_id
            \<lparr>gl_id = glu_id gitlab, gl_profileId = profileUid (ae_lib env) profileId,
             gl_mfaEnabled = glu_two_factor_enabled gitlab\<rparr> (gitlabProfiles db))\<rparr>)))"

definition createProfile :: "accounts_env \<Rightarrow> partial_profile \<Rightarrow> (accounts_world, object_id) action" where
  "createProfile env p =
     (let row = \<lparr>pr_id = ae_newProfile env, pr_photo = None,
            pr_emails = map_option (map (ae_castEmail env)) (pp_emails p), pr_tels = None,
            pr_discord_ids = pp_discord_ids p, pr_google_ids = pp_google_ids p, pr_gitlab_ids = pp_gitlab_ids p\<rparr> in
      andThen (onAccountsDb (modify (\<lambda>db. db\<lparr>profiles := profiles db @ [row]\<rparr>))) (\<lambda>_.
      ret (ae_newProfile env)))"

section \<open>ProfileNameService.upsert\<close>

text \<open>Members that are \<open>undefined\<close> are not written.\<close>

definition orKeepName :: "string option \<Rightarrow> string option \<Rightarrow> string option" where
  "orKeepName new old = (case new of None \<Rightarrow> old | Some s \<Rightarrow> Some s)"

definition mergeName :: "profile_name \<Rightarrow> profile_name \<Rightarrow> profile_name" where
  "mergeName new old = old\<lparr>pn_title := orKeepName (pn_title new) (pn_title old),
     pn_firstname := orKeepName (pn_firstname new) (pn_firstname old),
     pn_lastname := orKeepName (pn_lastname new) (pn_lastname old),
     pn_nickname := orKeepName (pn_nickname new) (pn_nickname old)\<rparr>"

definition updateFirst :: "('r \<Rightarrow> bool) \<Rightarrow> ('r \<Rightarrow> 'r) \<Rightarrow> 'r list \<Rightarrow> 'r list" where
  "updateFirst p f t = (case dropWhile (\<lambda>r. \<not> p r) t of [] \<Rightarrow> t | r # rs \<Rightarrow> takeWhile (\<lambda>r. \<not> p r) t @ f r # rs)"

definition upsertName :: "language \<Rightarrow> object_id \<Rightarrow> profile_name \<Rightarrow> (accounts_world, unit) action" where
  "upsertName lang profile name =
     onAccountsDb (modify (\<lambda>db.
       let p = (\<lambda>n. pn_lang n = Some lang \<and> pn_profile n = Some profile) in
       db\<lparr>profileNames :=
         (if \<exists>n \<in> set (profileNames db). p n then updateFirst p (mergeName name) (profileNames db)
          else profileNames db @ [name\<lparr>pn_lang := Some lang, pn_profile := Some profile\<rparr>])\<rparr>))"

section \<open>RegistrationService\<close>

definition tokenExpires :: "accounts_env \<Rightarrow> time" where
  "tokenExpires env = ae_now env + days 1"

definition findRegistration :: "accounts_env \<Rightarrow> uuid \<Rightarrow> accounts_world \<Rightarrow> registration_token option" where
  "findRegistration env i w = findOneBy (\<lambda>r. rg_id r = i \<and> ae_now env < rg_expires_at r) (registrations (adb w))"

text \<open>A token for the same data is renewed, whoever it was made for.\<close>

definition createToken :: "accounts_env \<Rightarrow> partial_profile \<Rightarrow> bool \<Rightarrow> (accounts_world, registration_token) action" where
  "createToken env p autoSignIn =
     (let same = (\<lambda>r. rg_profile r = Some p) in
      andThen (onAccountsDb (modify (\<lambda>db. db\<lparr>registrations :=
        (if \<exists>r \<in> set (registrations db). same r
         then updateFirst same (\<lambda>r. r\<lparr>rg_expires_at := tokenExpires env, rg_sign_in := autoSignIn\<rparr>) (registrations db)
         else registrations db @ [\<lparr>rg_id = ae_newRegistration env, rg_profile = Some p,
                rg_expires_at = tokenExpires env, rg_sign_in = autoSignIn\<rparr>])\<rparr>))) (\<lambda>_.
      gets (\<lambda>w. the (findOneBy same (registrations (adb w))))))"

definition useToken :: "accounts_env \<Rightarrow> uuid \<Rightarrow> (accounts_world, registration_token option) action" where
  "useToken env i =
     andThen (gets (findRegistration env i)) (\<lambda>r.
     andThen (onAccountsDb (modify (\<lambda>db. db\<lparr>registrations :=
       deleteBy (\<lambda>r. rg_id r = i \<and> ae_now env < rg_expires_at r) (registrations db)\<rparr>))) (\<lambda>_.
     ret r))"

primrec upsertNames :: "object_id \<Rightarrow> (language \<times> profile_name) list \<Rightarrow> (accounts_world, unit) action" where
  "upsertNames profile [] = ret ()"
| "upsertNames profile (n # ns) = andThen (upsertName (fst n) profile (snd n)) (\<lambda>_. upsertNames profile ns)"

definition register :: "accounts_env \<Rightarrow> partial_profile \<Rightarrow> (language \<times> profile_name) list \<Rightarrow> (accounts_world, object_id) action" where
  "register env profileDoc names =
     andThen (createProfile env profileDoc) (\<lambda>profile.
     andThen (upsertNames profile names) (\<lambda>_. ret profile))"

definition redirectToAppRegistrationUrl :: "uuid \<Rightarrow> string" where
  "redirectToAppRegistrationUrl token = ''/register?code='' @ token"

section \<open>RegistrationV1Controller\<close>

record registration_info =
  ri_id :: uuid
  ri_email :: "string option"

definition registrationInfo_fromModel :: "registration_token \<Rightarrow> registration_info" where
  "registrationInfo_fromModel r = \<lparr>ri_id = rg_id r,
     ri_email = Option.bind (rg_profile r) (\<lambda>p. Option.bind (pp_emails p) (\<lambda>es. case es of [] \<Rightarrow> None | e # _ \<Rightarrow> Some e))\<rparr>"

definition emptyPartialProfile :: partial_profile where
  "emptyPartialProfile = \<lparr>pp_emails = None, pp_google_ids = None, pp_discord_ids = None, pp_gitlab_ids = None\<rparr>"

definition createAccountRegistrationToken :: "accounts_env \<Rightarrow> request_user \<Rightarrow> (accounts_world, registration_info) action" where
  "createAccountRegistrationToken env user = authGroups [''it''] user
     (andThen (createToken env emptyPartialProfile False) (\<lambda>r. ret (registrationInfo_fromModel r)))"

definition getAccountRegistrationInfo :: "accounts_env \<Rightarrow> uuid \<Rightarrow> (accounts_world, registration_info) action" where
  "getAccountRegistrationInfo env i =
     andThen (gets (findRegistration env i)) (\<lambda>r.
     case r of None \<Rightarrow> throw (NotFound ''Not Found'') | Some r \<Rightarrow> ret (registrationInfo_fromModel r))"

text \<open>The DTO of a name, after the trimming of its fields.\<close>

record name_dto =
  nd_title :: "string option"
  nd_firstname :: string
  nd_lastname :: string
  nd_nickname :: string

definition nameDto_toModel :: "language \<Rightarrow> name_dto \<Rightarrow> profile_name" where
  "nameDto_toModel lang d = \<lparr>pn_profile = None, pn_lang = Some lang, pn_title = nd_title d,
     pn_firstname = Some (nd_firstname d), pn_lastname = Some (nd_lastname d), pn_nickname = Some (nd_nickname d)\<rparr>"

definition submitAccountRegistration ::
    "accounts_env \<Rightarrow> uuid \<Rightarrow> name_dto \<Rightarrow> name_dto \<Rightarrow> (accounts_world, registration_info) action" where
  "submitAccountRegistration env i name localName =
     andThen (useToken env i) (\<lambda>registration.
     case Option.bind registration rg_profile of
       None \<Rightarrow> throw (NotFound ''Not Found'')
     | Some doc \<Rightarrow>
         let registration = the registration in
         andThen (register env doc [(En, nameDto_toModel En name), (Th, nameDto_toModel Th localName)]) (\<lambda>profile.
         andThen (if rg_sign_in registration then setAccessRefreshTokenCookiesByProfile env profile True False else ret ()) (\<lambda>_.
         ret (registrationInfo_fromModel registration))))"

end
