(* ===== verification/Account_OAuth.thy ===== *)
theory Account_OAuth
  imports Account_SignIn
begin

text \<open>
  The external providers: \<open>oidc/external-oauth2-provider.service.ts\<close> with its three implementations, and
  \<open>sign-in.v1.controller.ts\<close>. The clients of the providers are parameters: the exchange of a code for
  credentials and the request for the user; the two libraries that build an authorization address likewise.
\<close>

datatype oidc_provider = Google | Discord | GitLab

primrec providerName :: "oidc_provider \<Rightarrow> string" where
  "providerName Google = ''google''"
| "providerName Discord = ''discord''"
| "providerName GitLab = ''gitlab''"

record profile_id_or_registration =
  por_profileId :: "object_id option"
  por_registrationUrl :: "string option"
  por_isMfaEnabled :: "bool option"

text \<open>\<open>new URL(path, base).href\<close> for an absolute path and a base with a scheme and an authority.\<close>

fun cutScheme :: "string \<Rightarrow> (string \<times> string) option" where
  "cutScheme [] = None"
| "cutScheme (c # cs) =
     (if take 3 (c # cs) = ''://'' then Some ([], drop 2 cs)
      else map_option (\<lambda>(scheme, rest). (c # scheme, rest)) (cutScheme cs))"

definition resolveUrl :: "string \<Rightarrow> string \<Rightarrow> string outcome" where
  "resolveUrl path base =
     (case cutScheme base of
        None \<Rightarrow> Inl (JsError ''Invalid URL'')
      | Some (scheme, rest) \<Rightarrow> Inr (scheme @ ''://'' @ takeWhile (\<lambda>c. c \<notin> set ''/?#'') rest @ path))"

definition redirectUri :: "oidc_provider \<Rightarrow> string \<Rightarrow> string outcome" where
  "redirectUri provider baseUrl =
     resolveUrl (''/api/v1/accounts/sign-in/'' @ providerName provider @ ''/callback'') baseUrl"

text \<open>A failed exchange is reported as a bad request with its message.\<close>

definition exchangeOrBadRequest :: "string outcome \<Rightarrow> string outcome" where
  "exchangeOrBadRequest r = (case r of Inl err \<Rightarrow> Inl (BadRequest (errMessage err)) | Inr c \<Rightarrow> Inr c)"

text \<open>A template string or \<open>String(v)\<close> turns a missing value into a word.\<close>

definition stringOfNullable :: "string option \<Rightarrow> string" where
  "stringOfNullable v = (case v of None \<Rightarrow> ''null'' | Some s \<Rightarrow> s)"

definition nonEmptyEmail :: "string option \<Rightarrow> string list option" where
  "nonEmptyEmail email = (if truthyId email then Some [the email] else None)"

section \<open>Google\<close>

definition google_getProviderUser :: "accounts_env \<Rightarrow> string \<Rightarrow> string \<Rightarrow> google_user outcome" where
  "google_getProviderUser env code uri =
     onSuccess (exchangeOrBadRequest (ae_googleExchange env code uri)) (ae_googleUser env)"

definition google_findProfileId :: "accounts_env \<Rightarrow> google_user \<Rightarrow> (accounts_world, object_id option) action" where
  "google_findProfileId env user =
     andThen (throwIf (\<not> truthyId (gu_id user)) (JsError ''Missing google user id'')) (\<lambda>_.
     andThen (gets (findByGoogleId (the (gu_id user)))) (\<lambda>profileById.
     case profileById of
       Some p \<Rightarrow> ret (Some (pr_id p))
     | None \<Rightarrow> gets (\<lambda>w. map_option pr_id (findByEmail env (stringOfNullable (gu_email user)) w))))"

definition google_createRegistrationToken :: "accounts_env \<Rightarrow> google_user \<Rightarrow> (accounts_world, uuid) action" where
  "google_createRegistrationToken env user =
     andThen (throwIf (\<not> truthyId (gu_id user)) (JsError ''Missing google user id'')) (\<lambda>_.
     andThen (createToken env (emptyPartialProfile\<lparr>pp_emails := nonEmptyEmail (gu_email user),
        pp_google_ids := Some [the (gu_id user)]\<rparr>) True) (\<lambda>r. ret (rg_id r)))"

definition google_isMfaEnabled :: "google_user \<Rightarrow> bool" where
  "google_isMfaEnabled user = False"

section \<open>Discord\<close>

definition discord_getProviderUser :: "accounts_env \<Rightarrow> string \<Rightarrow> string \<Rightarrow> discord_user outcome" where
  "discord_getProviderUser env code uri =
     onSuccess (exchangeOrBadRequest (ae_discordExchange env code uri)) (ae_discordUser env)"

text \<open>The writes are not awaited.\<close>

definition discord_findProfileId :: "accounts_env \<Rightarrow> discord_user \<Rightarrow> (accounts_world, object_id option) action" where
  "discord_findProfileId env user =
     andThen (gets (findByDiscordId (du_id user))) (\<lambda>discordProfile.
     case discordProfile of
       Some d \<Rightarrow>
         let profileOid = toObjectId (ae_lib env) (dc_profileId d) in
         andThen (discard (attempt (upsertDiscordProfile env user profileOid))) (\<lambda>_. ret (Some profileOid))
     | None \<Rightarrow>
         andThen (gets (findByEmail env (stringOfNullable (du_email user)))) (\<lambda>profileByEmail.
         case profileByEmail of
           Some p \<Rightarrow> andThen (discard (attempt (upsertDiscordProfile env user (pr_id p)))) (\<lambda>_. ret (Some (pr_id p)))
         | None \<Rightarrow> ret None))"

definition discord_createRegistrationToken :: "accounts_env \<Rightarrow> discord_user \<Rightarrow> (accounts_world, uuid) action" where
  "discord_createRegistrationToken env user =
     andThen (createToken env (emptyPartialProfile\<lparr>pp_emails := nonEmptyEmail (du_email user),
        pp_discord_ids := Some [du_id user]\<rparr>) True) (\<lambda>r. ret (rg_id r))"

definition discord_isMfaEnabled :: "discord_user \<Rightarrow> bool" where
  "discord_isMfaEnabled user = (case du_mfa_enabled user of None \<Rightarrow> False | Some b \<Rightarrow> b)"

section \<open>GitLab\<close>

definition gitlab_getProviderUser :: "accounts_env \<Rightarrow> string \<Rightarrow> string \<Rightarrow> gitlab_user outcome" where
  "gitlab_getProviderUser env code uri =
     onSuccess (exchangeOrBadRequest (ae_gitlabExchange env code uri)) (ae_gitlabUser env)"

definition gitlab_findProfileId :: "accounts_env \<Rightarrow> gitlab_user \<Rightarrow> (accounts_world, object_id option) action" where
  "gitlab_findProfileId env user =
     andThen (gets (findByGitlabId (glu_id user))) (\<lambda>profileById.
     case profileById of
       Some g \<Rightarrow>
         let profileOid = toObjectId (ae_lib env) (gl_profileId g) in
         andThen (upsertGitlabProfile env user profileOid) (\<lambda>_. ret (Some profileOid))
     | None \<Rightarrow>
         andThen (gets (findByEmail env (glu_email user))) (\<lambda>profileByEmail.
         case profileByEmail of
           Some p \<Rightarrow> andThen (upsertGitlabProfile env user (pr_id p)) (\<lambda>_. ret (Some (pr_id p)))
         | None \<Rightarrow> ret None))"

definition gitlab_createRegistrationToken :: "accounts_env \<Rightarrow> gitlab_user \<Rightarrow> (accounts_world, uuid) action" where
  "gitlab_createRegistrationToken env user =
     andThen (createToken env (emptyPartialProfile\<lparr>
        pp_emails := (if glu_email user \<noteq> [] then Some [glu_email user] else None),
        pp_gitlab_ids := Some [intToRadix 10 (glu_id user)]\<rparr>) True) (\<lambda>r. ret (rg_id r))"

definition gitlab_isMfaEnabled :: "gitlab_user \<Rightarrow> bool" where
  "gitlab_isMfaEnabled user = glu_two_factor_enabled user"

definition gitlab_generateSignInUrl :: "string \<Rightarrow> string \<Rightarrow> string \<Rightarrow> string" where
  "gitlab_generateSignInUrl instanceUrl clientId uri =
     instanceUrl @ ''/oauth/authorize?client_id='' @ formEncode clientId
       @ ''&response_type=code&scope=read_user&redirect_uri='' @ formEncode uri"

section \<open>The common part\<close>

definition profileIdOrUrl ::
    "(string \<Rightarrow> string \<Rightarrow> 'u outcome) \<Rightarrow> ('u \<Rightarrow> (accounts_world, object_id option) action) \<Rightarrow> ('u \<Rightarrow> bool)
     \<Rightarrow> ('u \<Rightarrow> (accounts_world, uuid) action) \<Rightarrow> oidc_provider \<Rightarrow> string \<Rightarrow> string
     \<Rightarrow> (accounts_world, profile_id_or_registration) action" where
  "profileIdOrUrl getProviderUser findProfileId isMfaEnabled createRegistrationToken provider code baseUrl =
     andThen (lift (redirectUri provider baseUrl)) (\<lambda>uri.
     andThen (lift (getProviderUser code uri)) (\<lambda>providerUser.
     andThen (findProfileId providerUser) (\<lambda>profileId.
     case profileId of
       Some p \<Rightarrow> ret \<lparr>por_profileId = Some p, por_registrationUrl = None, por_isMfaEnabled = Some (isMfaEnabled providerUser)\<rparr>
     | None \<Rightarrow>
         andThen (createRegistrationToken providerUser) (\<lambda>registrationToken.
         ret \<lparr>por_profileId = None, por_registrationUrl = Some (redirectToAppRegistrationUrl registrationToken),
              por_isMfaEnabled = None\<rparr>))))"

definition profileIdBySignInWithCodeOrRegistrationUrl ::
    "accounts_env \<Rightarrow> oidc_provider \<Rightarrow> string \<Rightarrow> string \<Rightarrow> (accounts_world, profile_id_or_registration) action" where
  "profileIdBySignInWithCodeOrRegistrationUrl env provider =
     (case provider of
        Google \<Rightarrow> profileIdOrUrl (google_getProviderUser env) (google_findProfileId env) google_isMfaEnabled
          (google_createRegistrationToken env)
      | Discord \<Rightarrow> profileIdOrUrl (discord_getProviderUser env) (discord_findProfileId env) discord_isMfaEnabled
          (discord_createRegistrationToken env)
      | GitLab \<Rightarrow> profileIdOrUrl (gitlab_getProviderUser env) (gitlab_findProfileId env) gitlab_isMfaEnabled
          (gitlab_createRegistrationToken env)) provider"

section \<open>SignInV1Controller\<close>

definition getBaseUrl :: "accounts_env \<Rightarrow> string option \<Rightarrow> string" where
  "getBaseUrl env host = (if ae_secure env then ''https'' else ''http'') @ ''://''
     @ (case host of None \<Rightarrow> ''nudchannel.com'' | Some h \<Rightarrow> h)"

record provider_info =
  pi_provider :: string
  pi_url :: string

text \<open>The addresses of Google and Discord are built by their libraries.\<close>

definition getProviders ::
    "accounts_env \<Rightarrow> (string \<Rightarrow> string) \<Rightarrow> (string \<Rightarrow> string) \<Rightarrow> string \<Rightarrow> string \<Rightarrow> string option \<Rightarrow> provider_info list outcome" where
  "getProviders env googleUrl discordUrl instanceUrl clientId host =
     (let baseUrl = getBaseUrl env host in
      onSuccess (redirectUri Google baseUrl) (\<lambda>g.
      onSuccess (redirectUri Discord baseUrl) (\<lambda>d.
      onSuccess (redirectUri GitLab baseUrl) (\<lambda>l.
      Inr [\<lparr>pi_provider = providerName Google, pi_url = googleUrl g\<rparr>,
           \<lparr>pi_provider = providerName Discord, pi_url = discordUrl d\<rparr>,
           \<lparr>pi_provider = providerName GitLab, pi_url = gitlab_generateSignInUrl instanceUrl clientId l\<rparr>]))))"

definition signInWithLocalUser :: "accounts_env \<Rightarrow> string \<Rightarrow> string \<Rightarrow> bool \<Rightarrow> (accounts_world, unit) action" where
  "signInWithLocalUser env username password persistent =
     andThen (signInLocal env username password) (\<lambda>user.
     setAccessRefreshTokenCookiesByProfile env (toObjectId (ae_lib env) (lu_profileId user))
       (\<not> persistent) (\<not> ae_mfaRequired env))"

definition getContinuePath :: "(string \<Rightarrow> string option) \<Rightarrow> (accounts_world, string option) action" where
  "getContinuePath cookies =
     (let continuePath = cookies ''continue_path'' in
      andThen (if truthyId continuePath then setCookies [ClearCookie ''continue_path''] else ret ()) (\<lambda>_. ret continuePath))"

definition redirectSignInWithProviderCallback ::
    "accounts_env \<Rightarrow> oidc_provider \<Rightarrow> string \<Rightarrow> string option \<Rightarrow> string option \<Rightarrow> (string \<Rightarrow> string option)
     \<Rightarrow> (accounts_world, string) action" where
  "redirectSignInWithProviderCallback env provider code baseUrl host cookies =
     (let baseUrl = (if truthyId baseUrl then the baseUrl else getBaseUrl env host) in
      tryCatch
        (andThen (profileIdBySignInWithCodeOrRegistrationUrl env provider code baseUrl) (\<lambda>r.
         if truthyId (por_registrationUrl r) then ret (the (por_registrationUrl r))
         else case por_profileId r of
           Some p \<Rightarrow>
             andThen (setAccessRefreshTokenCookiesByProfile env p True
               (por_isMfaEnabled r = Some True \<or> \<not> ae_mfaRequired env)) (\<lambda>_.
             andThen (getContinuePath cookies) (\<lambda>continuePath.
             ret (case continuePath of None \<Rightarrow> ''/'' | Some path \<Rightarrow> path)))
         | None \<Rightarrow> throw (InternalServerError ''Undecided profile id or registration url'')))
        (\<lambda>err. ret (''/sign-in/?error='' @ encodeURIComponent (errMessage err))))"

end
