(* ===== verification/Account_Flow.thy ===== *)
theory Account_Flow
  imports Account_OAuth
begin

text \<open>
  The accounts as a transition system: one operation per endpoint that reads or writes sessions, local users,
  registrations or groups, each run with an environment of its own. What is shown of all runs: whose groups
  an access token may carry, and how long a token that was replaced stays of use.
\<close>

section \<open>Runs\<close>

datatype account_op =
    LocalSignIn string string bool
  | ProviderSignIn oidc_provider string "string option" "string option" "string \<Rightarrow> string option"
  | CreateRegistration request_user
  | SubmitRegistration uuid name_dto name_dto
  | RefreshRequest "string \<Rightarrow> string option"
  | AnyRequest "(string \<times> string) list" "string \<Rightarrow> string option"
  | SignOut "string \<Rightarrow> string option"
  | RequestLocalUser string request_user
  | ChangePassword string string request_user
  | DisableUser string bool
  | SetGroups object_id "string list"

primrec accountOp :: "accounts_env \<Rightarrow> account_op \<Rightarrow> (accounts_world, unit) action" where
  "accountOp env (LocalSignIn u p persistent) = signInWithLocalUser env u p persistent"
| "accountOp env (ProviderSignIn prov code baseUrl host cookies) =
     discard (redirectSignInWithProviderCallback env prov code baseUrl host cookies)"
| "accountOp env (CreateRegistration user) = discard (createAccountRegistrationToken env user)"
| "accountOp env (SubmitRegistration i n l) = discard (submitAccountRegistration env i n l)"
| "accountOp env (RefreshRequest cookies) = refreshTokenHandler env cookies"
| "accountOp env (AnyRequest headers cookies) = discard (authMiddleware env headers cookies)"
| "accountOp env (SignOut cookies) = signOut env cookies"
| "accountOp env (RequestLocalUser pw user) = discard (requestLocalUser env pw user)"
| "accountOp env (ChangePassword old new user) = changeLocalUserPassword env old new user"
| "accountOp env (DisableUser u d) = disableUser u d"
| "accountOp env (SetGroups p gs) = discard (onAccountsDb (updateProfileGroups p gs))"

definition accountStep :: "accounts_env \<Rightarrow> account_op \<Rightarrow> accounts_world \<Rightarrow> accounts_world" where
  "accountStep env a w = snd (accountOp env a w)"

definition accountRun :: "(accounts_env \<times> account_op) list \<Rightarrow> accounts_world \<Rightarrow> accounts_world" where
  "accountRun steps w = foldl (\<lambda>w (env, a). accountStep env a w) w steps"

lemma accountRun_simps [simp]:
  "accountRun [] w = w" "accountRun ((env, a) # steps) w = accountRun steps (accountStep env a w)"
  by (simp_all add: accountRun_def)

lemma accountRun_snoc: "accountRun (steps @ [(env, a)]) w = accountStep env a (accountRun steps w)"
  by (simp add: accountRun_def)

section \<open>Operations that leave the sessions alone\<close>

definition sameSessions :: "accounts_world \<Rightarrow> accounts_world \<Rightarrow> bool" where
  "sameSessions w v \<longleftrightarrow> refreshTokens (adb v) = refreshTokens (adb w) \<and> signedTokens v = signedTokens w"

interpretation same: action_frame sameSessions
  by unfold_locales (simp_all add: sameSessions_def)

lemma same_db: "(\<And>db. refreshTokens (snd (m db)) = refreshTokens db) \<Longrightarrow> staysIn sameSessions (onAccountsDb m)"
  by (simp add: staysIn_def zoom_def sameSessions_def split: prod.split) (metis snd_conv)

lemma same_dbModify: "(\<And>db. refreshTokens (f db) = refreshTokens db) \<Longrightarrow> staysIn sameSessions (onAccountsDb (modify f))"
  by (rule same_db) (simp add: action_simps)

definition sameRefreshTokens :: "accounts_db \<Rightarrow> accounts_db \<Rightarrow> bool" where
  "sameRefreshTokens db db' \<longleftrightarrow> refreshTokens db' = refreshTokens db"

interpretation sameRt: action_frame sameRefreshTokens
  by unfold_locales (simp_all add: sameRefreshTokens_def)

lemma refreshTokens_insertGroups [simp]: "refreshTokens (foldl insertGroup db ns) = refreshTokens db"
  by (induction ns arbitrary: db) (simp_all add: insertGroup_def Let_def)

lemma refreshTokens_updateProfileGroups: "refreshTokens (snd (updateProfileGroups p gs db)) = refreshTokens db"
proof -
  have "staysIn sameRefreshTokens (updateProfileGroups p gs)"
    unfolding updateProfileGroups_def createGroups_def removeGroups_def addGroups_def Let_def
    by (intro sameRt.stays_rules sameRt.stays_modify) (simp_all add: sameRefreshTokens_def)
  from staysInD [OF this, of db] show ?thesis by (simp add: sameRefreshTokens_def)
qed

lemma same_users: "staysIn sameSessions (onLocalUsers m)"
  by (rule same_db) (simp add: zoom_def split: prod.split)

lemma same_cookies: "staysIn sameSessions (setCookies cs)"
  by (simp add: setCookies_def same.stays_modify sameSessions_def)

lemma same_auth: "staysIn sameSessions m \<Longrightarrow> staysIn sameSessions (authGroups gs user m)"
  unfolding authGroups_def by (intro same.stays_rules)

lemma same_discord: "staysIn sameSessions (upsertDiscordProfile env d p)"
  by (simp add: upsertDiscordProfile_def Let_def same.stays_andThen same.stays_gets same_dbModify)

lemma same_gitlab: "staysIn sameSessions (upsertGitlabProfile env g p)"
  by (simp add: upsertGitlabProfile_def same.stays_andThen same.stays_gets same_dbModify)

lemma same_createProfile: "staysIn sameSessions (createProfile env p)"
  by (simp add: createProfile_def Let_def same.stays_andThen same.stays_ret same_dbModify)

lemma same_upsertNames: "staysIn sameSessions (upsertNames p ns)"
  by (induction ns) (simp_all add: upsertName_def Let_def same.stays_andThen same.stays_ret same_dbModify)

lemma same_createToken: "staysIn sameSessions (createToken env p s)"
  by (simp add: createToken_def Let_def same.stays_andThen same.stays_gets same_dbModify)

lemma same_useToken: "staysIn sameSessions (useToken env i)"
  by (simp add: useToken_def same.stays_andThen same.stays_gets same.stays_ret same_dbModify)

lemma same_register: "staysIn sameSessions (register env p ns)"
  unfolding register_def by (intro same.stays_rules same_createProfile same_upsertNames)

lemmas same_rules = same.stays_rules same_users same_cookies same_auth same_discord same_gitlab same_createToken
  same_useToken same_register

lemma same_profileIdOrUrl:
  assumes "\<And>u. staysIn sameSessions (look u)" and "\<And>u. staysIn sameSessions (create u)"
  shows "staysIn sameSessions (profileIdOrUrl get look mfa create provider code baseUrl)"
  unfolding profileIdOrUrl_def by (intro same_rules assms)

lemma same_provider: "staysIn sameSessions (profileIdBySignInWithCodeOrRegistrationUrl env provider code baseUrl)"
  unfolding profileIdBySignInWithCodeOrRegistrationUrl_def google_findProfileId_def google_createRegistrationToken_def
    discord_findProfileId_def discord_createRegistrationToken_def gitlab_findProfileId_def
    gitlab_createRegistrationToken_def
  by (cases provider) (auto intro!: same_profileIdOrUrl same_rules simp: Let_def)

lemma same_signInLocal: "staysIn sameSessions (signInLocal env u p)"
  by (simp add: staysIn_def signInLocal_run sameSessions_def)

lemma same_accountOp:
  "staysIn sameSessions (accountOp env (CreateRegistration user))"
  "staysIn sameSessions (accountOp env (RequestLocalUser pw user))"
  "staysIn sameSessions (accountOp env (ChangePassword old new user))"
  "staysIn sameSessions (accountOp env (DisableUser u d))"
  "staysIn sameSessions (accountOp env (SetGroups p gs))"
proof -
  show "staysIn sameSessions (accountOp env (CreateRegistration user))"
    unfolding accountOp.simps createAccountRegistrationToken_def
    by (intro same.stays_discard same_auth same.stays_andThen same_createToken same.stays_ret)
  show "staysIn sameSessions (accountOp env (RequestLocalUser pw user))"
    unfolding accountOp.simps requestLocalUser_def createLocalUser_def Let_def by (intro same_rules)
  show "staysIn sameSessions (accountOp env (ChangePassword old new user))"
    unfolding accountOp.simps changeLocalUserPassword_def verifyAndChangePassword_def changePassword_def
    by (intro same_rules)
  show "staysIn sameSessions (accountOp env (DisableUser u d))"
    unfolding accountOp.simps disableUser_def by (intro same_users)
  show "staysIn sameSessions (accountOp env (SetGroups p gs))"
    unfolding accountOp.simps by (intro same.stays_discard same_db refreshTokens_updateProfileGroups)
qed

section \<open>Groups are for sessions with a second factor\<close>

text \<open>
  Every token of the second factor belongs to a profile of \<open>V\<close>, and only for profiles of \<open>V\<close> an access token
  with groups was signed.
\<close>

definition sessionsOk :: "id_lib \<Rightarrow> uuid set \<Rightarrow> accounts_world \<Rightarrow> bool" where
  "sessionsOk L V w \<longleftrightarrow>
     (\<forall>t \<in> set (refreshTokens (adb w)). isProfileUid L (rt_profileId t) \<and> (rt_isMfaEnabled t \<longrightarrow> rt_profileId t \<in> V))
     \<and> (\<forall>(p, c) \<in> set (signedTokens w). cl_groups c \<noteq> [] \<longrightarrow> profileUid L p \<in> V)"

definition keepsSessions :: "id_lib \<Rightarrow> uuid set \<Rightarrow> accounts_world \<Rightarrow> accounts_world \<Rightarrow> bool" where
  "keepsSessions L V w v \<longleftrightarrow> (sessionsOk L V w \<longrightarrow> sessionsOk L V v)"

interpretation keeps: action_frame "keepsSessions L V" for L V
  by unfold_locales (simp_all add: keepsSessions_def)

lemma keeps_same: "staysIn sameSessions m \<Longrightarrow> staysIn (keepsSessions L V) m"
  by (auto simp: staysIn_def sameSessions_def keepsSessions_def sessionsOk_def)

lemma keeps_createRefreshToken:
  assumes "isProfileUid L uid" and "mfa \<Longrightarrow> uid \<in> V"
  shows "staysIn (keepsSessions L V) (createRefreshToken env uid s mfa)"
  using assms
  by (auto simp: createRefreshToken_def Let_def staysIn_def andThen_def zoom_def action_simps keepsSessions_def
      sessionsOk_def set_saveRow split: prod.split)

lemma keeps_update: "staysIn (keepsSessions L V) (updateRefreshToken env r e n)"
  by (auto simp: updateRefreshToken_def Let_def staysIn_def andThen_def zoom_def action_simps keepsSessions_def
      sessionsOk_def set_updateBy split: prod.split)

lemma keeps_remove: "staysIn (keepsSessions L V) (removeRefreshToken r)"
  by (auto simp: removeRefreshToken_def Let_def staysIn_def andThen_def zoom_def action_simps keepsSessions_def
      sessionsOk_def split: prod.split)

lemma keeps_revoke: "staysIn (keepsSessions L V) (revokeToken env r n)"
  by (simp add: revokeToken_def keeps_update keeps_remove)

lemma keeps_generate:
  assumes "groups \<Longrightarrow> profileUid L p \<in> V"
  shows "staysIn (keepsSessions L V) (generateAccessToken env p groups)"
  using assms
  by (auto simp: generateAccessToken_def accessClaims_def Let_def staysIn_def action_simps keepsSessions_def
      sessionsOk_def split: if_splits)

text \<open>The token that is found is one of the table, so it brings what it needs for its successor.\<close>

lemma findRefreshToken_ok:
  "sessionsOk L V w \<Longrightarrow> findRefreshToken env r w = Some t
    \<Longrightarrow> isProfileUid L (rt_profileId t) \<and> (rt_isMfaEnabled t \<longrightarrow> rt_profileId t \<in> V)"
  by (auto simp: findRefreshToken_def sessionsOk_def dest!: findOneBy_SomeD)

lemma useRefreshToken_ok:
  assumes "sessionsOk L V w"
  shows "sessionsOk L V (snd (useRefreshToken env r w))"
    and "fst (useRefreshToken env r w) = Inr (Some t) \<Longrightarrow>
      isProfileUid L (rt_profileId t) \<and> (rt_isMfaEnabled t \<longrightarrow> rt_profileId t \<in> V)"
proof -
  have "sessionsOk L V (snd (useRefreshToken env r w)) \<and> (\<forall>t. fst (useRefreshToken env r w) = Inr (Some t) \<longrightarrow>
      isProfileUid L (rt_profileId t) \<and> (rt_isMfaEnabled t \<longrightarrow> rt_profileId t \<in> V))"
  proof (cases "findRefreshToken env r w")
    case None
    then show ?thesis using assms by (simp add: useRefreshToken_def action_simps)
  next
    case (Some t)
    note ok = findRefreshToken_ok [OF assms Some]
    let ?rest = "andThen (createRefreshToken env (rt_profileId t) (isSessionToken (rt_createdAt t) (rt_expiresAt t))
        (rt_isMfaEnabled t)) (\<lambda>new. andThen (revokeToken env r (Some (rt_id new))) (\<lambda>_. ret (Some (t\<lparr>rt_id := rt_id new\<rparr>))))"
    have "staysIn (keepsSessions L V) ?rest"
      using ok by (intro keeps.stays_rules keeps_createRefreshToken keeps_revoke) auto
    from staysInD [OF this, of w] have "sessionsOk L V (snd (?rest w))" using assms by (simp add: keepsSessions_def)
    moreover have "isProfileUid L (rt_profileId u) \<and> (rt_isMfaEnabled u \<longrightarrow> rt_profileId u \<in> V)"
      if "fst (?rest w) = Inr (Some u)" for u
      using that ok by (auto simp: andThen_def action_simps split: sum.splits prod.splits)
    ultimately show ?thesis using assms ok Some by (auto simp: useRefreshToken_def action_simps)
  qed
  then show "sessionsOk L V (snd (useRefreshToken env r w))"
    and "fst (useRefreshToken env r w) = Inr (Some t) \<Longrightarrow>
      isProfileUid L (rt_profileId t) \<and> (rt_isMfaEnabled t \<longrightarrow> rt_profileId t \<in> V)" by blast+
qed

lemma keeps_refreshAccessToken:
  assumes "id_lib_ok L" and "ae_lib env = L"
  shows "staysIn (keepsSessions L V) (refreshAccessToken env ct)"
proof (rule staysInI)
  fix w
  show "keepsSessions L V w (snd (refreshAccessToken env ct w))"
    unfolding keepsSessions_def
  proof
    assume w: "sessionsOk L V w"
    obtain r v where use: "useRefreshToken env (the (ct_refreshToken ct)) w = (r, v)" by (rule prod.exhaust)
    then have v: "sessionsOk L V v" using useRefreshToken_ok(1) [OF w] by (metis snd_conv)
    show "sessionsOk L V (snd (refreshAccessToken env ct w))"
    proof (cases "\<exists>t. r = Inr (Some t)")
      case False
      then show ?thesis using v
        by (auto simp: refreshAccessToken_def andThen_def use action_simps split: sum.split option.split)
    next
      case True
      then obtain t where t: "r = Inr (Some t)" by blast
      then have "fst (useRefreshToken env (the (ct_refreshToken ct)) w) = Inr (Some t)" by (simp add: use)
      from useRefreshToken_ok(2) [OF w this]
      have ok: "isProfileUid L (rt_profileId t)" "rt_isMfaEnabled t \<longrightarrow> rt_profileId t \<in> V" by simp_all
      let ?k = "andThen (generateAccessToken env (toObjectId (ae_lib env) (rt_profileId t)) (rt_isMfaEnabled t)) (\<lambda>a.
          andThen (setHttpAccessTokenCookie a (tokenCookieExpires env t)) (\<lambda>_.
          andThen (setHttpRefreshTokenCookie (rt_id t) (tokenCookieExpires env t)) (\<lambda>_.
          ret \<lparr>ct_accessToken = Some a, ct_refreshToken = Some (rt_id t)\<rparr>)))"
      have "staysIn (keepsSessions L V) ?k"
        unfolding setHttpAccessTokenCookie_def setHttpRefreshTokenCookie_def assms(2)
        using ok profileUid_toObjectId(1) [OF assms(1) ok(1)]
        by (intro keeps.stays_rules keeps_generate keeps_same [OF same_cookies]) auto
      from staysInD [OF this, of v] v have "sessionsOk L V (snd (?k v))" by (simp add: keepsSessions_def)
      then show ?thesis by (simp add: refreshAccessToken_def andThen_ret [where m = "useRefreshToken env (the (ct_refreshToken ct))", OF use [unfolded t]] Let_def)
    qed
  qed
qed

lemma keeps_getUpdatedAccessToken:
  assumes "id_lib_ok L" and "ae_lib env = L"
  shows "staysIn (keepsSessions L V) (getUpdatedAccessToken env ct e)"
  unfolding getUpdatedAccessToken_def by (intro keeps.stays_rules keeps_refreshAccessToken assms)

lemma keeps_authMiddleware:
  assumes "id_lib_ok L" and "ae_lib env = L"
  shows "staysIn (keepsSessions L V) (authMiddleware env headers cookies)"
  unfolding authMiddleware_def Let_def by (intro keeps.stays_rules keeps_getUpdatedAccessToken assms)

lemma keeps_refreshTokenHandler:
  assumes "id_lib_ok L" and "ae_lib env = L"
  shows "staysIn (keepsSessions L V) (refreshTokenHandler env cookies)"
  unfolding refreshTokenHandler_def Let_def by (intro keeps.stays_rules keeps_getUpdatedAccessToken assms)

lemma keeps_setAccess:
  assumes "ae_lib env = L" and "mfa \<Longrightarrow> profileUid L p \<in> V"
  shows "staysIn (keepsSessions L V) (setAccessRefreshTokenCookiesByProfile env p s mfa)"
  unfolding setAccessRefreshTokenCookiesByProfile_def Let_def setHttpAccessTokenCookie_def
    setHttpRefreshTokenCookie_def assms(1)
  by (intro keeps.stays_rules keeps_generate keeps_createRefreshToken keeps_same [OF same_cookies]) (simp_all add: assms(2))

text \<open>
  Who was vouched for with a second factor by an operation: the owner of a local user that signs in where no
  second factor is asked for, and the profile an external account leads to when the provider reports one, or
  none is asked for.
\<close>

definition providerUserHasMfa :: "accounts_env \<Rightarrow> oidc_provider \<Rightarrow> string \<Rightarrow> string \<Rightarrow> bool" where
  "providerUserHasMfa env provider code uri =
     (case provider of
        Google \<Rightarrow> False
      | Discord \<Rightarrow> (case discord_getProviderUser env code uri of Inl _ \<Rightarrow> False | Inr u \<Rightarrow> discord_isMfaEnabled u)
      | GitLab \<Rightarrow> (case gitlab_getProviderUser env code uri of Inl _ \<Rightarrow> False | Inr u \<Rightarrow> gitlab_isMfaEnabled u))"

definition callbackUrl :: "accounts_env \<Rightarrow> string option \<Rightarrow> string option \<Rightarrow> string" where
  "callbackUrl env baseUrl host = (if truthyId baseUrl then the baseUrl else getBaseUrl env host)"

definition mfaVouched :: "accounts_env \<Rightarrow> account_op \<Rightarrow> accounts_world \<Rightarrow> uuid \<Rightarrow> bool" where
  "mfaVouched env a w uid =
     (case a of
        LocalSignIn u pw _ \<Rightarrow>
          (case findByUsername u w of
             None \<Rightarrow> False
           | Some user \<Rightarrow> \<not> ae_mfaRequired env \<and> \<not> lu_disabled user \<and> ae_verifyHash env (lu_password user) pw = Inr True
               \<and> uid = profileUid (ae_lib env) (toObjectId (ae_lib env) (lu_profileId user)))
      | ProviderSignIn prov code baseUrl host _ \<Rightarrow>
          (let base = callbackUrl env baseUrl host in
           case (redirectUri prov base, fst (profileIdBySignInWithCodeOrRegistrationUrl env prov code base w)) of
             (Inr uri, Inr r) \<Rightarrow>
               (providerUserHasMfa env prov code uri \<or> \<not> ae_mfaRequired env)
               \<and> map_option (profileUid (ae_lib env)) (por_profileId r) = Some uid
           | _ \<Rightarrow> False)
      | _ \<Rightarrow> False)"

lemma sessionsOk_mono: "sessionsOk L V w \<Longrightarrow> V \<subseteq> V' \<Longrightarrow> sessionsOk L V' w"
  by (fastforce simp: sessionsOk_def)

lemma keeps_step:
  assumes "staysIn (keepsSessions L V) m" and "sessionsOk L V w"
  shows "sessionsOk L V (snd (m w))"
  using staysInD [OF assms(1), of w] assms(2) by (simp add: keepsSessions_def)

text \<open>The answer about the second factor is the provider's.\<close>

lemma profileIdOrUrl_mfa:
  assumes "fst (profileIdOrUrl get look mfa create provider code base w) = Inr r" and "por_isMfaEnabled r = Some True"
  shows "\<exists>uri u. redirectUri provider base = Inr uri \<and> get code uri = Inr u \<and> mfa u"
  using assms
  by (cases "redirectUri provider base"; cases "get code (projr (redirectUri provider base))")
    (auto simp: profileIdOrUrl_def action_simps andThen_def split: prod.splits sum.splits option.splits)

lemma provider_mfa:
  assumes "fst (profileIdBySignInWithCodeOrRegistrationUrl env provider code base w) = Inr r"
    and "por_isMfaEnabled r = Some True"
  shows "\<exists>uri. redirectUri provider base = Inr uri \<and> providerUserHasMfa env provider code uri"
  using assms
  by (cases provider) (auto simp: profileIdBySignInWithCodeOrRegistrationUrl_def providerUserHasMfa_def
      google_isMfaEnabled_def dest!: profileIdOrUrl_mfa)

lemma provider_uri:
  assumes "fst (profileIdBySignInWithCodeOrRegistrationUrl env provider code base w) = Inr r"
  shows "\<exists>uri. redirectUri provider base = Inr uri"
  using assms
  by (cases "redirectUri provider base"; cases provider)
    (auto simp: profileIdBySignInWithCodeOrRegistrationUrl_def profileIdOrUrl_def action_simps andThen_def)

text \<open>An operation adds at most those it vouches for.\<close>

lemma step_localSignIn:
  assumes "sessionsOk (ae_lib env) V w"
  shows "sessionsOk (ae_lib env) (V \<union> {uid. mfaVouched env (LocalSignIn u pw s) w uid})
    (snd (signInWithLocalUser env u pw s w))" (is "sessionsOk ?L ?V' _")
proof (cases "fst (signInLocal env u pw w)")
  case (Inl e)
  then have "signInLocal env u pw w = (Inl e, w)" by (simp add: signInLocal_run)
  then show ?thesis using sessionsOk_mono [OF assms, of ?V'] by (simp add: signInWithLocalUser_def andThen_def)
next
  case (Inr user)
  then have run: "signInLocal env u pw w = (Inr user, w)" by (simp add: signInLocal_run)
  from Inr have ok: "findByUsername u w = Some user" "\<not> lu_disabled user" "ae_verifyHash env (lu_password user) pw = Inr True"
    by (auto simp: signInLocal_run split: option.splits if_splits)
  let ?p = "toObjectId ?L (lu_profileId user)"
  have "staysIn (keepsSessions ?L ?V') (setAccessRefreshTokenCookiesByProfile env ?p (\<not> s) (\<not> ae_mfaRequired env))"
    using ok by (intro keeps_setAccess) (auto simp: mfaVouched_def)
  from keeps_step [OF this sessionsOk_mono [OF assms]] show ?thesis
    by (simp add: signInWithLocalUser_def andThen_ret [where m = "signInLocal env u pw", OF run])
qed

lemma step_providerSignIn:
  assumes "sessionsOk (ae_lib env) V w"
  shows "sessionsOk (ae_lib env) (V \<union> {uid. mfaVouched env (ProviderSignIn prov code baseUrl host cookies) w uid})
    (snd (redirectSignInWithProviderCallback env prov code baseUrl host cookies w))" (is "sessionsOk ?L ?V' _")
proof -
  let ?base = "callbackUrl env baseUrl host"
  let ?m = "profileIdBySignInWithCodeOrRegistrationUrl env prov code ?base"
  obtain x v where run: "?m w = (x, v)" by (rule prod.exhaust)
  have v: "sessionsOk ?L ?V' v"
    using keeps_step [OF keeps_same [OF same_provider] sessionsOk_mono [OF assms, of ?V'], of env prov code ?base]
    by (simp add: run)
  note body = redirectSignInWithProviderCallback_def Let_def callbackUrl_def [symmetric]
  show ?thesis
  proof (cases x)
    case (Inl e)
    then show ?thesis using v by (simp add: body tryCatch_def andThen_def run action_simps)
  next
    case (Inr r)
    let ?mfa = "por_isMfaEnabled r = Some True \<or> \<not> ae_mfaRequired env"
    have vouch: "profileUid ?L p \<in> ?V'" if "por_profileId r = Some p" and ?mfa for p
    proof -
      have fr: "fst (?m w) = Inr r" by (simp add: run Inr)
      obtain uri where uri: "redirectUri prov ?base = Inr uri" using provider_uri [OF fr] by blast
      have "providerUserHasMfa env prov code uri \<or> \<not> ae_mfaRequired env"
        using that(2) provider_mfa [OF fr] uri by auto
      then show ?thesis using that(1) fr uri by (simp add: mfaVouched_def Let_def)
    qed
    let ?k = "if truthyId (por_registrationUrl r) then ret (the (por_registrationUrl r))
         else case por_profileId r of
           Some p \<Rightarrow>
             andThen (setAccessRefreshTokenCookiesByProfile env p True ?mfa) (\<lambda>_.
             andThen (getContinuePath cookies) (\<lambda>continuePath.
             ret (case continuePath of None \<Rightarrow> ''/'' | Some path \<Rightarrow> path)))
         | None \<Rightarrow> throw (InternalServerError ''Undecided profile id or registration url'')"
    let ?h = "\<lambda>err. ret (''/sign-in/?error='' @ encodeURIComponent (errMessage err))"
    have "staysIn (keepsSessions ?L ?V') (tryCatch ?k ?h)"
      using vouch unfolding getContinuePath_def Let_def
      by (cases "por_profileId r")
        (auto intro!: keeps.stays_rules keeps_setAccess keeps_same [OF same_cookies])
    from keeps_step [OF this v] have "sessionsOk ?L ?V' (snd (tryCatch ?k ?h v))" .
    moreover have "redirectSignInWithProviderCallback env prov code baseUrl host cookies w = tryCatch ?k ?h v"
      unfolding body by (simp add: tryCatch_def andThen_ret [where m = ?m, OF run [unfolded Inr]])
    ultimately show ?thesis by simp
  qed
qed

lemma snd_discard: "snd (discard m w) = snd (m w)"
  by (simp add: discard_def andThen_def action_simps split: prod.split sum.split)

lemma keeps_registration:
  assumes "ae_lib env = L"
  shows "staysIn (keepsSessions L V) (submitAccountRegistration env i n l)"
  unfolding submitAccountRegistration_def Let_def
  by (intro keeps.stays_rules keeps_same [OF same_useToken] keeps_same [OF same_register] keeps_setAccess assms) simp

lemma keeps_accountOp:
  assumes "id_lib_ok (ae_lib env)" and "\<And>u p s. a \<noteq> LocalSignIn u p s" and "\<And>r c b h k. a \<noteq> ProviderSignIn r c b h k"
  shows "staysIn (keepsSessions (ae_lib env) V) (accountOp env a)"
proof (cases a)
  case (SubmitRegistration i n l)
  show ?thesis
    unfolding SubmitRegistration accountOp.simps by (rule keeps.stays_discard [OF keeps_registration [OF refl]])
next
  case (RefreshRequest cookies)
  show ?thesis
    unfolding RefreshRequest accountOp.simps by (rule keeps_refreshTokenHandler [OF assms(1) refl])
next
  case (AnyRequest headers cookies)
  show ?thesis
    unfolding AnyRequest accountOp.simps by (rule keeps.stays_discard [OF keeps_authMiddleware [OF assms(1) refl]])
next
  case (SignOut cookies)
  show ?thesis
    unfolding SignOut accountOp.simps signOut_def Let_def
    by (intro keeps.stays_rules keeps_revoke keeps_same [OF same_cookies])
qed (simp_all add: assms(2,3) keeps_same same_accountOp del: accountOp.simps)

lemma accountStep_sessionsOk:
  assumes "id_lib_ok (ae_lib env)" and "sessionsOk (ae_lib env) V w"
  shows "sessionsOk (ae_lib env) (V \<union> {uid. mfaVouched env a w uid}) (accountStep env a w)"
proof (cases "\<exists>u p s r c b h k. a = LocalSignIn u p s \<or> a = ProviderSignIn r c b h k")
  case True
  then consider (local) u p s where "a = LocalSignIn u p s" | (provider) r c b h k where "a = ProviderSignIn r c b h k"
    by blast
  then show ?thesis
  proof cases
    case local
    then show ?thesis using step_localSignIn [OF assms(2)] by (simp add: accountStep_def)
  next
    case provider
    then show ?thesis using step_providerSignIn [OF assms(2), of r c b h k] by (simp add: accountStep_def snd_discard)
  qed
next
  case False
  then have "staysIn (keepsSessions (ae_lib env) V) (accountOp env a)" by (intro keeps_accountOp assms) blast+
  from sessionsOk_mono [OF keeps_step [OF this assms(2)]] show ?thesis by (simp add: accountStep_def)
qed

definition noSessions :: "accounts_world \<Rightarrow> bool" where
  "noSessions w \<longleftrightarrow> refreshTokens (adb w) = [] \<and> signedTokens w = []"

text \<open>The profiles that were vouched for by a step of a run.\<close>

definition vouchedIn :: "(accounts_env \<times> account_op) list \<Rightarrow> accounts_world \<Rightarrow> uuid set" where
  "vouchedIn steps w = {uid. \<exists>before env a after. steps = before @ (env, a) # after \<and> mfaVouched env a (accountRun before w) uid}"

lemma vouchedIn_snoc:
  "vouchedIn steps w \<union> {uid. mfaVouched env a (accountRun steps w) uid} \<subseteq> vouchedIn (steps @ [(env, a)]) w"
proof
  fix uid
  assume "uid \<in> vouchedIn steps w \<union> {uid. mfaVouched env a (accountRun steps w) uid}"
  then consider before e b after where "steps = before @ (e, b) # after" "mfaVouched e b (accountRun before w) uid"
    | "mfaVouched env a (accountRun steps w) uid"
    unfolding vouchedIn_def by blast
  then show "uid \<in> vouchedIn (steps @ [(env, a)]) w"
  proof cases
    case 1
    then have "steps @ [(env, a)] = before @ (e, b) # (after @ [(env, a)])" by simp
    then show ?thesis unfolding vouchedIn_def using 1(2) by blast
  next
    case 2
    then show ?thesis unfolding vouchedIn_def by blast
  qed
qed

lemma accountRun_sessionsOk:
  assumes "id_lib_ok L" and "noSessions w" and "\<forall>(env, a) \<in> set steps. ae_lib env = L"
  shows "sessionsOk L (vouchedIn steps w) (accountRun steps w)"
  using assms(3)
proof (induction steps rule: rev_induct)
  case Nil
  then show ?case using assms(2) by (simp add: noSessions_def sessionsOk_def)
next
  case (snoc x steps)
  obtain env a where x: "x = (env, a)" by (cases x)
  then have lib: "ae_lib env = L" and IH: "sessionsOk L (vouchedIn steps w) (accountRun steps w)"
    using snoc by auto
  have "sessionsOk L (vouchedIn steps w \<union> {uid. mfaVouched env a (accountRun steps w) uid}) (accountRun (steps @ [x]) w)"
    unfolding x accountRun_snoc using accountStep_sessionsOk [of env] assms(1) IH by (simp add: lib)
  from sessionsOk_mono [OF this vouchedIn_snoc] show ?case by (simp only: x)
qed

text \<open>
  Claim C12: However requests follow each other, from a state without sessions an access token that carries any
  group is signed only for a profile which an earlier request of the run vouched for: by the password of an
  enabled local user where no second factor is required, or by an external account for which the provider
  reports a second factor or none is required. Refreshed tokens and registrations gain no groups.
\<close>

theorem groups_need_mfa:
  assumes "id_lib_ok L" and "noSessions w" and "\<forall>(env, a) \<in> set steps. ae_lib env = L"
    and "(p, claims) \<in> set (signedTokens (accountRun steps w))" and "cl_groups claims \<noteq> []"
  shows "\<exists>before env a after. steps = before @ (env, a) # after \<and> mfaVouched env a (accountRun before w) (profileUid L p)"
proof -
  have "profileUid L p \<in> vouchedIn steps w"
    using accountRun_sessionsOk [OF assms(1-3)] assms(4,5) by (auto simp: sessionsOk_def)
  then show ?thesis by (simp add: vouchedIn_def)
qed

lemma setAccess_signs:
  "signedTokens (snd (setAccessRefreshTokenCookiesByProfile env p s m w)) =
     signedTokens w @ [(p, accessClaims env (adb w) p m)]"
  by (auto simp: setAccessRefreshTokenCookiesByProfile_def generateAccessToken_def createRefreshToken_def
      setHttpAccessTokenCookie_def setHttpRefreshTokenCookie_def setCookies_def Let_def action_simps andThen_def zoom_def)

text \<open>Jane signs in where no second factor is required, and her token carries her group.\<close>

definition demoSignIn :: "(accounts_env \<times> account_op) list" where
  "demoSignIn = [(demoEnv 0 ''r1'', LocalSignIn ''janed'' ''secret'' True)]"

theorem groups_need_mfa_witness:
  "\<exists>claims. (demoJane, claims) \<in> set (signedTokens (accountRun demoSignIn (demoWorld []))) \<and> cl_groups claims = [''it'']
     \<and> (\<exists>before env a after. demoSignIn = before @ (env, a) # after
          \<and> mfaVouched env a (accountRun before (demoWorld [])) (profileUid standardLib demoJane))"
proof -
  have none: "noSessions (demoWorld [])" by (simp add: noSessions_def demoWorld_def)
  have lib: "\<forall>(env, a) \<in> set demoSignIn. ae_lib env = standardLib" by (simp add: demoSignIn_def demoEnv_def)
  let ?env = "demoEnv 0 ''r1''"
  let ?claims = "accessClaims ?env (adb (demoWorld [])) demoJane True"
  have jane: "toObjectId standardLib (profileUid standardLib demoJane) = demoJane" by code_simp
  have env: "ae_lib ?env = standardLib" "ae_mfaRequired ?env = False" by (simp_all add: demoEnv_def)
  have user: "lu_profileId (hd (localUsers (adb (demoWorld [])))) = profileUid standardLib demoJane"
    by (simp add: demoWorld_def)
  have "signInLocal ?env ''janed'' ''secret'' (demoWorld []) = (Inr (hd (localUsers (adb (demoWorld [])))), demoWorld [])"
    by (simp add: signInLocal_run findByUsername_def findOneBy_def demoWorld_def demoEnv_def)
  note signedIn = andThen_ret [where m = "signInLocal ?env ''janed'' ''secret''", OF this]
  have "accountRun demoSignIn (demoWorld []) =
      snd (setAccessRefreshTokenCookiesByProfile ?env demoJane False True (demoWorld []))"
    by (simp add: demoSignIn_def accountStep_def signInWithLocalUser_def env user jane signedIn)
  then have signed: "(demoJane, ?claims) \<in> set (signedTokens (accountRun demoSignIn (demoWorld [])))"
    by (simp add: setAccess_signs)
  have "getProfileGroups demoJane (adb (demoWorld [])) = [''it'']" by code_simp
  then have it: "cl_groups ?claims = [''it'']" by (simp add: accessClaims_def Let_def)
  have "cl_groups ?claims \<noteq> []" by (simp add: it)
  from groups_need_mfa [OF standardLib_ok none lib signed this] signed it show ?thesis by blast
qed

end
