(* ===== verification/Account_Rotation.thy ===== *)
theory Account_Rotation
  imports Account_Flow
begin

text \<open>
  The life of a refresh token that is used: what \<open>useRefreshToken\<close> answers in every case, that a replaced
  token stops working when its period of grace is over whatever happens in between, and what the middleware
  accepts as the identity of a request.
\<close>

section \<open>A token that was replaced\<close>

text \<open>All rows with the identifier have a successor, and end by a given instant.\<close>

definition replacedToken :: "uuid \<Rightarrow> time \<Rightarrow> accounts_world \<Rightarrow> bool" where
  "replacedToken r e w \<longleftrightarrow> (\<forall>t \<in> set (refreshTokens (adb w)). rt_id t = r \<longrightarrow> rt_expiresAt t \<le> e \<and> truthyId (rt_nextToken t))"

definition keepsReplaced :: "uuid \<Rightarrow> time \<Rightarrow> accounts_world \<Rightarrow> accounts_world \<Rightarrow> bool" where
  "keepsReplaced r e w v \<longleftrightarrow> (replacedToken r e w \<longrightarrow> replacedToken r e v)"

interpretation repl: action_frame "keepsReplaced r e" for r e
  by unfold_locales (simp_all add: keepsReplaced_def)

lemma repl_same: "staysIn sameSessions m \<Longrightarrow> staysIn (keepsReplaced r e) m"
  by (auto simp: staysIn_def sameSessions_def keepsReplaced_def replacedToken_def)

lemma repl_create: "ae_newToken env \<noteq> r \<Longrightarrow> staysIn (keepsReplaced r e) (createRefreshToken env uid s mfa)"
  by (auto simp: createRefreshToken_def Let_def staysIn_def andThen_def zoom_def action_simps keepsReplaced_def
      replacedToken_def set_saveRow split: prod.split)

lemma repl_remove: "staysIn (keepsReplaced r e) (removeRefreshToken x)"
  by (auto simp: removeRefreshToken_def Let_def staysIn_def andThen_def zoom_def action_simps keepsReplaced_def
      replacedToken_def split: prod.split)

lemma repl_revoke:
  assumes "x \<noteq> r"
  shows "staysIn (keepsReplaced r e) (revokeToken env x n)"
proof -
  have "staysIn (keepsReplaced r e) (updateRefreshToken env x d n)" for d n
    using assms by (auto simp: updateRefreshToken_def Let_def staysIn_def andThen_def zoom_def action_simps
        keepsReplaced_def replacedToken_def set_updateBy split: prod.split)
  then show ?thesis by (simp add: revokeToken_def repl_remove)
qed

lemma repl_use:
  assumes "ae_newToken env \<noteq> r"
  shows "staysIn (keepsReplaced r e) (useRefreshToken env x)"
proof (rule staysInI)
  fix w
  show "keepsReplaced r e w (snd (useRefreshToken env x w))"
    unfolding keepsReplaced_def
  proof
    assume w: "replacedToken r e w"
    show "replacedToken r e (snd (useRefreshToken env x w))"
    proof (cases "findRefreshToken env x w")
      case None
      then show ?thesis using w by (simp add: useRefreshToken_def action_simps)
    next
      case (Some t)
      then have t: "t \<in> set (refreshTokens (adb w))" "rt_id t = x"
        by (auto simp: findRefreshToken_def dest: findOneBy_SomeD)
      show ?thesis
      proof (cases "truthyId (rt_nextToken t)")
        case True
        then show ?thesis using w Some by (simp add: useRefreshToken_def action_simps)
      next
        case False
        with w t have "x \<noteq> r" by (auto simp: replacedToken_def)
        then have "staysIn (keepsReplaced r e) (andThen (createRefreshToken env uid s m) (\<lambda>new.
            andThen (revokeToken env x (Some (rt_id new))) (\<lambda>_. ret (k new))))" for uid s m and k :: "refresh_token \<Rightarrow> refresh_token option"
          by (intro repl.stays_rules repl_create repl_revoke assms)
        from staysInD [OF this, of w] show ?thesis
          using w Some False by (simp add: useRefreshToken_def action_simps keepsReplaced_def)
      qed
    qed
  qed
qed

lemma repl_generate: "staysIn (keepsReplaced r e) (generateAccessToken env p g)"
  by (simp add: generateAccessToken_def staysIn_def action_simps keepsReplaced_def replacedToken_def)

lemma repl_cookies:
  "staysIn (keepsReplaced r e) (setHttpAccessTokenCookie a x)" "staysIn (keepsReplaced r e) (setHttpRefreshTokenCookie b x)"
  unfolding setHttpAccessTokenCookie_def setHttpRefreshTokenCookie_def by (intro repl_same same_cookies)+

lemma repl_getUpdated:
  assumes "ae_newToken env \<noteq> r"
  shows "staysIn (keepsReplaced r e) (getUpdatedAccessToken env ct x)"
  unfolding getUpdatedAccessToken_def refreshAccessToken_def Let_def
  by (intro repl.stays_rules repl_use repl_generate repl_cookies assms)

lemma repl_setAccess:
  assumes "ae_newToken env \<noteq> r"
  shows "staysIn (keepsReplaced r e) (setAccessRefreshTokenCookiesByProfile env p s mfa)"
  unfolding setAccessRefreshTokenCookiesByProfile_def Let_def
  by (intro repl.stays_rules repl_generate repl_create repl_cookies assms)

lemma repl_accountOp:
  assumes "ae_newToken env \<noteq> r"
  shows "staysIn (keepsReplaced r e) (accountOp env a)"
proof (cases a)
  case (LocalSignIn u p s)
  show ?thesis
    unfolding LocalSignIn accountOp.simps signInWithLocalUser_def
    by (intro repl.stays_rules repl_same [OF same_signInLocal] repl_setAccess assms)
next
  case (ProviderSignIn prov code baseUrl host cookies)
  show ?thesis
    unfolding ProviderSignIn accountOp.simps redirectSignInWithProviderCallback_def getContinuePath_def Let_def
    by (intro repl.stays_discard repl.stays_rules repl_same [OF same_provider] repl_setAccess repl_same [OF same_cookies] assms)
next
  case (SubmitRegistration i n l)
  show ?thesis
    unfolding SubmitRegistration accountOp.simps submitAccountRegistration_def Let_def
    by (intro repl.stays_discard repl.stays_rules repl_same [OF same_useToken] repl_same [OF same_register] repl_setAccess assms)
next
  case (RefreshRequest cookies)
  show ?thesis
    unfolding RefreshRequest accountOp.simps refreshTokenHandler_def Let_def
    by (intro repl.stays_rules repl_getUpdated assms)
next
  case (AnyRequest headers cookies)
  show ?thesis
    unfolding AnyRequest accountOp.simps authMiddleware_def Let_def
    by (intro repl.stays_discard repl.stays_rules repl_getUpdated assms)
next
  case (SignOut cookies)
  show ?thesis
    unfolding SignOut accountOp.simps signOut_def Let_def revokeToken_def
    by (simp add: repl.stays_discard repl.stays_andThen repl.stays_ret repl_remove repl_same [OF same_cookies])
qed (simp_all add: repl_same same_accountOp del: accountOp.simps)

lemma accountRun_replaced:
  "replacedToken r e w \<Longrightarrow> \<forall>(env, a) \<in> set steps. ae_newToken env \<noteq> r \<Longrightarrow> replacedToken r e (accountRun steps w)"
proof (induction steps arbitrary: w)
  case (Cons x steps)
  obtain env a where x: "x = (env, a)" by (cases x)
  then have "staysIn (keepsReplaced r e) (accountOp env a)" using Cons.prems by (intro repl_accountOp) auto
  from staysInD [OF this, of w] have "replacedToken r e (accountStep env a w)"
    using Cons.prems(1) by (simp add: keepsReplaced_def accountStep_def)
  from Cons.IH [OF this] Cons.prems(2) show ?case by (simp add: x)
qed simp

lemma useRefreshToken_replaced:
  assumes "replacedToken r e w" and "e \<le> ae_now env"
  shows "useRefreshToken env r w = (Inr None, w)"
proof -
  have "findRefreshToken env r w = None"
    using assms by (fastforce simp: findRefreshToken_def findOneBy_None replacedToken_def)
  then show ?thesis by (simp add: useRefreshToken_def action_simps)
qed

section \<open>Using a token\<close>

text \<open>A token is rotated when it is found, has no successor yet and is old enough.\<close>

definition rotates :: "accounts_env \<Rightarrow> uuid \<Rightarrow> accounts_world \<Rightarrow> refresh_token \<Rightarrow> bool" where
  "rotates env r w t \<longleftrightarrow> findRefreshToken env r w = Some t \<and> \<not> truthyId (rt_nextToken t) \<and> shouldReIssue env t"

definition tokenIds :: "accounts_world \<Rightarrow> uuid list" where
  "tokenIds w = map rt_id (refreshTokens (adb w))"

definition successorRow :: "accounts_env \<Rightarrow> refresh_token \<Rightarrow> refresh_token" where
  "successorRow env t = \<lparr>rt_id = ae_newToken env, rt_profileId = rt_profileId t,
     rt_expiresAt = refreshTokenExpires env (isSessionToken (rt_createdAt t) (rt_expiresAt t)), rt_nextToken = None,
     rt_isMfaEnabled = rt_isMfaEnabled t, rt_createdAt = ae_dbNow env\<rparr>"

lemma findRefreshToken_SomeD:
  assumes "findRefreshToken env r w = Some t"
  shows "t \<in> set (refreshTokens (adb w))" and "rt_id t = r" and "ae_now env < rt_expiresAt t"
  using assms by (auto simp: findRefreshToken_def dest: findOneBy_SomeD)

text \<open>With distinct identifiers, a row that is there and has not expired is the one that is found.\<close>

lemma findRefreshToken_eq:
  assumes "distinct (tokenIds w)" and "t \<in> set (refreshTokens (adb w))" and "ae_now env < rt_expiresAt t"
  shows "findRefreshToken env (rt_id t) w = Some t"
proof -
  have "findRefreshToken env (rt_id t) w \<noteq> None"
    using assms(2,3) by (auto simp: findRefreshToken_def findOneBy_None)
  then obtain s where s: "findRefreshToken env (rt_id t) w = Some s" by blast
  from findRefreshToken_SomeD [OF s] have "s \<in> set (refreshTokens (adb w))" "rt_id s = rt_id t" by simp_all
  with assms(1,2) have "s = t" by (auto simp: tokenIds_def distinct_map dest: inj_onD)
  with s show ?thesis by simp
qed

lemma useRefreshToken_rotates:
  assumes "rotates env r w t" and "ae_newToken env \<noteq> []"
  shows "useRefreshToken env r w = (Inr (Some (t\<lparr>rt_id := ae_newToken env\<rparr>)),
    w\<lparr>adb := (adb w)\<lparr>refreshTokens := updateBy (\<lambda>x. rt_id x = r \<and> ae_now env \<le> rt_expiresAt x)
      (\<lambda>x. x\<lparr>rt_expiresAt := ae_now env + seconds 5, rt_nextToken := Some (ae_newToken env)\<rparr>)
      (saveRow rt_id (successorRow env t) (refreshTokens (adb w)))\<rparr>\<rparr>)"
  using assms by (simp add: rotates_def useRefreshToken_def createRefreshToken_def revokeToken_def updateRefreshToken_def
      Let_def action_simps zoom_def andThen_def successorRow_def)

lemma tokenIds_fresh:
  assumes "distinct (tokenIds w)" and "ae_newToken env \<notin> set (tokenIds w)" and "refreshTokens (adb v) =
    updateBy p (\<lambda>x. x\<lparr>rt_expiresAt := e, rt_nextToken := n\<rparr>) (saveRow rt_id (successorRow env t) (refreshTokens (adb w)))"
  shows "distinct (tokenIds v)"
proof -
  have "tokenIds v = map rt_id (saveRow rt_id (successorRow env t) (refreshTokens (adb w)))"
    by (simp add: tokenIds_def assms(3) updateBy_def comp_def if_distrib cong: if_cong)
  then show ?thesis using distinct_saveRow assms(1) by (simp only: tokenIds_def)
qed

lemma successor_session:
  assumes "ae_dbNow env - ae_now env \<le> minutes 1" and "ae_now env - ae_dbNow env \<le> days 29"
  shows "isSessionToken (ae_dbNow env) (refreshTokenExpires env s) \<longleftrightarrow> s"
  using assms by (simp add: isSessionToken_def refreshTokenExpires_def DEFAULT_REFRESH_TOKEN_DURATION_def
      SESSION_REFRESH_TOKEN_DURATION_def duration_defs)

text \<open>What a rotation leaves in the table: the old row with its five seconds, and the new one behind it.\<close>

lemma rotated_rows:
  fixes env r
  defines "p \<equiv> \<lambda>x. rt_id x = r \<and> ae_now env \<le> rt_expiresAt x"
    and "f \<equiv> \<lambda>x. x\<lparr>rt_expiresAt := ae_now env + seconds 5, rt_nextToken := Some (ae_newToken env)\<rparr>"
  assumes "distinct (tokenIds w)" and "rotates env r w t"
    and "ae_newToken env \<notin> set (tokenIds w)" and "ae_newToken env \<noteq> []"
  obtains v where "useRefreshToken env r w = (Inr (Some (t\<lparr>rt_id := ae_newToken env\<rparr>)), v)"
    and "refreshTokens (adb v) = updateBy p f (refreshTokens (adb w)) @ [successorRow env t]"
    and "distinct (tokenIds v)" and "f t \<in> set (refreshTokens (adb v))"
    and "filter (\<lambda>x. rt_id x \<noteq> r \<and> rt_id x \<noteq> ae_newToken env) (refreshTokens (adb v)) =
      filter (\<lambda>x. rt_id x \<noteq> r) (refreshTokens (adb w))"
proof -
  let ?new = "successorRow env t"
  obtain v where use: "useRefreshToken env r w = (Inr (Some (t\<lparr>rt_id := ae_newToken env\<rparr>)), v)"
    and rows: "refreshTokens (adb v) = updateBy p f (saveRow rt_id ?new (refreshTokens (adb w)))"
    using useRefreshToken_rotates [OF assms(4,6)] by (simp add: p_def f_def)
  have t: "t \<in> set (refreshTokens (adb w))" "rt_id t = r" "ae_now env < rt_expiresAt t"
    using assms(4) findRefreshToken_SomeD by (auto simp: rotates_def)
  have newId: "rt_id ?new = ae_newToken env" by (simp add: successorRow_def)
  have fresh: "rt_id ?new \<noteq> rt_id x" if "x \<in> set (refreshTokens (adb w))" for x
    using assms(5) that by (auto simp: newId tokenIds_def)
  then have "\<not> (\<exists>x \<in> set (refreshTokens (adb w)). rt_id x = rt_id ?new)" by metis
  then have save: "saveRow rt_id ?new (refreshTokens (adb w)) = refreshTokens (adb w) @ [?new]" by (simp add: saveRow_def)
  have rows': "refreshTokens (adb v) = updateBy p f (refreshTokens (adb w)) @ [?new]"
    unfolding rows save using fresh [OF t(1)] t(2) by (auto simp: updateBy_def p_def)
  moreover have "distinct (tokenIds v)" using tokenIds_fresh [OF assms(3,5)] rows by (auto simp: p_def f_def)
  moreover have "f t \<in> set (refreshTokens (adb v))"
    using t by (auto simp: rows' set_updateBy image_iff p_def intro!: bexI [of _ t])
  moreover have "filter (\<lambda>x. rt_id x \<noteq> r \<and> rt_id x \<noteq> rt_id ?new) (updateBy p f (refreshTokens (adb w))) =
        filter (\<lambda>x. rt_id x \<noteq> r \<and> rt_id x \<noteq> rt_id ?new) (refreshTokens (adb w))"
    by (rule filter_updateBy_frame) (simp add: p_def f_def)
  moreover have "\<dots> = filter (\<lambda>x. rt_id x \<noteq> r) (refreshTokens (adb w))"
    by (rule filter_cong [OF refl]) (metis fresh)
  ultimately show ?thesis using that [OF use] by (simp add: newId)
qed



text \<open>
  Claim C15: Once its five seconds of grace are over a replaced token is worthless, whatever requests came in
  between, as long as no new token is given its identifier: using it gives nothing and changes nothing.
\<close>

theorem rotated_token_expires:
  assumes "distinct (tokenIds w)" and "rotates env r w t" and "ae_newToken env \<noteq> []"
    and "ae_newToken env \<noteq> r" and "\<forall>(e, a) \<in> set steps. ae_newToken e \<noteq> r"
    and "ae_now env + seconds 5 \<le> ae_now env'"
  shows "useRefreshToken env' r (accountRun steps (snd (useRefreshToken env r w))) =
    (Inr None, accountRun steps (snd (useRefreshToken env r w)))"
proof -
  have t: "t \<in> set (refreshTokens (adb w))" "rt_id t = r" "ae_now env < rt_expiresAt t"
    using assms(2) findRefreshToken_SomeD by (auto simp: rotates_def)
  have only: "x = t" if "x \<in> set (refreshTokens (adb w))" "rt_id x = r" for x
    using that t assms(1) by (auto simp: tokenIds_def distinct_map dest: inj_onD)
  let ?v = "snd (useRefreshToken env r w)"
  have rows: "refreshTokens (adb ?v) = updateBy (\<lambda>x. rt_id x = r \<and> ae_now env \<le> rt_expiresAt x)
      (\<lambda>x. x\<lparr>rt_expiresAt := ae_now env + seconds 5, rt_nextToken := Some (ae_newToken env)\<rparr>)
      (saveRow rt_id (successorRow env t) (refreshTokens (adb w)))"
    unfolding useRefreshToken_rotates [OF assms(2,3)] by simp
  have "rt_expiresAt x \<le> ae_now env + seconds 5 \<and> truthyId (rt_nextToken x)"
    if "x \<in> set (refreshTokens (adb ?v))" and "rt_id x = r" for x
  proof -
    from that(1)[unfolded rows] obtain y where y: "y \<in> set (saveRow rt_id (successorRow env t) (refreshTokens (adb w)))"
      and x: "x = (if rt_id y = r \<and> ae_now env \<le> rt_expiresAt y
        then y\<lparr>rt_expiresAt := ae_now env + seconds 5, rt_nextToken := Some (ae_newToken env)\<rparr> else y)"
      by (rule updateBy_memE)
    have id: "rt_id y = r" using that(2) by (auto simp: x split: if_splits)
    then have "y \<noteq> successorRow env t" using assms(4) by (auto simp: successorRow_def)
    with y have "y \<in> set (refreshTokens (adb w))" by (simp add: set_saveRow)
    from only [OF this id] t(3) have "x = y\<lparr>rt_expiresAt := ae_now env + seconds 5, rt_nextToken := Some (ae_newToken env)\<rparr>"
      by (simp add: x id t(2))
    then show ?thesis using assms(3) by simp
  qed
  then have "replacedToken r (ae_now env + seconds 5) ?v" by (simp add: replacedToken_def)
  from useRefreshToken_replaced [OF accountRun_replaced [OF this assms(5)] assms(6)] show ?thesis .
qed

theorem rotated_token_expires_witness:
  "fst (useRefreshToken (demoEnv 36005000 ''r3'') ''r1''
     (accountRun [(demoEnv 36002000 ''r4'', SignOut (\<lambda>_. None))]
       (snd (useRefreshToken (demoEnv 36000000 ''r2'') ''r1'' (demoWorld [demoToken]))))) = Inr None"
proof -
  let ?env = "demoEnv 36000000 ''r2''" and ?env' = "demoEnv 36005000 ''r3''" and ?w = "demoWorld [demoToken]"
  let ?steps = "[(demoEnv 36002000 ''r4'', SignOut (\<lambda>_. None))]"
  have ids: "distinct (tokenIds ?w)" by (simp add: tokenIds_def demoWorld_def)
  have rot: "rotates ?env ''r1'' ?w demoToken" unfolding rotates_def
    by (simp add: findRefreshToken_def findOneBy_def demoWorld_def demoToken_def demoEnv_def shouldReIssue_def
        SESSION_REFRESH_TOKEN_DURATION_def duration_defs)
  have new: "ae_newToken ?env \<noteq> []" "ae_newToken ?env \<noteq> ''r1''" "\<forall>(e, a) \<in> set ?steps. ae_newToken e \<noteq> ''r1''"
    "ae_now ?env + seconds 5 \<le> ae_now ?env'"
    by (simp_all add: demoEnv_def duration_defs)
  show ?thesis using rotated_token_expires [OF ids rot new] by simp
qed

text \<open>A browser that uses a token again within the period of grace gets cookies that end with its session.\<close>

lemma grace_reuse_session:
  assumes "rt_createdAt t = 0" and "rt_expiresAt t = ae_now env + seconds 5" and "ae_now env < days 29"
  shows "tokenCookieExpires env' t = None"
  using assms by (simp add: tokenCookieExpires_def isSessionToken_def DEFAULT_REFRESH_TOKEN_DURATION_def duration_defs)

text \<open>The endpoint that refreshes does nothing while the cookie of the access token is there, expired or not.\<close>

lemma refreshTokenHandler_with_access:
  assumes "truthyId (cookies ACCESS_TOKEN_COOKIE_NAME)" and "truthyId (cookies REFRESH_TOKEN_COOKIE_NAME)"
  shows "refreshTokenHandler env cookies w = (Inr (), w)"
  using assms by (simp add: refreshTokenHandler_def getUpdatedAccessToken_def fromCookies_def action_simps Let_def)

section \<open>Who a request comes from\<close>

lemma useRefreshToken_run:
  "\<exists>i v. useRefreshToken env r w = (Inr (map_option (\<lambda>t. t\<lparr>rt_id := i t\<rparr>) (findRefreshToken env r w)), v)"
proof (cases "findRefreshToken env r w")
  case None
  then show ?thesis by (simp add: useRefreshToken_def action_simps)
next
  case (Some t)
  consider "truthyId (rt_nextToken t)" | "\<not> truthyId (rt_nextToken t)" "\<not> shouldReIssue env t"
    | "\<not> truthyId (rt_nextToken t)" "shouldReIssue env t" by blast
  then show ?thesis
  proof cases
    case 1
    then show ?thesis using Some by (auto simp: useRefreshToken_def action_simps)
  next
    case 2
    then show ?thesis using Some by (auto simp: useRefreshToken_def action_simps intro: exI [of _ rt_id])
  next
    case 3
    then show ?thesis using Some
      by (auto simp: useRefreshToken_def createRefreshToken_def revokeToken_def updateRefreshToken_def
          removeRefreshToken_def Let_def action_simps zoom_def andThen_def)
  qed
qed

lemma refreshAccessToken_run:
  "\<exists>ct' v. refreshAccessToken env ct w = (Inr ct', v) \<and>
     (case findRefreshToken env (the (ct_refreshToken ct)) w of
        None \<Rightarrow> ct' = ct
      | Some t \<Rightarrow> ct_accessToken ct' = Some (ae_sign env
          (accessClaims env (adb v) (toObjectId (ae_lib env) (rt_profileId t)) (rt_isMfaEnabled t))))"
proof -
  obtain i v where use: "useRefreshToken env (the (ct_refreshToken ct)) w =
      (Inr (map_option (\<lambda>t. t\<lparr>rt_id := i t\<rparr>) (findRefreshToken env (the (ct_refreshToken ct)) w)), v)"
    using useRefreshToken_run by blast
  show ?thesis
    unfolding refreshAccessToken_def andThen_ret [where m = "useRefreshToken env (the (ct_refreshToken ct))", OF use]
    by (cases "findRefreshToken env (the (ct_refreshToken ct)) w")
      (auto simp: Let_def action_simps generateAccessToken_def setHttpAccessTokenCookie_def
        setHttpRefreshTokenCookie_def setCookies_def andThen_def accessClaims_def)
qed

lemma getUpdatedAccessToken_run:
  "\<exists>a v. getUpdatedAccessToken env ct (Some True) w = (Inr a, v) \<and>
     (a = ct_accessToken ct \<or>
      truthyId (ct_refreshToken ct) \<and> (\<exists>t. findRefreshToken env (the (ct_refreshToken ct)) w = Some t
        \<and> a = Some (ae_sign env (accessClaims env (adb v) (toObjectId (ae_lib env) (rt_profileId t)) (rt_isMfaEnabled t)))))"
proof (cases "truthyId (ct_refreshToken ct)")
  case False
  then show ?thesis by (simp add: getUpdatedAccessToken_def action_simps)
next
  case True
  obtain ct' v where "refreshAccessToken env ct w = (Inr ct', v)"
    and ct': "case findRefreshToken env (the (ct_refreshToken ct)) w of None \<Rightarrow> ct' = ct
      | Some t \<Rightarrow> ct_accessToken ct' = Some (ae_sign env
          (accessClaims env (adb v) (toObjectId (ae_lib env) (rt_profileId t)) (rt_isMfaEnabled t)))"
    using refreshAccessToken_run by blast
  then have "getUpdatedAccessToken env ct (Some True) w = (Inr (ct_accessToken ct'), v)"
    using True by (simp add: getUpdatedAccessToken_def andThen_def action_simps)
  then show ?thesis using ct' True by (cases "findRefreshToken env (the (ct_refreshToken ct)) w") auto
qed

text \<open>The user a request shows by itself: the cookie's access token before the headers.\<close>

lemma authMiddleware_run:
  assumes "h = getUserFromHeaders env headers" and "ct = fromCookies cookies"
    and "u = (if truthyId (ct_accessToken ct) then getUserFromAccessToken env (the (ct_accessToken ct)) else h)"
  shows "authMiddleware env headers cookies w =
    (if ae_isSignedIn env h then (Inr h, w) else if ae_isSignedIn env u then (Inr u, w)
     else case getUpdatedAccessToken env ct (Some True) w of
       (Inr a, v) \<Rightarrow> (Inr (if truthyId a then getUserFromAccessToken env (the a) else u), v)
     | (Inl e, v) \<Rightarrow> (Inr (ae_guest env), v))"
  using assms by (auto simp: authMiddleware_def Let_def tryCatch_def andThen_def action_simps split: prod.splits sum.splits)

text \<open>
  Claim C13: The middleware never fails, and a signed-in user of a request was proven by one of three things:
  headers that verify, an access token in the cookie that verifies, or a refresh token in the cookie that is
  found in the table and has not expired; then the user is that of an access token signed for the profile
  of the refresh token, with groups exactly when the refresh token has the second factor.
\<close>

theorem authMiddleware_sound:
  assumes "\<not> ae_isSignedIn env (ae_guest env)"
  shows "\<exists>user v. authMiddleware env headers cookies w = (Inr user, v) \<and> (ae_isSignedIn env user \<longrightarrow>
      ae_verifyHeaders env headers = Inr user
      \<or> (\<exists>token. cookies ACCESS_TOKEN_COOKIE_NAME = Some token \<and> ae_verify env token = Inr user)
      \<or> (\<exists>r t. cookies REFRESH_TOKEN_COOKIE_NAME = Some r \<and> findRefreshToken env r w = Some t
          \<and> ae_verify env (ae_sign env (accessClaims env (adb v) (toObjectId (ae_lib env) (rt_profileId t))
               (rt_isMfaEnabled t))) = Inr user))"
proof -
  let ?h = "getUserFromHeaders env headers" and ?ct = "fromCookies cookies" and ?token = "getUserFromAccessToken env"
  let ?u = "if truthyId (ct_accessToken ?ct) then ?token (the (ct_accessToken ?ct)) else ?h"
  note run = authMiddleware_run [OF refl refl refl]
  have byHeader: "ae_isSignedIn env ?h \<Longrightarrow> ae_verifyHeaders env headers = Inr ?h"
    using assms by (auto simp: getUserFromHeaders_def orGuest_def split: sum.splits)
  have byToken: "ae_isSignedIn env (?token k) \<Longrightarrow> ae_verify env k = Inr (?token k)" for k
    using assms by (auto simp: getUserFromAccessToken_def orGuest_def split: sum.splits)
  have cookies: "truthyId (ct_accessToken ?ct) \<Longrightarrow> cookies ACCESS_TOKEN_COOKIE_NAME = Some (the (ct_accessToken ?ct))"
    "truthyId (ct_refreshToken ?ct) \<Longrightarrow> cookies REFRESH_TOKEN_COOKIE_NAME = Some (the (ct_refreshToken ?ct))"
    by (auto simp: fromCookies_def truthyId_def split: option.splits)
  show ?thesis
  proof (cases "ae_isSignedIn env ?h \<or> ae_isSignedIn env ?u")
    case True
    then have "authMiddleware env headers cookies w = (Inr (if ae_isSignedIn env ?h then ?h else ?u), w)"
      unfolding run by (cases "ae_isSignedIn env ?h") (simp_all only: if_True if_False simp_thms)
    moreover have "ae_verifyHeaders env headers = Inr ?u \<or>
        (\<exists>token. cookies ACCESS_TOKEN_COOKIE_NAME = Some token \<and> ae_verify env token = Inr ?u)" if "ae_isSignedIn env ?u"
      using that byHeader byToken cookies(1) by (cases "truthyId (ct_accessToken ?ct)") auto
    ultimately show ?thesis using byHeader by auto
  next
    case False
    obtain a v where got: "getUpdatedAccessToken env ?ct (Some True) w = (Inr a, v)"
      and a: "a = ct_accessToken ?ct \<or> truthyId (ct_refreshToken ?ct) \<and> (\<exists>t. findRefreshToken env (the (ct_refreshToken ?ct)) w = Some t
        \<and> a = Some (ae_sign env (accessClaims env (adb v) (toObjectId (ae_lib env) (rt_profileId t)) (rt_isMfaEnabled t))))"
      using getUpdatedAccessToken_run by metis
    have result: "authMiddleware env headers cookies w = (Inr (if truthyId a then ?token (the a) else ?u), v)"
      using False got by (simp add: run)
    show ?thesis
    proof (cases "ae_isSignedIn env (if truthyId a then ?token (the a) else ?u)")
      case signed: True
      with False have "truthyId a" "a \<noteq> ct_accessToken ?ct" by (auto split: if_splits)
      with a obtain t where t: "truthyId (ct_refreshToken ?ct)" "findRefreshToken env (the (ct_refreshToken ?ct)) w = Some t"
        "a = Some (ae_sign env (accessClaims env (adb v) (toObjectId (ae_lib env) (rt_profileId t)) (rt_isMfaEnabled t)))" by blast
      have "ae_verify env (the a) = Inr (?token (the a))" using byToken signed \<open>truthyId a\<close> by simp
      then show ?thesis using result \<open>truthyId a\<close> t cookies(2) [OF t(1)] by simp
    qed (use result in blast)
  qed
qed

theorem authMiddleware_sound_witness:
  "\<not> ae_isSignedIn (demoEnv 1000 ''r2'') (ae_guest (demoEnv 1000 ''r2''))
   \<and> (\<exists>user v. authMiddleware (demoEnv 1000 ''r2'') [] (\<lambda>k. if k = REFRESH_TOKEN_COOKIE_NAME then Some ''r1'' else None)
        (demoWorld [demoToken]) = (Inr user, v))"
proof -
  have guest: "\<not> ae_isSignedIn (demoEnv 1000 ''r2'') (ae_guest (demoEnv 1000 ''r2''))"
    by (simp add: demoEnv_def demoGuest_def)
  from authMiddleware_sound [OF guest] guest show ?thesis by blast
qed

end
