(* ===== verification/Team_Directory.thy ===== *)
theory Team_Directory
  imports Account_SignIn "HOL-Library.Multiset"
begin

text \<open>
  Teams: the documents \<open>models/accounts/team-*.model.ts\<close>, \<open>accounts/team/team.service.ts\<close> with its
  controller, and the response model. A reference that is populated is replaced by the document it names; in
  a list, those that name none are dropped.
\<close>

section \<open>Documents\<close>

record team_role =
  tr_id :: object_id
  tr_name :: string
  tr_rank :: int
  tr_emoji :: "string option"

record team_group =
  tg_id :: object_id
  tg_name :: string
  tg_rank :: int

record team_member =
  tm_profile :: object_id
  tm_year :: int
  tm_roles :: "object_id list"
  tm_group :: "object_id option"

record team_db =
  teamRoles :: "team_role list"
  teamGroups :: "team_group list"
  teamMembers :: "team_member list"

definition populatedRoles :: "team_db \<Rightarrow> team_member \<Rightarrow> team_role list" where
  "populatedRoles db m = List.map_filter (\<lambda>i. findOneBy (\<lambda>r. tr_id r = i) (teamRoles db)) (tm_roles m)"

definition populatedGroup :: "team_db \<Rightarrow> team_member \<Rightarrow> team_group option" where
  "populatedGroup db m = Option.bind (tm_group m) (\<lambda>i. findOneBy (\<lambda>g. tg_id g = i) (teamGroups db))"

section \<open>TeamService\<close>

definition membershipsOf :: "team_db \<Rightarrow> object_id \<Rightarrow> team_member list" where
  "membershipsOf db profileId = sort_key (\<lambda>m. - tm_year m) (findBy (\<lambda>m. tm_profile m = profileId) (teamMembers db))"

definition getLatestProfilePrimaryTeam :: "team_db \<Rightarrow> object_id \<Rightarrow> team_role option" where
  "getLatestProfilePrimaryTeam db profileId =
     List.find (\<lambda>r. truthyId (tr_emoji r)) (concat (map (populatedRoles db) (membershipsOf db profileId)))"

definition getLatestProfileTeamEmoji :: "team_db \<Rightarrow> object_id \<Rightarrow> string option" where
  "getLatestProfileTeamEmoji db profileId = Option.bind (getLatestProfilePrimaryTeam db profileId) tr_emoji"

definition getProfilePrimaryTeams :: "team_db \<Rightarrow> object_id \<Rightarrow> team_member list" where
  "getProfilePrimaryTeams db profileId =
     filter (\<lambda>m. map_option tg_rank (populatedGroup db m) = Some 0) (membershipsOf db profileId)"

definition getPrimaryTeamRoles :: "team_db \<Rightarrow> team_role list" where
  "getPrimaryTeamRoles db = sort_key tr_rank (findBy (\<lambda>r. tr_emoji r \<noteq> None) (teamRoles db))"

text \<open>Without a primary group the condition is for a missing group.\<close>

definition getPrimaryTeamYears :: "team_db \<Rightarrow> int list" where
  "getPrimaryTeamYears db =
     (let primaryGroup = findOneBy (\<lambda>g. tg_rank g = 0) (teamGroups db) in
      distinctInOrder (map tm_year (findBy (\<lambda>m. tm_group m = map_option tg_id primaryGroup) (teamMembers db))))"

text \<open>What is read of a member's profile: its e-mails only for those who may see them.\<close>

record member_profile =
  mp_id :: object_id
  mp_names :: "profile_name list"
  mp_photo :: "string option"
  mp_emails :: "string list option"

record year_member =
  ym_member :: team_member
  ym_profile :: "member_profile option"
  ym_roles :: "team_role list"
  ym_group :: "team_group option"

definition yearMember :: "team_db \<Rightarrow> accounts_db \<Rightarrow> bool \<Rightarrow> team_member \<Rightarrow> year_member" where
  "yearMember db acc withEmails m =
     \<lparr>ym_member = m,
      ym_profile = map_option (\<lambda>p. \<lparr>mp_id = pr_id p,
          mp_names = findBy (\<lambda>n. pn_profile n = Some (pr_id p)) (profileNames acc), mp_photo = pr_photo p,
          mp_emails = (if withEmails then pr_emails p else None)\<rparr>)
        (findOneBy (\<lambda>p. pr_id p = tm_profile m) (profiles acc)),
      ym_roles = populatedRoles db m, ym_group = populatedGroup db m\<rparr>"

text \<open>The bytes of an identifier as a number, which is how the database orders them.\<close>

definition oidOrder :: "object_id \<Rightarrow> nat" where
  "oidOrder p = foldl (\<lambda>n b. 256 * n + unat b) 0 p"

definition roleRank :: "year_member \<Rightarrow> int" where "roleRank m = tr_rank (hd (ym_roles m))"
definition groupRank :: "year_member \<Rightarrow> int" where "groupRank m = tg_rank (the (ym_group m))"

text \<open>A comparison of a member without a role, or without a group, throws; one member is not compared.\<close>

definition sortMembers :: "(year_member \<Rightarrow> bool) \<Rightarrow> string \<Rightarrow> (year_member \<Rightarrow> int) \<Rightarrow> year_member list \<Rightarrow> year_member list outcome" where
  "sortMembers lacks what rank ms =
     (if 2 \<le> length ms \<and> (\<exists>m \<in> set ms. lacks m)
      then Inl (JsError (''Cannot read properties of '' @ what @ '' (reading rank)''))
      else Inr (sort_key rank ms))"

definition getYearMembers :: "team_db \<Rightarrow> accounts_db \<Rightarrow> int \<Rightarrow> (string \<Rightarrow> bool) \<Rightarrow> year_member list outcome" where
  "getYearMembers db acc year isAuthorizedToGroups =
     (let withEmails = isAuthorizedToGroups (''nudch_'' @ intToRadix 10 year);
          members = sort_key (\<lambda>m. oidOrder (tm_profile m)) (findBy (\<lambda>m. tm_year m = year) (teamMembers db)) in
      onSuccess (sortMembers (\<lambda>m. ym_roles m = []) ''undefined'' roleRank (map (yearMember db acc withEmails) members))
        (sortMembers (\<lambda>m. ym_group m = None) ''null'' groupRank))"

section \<open>TeamMemberV1Controller\<close>

record team_members_response =
  tmr_profileId :: string
  tmr_name :: profile_name_response
  tmr_photo :: "string option"
  tmr_roles :: "string list"
  tmr_group :: "string option"
  tmr_email :: "string option"

definition tmr_photoUrl :: "string \<Rightarrow> team_members_response \<Rightarrow> string" where
  "tmr_photoUrl base r = photoUrl base ''profiles'' ''webp'' (tmr_photo r)"

definition firstOf :: "'a list option \<Rightarrow> 'a option" where
  "firstOf xs = (case xs of Some (x # _) \<Rightarrow> Some x | _ \<Rightarrow> None)"

definition fromProfile :: "profile_name list \<Rightarrow> language \<Rightarrow> profile_name_response" where
  "fromProfile names lang = profileNameResponse_fromModel (map_option Hydrated (List.find (\<lambda>n. pn_lang n = Some lang) names))"

definition teamMember_fromModel :: "year_member \<Rightarrow> team_members_response outcome" where
  "teamMember_fromModel m =
     (case ym_profile m of
        None \<Rightarrow> Inl (JsError ''Cannot read properties of null (reading _id)'')
      | Some p \<Rightarrow> Inr \<lparr>tmr_profileId = hexString (mp_id p), tmr_name = fromProfile (mp_names p) En,
          tmr_photo = mp_photo p, tmr_roles = map tr_name (ym_roles m), tmr_group = map_option tg_name (ym_group m),
          tmr_email = firstOf (mp_emails p)\<rparr>)"

primrec mapOutcome :: "('a \<Rightarrow> 'b outcome) \<Rightarrow> 'a list \<Rightarrow> 'b list outcome" where
  "mapOutcome f [] = Inr []"
| "mapOutcome f (x # xs) = onSuccess (f x) (\<lambda>y. onSuccess (mapOutcome f xs) (\<lambda>ys. Inr (y # ys)))"

definition listYearTeamMembers ::
    "team_db \<Rightarrow> accounts_db \<Rightarrow> int \<Rightarrow> (string \<Rightarrow> bool) \<Rightarrow> team_members_response list outcome" where
  "listYearTeamMembers db acc year isAuthorizedToGroups =
     onSuccess (getYearMembers db acc year isAuthorizedToGroups) (mapOutcome teamMember_fromModel)"

section \<open>Facts\<close>

lemma mapOutcome_Inr: "mapOutcome f xs = Inr ys \<longleftrightarrow> list_all2 (\<lambda>x y. f x = Inr y) xs ys"
  by (induction xs arbitrary: ys) (auto simp: onSuccess_Inr list_all2_Cons1)

text \<open>A stable sort keeps, among elements with the same key, an order that was there before.\<close>

definition byKeyThen :: "('a \<Rightarrow> 'k::linorder) \<Rightarrow> ('a \<Rightarrow> 'a \<Rightarrow> bool) \<Rightarrow> 'a \<Rightarrow> 'a \<Rightarrow> bool" where
  "byKeyThen f P a b \<longleftrightarrow> f a < f b \<or> f a = f b \<and> P a b"

lemma sorted_wrt_insort_key:
  assumes "sorted_wrt (byKeyThen f P) ys" and "\<And>y. y \<in> set ys \<Longrightarrow> P x y"
  shows "sorted_wrt (byKeyThen f P) (insort_key f x ys)"
  using assms
proof (induction ys)
  case (Cons y ys)
  have le: "f y \<le> f z" if "z \<in> set ys" for z using Cons.prems(1) that by (force simp: byKeyThen_def)
  show ?case
  proof (cases "f x \<le> f y")
    case True
    then have "byKeyThen f P x z" if "z \<in> set (y # ys)" for z
      using le that Cons.prems(2) by (force simp: byKeyThen_def)
    then show ?thesis using True Cons.prems(1) by simp
  next
    case False
    then have "byKeyThen f P y x" by (simp add: byKeyThen_def not_le)
    then show ?thesis using False Cons by (simp add: set_insort_key)
  qed
qed simp

lemma sorted_wrt_sort_key: "sorted_wrt P xs \<Longrightarrow> sorted_wrt (byKeyThen f P) (sort_key f xs)"
  by (induction xs) (auto intro!: sorted_wrt_insort_key)

definition profileOrder :: "year_member \<Rightarrow> nat" where
  "profileOrder m = oidOrder (tm_profile (ym_member m))"

lemma getYearMembers_Inr:
  assumes "getYearMembers db acc year may = Inr ms"
  shows "ms = sort_key groupRank (sort_key roleRank (map (yearMember db acc (may (''nudch_'' @ intToRadix 10 year)))
    (sort_key (\<lambda>m. oidOrder (tm_profile m)) (findBy (\<lambda>m. tm_year m = year) (teamMembers db)))))"
  using assms by (auto simp: getYearMembers_def Let_def onSuccess_Inr sortMembers_def split: if_splits)

text \<open>
  Claim C26: The members of a year are listed completely, in the order of the ranks of their groups, within a
  group in that of the ranks of their first roles, and within a rank in that of their profiles; an e-mail
  address is shown only to somebody authorized for the group of that very year.
\<close>

theorem team_listing:
  assumes "getYearMembers db acc year may = Inr ms"
  shows "sorted_wrt (byKeyThen groupRank (byKeyThen roleRank (\<lambda>a b. profileOrder a \<le> profileOrder b))) ms
    \<and> mset (map ym_member ms) = filter_mset (\<lambda>m. tm_year m = year) (mset (teamMembers db))
    \<and> (\<forall>m \<in> set ms. Option.bind (ym_profile m) mp_emails \<noteq> None \<longrightarrow> may (''nudch_'' @ intToRadix 10 year))"
proof -
  let ?with = "may (''nudch_'' @ intToRadix 10 year)"
  let ?rows = "findBy (\<lambda>m. tm_year m = year) (teamMembers db)"
  let ?start = "map (yearMember db acc ?with) (sort_key (\<lambda>m. oidOrder (tm_profile m)) ?rows)"
  note ms = getYearMembers_Inr [OF assms]
  have member: "ym_member (yearMember db acc b m) = m" for b m by (simp add: yearMember_def)
  have "sorted (map (\<lambda>m. oidOrder (tm_profile m)) (sort_key (\<lambda>m. oidOrder (tm_profile m)) ?rows))"
    by (rule sorted_sort_key)
  then have "sorted_wrt (\<lambda>a b. profileOrder a \<le> profileOrder b) ?start"
    by (simp add: sorted_wrt_map profileOrder_def member)
  then have sorted: "sorted_wrt (byKeyThen groupRank (byKeyThen roleRank (\<lambda>a b. profileOrder a \<le> profileOrder b))) ms"
    unfolding ms by (intro sorted_wrt_sort_key)
  have all: "mset (map ym_member ms) = filter_mset (\<lambda>m. tm_year m = year) (mset (teamMembers db))"
    unfolding ms by (simp only: mset_map mset_sort multiset.map_comp comp_def member findBy_def mset_filter multiset.map_ident)
  have hidden: "Option.bind (ym_profile m) mp_emails = None" if m: "m \<in> set ms" and no: "\<not> ?with" for m
  proof -
    obtain r where "m = yearMember db acc ?with r" using m unfolding ms set_sort set_map by blast
    then show ?thesis
      using no by (cases "findOneBy (\<lambda>p. pr_id p = tm_profile r) (profiles acc)") (simp_all add: yearMember_def)
  qed
  show ?thesis
    by (intro conjI sorted all ballI impI) (use hidden in metis)
qed

definition demoTeams :: team_db where
  "demoTeams = \<lparr>teamRoles = [\<lparr>tr_id = [1], tr_name = ''photo'', tr_rank = 2, tr_emoji = Some ''P''\<rparr>,
       \<lparr>tr_id = [2], tr_name = ''head'', tr_rank = 1, tr_emoji = Some ''H''\<rparr>],
     teamGroups = [\<lparr>tg_id = [7], tg_name = ''team'', tg_rank = 0\<rparr>],
     teamMembers = [\<lparr>tm_profile = demoJane, tm_year = 2020, tm_roles = [[1]], tm_group = Some [7]\<rparr>,
       \<lparr>tm_profile = demoJohn, tm_year = 2020, tm_roles = [[2], [1]], tm_group = Some [7]\<rparr>,
       \<lparr>tm_profile = demoJane, tm_year = 2021, tm_roles = [[1]], tm_group = Some [7]\<rparr>]\<rparr>"

theorem team_listing_witness:
  "\<exists>ms. getYearMembers demoTeams (adb (demoWorld [])) 2020 (\<lambda>_. False) = Inr ms
     \<and> mset (map ym_member ms) = filter_mset (\<lambda>m. tm_year m = 2020) (mset (teamMembers demoTeams))"
proof -
  have "\<exists>ms. getYearMembers demoTeams (adb (demoWorld [])) 2020 (\<lambda>_. False) = Inr ms"
    by (simp add: getYearMembers_def Let_def sortMembers_def onSuccess_def yearMember_def demoTeams_def findBy_def
        populatedRoles_def populatedGroup_def findOneBy_def map_filter_simps)
  then show ?thesis using team_listing by blast
qed

end
