(* ===== verification/Discord_Sync.thy ===== *)
theory Discord_Sync
  imports Complex_Main Team_Directory
begin

text \<open>
  The Discord bot: \<open>discord/discord-bot.service.ts\<close>, \<open>discord/discord.service.ts\<close> and the handlers of
  \<open>discord.controller.ts\<close> on top of it. Discord's answers are parameters; what is sent to it, and to the
  queue of the worker, is recorded in order. A refused write is logged and forgotten by the bot.
\<close>

section \<open>Numbers\<close>

text \<open>The value of \<open>+s\<close>: not a number, an infinity, or a rational number (its rounding is left out).\<close>

datatype js_number = NegInfinity | Finite rat | PosInfinity

definition allDigits :: "nat \<Rightarrow> string \<Rightarrow> bool" where
  "allDigits r s \<longleftrightarrow> s \<noteq> [] \<and> list_all (isDigit r) s"

definition splitSign :: "string \<Rightarrow> bool \<times> string" where
  "splitSign s = (case s of c # t \<Rightarrow> if c = CHR ''-'' then (True, t) else if c = CHR ''+'' then (False, t) else (False, s)
     | [] \<Rightarrow> (False, s))"

definition exponentOf :: "string \<Rightarrow> rat option" where
  "exponentOf e =
     (if e = [] then Some 1
      else case splitSign (tl e) of (neg, ds) \<Rightarrow>
        if allDigits 10 ds then Some (if neg then 1 / 10 ^ digitsVal 10 ds else 10 ^ digitsVal 10 ds) else None)"

definition decimalLiteral :: "string \<Rightarrow> rat option" where
  "decimalLiteral s =
     (let isE = (\<lambda>c. c = CHR ''e'' \<or> c = CHR ''E'');
          mantissa = takeWhile (\<lambda>c. \<not> isE c) s;
          whole = takeWhile (\<lambda>c. c \<noteq> CHR ''.'') mantissa;
          part = drop 1 (dropWhile (\<lambda>c. c \<noteq> CHR ''.'') mantissa) in
      if allDigits 10 (whole @ part)
      then map_option (\<lambda>e. of_nat (digitsVal 10 (whole @ part)) / 10 ^ length part * e)
        (exponentOf (dropWhile (\<lambda>c. \<not> isE c) s))
      else None)"

definition jsNumber :: "string \<Rightarrow> js_number option" where
  "jsNumber s =
     (let t = trim s;
          radix = (\<lambda>r. if allDigits r (drop 2 t) then Some (Finite (of_nat (digitsVal r (drop 2 t)))) else None) in
      if t = [] then Some (Finite 0)
      else if take 2 t = ''0x'' \<or> take 2 t = ''0X'' then radix 16
      else if take 2 t = ''0o'' \<or> take 2 t = ''0O'' then radix 8
      else if take 2 t = ''0b'' \<or> take 2 t = ''0B'' then radix 2
      else case splitSign t of (neg, u) \<Rightarrow>
        if u = ''Infinity'' then Some (if neg then NegInfinity else PosInfinity)
        else map_option (\<lambda>q. Finite (if neg then - q else q)) (decimalLiteral u))"

primrec numberLe :: "js_number \<Rightarrow> js_number \<Rightarrow> bool" where
  "numberLe NegInfinity y = True"
| "numberLe (Finite q) y = (case y of NegInfinity \<Rightarrow> False | Finite r \<Rightarrow> q \<le> r | PosInfinity \<Rightarrow> True)"
| "numberLe PosInfinity y = (y = PosInfinity)"

text \<open>\<open>Math.max(...xs)\<close> of numbers.\<close>

definition mathMax :: "js_number list \<Rightarrow> js_number" where
  "mathMax xs = foldl (\<lambda>m x. if numberLe m x then x else m) NegInfinity xs"

text \<open>Numbers are ordered, so the library's facts about maxima apply.\<close>

instantiation js_number :: linorder
begin

definition less_eq_js_number :: "js_number \<Rightarrow> js_number \<Rightarrow> bool" where
  "less_eq_js_number x y = numberLe x y"

definition less_js_number :: "js_number \<Rightarrow> js_number \<Rightarrow> bool" where
  "less_js_number x y = (numberLe x y \<and> \<not> numberLe y x)"

instance
proof
  fix x y z :: js_number
  show "x < y \<longleftrightarrow> x \<le> y \<and> \<not> y \<le> x" by (simp add: less_eq_js_number_def less_js_number_def)
  show "x \<le> x" by (cases x) (simp_all add: less_eq_js_number_def)
  show "x \<le> y \<Longrightarrow> y \<le> z \<Longrightarrow> x \<le> z"
    by (cases x; cases y; cases z) (simp_all add: less_eq_js_number_def)
  show "x \<le> y \<Longrightarrow> y \<le> x \<Longrightarrow> x = y" by (cases x; cases y) (simp_all add: less_eq_js_number_def)
  show "x \<le> y \<or> y \<le> x" by (cases x; cases y) (auto simp: less_eq_js_number_def)
qed

end

lemma mathMax_Max:
  assumes "xs \<noteq> []"
  shows "mathMax xs = Max (set xs)"
proof -
  have max: "(if numberLe m x then x else m) = max m x" for m x
    by (auto simp: max_def less_eq_js_number_def)
  have "foldl (\<lambda>m x. if numberLe m x then x else m) NegInfinity xs = fold max xs NegInfinity"
    unfolding max by (simp add: foldl_conv_fold max.commute)
  also have "\<dots> = Max (insert NegInfinity (set xs))" by (metis Max.set_eq_fold list.simps(15))
  also have "\<dots> = Max (set xs)" using assms by (simp add: max_def less_eq_js_number_def)
  finally show ?thesis by (simp add: mathMax_def)
qed

lemma mathMax_years: "ys \<noteq> [] \<Longrightarrow> mathMax (map (\<lambda>y. Finite (of_int y)) ys) = Finite (of_int (Max (set ys)))"
  using mono_Max_commute [of "\<lambda>y. Finite (of_int y)" "set ys"]
  by (simp add: mathMax_Max monoI less_eq_js_number_def image_image)

definition numberTimes :: "js_number option \<Rightarrow> nat \<Rightarrow> js_number option" where
  "numberTimes x i =
     (case x of
        None \<Rightarrow> None
      | Some (Finite q) \<Rightarrow> Some (Finite (q * of_nat i))
      | Some inf' \<Rightarrow> if i = 0 then None else Some inf')"

section \<open>DiscordBotService\<close>

record guild_role =
  gr_id :: string
  gr_name :: string

datatype discord_call =
    CreateRole string "string option" \<comment> \<open>name, permissions\<close>
  | SetNickname string string
  | AddRole string string
  | RemoveRole string string

record discord_job =
  dj_name :: string
  dj_data :: string
  dj_delay :: "js_number option"

record discord_world =
  dw_calls :: "discord_call list"
  dw_queue :: "discord_job list"

record discord_env =
  de_member :: "string \<Rightarrow> string list outcome" \<comment> \<open>the roles of a member of the guild\<close>
  de_roles :: "guild_role list outcome"

definition callDiscord :: "discord_call \<Rightarrow> (discord_world, unit) action" where
  "callDiscord c = modify (\<lambda>w. w\<lparr>dw_calls := dw_calls w @ [c]\<rparr>)"

definition getUserById :: "discord_env \<Rightarrow> string \<Rightarrow> string list option" where
  "getUserById env userId = (case de_member env userId of Inl _ \<Rightarrow> None | Inr roles \<Rightarrow> Some roles)"

definition discord_createRole :: "string \<Rightarrow> string option \<Rightarrow> (discord_world, unit) action" where
  "discord_createRole name permissions = callDiscord (CreateRole name permissions)"

definition setNickname :: "string \<Rightarrow> string \<Rightarrow> (discord_world, unit) action" where
  "setNickname userId nickname = callDiscord (SetNickname userId nickname)"

primrec addRoleToMember :: "string \<Rightarrow> string list \<Rightarrow> (discord_world, unit) action" where
  "addRoleToMember userId [] = ret ()"
| "addRoleToMember userId (r # rs) = andThen (callDiscord (AddRole userId r)) (\<lambda>_. addRoleToMember userId rs)"

primrec removeRoleFromMember :: "string \<Rightarrow> string list \<Rightarrow> (discord_world, unit) action" where
  "removeRoleFromMember userId [] = ret ()"
| "removeRoleFromMember userId (r # rs) = andThen (callDiscord (RemoveRole userId r)) (\<lambda>_. removeRoleFromMember userId rs)"

section \<open>DiscordService\<close>

definition allTeamSuffix :: string where "allTeamSuffix = '' (All)''"

definition profileOid :: "id_lib \<Rightarrow> profile_discord \<Rightarrow> object_id" where
  "profileOid L d = toObjectId L (dc_profileId d)"

definition triggerProfileSyncAll :: "accounts_world \<Rightarrow> js_number option \<Rightarrow> (discord_world, string list) action" where
  "triggerProfileSyncAll acc delayFactorMs =
     (let discordIds = findAllDiscordIds acc in
      andThen (modify (\<lambda>w. w\<lparr>dw_queue := dw_queue w @
        map (\<lambda>(i, d). \<lparr>dj_name = ''discord:profile_sync'', dj_data = d, dj_delay = numberTimes delayFactorMs i\<rparr>)
          (enumerate 0 discordIds)\<rparr>)) (\<lambda>_.
      ret discordIds))"

definition nicknameWithSuffix :: "string \<Rightarrow> int \<Rightarrow> string" where
  "nicknameWithSuffix nickname index =
     (if 0 < index then nickname @ '' '' @ intToRadix 10 (index + 1) else nickname)"

definition triggerProfileNameSync :: "id_lib \<Rightarrow> accounts_world \<Rightarrow> team_db \<Rightarrow> string \<Rightarrow> (discord_world, unit) action" where
  "triggerProfileNameSync L acc teams discordId =
     (case findByDiscordId discordId acc of
        None \<Rightarrow> ret ()
      | Some discord \<Rightarrow>
          let nickname = getNickNameWithRoleEmojiPrefix (profileNames (adb acc)) (getLatestProfileTeamEmoji teams) (profileOid L discord) in
          if \<not> truthyId nickname then ret ()
          else setNickname discordId (nicknameWithSuffix (the nickname) (dc_rank discord)))"

definition syncedTeamRoleNames :: "team_db \<Rightarrow> string list" where
  "syncedTeamRoleNames teams =
     (let names = map tr_name (getPrimaryTeamRoles teams) in names @ map (\<lambda>n. n @ allTeamSuffix) names)"

text \<open>A year is found as a number, and the number 0 counts as not found.\<close>

definition getSyncedDiscordRoles :: "discord_env \<Rightarrow> team_db \<Rightarrow> guild_role list outcome" where
  "getSyncedDiscordRoles env teams =
     onSuccess (de_roles env) (\<lambda>discordRoles.
     Inr (filter (\<lambda>r. gr_name r \<in> set (syncedTeamRoleNames teams)
         \<or> (\<exists>y \<in> set (getPrimaryTeamYears teams). y \<noteq> 0 \<and> intToRadix 10 y = gr_name r)) discordRoles))"

text \<open>The roles a profile is to have, of those that are synchronized.\<close>

definition targetGuildRoleIds :: "team_db \<Rightarrow> object_id \<Rightarrow> guild_role list \<Rightarrow> string list" where
  "targetGuildRoleIds teams profile guildRoles =
     (let latestProfileRole = getLatestProfilePrimaryTeam teams profile;
          profileMembers = getProfilePrimaryTeams teams profile;
          profileYears = map (\<lambda>m. intToRadix 10 (tm_year m)) profileMembers;
          profileRoleNames = map (\<lambda>m. interpolate (case populatedRoles teams m of [] \<Rightarrow> None | r # _ \<Rightarrow> Some (tr_name r))
            @ allTeamSuffix) profileMembers;
          latestYear = mathMax (List.map_filter (\<lambda>r. jsNumber (gr_name r)) guildRoles);
          profileYear = mathMax (map (\<lambda>m. Finite (of_int (tm_year m))) profileMembers);
          isActiveCurrentYear = (latestYear = profileYear) in
      map gr_id (filter (\<lambda>role. gr_name role \<in> set profileYears \<or> gr_name role \<in> set profileRoleNames
          \<or> isActiveCurrentYear \<and> Some (gr_name role) = map_option tr_name latestProfileRole
          \<or> gr_name role = interpolate (map_option tr_name latestProfileRole) @ allTeamSuffix) guildRoles))"

definition triggerProfileRoleSync ::
    "discord_env \<Rightarrow> id_lib \<Rightarrow> accounts_world \<Rightarrow> team_db \<Rightarrow> string \<Rightarrow> (discord_world, unit) action" where
  "triggerProfileRoleSync env L acc teams discordId =
     (case findByDiscordId discordId acc of
        None \<Rightarrow> ret ()
      | Some profile \<Rightarrow>
          andThen (lift (getSyncedDiscordRoles env teams)) (\<lambda>guildRoles.
          case getUserById env discordId of
            None \<Rightarrow> ret ()
          | Some memberRoles \<Rightarrow>
              let targetIds = targetGuildRoleIds teams (profileOid L profile) guildRoles;
                  toAddRoleIds = filter (\<lambda>i. i \<notin> set memberRoles) targetIds;
                  toRemoveRoleIds = map gr_id (filter (\<lambda>r. gr_id r \<in> set memberRoles \<and> gr_id r \<notin> set targetIds) guildRoles) in
              andThen (addRoleToMember discordId toAddRoleIds) (\<lambda>_.
              removeRoleFromMember discordId toRemoveRoleIds)))"

primrec createAll :: "(string \<times> string option) list \<Rightarrow> (discord_world, unit) action" where
  "createAll [] = ret ()"
| "createAll (r # rs) = andThen (discord_createRole (fst r) (snd r)) (\<lambda>_. createAll rs)"

definition triggerRoleSyncAll :: "discord_env \<Rightarrow> team_db \<Rightarrow> (discord_world, unit) action" where
  "triggerRoleSyncAll env teams =
     andThen (lift (de_roles env)) (\<lambda>discordRoles.
     let missing = (\<lambda>n. n \<notin> gr_name ` set discordRoles);
         teamRolesToCreate = filter missing (syncedTeamRoleNames teams);
         yearsToCreate = filter missing (map (intToRadix 10) (getPrimaryTeamYears teams)) in
     andThen (createAll (map (\<lambda>n. (n, Some ''453156261440'')) teamRolesToCreate)) (\<lambda>_.
     createAll (map (\<lambda>n. (n, None)) yearsToCreate)))"

section \<open>DiscordController\<close>

definition triggerDiscordProfileSync ::
    "discord_env \<Rightarrow> id_lib \<Rightarrow> accounts_world \<Rightarrow> team_db \<Rightarrow> string \<Rightarrow> request_user \<Rightarrow> (discord_world, unit) action" where
  "triggerDiscordProfileSync env L acc teams discordId user = authGroups [''it''] user
     (andThen (triggerProfileNameSync L acc teams discordId) (\<lambda>_.
      triggerProfileRoleSync env L acc teams discordId))"

text \<open>A parameter that is not sent is \<open>undefined\<close>, which is not a number.\<close>

definition triggerDiscordProfileSyncAll ::
    "accounts_world \<Rightarrow> string option \<Rightarrow> request_user \<Rightarrow> (discord_world, string list) action" where
  "triggerDiscordProfileSyncAll acc delay user = authGroups [''it''] user
     (triggerProfileSyncAll acc (Option.bind delay jsNumber))"

definition triggerDiscordRoleSyncAll :: "discord_env \<Rightarrow> team_db \<Rightarrow> request_user \<Rightarrow> (discord_world, unit) action" where
  "triggerDiscordRoleSyncAll env teams user = authGroups [''it''] user (triggerRoleSyncAll env teams)"

section \<open>What the calls do\<close>

text \<open>Discord's side, as documented: adding and removing a role of a member.\<close>

primrec rolesAfter :: "string \<Rightarrow> discord_call \<Rightarrow> string set \<Rightarrow> string set" where
  "rolesAfter member (CreateRole n p) rs = rs"
| "rolesAfter member (SetNickname u n) rs = rs"
| "rolesAfter member (AddRole u r) rs = (if u = member then insert r rs else rs)"
| "rolesAfter member (RemoveRole u r) rs = (if u = member then rs - {r} else rs)"

definition applyCalls :: "string \<Rightarrow> discord_call list \<Rightarrow> string set \<Rightarrow> string set" where
  "applyCalls member cs rs = foldl (\<lambda>rs c. rolesAfter member c rs) rs cs"

lemma addRoleToMember_run:
  "addRoleToMember u rs w = (Inr (), w\<lparr>dw_calls := dw_calls w @ map (AddRole u) rs\<rparr>)"
  by (induction rs arbitrary: w) (simp_all add: action_simps callDiscord_def)

lemma removeRoleFromMember_run:
  "removeRoleFromMember u rs w = (Inr (), w\<lparr>dw_calls := dw_calls w @ map (RemoveRole u) rs\<rparr>)"
  by (induction rs arbitrary: w) (simp_all add: action_simps callDiscord_def)

lemma applyCalls_add: "applyCalls u (map (AddRole u) rs) s = s \<union> set rs"
  by (induction rs arbitrary: s) (auto simp: applyCalls_def)

lemma applyCalls_remove: "applyCalls u (map (RemoveRole u) rs) s = s - set rs"
  by (induction rs arbitrary: s) (auto simp: applyCalls_def)

lemma applyCalls_append: "applyCalls u (cs @ ds) s = applyCalls u ds (applyCalls u cs s)"
  by (simp add: applyCalls_def)

lemma target_synced: "set (targetGuildRoleIds teams p rs) \<subseteq> gr_id ` set rs"
  by (auto simp: targetGuildRoleIds_def Let_def)

lemma triggerProfileRoleSync_run:
  assumes "findByDiscordId discordId acc = Some profile" and "getSyncedDiscordRoles env teams = Inr synced"
    and "de_member env discordId = Inr memberRoles"
    and "targetIds = targetGuildRoleIds teams (profileOid L profile) synced"
  shows "triggerProfileRoleSync env L acc teams discordId w = (Inr (), w\<lparr>dw_calls := dw_calls w
    @ map (AddRole discordId) (filter (\<lambda>i. i \<notin> set memberRoles) targetIds)
    @ map (RemoveRole discordId) (map gr_id (filter (\<lambda>r. gr_id r \<in> set memberRoles \<and> gr_id r \<notin> set targetIds) synced))\<rparr>)"
  using assms by (simp add: triggerProfileRoleSync_def getUserById_def Let_def action_simps
      andThen_ret [OF addRoleToMember_run] removeRoleFromMember_run comp_def)

text \<open>
  Claim C20: A synchronization of the roles of a member, as far as Discord accepts its calls, gives the member
  of the synchronized roles exactly the ones the teams prescribe and leaves every other role alone; a second one
  right after it has nothing to do.
\<close>

theorem roleSync_refines:
  assumes "findByDiscordId discordId acc = Some profile" and "getSyncedDiscordRoles env teams = Inr synced"
    and "de_member env discordId = Inr memberRoles"
    and "targetIds = targetGuildRoleIds teams (profileOid L profile) synced"
    and "set after = applyCalls discordId
      (drop (length (dw_calls w)) (dw_calls (snd (triggerProfileRoleSync env L acc teams discordId w)))) (set memberRoles)"
  shows "set after = (set memberRoles - gr_id ` set synced) \<union> set targetIds
    \<and> triggerProfileRoleSync (env\<lparr>de_member := (de_member env)(discordId := Inr after)\<rparr>) L acc teams discordId v = (Inr (), v)"
proof -
  have after: "set after = (set memberRoles - gr_id ` set synced) \<union> set targetIds"
    using assms(5) target_synced [of teams "profileOid L profile" synced]
    unfolding triggerProfileRoleSync_run [OF assms(1-4)] assms(4) [symmetric]
    by (auto simp: applyCalls_append applyCalls_add applyCalls_remove simp del: map_map)
  have synced: "getSyncedDiscordRoles (env\<lparr>de_member := (de_member env)(discordId := Inr after)\<rparr>) teams = Inr synced"
    using assms(2) by (simp add: getSyncedDiscordRoles_def)
  have member: "de_member (env\<lparr>de_member := (de_member env)(discordId := Inr after)\<rparr>) discordId = Inr after" by simp
  have "filter (\<lambda>i. i \<notin> set after) targetIds = []" by (simp add: after filter_empty_conv)
  moreover have "filter (\<lambda>r. gr_id r \<in> set after \<and> gr_id r \<notin> set targetIds) synced = []"
    by (auto simp: after filter_empty_conv)
  ultimately show ?thesis
    using after by (simp add: triggerProfileRoleSync_run [OF assms(1) synced member assms(4)])
qed

definition botWorld :: accounts_world where
  "botWorld = (demoWorld [])\<lparr>adb := (adb (demoWorld []))\<lparr>discordProfiles :=
     [\<lparr>dc_id = ''d1'', dc_profileId = profileUid standardLib demoJane, dc_rank = 0, dc_avatar = None, dc_mfaEnabled = False\<rparr>]\<rparr>\<rparr>"

definition botEnv :: "string list \<Rightarrow> discord_env" where
  "botEnv roles = \<lparr>de_member = (\<lambda>_. Inr roles),
     de_roles = Inr [\<lparr>gr_id = ''1'', gr_name = ''moderator''\<rparr>, \<lparr>gr_id = ''2'', gr_name = ''photo''\<rparr>,
       \<lparr>gr_id = ''3'', gr_name = ''head''\<rparr>, \<lparr>gr_id = ''4'', gr_name = ''2021''\<rparr>]\<rparr>"

theorem roleSync_refines_witness:
  "\<exists>after. set after = {''1'', ''2'', ''4''}
     \<and> (\<forall>v. triggerProfileRoleSync ((botEnv [''1'', ''3''])\<lparr>de_member := (de_member (botEnv [''1'', ''3'']))(''d1'' := Inr after)\<rparr>)
         standardLib botWorld demoTeams ''d1'' v = (Inr (), v))"
proof -
  let ?env = "botEnv [''1'', ''3'']"
  let ?synced = "[\<lparr>gr_id = ''2'', gr_name = ''photo''\<rparr>, \<lparr>gr_id = ''3'', gr_name = ''head''\<rparr>, \<lparr>gr_id = ''4'', gr_name = ''2021''\<rparr>]"
  let ?d = "\<lparr>dc_id = ''d1'', dc_profileId = profileUid standardLib demoJane, dc_rank = 0, dc_avatar = None, dc_mfaEnabled = False\<rparr>"
  have jane: "toObjectId standardLib (profileUid standardLib demoJane) = demoJane" by code_simp
  have found: "findByDiscordId ''d1'' botWorld = Some ?d" by (simp add: findByDiscordId_def findOneBy_def botWorld_def)
  have synced: "getSyncedDiscordRoles ?env demoTeams = Inr ?synced" by code_simp
  have member: "de_member ?env ''d1'' = Inr [''1'', ''3'']" by (simp add: botEnv_def)
  have target: "[''2'', ''4''] = targetGuildRoleIds demoTeams (profileOid standardLib ?d) ?synced"
  proof -
    have latest: "getLatestProfilePrimaryTeam demoTeams demoJane = Some (hd (teamRoles demoTeams))" by code_simp
    have teams: "getProfilePrimaryTeams demoTeams demoJane = [teamMembers demoTeams ! 2, teamMembers demoTeams ! 0]" by code_simp
    have roles: "populatedRoles demoTeams (teamMembers demoTeams ! 2) = [hd (teamRoles demoTeams)]"
      "populatedRoles demoTeams (teamMembers demoTeams ! 0) = [hd (teamRoles demoTeams)]" by code_simp+
    have demo: "tr_name (hd (teamRoles demoTeams)) = ''photo''" "tm_year (teamMembers demoTeams ! 2) = 2021"
      "tm_year (teamMembers demoTeams ! 0) = 2020" by (simp_all add: demoTeams_def)
    have years: "intToRadix 10 2021 = ''2021''" "intToRadix 10 2020 = ''2020''" by code_simp+
    have "trim ''2021'' = ''2021''" "trim ''photo'' = ''photo''" "trim ''head'' = ''head''"
      "allDigits 10 ''2021''" "\<not> allDigits 10 ''photo''" "\<not> allDigits 10 ''h''" "digitsVal 10 ''2021'' = 2021" by code_simp+
    then have numbers: "jsNumber ''2021'' = Some (Finite 2021)" "jsNumber ''photo'' = None" "jsNumber ''head'' = None"
      by (simp_all add: jsNumber_def decimalLiteral_def exponentOf_def splitSign_def)
    have "targetGuildRoleIds demoTeams demoJane ?synced = [''2'', ''4'']"
      unfolding targetGuildRoleIds_def latest teams
      by (simp add: roles demo years numbers mathMax_def map_filter_simps allTeamSuffix_def interpolate_def)
    then show ?thesis by (simp add: profileOid_def jane)
  qed
  let ?w = "\<lparr>dw_calls = [], dw_queue = []\<rparr>"
  let ?after = "[''1'', ''2'', ''4'']"
  have calls: "applyCalls ''d1'' (drop (length (dw_calls ?w))
      (dw_calls (snd (triggerProfileRoleSync ?env standardLib botWorld demoTeams ''d1'' ?w)))) (set [''1'', ''3'']) = set ?after"
    unfolding triggerProfileRoleSync_run [OF found synced member target]
    by (auto simp: applyCalls_def)
  have "triggerProfileRoleSync (?env\<lparr>de_member := (de_member ?env)(''d1'' := Inr ?after)\<rparr>) standardLib botWorld demoTeams ''d1'' v
      = (Inr (), v)" for v
    using roleSync_refines [OF found synced member target calls [symmetric], of v] by blast
  then show ?thesis by (intro exI [of _ ?after] conjI allI) auto
qed

text \<open>The nickname is cut to Discord's 32 characters before the suffix of a further account is added.\<close>

lemma nickname_suffix_too_long:
  "length nickname = 32 \<Longrightarrow> 0 < rank \<Longrightarrow> 32 < length (nicknameWithSuffix nickname rank)"
  by (simp add: nicknameWithSuffix_def)

end
