(* ===== verification/Discord_Events.thy ===== *)
theory Discord_Events
  imports Discord_Sync Google_Calendar
begin

text \<open>
  Announcing calendar events on Discord: the listing half of \<open>google/google-calendar.service.ts\<close>,
  \<open>discord/events-notifier\<close> and the worker \<open>discord/discord-processor.service.ts\<close>. An instant in an event
  of the calendar is given as the date it denotes. The time zone of the server is a constant number of
  minutes. (The names of the bot's avatars are not in the character range of \<open>char\<close> and left out.)
\<close>

section \<open>GoogleCalendarService, listing\<close>

record event_time =
  et_dateTime :: "date option"
  et_date :: "date option"

record listed_event =
  le_summary :: "string option"
  le_description :: "string option"
  le_location :: "string option"
  le_start :: "event_time option"
  le_end :: "event_time option"
  le_attendees :: "string list option"

record events_env =
  ee_now :: time
  ee_zone :: int
  ee_weekday :: nat
  ee_list :: "time \<Rightarrow> time \<Rightarrow> listed_event list option outcome"
  ee_webhook :: bool \<comment> \<open>whether the address of the webhook is configured\<close>
  ee_interval :: int
  ee_lookAhead :: int
  ee_range :: int

text \<open>\<open>toISOString\<close> of an invalid date throws.\<close>

definition calendar_list :: "events_env \<Rightarrow> date \<Rightarrow> date \<Rightarrow> listed_event list option outcome" where
  "calendar_list env from to =
     (case (from, to) of (Some f, Some t) \<Rightarrow> ee_list env f t | _ \<Rightarrow> Inl (JsError ''Invalid time value''))"

text \<open>An event without an instant is taken to start when the year 2000 did.\<close>

definition startInstant :: "int \<Rightarrow> listed_event \<Rightarrow> date" where
  "startInstant zone e =
     (case Option.bind (le_start e) et_dateTime of None \<Rightarrow> Some (946684800000 - zone * 60000) | Some d \<Rightarrow> d)"

definition filterOnlyUpcomingEvents :: "int \<Rightarrow> date \<Rightarrow> listed_event list option \<Rightarrow> listed_event list" where
  "filterOnlyUpcomingEvents zone from items =
     filter (\<lambda>e. case (startInstant zone e, from) of (Some s, Some f) \<Rightarrow> f \<le> s | _ \<Rightarrow> False)
       (case items of None \<Rightarrow> [] | Some es \<Rightarrow> es)"

definition calendar_find ::
    "events_env \<Rightarrow> date \<Rightarrow> date \<Rightarrow> string option \<Rightarrow> string option \<Rightarrow> listed_event list option outcome" where
  "calendar_find env from to email summary =
     onSuccess (calendar_list env from to) (\<lambda>items.
     Inr (map_option (filter (\<lambda>e. (\<not> truthyId summary \<or> le_summary e = summary)
       \<and> (\<not> truthyId email \<or> (case le_attendees e of None \<Rightarrow> False | Some as \<Rightarrow> the email \<in> set as)))) items))"

section \<open>DiscordEmbedEvent\<close>

record embed_event =
  ev_title :: string
  ev_description :: string
  ev_startAt :: "date option"
  ev_endAt :: "date option"
  ev_color :: int
  ev_location :: string
  ev_attendees :: "string list"

record embed_field =
  ef_name :: string
  ef_value :: string
  ef_inline :: bool

record embed =
  em_title :: string
  em_description :: string
  em_color :: int
  em_fields :: "embed_field list"

definition DEFAULT_COLOR :: int where "DEFAULT_COLOR = 16088076"

definition instantOf :: "event_time option \<Rightarrow> date option" where
  "instantOf t = Option.bind t (\<lambda>t. case et_dateTime t of None \<Rightarrow> et_date t | Some d \<Rightarrow> Some d)"

text \<open>Seconds since the epoch: not a number for an invalid date, and no date is an error.\<close>

definition timestampSecond :: "date option \<Rightarrow> int option outcome" where
  "timestampSecond d =
     (case d of
        None \<Rightarrow> Inl (JsError ''Cannot read properties of undefined (reading getTime)'')
      | Some t \<Rightarrow> Inr (map_option (\<lambda>t. t div 1000) t))"

definition mention :: "string \<Rightarrow> string" where
  "mention i = ''<@'' @ i @ ''>''"

definition attendeesFormatted :: "embed_event \<Rightarrow> string" where
  "attendeesFormatted e = joinWith '' '' (map mention (ev_attendees e))"

definition stringOfNumber :: "int option \<Rightarrow> string" where
  "stringOfNumber n = (case n of None \<Rightarrow> ''NaN'' | Some i \<Rightarrow> intToRadix 10 i)"

text \<open>
  The pattern of an address of a channel: a fixed start (its dot stands for any character), the digits of the
  server, a slash, the digits of the channel.
\<close>

definition channelPrefix :: string where "channelPrefix = ''https://discord.com/channels/''"

definition startsAsChannel :: "string \<Rightarrow> bool" where
  "startsAsChannel s \<longleftrightarrow> length channelPrefix \<le> length s
     \<and> list_all2 (\<lambda>p c. p = c \<or> p = CHR ''.'' \<and> \<not> isLineTerminator c) channelPrefix (take (length channelPrefix) s)"

definition matchChannel :: "string \<Rightarrow> (string \<times> string) option" where
  "matchChannel s =
     (if \<not> startsAsChannel s then None
      else
        let t = drop (length channelPrefix) s;
            u = dropWhile (isDigit 10) t;
            v = dropWhile (isDigit 10) (drop 1 u) in
        if takeWhile (isDigit 10) t \<noteq> [] \<and> take 1 u = ''/'' \<and> takeWhile (isDigit 10) (drop 1 u) \<noteq> []
        then Some (takeWhile (isDigit 10) (drop 1 u), v) else None)"

lemma matchChannel_shorter: "matchChannel s = Some (c, rest) \<Longrightarrow> length rest < length s"
proof -
  assume m: "matchChannel s = Some (c, rest)"
  then have "length channelPrefix \<le> length s" by (auto simp: matchChannel_def startsAsChannel_def split: if_splits)
  moreover have "length rest \<le> length s - length channelPrefix"
    using m by (auto simp: matchChannel_def Let_def split: if_splits)
      (metis (no_types, lifting) diff_le_self le_trans length_drop length_dropWhile_le)
  moreover have "0 < length channelPrefix" by (simp add: channelPrefix_def)
  ultimately show ?thesis by linarith
qed

function replaceDiscordUrlWithChannel :: "string \<Rightarrow> string" where
  "replaceDiscordUrlWithChannel [] = []"
| "replaceDiscordUrlWithChannel (c # cs) =
     (case matchChannel (c # cs) of
        Some (channel, rest) \<Rightarrow> ''<#'' @ channel @ ''>'' @ replaceDiscordUrlWithChannel rest
      | None \<Rightarrow> c # replaceDiscordUrlWithChannel cs)"
  by pat_completeness auto
termination by (relation "measure length") (auto dest: matchChannel_shorter)

definition fields :: "embed_event \<Rightarrow> embed_field list outcome" where
  "fields e =
     onSuccess (timestampSecond (ev_startAt e)) (\<lambda>start.
     onSuccess (if start = None \<or> start = Some 0 then Inr []
        else onSuccess (timestampSecond (ev_endAt e)) (\<lambda>stop.
          let s = stringOfNumber start in
          Inr [\<lparr>ef_name = ''When'', ef_value = ''<t:'' @ s @ '':f> - <t:'' @ stringOfNumber stop @ '':t> (<t:'' @ s @ '':R>)'',
                ef_inline = True\<rparr>])) (\<lambda>whenField.
     Inr (whenField
       @ (if ev_location e \<noteq> [] then [\<lparr>ef_name = ''Where'', ef_value = replaceDiscordUrlWithChannel (ev_location e),
            ef_inline = True\<rparr>] else [])
       @ (if ev_attendees e \<noteq> [] then [\<lparr>ef_name = ''Attendees'', ef_value = attendeesFormatted e, ef_inline = False\<rparr>] else []))))"

definition getEmbed :: "embed_event \<Rightarrow> embed outcome" where
  "getEmbed e = onSuccess (fields e) (\<lambda>fs.
     Inr \<lparr>em_title = ev_title e, em_description = ev_description e, em_color = ev_color e, em_fields = fs\<rparr>)"

definition setColor :: "int \<Rightarrow> embed_event \<Rightarrow> embed_event" where
  "setColor c e = e\<lparr>ev_color := c\<rparr>"

text \<open>The builder's setters, in the order in which the notifier calls them.\<close>

definition embedOf :: "accounts_env \<Rightarrow> accounts_world \<Rightarrow> listed_event \<Rightarrow> embed_event" where
  "embedOf aenv acc e =
     \<lparr>ev_title = (case le_summary e of None \<Rightarrow> ''No title'' | Some s \<Rightarrow> s),
      ev_description = (case le_description e of None \<Rightarrow> [] | Some s \<Rightarrow> s),
      ev_startAt = instantOf (le_start e), ev_endAt = instantOf (le_end e), ev_color = DEFAULT_COLOR,
      ev_location = (case le_location e of None \<Rightarrow> [] | Some s \<Rightarrow> s),
      ev_attendees = filter (\<lambda>i. i \<noteq> []) (discordIdsFromEmails aenv (case le_attendees e of None \<Rightarrow> [] | Some es \<Rightarrow> es) acc)\<rparr>"

section \<open>DiscortEventsNotifierService\<close>

definition saikoColors :: "int list" where
  "saikoColors = [9964065, 16775274, 16214930, 9688981, 16744483, 3850469, 11617201]"

definition saikoAvatars :: "string list" where
  "saikoAvatars = [''https://i.imgur.com/WqVJdDM.png'', ''https://i.imgur.com/bgC47hT.png'',
     ''https://i.imgur.com/P7Hvrq4.png'', ''https://i.imgur.com/ltPgOgn.png'', ''https://i.imgur.com/xrMWXD6.png'',
     ''https://i.imgur.com/OpWEDWS.png'', ''https://i.imgur.com/H72LOY1.png'']"

record webhook_message =
  wm_content :: string
  wm_avatarUrl :: string
  wm_embeds :: "embed list"

definition localMinute :: "int \<Rightarrow> time \<Rightarrow> int" where
  "localMinute zone t = (t div 60000 + zone) mod 60"

text \<open>\<open>minute(n).second(0).millisecond(0)\<close>.\<close>

definition atMinute :: "int \<Rightarrow> int \<Rightarrow> time \<Rightarrow> time" where
  "atMinute zone n t = t - t mod 60000 + (n - localMinute zone t) * 60000"

definition getHourAhead :: "events_env \<Rightarrow> int \<Rightarrow> date" where
  "getHourAhead env hour = Some (atMinute (ee_zone env) 0 (ee_now env + hours hour))"

definition floorInterval :: "int \<Rightarrow> int \<Rightarrow> time \<Rightarrow> date" where
  "floorInterval zone intervalMinute now =
     (if intervalMinute = 0 then None
      else Some (atMinute zone (localMinute zone now div intervalMinute * intervalMinute) now))"

definition ceilInterval :: "int \<Rightarrow> int \<Rightarrow> time \<Rightarrow> date" where
  "ceilInterval zone intervalMinute now =
     map_option (\<lambda>floor. floor + minutes intervalMinute - seconds 1) (floorInterval zone intervalMinute now)"

definition generateContent :: "string \<Rightarrow> embed_event list \<Rightarrow> string" where
  "generateContent message es =
     (let discordIdFormated = joinWith '' '' (map mention (distinctInOrder (concat (map ev_attendees es)))) in
      if discordIdFormated \<noteq> [] then message @ [CHR 10] @ discordIdFormated else message)"

text \<open>The events are coloured in place, before the first embed that cannot be built stops the message.\<close>

definition executeWebhook :: "events_env \<Rightarrow> string \<Rightarrow> embed_event list \<Rightarrow> (webhook_message list, unit) action" where
  "executeWebhook env content es =
     andThen (throwIf (\<not> ee_webhook env) (JsError ''Cannot read properties of undefined (reading send)'')) (\<lambda>_.
     andThen (lift (mapOutcome (\<lambda>e. getEmbed (setColor (saikoColors ! ee_weekday env) e)) es)) (\<lambda>embeds.
     modify (\<lambda>sent. sent @ [\<lparr>wm_content = content, wm_avatarUrl = saikoAvatars ! ee_weekday env, wm_embeds = embeds\<rparr>])))"

definition isInterview :: "listed_event \<Rightarrow> bool" where
  "isInterview e \<longleftrightarrow> (case le_summary e of None \<Rightarrow> False | Some s \<Rightarrow> strIncludes (toLowerCase s) ''interview invitation'')"

definition triggerWebhook ::
    "events_env \<Rightarrow> accounts_env \<Rightarrow> accounts_world \<Rightarrow> date \<Rightarrow> date \<Rightarrow> string \<Rightarrow> bool
     \<Rightarrow> (webhook_message list, embed_event list) action" where
  "triggerWebhook env aenv acc from to message dryrun =
     andThen (lift (calendar_list env from to)) (\<lambda>items.
     let withoutInterviewEvents = map_option (filter (\<lambda>e. \<not> isInterview e)) items;
         upcomingEvents = filterOnlyUpcomingEvents (ee_zone env) from withoutInterviewEvents;
         embedEvents = map (embedOf aenv acc) upcomingEvents;
         content = generateContent message embedEvents in
     if embedEvents \<noteq> [] \<and> \<not> dryrun
     then andThen (executeWebhook env content embedEvents) (\<lambda>_. ret (map (setColor (saikoColors ! ee_weekday env)) embedEvents))
     else ret embedEvents)"

definition triggerUpcoming ::
    "events_env \<Rightarrow> accounts_env \<Rightarrow> accounts_world \<Rightarrow> int \<Rightarrow> int \<Rightarrow> bool \<Rightarrow> (webhook_message list, embed_event list) action" where
  "triggerUpcoming env aenv acc hourLookAhead rangeHours dryrun =
     triggerWebhook env aenv acc (getHourAhead env hourLookAhead) (getHourAhead env (hourLookAhead + rangeHours))
       '':calendar_spiral: **Upcoming events**'' dryrun"

definition triggerStaring ::
    "events_env \<Rightarrow> accounts_env \<Rightarrow> accounts_world \<Rightarrow> time \<Rightarrow> bool \<Rightarrow> (webhook_message list, embed_event list) action" where
  "triggerStaring env aenv acc now dryrun =
     triggerWebhook env aenv acc (floorInterval (ee_zone env) (ee_interval env) now)
       (ceilInterval (ee_zone env) (ee_interval env) now) '':loudspeaker: *This event is starting now*'' dryrun"

section \<open>Controller and worker\<close>

definition triggerDiscordUpcomingEvents ::
    "events_env \<Rightarrow> accounts_env \<Rightarrow> accounts_world \<Rightarrow> int \<Rightarrow> int \<Rightarrow> bool \<Rightarrow> request_user \<Rightarrow> (webhook_message list, embed_event list) action" where
  "triggerDiscordUpcomingEvents env aenv acc hourLookAhead rangeHours dryrun user =
     authGroups [''it''] user (triggerUpcoming env aenv acc hourLookAhead rangeHours dryrun)"

definition triggerDiscordStartingEvents ::
    "events_env \<Rightarrow> accounts_env \<Rightarrow> accounts_world \<Rightarrow> time \<Rightarrow> bool \<Rightarrow> request_user \<Rightarrow> (webhook_message list, embed_event list) action" where
  "triggerDiscordStartingEvents env aenv acc now dryrun user =
     authGroups [''it''] user (triggerStaring env aenv acc now dryrun)"

record bot_world =
  bw_discord :: discord_world
  bw_sent :: "webhook_message list"

abbreviation onDiscord :: "(discord_world, 'a) action \<Rightarrow> (bot_world, 'a) action" where
  "onDiscord \<equiv> zoom bw_discord (\<lambda>d w. w\<lparr>bw_discord := d\<rparr>)"

abbreviation onWebhook :: "(webhook_message list, 'a) action \<Rightarrow> (bot_world, 'a) action" where
  "onWebhook \<equiv> zoom bw_sent (\<lambda>s w. w\<lparr>bw_sent := s\<rparr>)"

text \<open>The look-up of the member is not awaited, and a promise is never missing: both synchronizations run.\<close>

definition triggerProfileSync ::
    "discord_env \<Rightarrow> id_lib \<Rightarrow> accounts_world \<Rightarrow> team_db \<Rightarrow> string \<Rightarrow> (bot_world, unit) action" where
  "triggerProfileSync denv L acc teams discordId =
     onDiscord (andThen (triggerProfileNameSync L acc teams discordId) (\<lambda>_.
       triggerProfileRoleSync denv L acc teams discordId))"

text \<open>\<open>new Error(err)\<close> has the error's text with its name for a message.\<close>

primrec errorText :: "http_error \<Rightarrow> string" where
  "errorText (BadRequest m) = ''BadRequestException: '' @ m"
| "errorText (Unauthorized m) = ''UnauthorizedException: '' @ m"
| "errorText (Forbidden m) = ''ForbiddenException: '' @ m"
| "errorText (NotFound m) = ''NotFoundException: '' @ m"
| "errorText (NotAcceptable m) = ''NotAcceptableException: '' @ m"
| "errorText (Conflict m) = ''ConflictException: '' @ m"
| "errorText (Unprocessable m) = ''UnprocessableEntityException: '' @ m"
| "errorText (InternalServerError m) = ''InternalServerErrorException: '' @ m"
| "errorText (JsError m) = ''Error: '' @ m"

definition discordProcess ::
    "discord_env \<Rightarrow> events_env \<Rightarrow> accounts_env \<Rightarrow> accounts_world \<Rightarrow> team_db \<Rightarrow> string \<Rightarrow> string \<Rightarrow> (bot_world, unit) action" where
  "discordProcess denv env aenv acc teams name discordId =
     tryCatch
       (if name = ''discord:profile_sync'' then triggerProfileSync denv (ae_lib aenv) acc teams discordId
        else if name = ''discord:upcoming_events''
        then discard (onWebhook (triggerUpcoming env aenv acc (ee_lookAhead env) (ee_range env) False))
        else if name = ''discord:starting_events''
        then discard (onWebhook (triggerStaring env aenv acc (ee_now env) False))
        else throw (JsError (''Unknown job name '' @ name)))
       (\<lambda>err. throw (JsError (errorText err)))"

text \<open>The message of the bot's queue; whatever goes wrong is forgotten.\<close>

definition onTriggerSync ::
    "discord_env \<Rightarrow> id_lib \<Rightarrow> accounts_world \<Rightarrow> team_db \<Rightarrow> string \<Rightarrow> (bot_world, unit) action" where
  "onTriggerSync denv L acc teams discordId = discard (attempt (triggerProfileSync denv L acc teams discordId))"

section \<open>Facts\<close>

lemma atMinute_floor:
  assumes "0 < i" and "i dvd 60"
  shows "atMinute zone (localMinute zone t div i * i) t = ((t div 60000 + zone) div i * i - zone) * 60000"
proof -
  let ?k = "t div 60000 + zone"
  have "?k mod 60 - ?k mod 60 div i * i = ?k mod 60 mod i" using minus_div_mult_eq_mod by blast
  also have "\<dots> = ?k mod i" by (rule mod_mod_cancel [OF assms(2)])
  finally have a: "?k mod 60 div i * i - ?k mod 60 = - (?k mod i)" by simp
  have b: "?k div i * i = ?k - ?k mod i" by (simp add: minus_mod_eq_div_mult)
  have c: "t - t mod 60000 = t div 60000 * 60000" by (simp add: minus_mod_eq_div_mult)
  show ?thesis unfolding atMinute_def localMinute_def a b c by simp
qed

lemma mult_le_div: "0 < (b :: int) \<Longrightarrow> x * b \<le> c \<longleftrightarrow> x \<le> c div b"
proof
  assume "0 < b" and "x * b \<le> c"
  then show "x \<le> c div b" using zdiv_mono1 [of "x * b" c b] by simp
next
  assume "0 < b" and "x \<le> c div b"
  then have "x * b \<le> c div b * b" by (simp add: mult_right_mono)
  also have "\<dots> \<le> c" using div_mult_mod_eq [of c b] pos_mod_sign [OF \<open>0 < b\<close>, of c] by linarith
  finally show "x * b \<le> c" .
qed

lemma shift_less: "(d :: int) < a - z + i \<longleftrightarrow> d + z < a + i"
  by linarith

lemma div_window:
  assumes "0 < (i :: int)"
  shows "q * i \<le> k \<and> k < q * i + i \<longleftrightarrow> k div i = q"
proof
  assume k: "q * i \<le> k \<and> k < q * i + i"
  show "k div i = q"
    by (rule int_div_pos_eq [where r = "k - q * i"]) (use k in \<open>simp_all add: algebra_simps\<close>)
next
  assume "k div i = q"
  then show "q * i \<le> k \<and> k < q * i + i"
    using div_mult_mod_eq [of k i] pos_mod_sign [OF assms, of k] pos_mod_bound [OF assms, of k] by simp
qed



end
