(* ===== verification/Account_Profile.thy ===== *)
theory Account_Profile
  imports Team_Directory Photo_Processing
begin

text \<open>
  The pages of a profile: the remaining operations of \<open>accounts/profile/profile.service.ts\<close> and
  \<open>profile-photo.service.ts\<close>, \<open>profile.v1.controller.ts\<close> with its models, and the encryption of
  telephone numbers (\<open>helpers/encryption.ts\<close>), whose cipher is a parameter: the initial vectors are
  random, so the \<open>i\<close>-th number of a request has its own.
\<close>

record profile_photo_row =
  pp_id :: uuid
  pp_profileId :: uuid
  pp_directory :: string
  pp_filename :: string

record process_job =
  pj_source :: string
  pj_destination :: string
  pj_params :: process_params

record profile_world =
  pw_accounts :: accounts_world
  pw_photos :: "profile_photo_row list"
  pw_jobs :: "process_job list"

record profile_env =
  pe_accounts :: accounts_env
  pe_encrypt :: "nat \<Rightarrow> string \<Rightarrow> string"
  pe_decrypt :: "string \<Rightarrow> string"
  pe_fileMd5 :: "string \<Rightarrow> string outcome"
  pe_uuidV5 :: "string \<Rightarrow> uuid"
  pe_sha256Hex :: "string \<Rightarrow> string"
  pe_quality :: int
  pe_newObjectId :: object_id

abbreviation onAccounts :: "(accounts_world, 'a) action \<Rightarrow> (profile_world, 'a) action" where
  "onAccounts \<equiv> zoom pw_accounts (\<lambda>a w. w\<lparr>pw_accounts := a\<rparr>)"

definition profilesOf :: "profile_world \<Rightarrow> account_profile list" where
  "profilesOf w = profiles (adb (pw_accounts w))"

definition modifyProfiles :: "(account_profile list \<Rightarrow> account_profile list) \<Rightarrow> (profile_world, unit) action" where
  "modifyProfiles f = onAccounts (onAccountsDb (modify (\<lambda>db. db\<lparr>profiles := f (profiles db)\<rparr>)))"

section \<open>ProfileService\<close>

text \<open>Without the contact the numbers are emptied in the document that is handed out.\<close>

definition profile_findById :: "profile_env \<Rightarrow> object_id \<Rightarrow> bool \<Rightarrow> profile_world \<Rightarrow> account_profile option" where
  "profile_findById env i withContact w =
     map_option (\<lambda>p.
       if withContact \<and> pr_tels p \<noteq> None \<and> pr_tels p \<noteq> Some []
       then p\<lparr>pr_tels := map_option (map (pe_decrypt env)) (pr_tels p)\<rparr>
       else p\<lparr>pr_tels := Some []\<rparr>)
     (findOneBy (\<lambda>p. pr_id p = i) (profilesOf w))"

record contact_info =
  ci_emails :: "string list option"
  ci_tels :: "string list option"

definition encryptAll :: "profile_env \<Rightarrow> string list \<Rightarrow> string list" where
  "encryptAll env tels = map (\<lambda>(i, t). pe_encrypt env i t) (enumerate 0 tels)"

definition withContactInfo :: "profile_env \<Rightarrow> contact_info \<Rightarrow> account_profile \<Rightarrow> account_profile" where
  "withContactInfo env c p =
     p\<lparr>pr_emails := (case ci_emails c of None \<Rightarrow> pr_emails p | Some es \<Rightarrow> Some (map (ae_castEmail (pe_accounts env)) es)),
       pr_tels := (case ci_tels c of None \<Rightarrow> pr_tels p | Some ts \<Rightarrow> Some (encryptAll env ts))\<rparr>"

definition updateContactInfo :: "profile_env \<Rightarrow> object_id \<Rightarrow> contact_info \<Rightarrow> (profile_world, account_profile option) action" where
  "updateContactInfo env i c =
     andThen (modifyProfiles (updateFirst (\<lambda>p. pr_id p = i) (withContactInfo env c))) (\<lambda>_.
     gets (\<lambda>w. findOneBy (\<lambda>p. pr_id p = i) (profilesOf w)))"

section \<open>ProfilePhotoService\<close>

definition photo_findByUuid :: "uuid \<Rightarrow> profile_world \<Rightarrow> profile_photo_row option" where
  "photo_findByUuid u w = findOneBy (\<lambda>r. pp_id r = u) (pw_photos w)"

definition getSrcFilepath :: "string \<Rightarrow> string \<Rightarrow> string" where
  "getSrcFilepath directory filename = ''webdav://'' @ pathJoin [directory, filename]"

definition addProcessJob :: "process_job \<Rightarrow> (profile_world, unit) action" where
  "addProcessJob j = modify (\<lambda>w. w\<lparr>pw_jobs := pw_jobs w @ [j]\<rparr>)"

definition processGravatar :: "profile_env \<Rightarrow> string \<Rightarrow> string option \<Rightarrow> (profile_world, string option) action" where
  "processGravatar env path email =
     (if \<not> truthyId email then ret None
      else
        let destination = ''minio://avatar/'' @ pe_sha256Hex env (toLowerCase (trim (the email)));
            p = (ppp_buildProcessParams (pe_quality env) \<lparr>ppp_uuid = defaultUuid, ppp_format = Webp\<rparr>)\<lparr>par_format := Jpeg\<rparr> in
        andThen (addProcessJob \<lparr>pj_source = path, pj_destination = destination, pj_params = p\<rparr>) (\<lambda>_.
        ret (Some destination)))"

definition processProfilePhoto :: "profile_env \<Rightarrow> string \<Rightarrow> uuid \<Rightarrow> string option \<Rightarrow> (profile_world, unit) action" where
  "processProfilePhoto env path u email =
     (let job = (\<lambda>fmt. let p = \<lparr>ppp_uuid = u, ppp_format = fmt\<rparr> in
            \<lparr>pj_source = path, pj_destination = ppp_path p, pj_params = ppp_buildProcessParams (pe_quality env) p\<rparr>) in
      andThen (addProcessJob (job Webp)) (\<lambda>_.
      andThen (addProcessJob (job Jpeg)) (\<lambda>_.
      discard (processGravatar env path email))))"

text \<open>
  The document that is saved is the one \<open>findById\<close> gave, numbers emptied; saving writes the fields that
  changed, the photo and the numbers.
\<close>

definition importFromNas :: "profile_env \<Rightarrow> string \<Rightarrow> string \<Rightarrow> object_id \<Rightarrow> (profile_world, profile_photo_row) action" where
  "importFromNas env directory filename profileId =
     andThen (gets (profile_findById env profileId False)) (\<lambda>profile.
     case profile of
       None \<Rightarrow> throw (NotFound ''Profile not found'')
     | Some profile \<Rightarrow>
         let path = getSrcFilepath directory filename in
         andThen (lift (pe_fileMd5 env path)) (\<lambda>md5.
         let u = pe_uuidV5 env md5;
             row = \<lparr>pp_id = u, pp_profileId = profileUid (ae_lib (pe_accounts env)) profileId,
               pp_directory = directory, pp_filename = filename\<rparr> in
         andThen (processProfilePhoto env path u (firstOf (pr_emails profile))) (\<lambda>_.
         andThen (modify (\<lambda>w. w\<lparr>pw_photos := saveRow pp_id row (pw_photos w)\<rparr>)) (\<lambda>_.
         andThen (modifyProfiles (updateFirst (\<lambda>p. pr_id p = profileId)
           (\<lambda>p. p\<lparr>pr_photo := Some u, pr_tels := pr_tels profile\<rparr>))) (\<lambda>_.
         ret row)))))"

section \<open>ProfileV1Controller\<close>

record profile_response =
  pres_id :: string
  pres_name :: profile_name_response
  pres_localName :: profile_name_response

definition profileResponse_fromModel :: "account_profile \<Rightarrow> profile_name list \<Rightarrow> profile_response" where
  "profileResponse_fromModel p names =
     \<lparr>pres_id = hexString (pr_id p), pres_name = fromProfile names En, pres_localName = fromProfile names Th\<rparr>"

record contact_response =
  cres_profileId :: string
  cres_emails :: "string list option"
  cres_tels :: "string list option"

definition contactResponse_fromModel :: "account_profile \<Rightarrow> contact_response" where
  "contactResponse_fromModel p =
     \<lparr>cres_profileId = hexString (pr_id p), cres_emails = map_option (take 1) (pr_emails p),
      cres_tels = map_option (take 1) (pr_tels p)\<rparr>"

record profile_photo_response =
  ppr_id :: string
  ppr_profileId :: string

definition profilePhotoResponse_fromEntity :: "id_lib \<Rightarrow> profile_photo_row \<Rightarrow> profile_photo_response" where
  "profilePhotoResponse_fromEntity L r = \<lparr>ppr_id = pp_id r, ppr_profileId = toHexString L (pp_profileId r)\<rparr>"

text \<open>\<open>new Types.ObjectId(user.id)\<close>: without an id a new identifier is made.\<close>

definition userObjectId :: "profile_env \<Rightarrow> request_user \<Rightarrow> object_id outcome" where
  "userObjectId env user =
     (case user_id user of
        None \<Rightarrow> Inr (pe_newObjectId env)
      | Some (OidObject p) \<Rightarrow> Inr p
      | Some (OidString h) \<Rightarrow>
          if isObjectIdString h then Inr (objectIdFromHex (ae_lib (pe_accounts env)) h)
          else Inl (JsError ''input must be a 24 character hex string''))"

definition foundOr404 :: "'p option \<Rightarrow> ('p \<Rightarrow> 'a) \<Rightarrow> ('s, 'a) action" where
  "foundOr404 doc f = (case doc of None \<Rightarrow> throw (NotFound ''Profile not found'') | Some p \<Rightarrow> ret (f p))"

definition getMyProfile :: "profile_env \<Rightarrow> request_user \<Rightarrow> (profile_world, profile_response) action" where
  "getMyProfile env user = authGroups [] user
     (andThen (lift (userObjectId env user)) (\<lambda>i.
      andThen (gets (\<lambda>w. (findOneBy (\<lambda>p. pr_id p = i) (profilesOf w),
        findBy (\<lambda>n. pn_profile n = Some i) (profileNames (adb (pw_accounts w)))))) (\<lambda>r.
      foundOr404 (fst r) (\<lambda>p. profileResponse_fromModel p (snd r)))))"

definition contactsOf :: "profile_env \<Rightarrow> object_id \<Rightarrow> (profile_world, contact_response) action" where
  "contactsOf env i =
     andThen (gets (profile_findById env i True)) (\<lambda>doc. foundOr404 doc contactResponse_fromModel)"

definition getMyContacts :: "profile_env \<Rightarrow> request_user \<Rightarrow> (profile_world, contact_response) action" where
  "getMyContacts env user = authGroups [] user (andThen (lift (userObjectId env user)) (contactsOf env))"

definition updateContactsOf :: "profile_env \<Rightarrow> object_id \<Rightarrow> contact_info \<Rightarrow> (profile_world, unit) action" where
  "updateContactsOf env i dto =
     andThen (updateContactInfo env i dto) (\<lambda>updated. foundOr404 updated (\<lambda>_. ()))"

text \<open>The body of a request; its entries are brought into form before they are checked.\<close>

record contact_body =
  cb_emails :: "string list option"
  cb_tels :: "string list option"

definition contactDto :: "contact_body \<Rightarrow> contact_info" where
  "contactDto b = \<lparr>ci_emails = map_option (map (\<lambda>e. trim (toLowerCase e))) (cb_emails b),
     ci_tels = map_option (map trim) (cb_tels b)\<rparr>"

definition updateMyContacts :: "profile_env \<Rightarrow> contact_body \<Rightarrow> request_user \<Rightarrow> (profile_world, unit) action" where
  "updateMyContacts env body user = authGroups [] user
     (andThen (lift (userObjectId env user)) (\<lambda>i. updateContactsOf env i (contactDto body)))"

definition upsertBoth :: "object_id \<Rightarrow> name_dto \<Rightarrow> name_dto \<Rightarrow> (profile_world, unit) action" where
  "upsertBoth i name localName = onAccounts
     (andThen (upsertName En i (nameDto_toModel En name)) (\<lambda>_. upsertName Th i (nameDto_toModel Th localName)))"

text \<open>The handler of one's own name has no guard.\<close>

definition updateMyProfileName :: "profile_env \<Rightarrow> name_dto \<Rightarrow> name_dto \<Rightarrow> request_user \<Rightarrow> (profile_world, unit) action" where
  "updateMyProfileName env name localName user =
     andThen (lift (userObjectId env user)) (\<lambda>i. upsertBoth i name localName)"

definition getProfileContacts :: "profile_env \<Rightarrow> profile_id_model \<Rightarrow> request_user \<Rightarrow> (profile_world, contact_response) action" where
  "getProfileContacts env profileId user = authGroups [''nudch''] user
     (contactsOf env (pid_objectId (ae_lib (pe_accounts env)) profileId))"

definition updateProfileContacts ::
    "profile_env \<Rightarrow> profile_id_model \<Rightarrow> contact_body \<Rightarrow> request_user \<Rightarrow> (profile_world, unit) action" where
  "updateProfileContacts env profileId body user = authGroups [''head''] user
     (updateContactsOf env (pid_objectId (ae_lib (pe_accounts env)) profileId) (contactDto body))"

definition updateProfileName ::
    "profile_env \<Rightarrow> profile_id_model \<Rightarrow> name_dto \<Rightarrow> name_dto \<Rightarrow> request_user \<Rightarrow> (profile_world, unit) action" where
  "updateProfileName env profileId name localName user = authGroups [''head''] user
     (upsertBoth (pid_objectId (ae_lib (pe_accounts env)) profileId) name localName)"

definition importProfilePhoto ::
    "profile_env \<Rightarrow> profile_id_model \<Rightarrow> string \<Rightarrow> string \<Rightarrow> request_user \<Rightarrow> (profile_world, profile_photo_response) action" where
  "importProfilePhoto env profileId directory filename user = authGroups [''head''] user
     (let L = ae_lib (pe_accounts env) in
      andThen (importFromNas env directory filename (pid_objectId L profileId)) (\<lambda>entity.
      ret (profilePhotoResponse_fromEntity L entity)))"

section \<open>Facts\<close>

lemma updateFirst_none: "dropWhile (\<lambda>r. \<not> p r) t = [] \<Longrightarrow> updateFirst p f t = t"
  by (simp only: updateFirst_def list.case)

lemma updateFirst_some:
  "dropWhile (\<lambda>r. \<not> p r) t = r # rs \<Longrightarrow> updateFirst p f t = takeWhile (\<lambda>r. \<not> p r) t @ f r # rs"
  by (simp only: updateFirst_def list.case)

lemma updateFirst_simps [simp]:
  "updateFirst p f [] = []"
  "updateFirst p f (x # xs) = (if p x then f x # xs else x # updateFirst p f xs)"
proof -
  show "updateFirst p f [] = []" by (simp add: updateFirst_def)
  show "updateFirst p f (x # xs) = (if p x then f x # xs else x # updateFirst p f xs)"
  proof (cases "p x")
    case True
    then show ?thesis by (simp add: updateFirst_def)
  next
    case False
    show ?thesis
    proof (cases "dropWhile (\<lambda>r. \<not> p r) xs")
      case Nil
      then have "dropWhile (\<lambda>r. \<not> p r) (x # xs) = []" using False by simp
      then show ?thesis using False Nil by (simp only: updateFirst_none if_False)
    next
      case (Cons r rs)
      then have "dropWhile (\<lambda>r. \<not> p r) (x # xs) = r # rs" using False by simp
      from updateFirst_some [OF this] updateFirst_some [OF Cons] show ?thesis using False by simp
    qed
  qed
qed

lemma findOneBy_updateFirst:
  assumes "\<And>x. p (f x) \<longleftrightarrow> p x"
  shows "findOneBy p (updateFirst p f t) = map_option f (findOneBy p t)"
  using assms unfolding findOneBy_def by (induction t) auto

lemma findOneBy_updateFirst_other:
  assumes "\<And>x. p x \<Longrightarrow> \<not> q x" and "\<And>x. q (f x) \<longleftrightarrow> q x"
  shows "findOneBy q (updateFirst p f t) = findOneBy q t"
  using assms unfolding findOneBy_def by (induction t) auto

lemma modifyProfiles_run:
  "modifyProfiles f w = (Inr (), w\<lparr>pw_accounts := (pw_accounts w)\<lparr>adb := (adb (pw_accounts w))
     \<lparr>profiles := f (profilesOf w)\<rparr>\<rparr>\<rparr>)"
  by (simp add: modifyProfiles_def zoom_def action_simps profilesOf_def)

definition withProfiles :: "account_profile list \<Rightarrow> profile_world \<Rightarrow> profile_world" where
  "withProfiles ps w = w\<lparr>pw_accounts := (pw_accounts w)\<lparr>adb := (adb (pw_accounts w))\<lparr>profiles := ps\<rparr>\<rparr>\<rparr>"

lemma profilesOf_withProfiles [simp]: "profilesOf (withProfiles ps w) = ps"
  by (simp add: withProfiles_def profilesOf_def)

lemma updateContactsOf_run:
  "updateContactsOf env i c w =
     (case findOneBy (\<lambda>p. pr_id p = i) (profilesOf w) of
        None \<Rightarrow> Inl (NotFound ''Profile not found'') | Some _ \<Rightarrow> Inr (),
      withProfiles (updateFirst (\<lambda>p. pr_id p = i) (withContactInfo env c) (profilesOf w)) w)"
proof -
  have "updateContactInfo env i c w =
      (Inr (map_option (withContactInfo env c) (findOneBy (\<lambda>p. pr_id p = i) (profilesOf w))),
       withProfiles (updateFirst (\<lambda>p. pr_id p = i) (withContactInfo env c) (profilesOf w)) w)"
    by (simp add: updateContactInfo_def andThen_ret [OF modifyProfiles_run] action_simps findOneBy_updateFirst
        withContactInfo_def profilesOf_def withProfiles_def)
  note run = andThen_ret [where m = "updateContactInfo env i c", OF this]
  show ?thesis by (simp add: updateContactsOf_def run foundOr404_def action_simps split: option.split)
qed

lemma decrypt_encryptAll:
  assumes "\<And>i v. pe_decrypt env (pe_encrypt env i v) = v"
  shows "map (pe_decrypt env) (encryptAll env ts) = ts"
proof -
  have "map (pe_decrypt env) (encryptAll env ts) = map snd (enumerate 0 ts)"
    unfolding encryptAll_def map_map by (rule map_cong) (auto simp: assms)
  then show ?thesis by simp
qed

text \<open>
  Claim C28: What is stored as the contact of a profile is read back: after an update that is accepted, the
  contacts show the first of the e-mail addresses, in the form the schema gives them, and the first of the
  telephone numbers in the clear, whatever the cipher and its initial vectors, and every other profile is
  as it was.
\<close>

theorem contacts_roundtrip:
  assumes "\<And>i v. pe_decrypt env (pe_encrypt env i v) = v"
    and "updateContactsOf env p \<lparr>ci_emails = Some es, ci_tels = Some ts\<rparr> w = (Inr (), w')"
  shows "contactsOf env p w' = (Inr \<lparr>cres_profileId = hexString p,
      cres_emails = Some (take 1 (map (ae_castEmail (pe_accounts env)) es)), cres_tels = Some (take 1 ts)\<rparr>, w')
    \<and> (q \<noteq> p \<longrightarrow> findOneBy (\<lambda>x. pr_id x = q) (profilesOf w') = findOneBy (\<lambda>x. pr_id x = q) (profilesOf w))"
proof -
  let ?c = "\<lparr>ci_emails = Some es, ci_tels = Some ts\<rparr>"
  obtain x where x: "findOneBy (\<lambda>x. pr_id x = p) (profilesOf w) = Some x"
    and w': "w' = withProfiles (updateFirst (\<lambda>x. pr_id x = p) (withContactInfo env ?c) (profilesOf w)) w"
    using assms(2) unfolding updateContactsOf_run by (auto split: option.splits)
  have id: "pr_id x = p" using findOneBy_SomeD [OF x] by simp
  have key: "pr_id (withContactInfo env c y) = pr_id y" for c y by (simp add: withContactInfo_def)
  have found: "findOneBy (\<lambda>x. pr_id x = p) (profilesOf w') = Some (withContactInfo env ?c x)"
    by (simp add: w' findOneBy_updateFirst key x)
  have tels: "map_option (take 1) (pr_tels (the (profile_findById env p True w'))) = Some (take 1 ts)"
  proof (cases ts)
    case Nil
    then show ?thesis by (simp add: profile_findById_def found withContactInfo_def encryptAll_def)
  next
    case (Cons t us)
    then have "encryptAll env ts \<noteq> []" by (simp add: encryptAll_def)
    then show ?thesis
      by (simp add: profile_findById_def found withContactInfo_def decrypt_encryptAll [OF assms(1)])
  qed
  have "contactsOf env p w' = (Inr \<lparr>cres_profileId = hexString p,
      cres_emails = Some (take 1 (map (ae_castEmail (pe_accounts env)) es)), cres_tels = Some (take 1 ts)\<rparr>, w')"
    using tels id by (simp add: contactsOf_def action_simps foundOr404_def profile_findById_def found
        contactResponse_fromModel_def withContactInfo_def)
  moreover have "findOneBy (\<lambda>x. pr_id x = q) (profilesOf w') = findOneBy (\<lambda>x. pr_id x = q) (profilesOf w)" if "q \<noteq> p"
    unfolding w' profilesOf_withProfiles by (rule findOneBy_updateFirst_other) (use that in \<open>simp_all add: key\<close>)
  ultimately show ?thesis by blast
qed

definition demoProfileEnv :: profile_env where
  "demoProfileEnv = \<lparr>pe_accounts = demoEnv 0 ''n'', pe_encrypt = (\<lambda>i v. ''iv:'' @ v), pe_decrypt = drop 3,
     pe_fileMd5 = (\<lambda>_. Inr ''d41d''), pe_uuidV5 = (\<lambda>h. ''uuid-'' @ h), pe_sha256Hex = (\<lambda>s. s), pe_quality = 80,
     pe_newObjectId = replicate 12 3\<rparr>"

definition demoProfiles :: profile_world where
  "demoProfiles = \<lparr>pw_accounts = (demoWorld [])\<lparr>adb := (adb (demoWorld []))\<lparr>profiles :=
       [\<lparr>pr_id = demoJane, pr_photo = None, pr_emails = Some [''jane@x''], pr_tels = Some [''iv:0800''], pr_discord_ids = None,
         pr_google_ids = None, pr_gitlab_ids = None\<rparr>]\<rparr>\<rparr>, pw_photos = [], pw_jobs = []\<rparr>"

theorem contacts_roundtrip_witness:
  "\<exists>w'. updateContactsOf demoProfileEnv demoJane \<lparr>ci_emails = Some [''j@x''], ci_tels = Some [''0811'', ''0822'']\<rparr> demoProfiles = (Inr (), w')
     \<and> contactsOf demoProfileEnv demoJane w' = (Inr \<lparr>cres_profileId = hexString demoJane, cres_emails = Some [''j@x''],
          cres_tels = Some [''0811'']\<rparr>, w')"
proof -
  have cipher: "pe_decrypt demoProfileEnv (pe_encrypt demoProfileEnv i v) = v" for i v by (simp add: demoProfileEnv_def)
  obtain w' where w': "updateContactsOf demoProfileEnv demoJane \<lparr>ci_emails = Some [''j@x''], ci_tels = Some [''0811'', ''0822'']\<rparr>
      demoProfiles = (Inr (), w')"
    by (simp add: updateContactsOf_run profilesOf_def demoProfiles_def findOneBy_def)
  have cast: "ae_castEmail (pe_accounts demoProfileEnv) = (\<lambda>e. e)" by (simp add: demoProfileEnv_def demoEnv_def)
  show ?thesis using contacts_roundtrip [OF cipher w'] w' by (simp add: cast)
qed

text \<open>
  Importing a photo goes through \<open>findById\<close> without the contact, and what it saves are the numbers of that
  document: whoever had telephone numbers has none afterwards.
\<close>

lemma processGravatar_run: "\<exists>d js. processGravatar env path email w = (Inr d, w\<lparr>pw_jobs := js\<rparr>)"
  by (cases "truthyId email") (auto simp: processGravatar_def Let_def addProcessJob_def action_simps intro: exI [of _ "pw_jobs w"])

lemma processProfilePhoto_run: "\<exists>js. processProfilePhoto env path u email w = (Inr (), w\<lparr>pw_jobs := js\<rparr>)"
proof -
  have "\<exists>js. discard (processGravatar env path email) v = (Inr (), v\<lparr>pw_jobs := js\<rparr>)" for v
    using processGravatar_run [of env path email v] by (auto simp: discard_def andThen_def action_simps)
  from this [of "w\<lparr>pw_jobs := pw_jobs w @ [_, _]\<rparr>"] show ?thesis
    by (simp add: processProfilePhoto_def Let_def addProcessJob_def action_simps)
qed

lemma profilesOf_upd: "profilesOf (w\<lparr>pw_accounts := a\<rparr>) = profiles (adb a)" "profilesOf (w\<lparr>pw_jobs := js\<rparr>) = profilesOf w"
  "profilesOf (w\<lparr>pw_photos := ps\<rparr>) = profilesOf w"
  by (simp_all add: profilesOf_def)

lemma importFromNas_wipes_tels:
  assumes "importFromNas env directory filename p w = (Inr row, w')"
  shows "map_option pr_tels (findOneBy (\<lambda>x. pr_id x = p) (profilesOf w')) = Some (Some [])
    \<and> map_option pr_photo (findOneBy (\<lambda>x. pr_id x = p) (profilesOf w')) = Some (Some (pp_id row))"
proof -
  obtain x where x: "findOneBy (\<lambda>x. pr_id x = p) (profilesOf w) = Some x"
    using assms by (cases "findOneBy (\<lambda>x. pr_id x = p) (profilesOf w)")
      (auto simp: importFromNas_def profile_findById_def action_simps)
  obtain md5 where md5: "pe_fileMd5 env (getSrcFilepath directory filename) = Inr md5"
    using assms by (cases "pe_fileMd5 env (getSrcFilepath directory filename)")
      (auto simp: importFromNas_def profile_findById_def action_simps x)
  obtain js where js: "processProfilePhoto env (getSrcFilepath directory filename) (pe_uuidV5 env md5) (firstOf (pr_emails x)) w =
      (Inr (), w\<lparr>pw_jobs := js\<rparr>)"
    using processProfilePhoto_run by blast
  note run = andThen_ret [where m = "processProfilePhoto env (getSrcFilepath directory filename) (pe_uuidV5 env md5) (firstOf (pr_emails x))", OF js]
  have "profilesOf w' = updateFirst (\<lambda>x. pr_id x = p) (\<lambda>x. x\<lparr>pr_photo := Some (pp_id row), pr_tels := Some []\<rparr>) (profilesOf w)"
    using assms by (auto simp: importFromNas_def profile_findById_def action_simps x md5 Let_def run
        modifyProfiles_run andThen_ret [OF modifyProfiles_run] profilesOf_upd)
  then show ?thesis by (simp add: findOneBy_updateFirst x)
qed

text \<open>A request without a user that names itself writes two name documents for a profile that does not exist.\<close>

lemma updateMyProfileName_guest:
  assumes "user_id user = None"
    and "\<forall>n \<in> set (profileNames (adb (pw_accounts w))). pn_profile n \<noteq> Some (pe_newObjectId env)"
  shows "\<exists>w'. updateMyProfileName env name localName user w = (Inr (), w')
    \<and> length (profileNames (adb (pw_accounts w'))) = length (profileNames (adb (pw_accounts w))) + 2"
  using assms by (auto simp: updateMyProfileName_def userObjectId_def upsertBoth_def upsertName_def Let_def action_simps zoom_def)

end
