(* ===== verification/Nud_Student.thy ===== *)
theory Nud_Student
  imports Account_Profile
begin

text \<open>
  Students of the school: the entity \<open>entities/nud-student/nud-student.entity.ts\<close>,
  \<open>accounts/nud-student/nud-student.service.ts\<close>, its controller, and the bodies and models of both. What
  the validator takes for a number is a parameter. A property of a body that was not sent is \<open>None\<close>, one
  that was sent as \<open>null\<close> is \<open>Some None\<close>.
\<close>

record nud_student =
  ns_id :: int
  ns_profileId :: "uuid option"
  ns_studentId :: string
  ns_academicYear :: int
  ns_classYear :: int
  ns_className :: "string option"
  ns_rank :: "int option"

record nud_world =
  nw_students :: "nud_student list"
  nw_nextId :: int

record nud_env =
  ne_lib :: id_lib
  ne_isNumberString :: "string \<Rightarrow> bool"
  ne_newObjectId :: object_id

text \<open>What is handed to \<open>save\<close> and \<open>update\<close>: an entity without an id.\<close>

record nud_entity =
  nn_profileId :: "uuid option"
  nn_studentId :: string
  nn_academicYear :: int
  nn_classYear :: int
  nn_className :: "string option option"
  nn_rank :: "int option option"

section \<open>NudStudentService\<close>

definition maximumStudentsPerProfile :: nat where
  "maximumStudentsPerProfile = 2"

definition getStudents :: "nud_env \<Rightarrow> object_id \<Rightarrow> nud_world \<Rightarrow> nud_student list" where
  "getStudents env profileId w =
     findBy (\<lambda>s. ns_profileId s = Some (profileUid (ne_lib env) profileId)) (nw_students w)"

definition getStudent :: "string \<Rightarrow> nud_world \<Rightarrow> nud_student option" where
  "getStudent studentId w = findOneBy (\<lambda>s. ns_studentId s = studentId) (nw_students w)"

text \<open>The unique index has no say over rows without a profile.\<close>

definition nudUnique :: "nud_student list \<Rightarrow> bool" where
  "nudUnique t \<longleftrightarrow> distinct (map (\<lambda>s. (ns_studentId s, ns_profileId s, ns_academicYear s)) (filter (\<lambda>s. ns_profileId s \<noteq> None) t))"

definition commitStudents :: "nud_world \<Rightarrow> (nud_world, unit) action" where
  "commitStudents w' =
     (if nudUnique (nw_students w') then modify (\<lambda>_. w')
      else throw (JsError ''duplicate key value violates unique constraint UNIQUE_STUDENT_PROFILE_YEAR''))"

definition insertedStudent :: "nud_entity \<Rightarrow> int \<Rightarrow> nud_student" where
  "insertedStudent e i = \<lparr>ns_id = i, ns_profileId = nn_profileId e, ns_studentId = nn_studentId e,
     ns_academicYear = nn_academicYear e, ns_classYear = nn_classYear e,
     ns_className = Option.bind (nn_className e) id, ns_rank = Option.bind (nn_rank e) id\<rparr>"

definition saveStudent :: "nud_entity \<Rightarrow> (nud_world, unit) action" where
  "saveStudent e w =
     commitStudents \<lparr>nw_students = nw_students w @ [insertedStudent e (nw_nextId w)], nw_nextId = nw_nextId w + 1\<rparr> w"

definition updatedStudent :: "nud_entity \<Rightarrow> nud_student \<Rightarrow> nud_student" where
  "updatedStudent e s = s\<lparr>ns_profileId := (case nn_profileId e of None \<Rightarrow> ns_profileId s | Some p \<Rightarrow> Some p),
     ns_studentId := nn_studentId e, ns_academicYear := nn_academicYear e, ns_classYear := nn_classYear e,
     ns_className := (case nn_className e of None \<Rightarrow> ns_className s | Some c \<Rightarrow> c),
     ns_rank := (case nn_rank e of None \<Rightarrow> ns_rank s | Some r \<Rightarrow> r)\<rparr>"

definition updateStudentRow :: "int \<Rightarrow> nud_entity \<Rightarrow> (nud_world, unit) action" where
  "updateStudentRow i e w =
     commitStudents (w\<lparr>nw_students := updateBy (\<lambda>s. ns_id s = i) (updatedStudent e) (nw_students w)\<rparr>) w"

definition updateStudent :: "nud_env \<Rightarrow> nud_entity \<Rightarrow> (nud_world, unit) action" where
  "updateStudent env e =
     (if \<not> truthyId (nn_profileId e) then throw (BadRequest ''Profile ID is required'')
      else
        andThen (gets (\<lambda>w. (getStudents env (toObjectId (ne_lib env) (the (nn_profileId e))) w, getStudent (nn_studentId e) w))) (\<lambda>(profileStudents, student).
        andThen (throwIf (maximumStudentsPerProfile \<le> length (filter (\<lambda>el. ns_studentId el \<noteq> nn_studentId e) profileStudents))
          (BadRequest ''You have reached the maximum number of students'')) (\<lambda>_.
        case student of
          None \<Rightarrow> saveStudent e
        | Some s \<Rightarrow>
            if ns_studentId s = [] then saveStudent e
            else andThen (throwIf (ns_profileId s \<noteq> nn_profileId e) (BadRequest ''Student ID is not belong to your profile'')) (\<lambda>_.
              updateStudentRow (ns_id s) e))))"

section \<open>NudStudentV1Controller\<close>

record nud_student_model =
  nm_profileId :: "string option"
  nm_studentId :: string
  nm_academicYear :: int
  nm_classYear :: int
  nm_className :: "string option"
  nm_rank :: "int option"

definition nudStudent_fromEntity :: "id_lib \<Rightarrow> nud_student \<Rightarrow> nud_student_model" where
  "nudStudent_fromEntity L s =
     \<lparr>nm_profileId = (if truthyId (ns_profileId s) then Some (toHexString L (the (ns_profileId s))) else None),
      nm_studentId = ns_studentId s, nm_academicYear = ns_academicYear s, nm_classYear = ns_classYear s,
      nm_className = ns_className s, nm_rank = ns_rank s\<rparr>"

definition nudStudents_fromEntities :: "id_lib \<Rightarrow> nud_student list \<Rightarrow> nud_student_model list" where
  "nudStudents_fromEntities L = map (nudStudent_fromEntity L)"

text \<open>The property \<open>profileId\<close> of a query or body: transformed when it was sent, then checked.\<close>

definition profileIdField ::
    "nud_env \<Rightarrow> object_id_arg option option \<Rightarrow> request_user \<Rightarrow> (profile_id_model option \<Rightarrow> ('s, 'a) action) \<Rightarrow> ('s, 'a) action" where
  "profileIdField env raw user k =
     (case raw of
        None \<Rightarrow> k None
      | Some v \<Rightarrow> andThen (lift (transformProfileIdModel (ne_lib env) v)) (\<lambda>p.
          forbidField ''profileId'' [''nudch''] user (Some p) (k (Some p))))"

definition ownObjectId :: "nud_env \<Rightarrow> request_user \<Rightarrow> object_id outcome" where
  "ownObjectId env user =
     (case user_id user of
        None \<Rightarrow> Inr (ne_newObjectId env)
      | Some (OidObject p) \<Rightarrow> Inr p
      | Some (OidString h) \<Rightarrow>
          if isObjectIdString h then Inr (objectIdFromHex (ne_lib env) h)
          else Inl (JsError ''input must be a 24 character hex string''))"

definition getNudStudents ::
    "nud_env \<Rightarrow> object_id_arg option option \<Rightarrow> request_user \<Rightarrow> (nud_world, nud_student_model list) action" where
  "getNudStudents env raw user = authGroups [] user (profileIdField env raw user (\<lambda>query.
     andThen (lift (case query of Some p \<Rightarrow> Inr (pid_objectId (ne_lib env) p) | None \<Rightarrow> ownObjectId env user)) (\<lambda>i.
     andThen (gets (getStudents env i)) (\<lambda>students. ret (nudStudents_fromEntities (ne_lib env) students)))))"

definition studentIdLength :: nat where
  "studentIdLength = 8"

definition studentIdParam :: "nud_env \<Rightarrow> string \<Rightarrow> ('s, 'a) action \<Rightarrow> ('s, 'a) action" where
  "studentIdParam env studentId m =
     andThen (throwIf (\<not> (ne_isNumberString env studentId \<and> length studentId = studentIdLength))
       (BadRequest ''studentId must be a number string'')) (\<lambda>_. m)"

definition getNudStudent :: "nud_env \<Rightarrow> string \<Rightarrow> request_user \<Rightarrow> (nud_world, nud_student_model option) action" where
  "getNudStudent env studentId user = authGroups [''nudch''] user (studentIdParam env studentId
     (gets (\<lambda>w. map_option (nudStudent_fromEntity (ne_lib env)) (getStudent studentId w))))"

record update_nud_student =
  un_profileId :: "object_id_arg option option"
  un_academicYear :: int
  un_classYear :: int
  un_className :: "string option option"
  un_rank :: "int option option"

definition nud_toEntity :: "update_nud_student \<Rightarrow> string \<Rightarrow> uuid option \<Rightarrow> nud_entity" where
  "nud_toEntity body studentId profileId =
     \<lparr>nn_profileId = profileId, nn_studentId = studentId, nn_academicYear = un_academicYear body,
      nn_classYear = un_classYear body, nn_className = un_className body, nn_rank = un_rank body\<rparr>"

definition updateNudStudent ::
    "nud_env \<Rightarrow> string \<Rightarrow> update_nud_student \<Rightarrow> request_user \<Rightarrow> (nud_world, unit) action" where
  "updateNudStudent env studentId body user = authGroups [] user (studentIdParam env studentId
     (profileIdField env (un_profileId body) user (\<lambda>profile.
       updateStudent env (nud_toEntity body studentId
         (case profile of Some p \<Rightarrow> Some (pid_uuid p) | None \<Rightarrow> toUuid (ne_lib env) (user_id user))))))"

section \<open>What the updates keep\<close>

definition studentsOf :: "uuid \<Rightarrow> nud_world \<Rightarrow> nat" where
  "studentsOf u w = length (filter (\<lambda>s. ns_profileId s = Some u) (nw_students w))"

definition oneRowPerStudent :: "nud_world \<Rightarrow> bool" where
  "oneRowPerStudent w \<longleftrightarrow> distinct (map ns_studentId (nw_students w))"

definition nudKeys :: "nud_world \<Rightarrow> bool" where
  "nudKeys w \<longleftrightarrow> distinct (map ns_id (nw_students w)) \<and> (\<forall>s \<in> set (nw_students w). ns_id s < nw_nextId w)"

definition nudInvar :: "nud_world \<Rightarrow> bool" where
  "nudInvar w \<longleftrightarrow> nudKeys w \<and> oneRowPerStudent w \<and> (\<forall>u. studentsOf u w \<le> maximumStudentsPerProfile)"

text \<open>What an accepted update did, from the service's own conditions.\<close>

lemma updateStudent_cases:
  assumes "updateStudent env e w = (r, w')" and "w' \<noteq> w"
  obtains (insert) "truthyId (nn_profileId e)" "\<forall>s \<in> set (nw_students w). ns_studentId s \<noteq> nn_studentId e \<or> ns_studentId s = []"
      "length (filter (\<lambda>el. ns_studentId el \<noteq> nn_studentId e)
         (getStudents env (toObjectId (ne_lib env) (the (nn_profileId e))) w)) < maximumStudentsPerProfile"
      "w' = \<lparr>nw_students = nw_students w @ [insertedStudent e (nw_nextId w)], nw_nextId = nw_nextId w + 1\<rparr>"
    | (update) s where "s \<in> set (nw_students w)" "ns_studentId s = nn_studentId e" "ns_profileId s = nn_profileId e"
      "w' = w\<lparr>nw_students := updateBy (\<lambda>x. ns_id x = ns_id s) (updatedStudent e) (nw_students w)\<rparr>"
proof -
  have commit: "commitStudents v w = (r, w') \<Longrightarrow> w' = v" for v
    using assms(2) by (auto simp: commitStudents_def action_simps split: if_splits)
  have guard: "truthyId (nn_profileId e)"
    using assms by (auto simp: updateStudent_def action_simps split: if_splits)
  have max: "length (filter (\<lambda>el. ns_studentId el \<noteq> nn_studentId e)
      (getStudents env (toObjectId (ne_lib env) (the (nn_profileId e))) w)) < maximumStudentsPerProfile"
    using assms guard by (auto simp: updateStudent_def action_simps split: if_splits)
  show thesis
  proof (cases "getStudent (nn_studentId e) w")
    case None
    then have "commitStudents \<lparr>nw_students = nw_students w @ [insertedStudent e (nw_nextId w)], nw_nextId = nw_nextId w + 1\<rparr> w = (r, w')"
      using assms guard max by (auto simp: updateStudent_def action_simps saveStudent_def split: if_splits)
    moreover have "\<forall>s \<in> set (nw_students w). ns_studentId s \<noteq> nn_studentId e"
      using None by (auto simp: getStudent_def findOneBy_def find_None_iff)
    ultimately show thesis using insert guard max commit by blast
  next
    case (Some s)
    have s: "s \<in> set (nw_students w)" "ns_studentId s = nn_studentId e"
      using findOneBy_SomeD [OF Some [unfolded getStudent_def]] by auto
    show thesis
    proof (cases "ns_studentId s = []")
      case True
      then have "commitStudents \<lparr>nw_students = nw_students w @ [insertedStudent e (nw_nextId w)], nw_nextId = nw_nextId w + 1\<rparr> w = (r, w')"
        using assms guard max Some by (auto simp: updateStudent_def action_simps saveStudent_def split: if_splits)
      moreover have "\<forall>x \<in> set (nw_students w). ns_studentId x \<noteq> nn_studentId e \<or> ns_studentId x = []" using s True by auto
      ultimately show thesis using insert guard max commit by blast
    next
      case False
      then have "ns_profileId s = nn_profileId e"
        and "commitStudents (w\<lparr>nw_students := updateBy (\<lambda>x. ns_id x = ns_id s) (updatedStudent e) (nw_students w)\<rparr>) w = (r, w')"
        using assms guard max Some by (auto simp: updateStudent_def action_simps updateStudentRow_def split: if_splits)
      then show thesis using update s commit by blast
    qed
  qed
qed

lemma nudInvar_updateRow:
  assumes inv: "nudInvar w" and s: "s \<in> set (nw_students w)" "ns_studentId s = nn_studentId e" "ns_profileId s = nn_profileId e"
    and w': "w' = w\<lparr>nw_students := updateBy (\<lambda>x. ns_id x = ns_id s) (updatedStudent e) (nw_students w)\<rparr>"
  shows "nudInvar w'"
proof -
  let ?f = "\<lambda>x. if ns_id x = ns_id s then updatedStudent e x else x"
  have rows: "nw_students w' = map ?f (nw_students w)" and counter: "nw_nextId w' = nw_nextId w" by (simp_all add: w' updateBy_def)
  have only: "x = s" if "x \<in> set (nw_students w)" "ns_id x = ns_id s" for x
    using inv that s(1) by (auto simp: nudInvar_def nudKeys_def distinct_map inj_on_def)
  have keep: "ns_id (?f x) = ns_id x" "ns_studentId (?f x) = ns_studentId x" "ns_profileId (?f x) = ns_profileId x"
    if "x \<in> set (nw_students w)" for x
    using only [OF that] s(2,3) by (auto simp: updatedStudent_def split: option.splits)
  have "map ns_id (nw_students w') = map ns_id (nw_students w)" "map ns_studentId (nw_students w') = map ns_studentId (nw_students w)"
    "map ns_profileId (nw_students w') = map ns_profileId (nw_students w)"
    unfolding rows map_map by (simp_all add: keep)
  note kept = this
  have count: "studentsOf v w' = studentsOf v w" for v
  proof -
    have "length (filter (\<lambda>p. p = Some v) (map ns_profileId (nw_students w'))) = length (filter (\<lambda>p. p = Some v) (map ns_profileId (nw_students w)))"
      by (simp only: kept)
    then show ?thesis by (simp add: studentsOf_def filter_map comp_def)
  qed
  have "\<forall>i \<in> set (map ns_id (nw_students w')). i < nw_nextId w'"
    unfolding kept(1) counter using inv by (simp add: nudInvar_def nudKeys_def)
  then have "\<forall>x \<in> set (nw_students w'). ns_id x < nw_nextId w'" by (simp only: set_map ball_simps)
  then show ?thesis using inv by (simp only: nudInvar_def count oneRowPerStudent_def nudKeys_def kept simp_thms)
qed

lemma nudInvar_updateStudent:
  assumes lib: "id_lib_ok (ne_lib env)" and uid: "\<forall>u. nn_profileId e = Some u \<longrightarrow> isProfileUid (ne_lib env) u"
    and id: "nn_studentId e \<noteq> []" and inv: "nudInvar w" and run: "updateStudent env e w = (r, w')"
  shows "nudInvar w'"
proof (cases "w' = w")
  case True then show ?thesis using inv by simp
next
  case False
  show ?thesis using run False
  proof (cases rule: updateStudent_cases)
    case insert
    obtain u where u: "nn_profileId e = Some u" using insert(1) by (cases "nn_profileId e") (auto simp: truthyId_def)
    have fresh: "ns_studentId s \<noteq> nn_studentId e" if "s \<in> set (nw_students w)" for s using insert(2) that id by auto
    have same: "profileUid (ne_lib env) (toObjectId (ne_lib env) u) = u"
      using profileUid_toObjectId(1) [OF lib] uid u by blast
    have "filter (\<lambda>el. ns_studentId el \<noteq> nn_studentId e) (getStudents env (toObjectId (ne_lib env) u) w)
        = filter (\<lambda>s. ns_profileId s = Some u) (nw_students w)"
      unfolding getStudents_def findBy_def same filter_filter by (rule filter_cong) (auto dest: fresh)
    then have few: "studentsOf u w < maximumStudentsPerProfile" using insert(3) u by (simp add: studentsOf_def)
    have "studentsOf v w' \<le> maximumStudentsPerProfile" for v
      using few inv insert(4) u by (cases "v = u") (auto simp: studentsOf_def insertedStudent_def nudInvar_def)
    moreover have "oneRowPerStudent w'"
      using inv insert(4) fresh [THEN not_sym] by (auto simp: oneRowPerStudent_def nudInvar_def insertedStudent_def)
    moreover have "nudKeys w'"
      using inv insert(4) by (fastforce simp: nudKeys_def nudInvar_def insertedStudent_def)
    ultimately show ?thesis by (simp add: nudInvar_def)
  next
    case (update s)
    show ?thesis by (rule nudInvar_updateRow [OF inv update])
  qed
qed

text \<open>The updates that requests make, one after the other.\<close>

inductive nud_step :: "nud_env \<Rightarrow> nud_world \<Rightarrow> nud_world \<Rightarrow> bool" for env where
  put: "updateNudStudent env studentId body user w = (r, w') \<Longrightarrow> nud_step env w w'"

inductive_cases nud_stepE: "nud_step env w w'"

lemma updateNudStudent_cases:
  assumes "updateNudStudent env studentId body user w = (r, w')" and "w' \<noteq> w"
  obtains e where "updateStudent env e w = (r, w')" and "length (nn_studentId e) = studentIdLength"
    and "\<forall>u. nn_profileId e = Some u \<longrightarrow> isProfileUid (ne_lib env) u"
proof -
  let ?k = "\<lambda>profile. updateStudent env (nud_toEntity body studentId
      (case profile of Some p \<Rightarrow> Some (pid_uuid p) | None \<Rightarrow> toUuid (ne_lib env) (user_id user)))"
  have run: "profileIdField env (un_profileId body) user ?k w = (r, w')" and len: "length studentId = studentIdLength"
    using assms by (auto simp: updateNudStudent_def authGroups_run studentIdParam_def action_simps split: sum.splits if_splits)
  show thesis
  proof (cases "un_profileId body")
    case None
    then have "?k None w = (r, w')" using run by (simp add: profileIdField_def)
    then show thesis
      by (rule that) (auto simp: nud_toEntity_def len isProfileUid_def toUuid_def split: option.splits)
  next
    case (Some v)
    obtain p where p: "transformProfileIdModel (ne_lib env) v = Inr p"
      using run assms(2) by (cases "transformProfileIdModel (ne_lib env) v") (auto simp: profileIdField_def Some action_simps)
    then have "?k (Some p) w = (r, w')"
      using run assms(2) by (auto simp: profileIdField_def Some action_simps forbidField_def split: if_splits)
    moreover have "isProfileUid (ne_lib env) (pid_uuid p)"
      using p by (auto simp: transformProfileIdModel_def pid_fromObjectIdOrThrow_def isProfileUid_def toUuid_def isFalsyOid_def split: sum.splits option.splits if_splits)
    ultimately show thesis
      by (intro that) (auto simp: nud_toEntity_def len)
  qed
qed

lemma nud_step_invar:
  assumes "id_lib_ok (ne_lib env)" and "nud_step env w w'" and "nudInvar w"
  shows "nudInvar w'"
proof (cases "w' = w")
  case False
  obtain studentId body user r where "updateNudStudent env studentId body user w = (r, w')"
    using assms(2) by (rule nud_stepE)
  from updateNudStudent_cases [OF this False] obtain e where e: "updateStudent env e w = (r, w')"
    "length (nn_studentId e) = studentIdLength" "\<forall>u. nn_profileId e = Some u \<longrightarrow> isProfileUid (ne_lib env) u" by blast
  then have "nn_studentId e \<noteq> []" by (auto simp: studentIdLength_def)
  then show ?thesis using nudInvar_updateStudent [OF assms(1) e(3) _ assms(3) e(1)] by blast
qed (use assms in simp)

interpretation nud: step_system nudInvar "\<lambda>w w'. \<exists>env. id_lib_ok (ne_lib env) \<and> nud_step env w w'" nudInvar
  by unfold_locales (use nud_step_invar in blast)+

definition nud_steps :: "nud_world \<Rightarrow> nud_world \<Rightarrow> bool" where
  "nud_steps = (\<lambda>w w'. \<exists>env. id_lib_ok (ne_lib env) \<and> nud_step env w w')\<^sup>*\<^sup>*"

text \<open>
  Claim C19: From a table with one row per student and at most two students per profile, whatever requests are
  made, by whomever, with whatever bodies, each student still has one row, and no profile more than two
  students.
\<close>

theorem students_reachable:
  assumes "nudInvar w" and "nud_steps w w'"
  shows "distinct (map ns_studentId (nw_students w')) \<and> studentsOf u w' \<le> 2"
  using nud.invar_run [OF assms(2) [unfolded nud_steps_def] assms(1)]
  by (simp add: nudInvar_def oneRowPerStudent_def maximumStudentsPerProfile_def)

definition demoNudEnv :: nud_env where
  "demoNudEnv = \<lparr>ne_lib = standardLib, ne_isNumberString = (\<lambda>_. True), ne_newObjectId = demoJohn\<rparr>"

definition demoNudBody :: update_nud_student where
  "demoNudBody = \<lparr>un_profileId = None, un_academicYear = 2564, un_classYear = 4, un_className = Some (Some ''2''), un_rank = None\<rparr>"

lemma demoNud_runs:
  "\<exists>s. updateNudStudent demoNudEnv ''12345678'' demoNudBody (demoUser demoJane) \<lparr>nw_students = [], nw_nextId = 1\<rparr>
     = (Inr (), \<lparr>nw_students = [s], nw_nextId = 2\<rparr>) \<and> ns_studentId s = ''12345678''"
proof -
  obtain u where u: "toUuid standardLib (Some (OidObject demoJane)) = Some u" "u \<noteq> []"
    using toObjectIdBytes_toUuid(2) [OF standardLib_ok, of demoJane] by (force simp: toUuid_def oidBytes_def demoJane_def)
  show ?thesis
    by (simp add: updateNudStudent_def authGroups_run demoUser_def studentIdParam_def action_simps profileIdField_def
        demoNudEnv_def demoNudBody_def u studentIdLength_def updateStudent_def nud_toEntity_def truthyId_def getStudents_def
        getStudent_def findBy_def findOneBy_def maximumStudentsPerProfile_def saveStudent_def commitStudents_def
        nudUnique_def insertedStudent_def)
qed

theorem students_reachable_witness:
  "\<exists>w'. nud_steps \<lparr>nw_students = [], nw_nextId = 1\<rparr> w' \<and> map ns_studentId (nw_students w') = [''12345678'']
     \<and> distinct (map ns_studentId (nw_students w')) \<and> (\<forall>u. studentsOf u w' \<le> 2)"
proof -
  let ?w = "\<lparr>nw_students = [], nw_nextId = 1\<rparr>"
  obtain s where s: "updateNudStudent demoNudEnv ''12345678'' demoNudBody (demoUser demoJane) ?w
      = (Inr (), \<lparr>nw_students = [s], nw_nextId = 2\<rparr>)" "ns_studentId s = ''12345678''"
    using demoNud_runs by blast
  have lib: "id_lib_ok (ne_lib demoNudEnv)" by (simp add: demoNudEnv_def standardLib_ok)
  have steps: "nud_steps ?w \<lparr>nw_students = [s], nw_nextId = 2\<rparr>"
    unfolding nud_steps_def by (rule r_into_rtranclp) (use lib nud_step.put [OF s(1)] in blast)
  have start: "nudInvar ?w" by (simp add: nudInvar_def nudKeys_def oneRowPerStudent_def studentsOf_def)
  show ?thesis using students_reachable [OF start steps] steps s(2) by (intro exI conjI) auto
qed

end
