(* ===== verification/Directory_Ldap.thy ===== *)
theory Directory_Ldap
  imports Nud_Student
begin

text \<open>
  The directory server \<open>ldap-server\<close>: the two binds, the authorization of a search, the entries of the
  organization, its role and units, of the groups (\<open>search/dn/group.service.ts\<close>) and of the users
  (\<open>search/dn/user.service.ts\<close>), and the handlers that send them. Distinguished names are objects of the
  package ldapjs, a type parameter here, with its parser, comparison and printing; so is a filter, of which
  the code reads the list of sub-filters and calls \<open>matches\<close>.

  A handler sends entries and then answers with \<open>next()\<close>, here a result, or with \<open>next(error)\<close>, an
  error named after its class. The groups and the users are searched concurrently; the entries of the groups
  are sent first here, and when a search fails the users' may or may not have been sent in the code.
\<close>

section \<open>Entries, requests, the library\<close>

datatype ldap_value =
    LdapText string
  | LdapNumber int
  | LdapTexts "string list"
  | LdapBytes "byte list"
  | LdapNull
  | LdapUndefined

type_synonym ldap_attributes = "(string \<times> ldap_value) list"

record 'd ldap_object =
  lo_dn :: 'd
  lo_attributes :: ldap_attributes

record 'd ldap_lib =
  ll_parseDN :: "string \<Rightarrow> 'd outcome"
  ll_equals :: "'d \<Rightarrow> 'd \<Rightarrow> bool"
  ll_equalsText :: "'d \<Rightarrow> string \<Rightarrow> bool" \<comment> \<open>\<open>dn.equals\<close> of a string\<close>
  ll_toString :: "'d \<Rightarrow> string"

record sub_filter =
  sf_attribute :: string
  sf_raw :: "string option"
  sf_value :: "string option"

record 'd ldap_request =
  lr_dn :: 'd
  lr_scope :: string
  lr_filters :: "sub_filter list option"
  lr_matches :: "ldap_attributes \<Rightarrow> bool"
  lr_bindDN :: 'd
  lr_attributes :: "string list"
  lr_credentials :: string

record ldap_env =
  le_accounts :: accounts_env
  le_storage :: storage_env
  le_baseDn :: string
  le_rootSecret :: string

definition baseScope :: "'d ldap_request \<Rightarrow> bool" where
  "baseScope req \<longleftrightarrow> lr_scope req = ''base''"

text \<open>\<open>/prefix(\w+)/.exec(s)?.at(1)\<close>: the word after the first occurrence that one follows.\<close>

definition isWordChar :: "char \<Rightarrow> bool" where
  "isWordChar c \<longleftrightarrow> isDigit 36 c \<or> c = CHR ''_''"

fun execWord :: "string \<Rightarrow> string \<Rightarrow> string option" where
  "execWord pre s =
     (if take (length pre) s = pre \<and> takeWhile isWordChar (drop (length pre) s) \<noteq> []
      then Some (takeWhile isWordChar (drop (length pre) s))
      else case s of [] \<Rightarrow> None | _ # t \<Rightarrow> execWord pre t)"

declare execWord.simps [simp del]

section \<open>Binds and authorization\<close>

definition ldap_bindRoot :: "ldap_env \<Rightarrow> string \<Rightarrow> unit outcome" where
  "ldap_bindRoot env credentials =
     (if credentials = le_rootSecret env then Inr () else Inl (JsError ''InvalidCredentialsError''))"

definition ldap_bindDn :: "'d ldap_lib \<Rightarrow> ldap_env \<Rightarrow> 'd ldap_request \<Rightarrow> (accounts_world, unit) action" where
  "ldap_bindDn L env req =
     tryCatch
       (case execWord ''uid='' (ll_toString L (lr_dn req)) of
          None \<Rightarrow> throw (JsError ''Cannot read properties of null (reading at)'')
        | Some username \<Rightarrow> discard (signInLocal (le_accounts env) username (lr_credentials req)))
       (\<lambda>_. throw (JsError ''InvalidCredentialsError''))"

definition ldap_authorize :: "'d ldap_lib \<Rightarrow> 'd ldap_request \<Rightarrow> unit outcome" where
  "ldap_authorize L req =
     (if ll_equalsText L (lr_bindDN req) ''cn=root'' then Inr () else Inl (JsError ''InsufficientAccessRightsError''))"

section \<open>Organization, role and units\<close>

definition orgObjects :: "'d ldap_lib \<Rightarrow> ldap_env \<Rightarrow> 'd ldap_object list outcome" where
  "orgObjects L env =
     onSuccess (ll_parseDN L (le_baseDn env)) (\<lambda>d.
     Inr [\<lparr>lo_dn = d, lo_attributes = [(''objectclass'', LdapTexts [''top'', ''dcObject'', ''organization''])]\<rparr>])"

definition orgRoleObjects :: "'d ldap_lib \<Rightarrow> 'd ldap_object list outcome" where
  "orgRoleObjects L =
     onSuccess (ll_parseDN L ''cn=root'') (\<lambda>d.
     Inr [\<lparr>lo_dn = d, lo_attributes = [(''objectclass'', LdapTexts [''simpleSecurityObject'', ''organizationalRole'']),
       (''hasSubordinates'', LdapTexts [''FALSE''])]\<rparr>])"

definition orgUnitObject :: "string \<Rightarrow> 'd \<Rightarrow> 'd ldap_object" where
  "orgUnitObject ou d = \<lparr>lo_dn = d, lo_attributes = [(''objectclass'', LdapTexts [''top'', ''organizationalUnit'']),
     (''ou'', LdapText ou)]\<rparr>"

definition orgUnitObjects :: "'d ldap_lib \<Rightarrow> ldap_env \<Rightarrow> 'd ldap_object list outcome" where
  "orgUnitObjects L env =
     onSuccess (ll_parseDN L (''ou=users, '' @ le_baseDn env)) (\<lambda>u.
     onSuccess (ll_parseDN L (''ou=groups, '' @ le_baseDn env)) (\<lambda>g.
     Inr [orgUnitObject ''users'' u, orgUnitObject ''groups'' g]))"

definition sendAll :: "'d ldap_object list \<Rightarrow> ('d ldap_object list, 'd ldap_object list) action" where
  "sendAll os = andThen (modify (\<lambda>sent. sent @ os)) (\<lambda>_. ret os)"

definition org_baseHandler ::
    "'d ldap_lib \<Rightarrow> 'd ldap_request \<Rightarrow> 'd ldap_object list \<Rightarrow> ('d ldap_object list, 'd ldap_object list) action" where
  "org_baseHandler L req objects = sendAll (filter (\<lambda>x. ll_equals L (lr_dn req) (lo_dn x)) objects)"

definition org_subHandler ::
    "'d ldap_request \<Rightarrow> 'd ldap_object list \<Rightarrow> ('d ldap_object list, 'd ldap_object list) action" where
  "org_subHandler req objects = sendAll (filter (\<lambda>x. lr_matches req (lo_attributes x)) objects)"

definition org_handler ::
    "'d ldap_lib \<Rightarrow> 'd ldap_request \<Rightarrow> 'd ldap_object list outcome \<Rightarrow> ('d ldap_object list, 'd ldap_object list) action" where
  "org_handler L req objects =
     andThen (lift objects) (\<lambda>os. if baseScope req then org_baseHandler L req os else org_subHandler req os)"

text \<open>The condition of the groups and of the users.\<close>

definition ldap_isMatched :: "'d ldap_lib \<Rightarrow> 'd ldap_request \<Rightarrow> 'd ldap_object \<Rightarrow> bool" where
  "ldap_isMatched L req x \<longleftrightarrow>
     baseScope req \<and> ll_equals L (lr_dn req) (lo_dn x) \<or> \<not> baseScope req \<and> lr_matches req (lo_attributes x)"

section \<open>Groups\<close>

definition groupPadding :: int where
  "groupPadding = 100"

definition ldap_getProfileIds :: "ldap_env \<Rightarrow> accounts_db \<Rightarrow> group_doc \<Rightarrow> uuid list" where
  "ldap_getProfileIds env db g =
     map (\<lambda>u. profileUid (ae_lib (le_accounts env)) (ug_profile u)) (findBy (\<lambda>u. ug_group u = gd_id g) (userGroups db))"

definition profileIdUsernameMap :: "accounts_db \<Rightarrow> uuid list \<Rightarrow> uuid \<Rightarrow> string option" where
  "profileIdUsernameMap db ids =
     mapOfPairs (map (\<lambda>u. (lu_profileId u, lu_username u)) (findBy (\<lambda>u. lu_profileId u \<in> set ids) (localUsers db)))"

definition group_toLdapObject ::
    "'d ldap_lib \<Rightarrow> ldap_env \<Rightarrow> accounts_db \<Rightarrow> (uuid \<Rightarrow> string option) \<Rightarrow> group_doc \<Rightarrow> 'd ldap_object outcome" where
  "group_toLdapObject L env db usernames g =
     onSuccess (ll_parseDN L (''cn='' @ gd_name g @ '', ou=groups, '' @ le_baseDn env)) (\<lambda>d.
     Inr \<lparr>lo_dn = d, lo_attributes = [(''cn'', LdapText (gd_name g)), (''gidNumber'', LdapNumber (gd_id g + groupPadding)),
       (''memberUid'', LdapTexts (List.map_filter (\<lambda>i. case usernames i of Some (c # cs) \<Rightarrow> Some (c # cs) | _ \<Rightarrow> None)
          (ldap_getProfileIds env db g))),
       (''objectclass'', LdapTexts [''top'', ''posixGroup''])]\<rparr>)"

definition commonNameFilters :: "'d ldap_request \<Rightarrow> string list" where
  "commonNameFilters req =
     (case lr_filters req of None \<Rightarrow> []
      | Some fs \<Rightarrow> map (the \<circ> sf_raw) (filter (\<lambda>f. sf_attribute f = ''cn'' \<and> sf_raw f \<noteq> None) fs))"

text \<open>Both conditions are on the same field: the second replaces the first.\<close>

definition groupQuery :: "'d ldap_lib \<Rightarrow> 'd ldap_request \<Rightarrow> group_doc \<Rightarrow> bool" where
  "groupQuery L req g \<longleftrightarrow>
     (if commonNameFilters req \<noteq> [] then gd_name g \<in> set (commonNameFilters req)
      else case execWord ''cn='' (ll_toString L (lr_dn req)) of
             Some cn \<Rightarrow> baseScope req \<longrightarrow> gd_name g = cn
           | None \<Rightarrow> True)"

definition ldap_findGroups :: "'d ldap_lib \<Rightarrow> ldap_env \<Rightarrow> 'd ldap_request \<Rightarrow> accounts_db \<Rightarrow> 'd ldap_object list outcome" where
  "ldap_findGroups L env req db =
     (let groups = findBy (groupQuery L req) (groupDocs db);
          profileIds = concat (map (ldap_getProfileIds env db) groups) in
      mapOutcome (group_toLdapObject L env db (profileIdUsernameMap db profileIds)) groups)"

definition ldap_groupHandler ::
    "'d ldap_lib \<Rightarrow> ldap_env \<Rightarrow> 'd ldap_request \<Rightarrow> accounts_db \<Rightarrow> ('d ldap_object list, 'd ldap_object list) action" where
  "ldap_groupHandler L env req db =
     andThen (lift (ldap_findGroups L env req db)) (\<lambda>groups. sendAll (filter (ldap_isMatched L req) groups))"

section \<open>Users\<close>

definition userPadding :: int where
  "userPadding = 1000"

definition getPhotoBuffer :: "storage_env \<Rightarrow> uuid option \<Rightarrow> image_format \<Rightarrow> byte list outcome" where
  "getPhotoBuffer st u fmt =
     storage_getBuffer st (ppp_path \<lparr>ppp_uuid = (case u of None \<Rightarrow> defaultUuid | Some u \<Rightarrow> u), ppp_format = fmt\<rparr>)"

definition ldapText :: "string option \<Rightarrow> ldap_value" where
  "ldapText v = (case v of None \<Rightarrow> LdapUndefined | Some s \<Rightarrow> LdapText s)"

definition user_toLdapObject ::
    "'d ldap_lib \<Rightarrow> ldap_env \<Rightarrow> (string \<Rightarrow> profile option) \<Rightarrow> profile_name_map \<Rightarrow> bool \<Rightarrow> local_user \<Rightarrow> 'd ldap_object option outcome" where
  "user_toLdapObject L env profileOf nameOf withPhoto u =
     (let profileOid = toHexString (ae_lib (le_accounts env)) (lu_profileId u) in
      case (nameOf profileOid, profileOf profileOid) of
        (Some name, Some profile) \<Rightarrow>
          (case pr_emails profile of
             Some (email # _) \<Rightarrow>
               onSuccess (ll_parseDN L (''uid='' @ lu_username u @ '', ou=users, '' @ le_baseDn env)) (\<lambda>d.
               let n = docName name in
               Inr (Some \<lparr>lo_dn = d, lo_attributes = [
                 (''cn'', LdapText (interpolate (pn_firstname n) @ '' '' @ interpolate (pn_lastname n))),
                 (''uid'', LdapText (lu_username u)),
                 (''uidNumber'', LdapNumber (lu_id u + userPadding)),
                 (''gidNumber'', LdapNumber (lu_id u + userPadding)),
                 (''mail'', LdapText email),
                 (''givenName'', ldapText (pn_firstname n)),
                 (''sn'', ldapText (pn_lastname n)),
                 (''objectclass'', LdapTexts [''top'', ''posixAccount'', ''sambaDomain'']),
                 (''sambaDomainName'', LdapText ''nudchannel''),
                 (''jpegPhoto'', if withPhoto
                    then (case getPhotoBuffer (le_storage env) (pr_photo profile) Jpeg of Inl _ \<Rightarrow> LdapNull | Inr b \<Rightarrow> LdapBytes b)
                    else LdapNull)]\<rparr>))
           | _ \<Rightarrow> Inr None)
      | _ \<Rightarrow> Inr None)"

definition uidFilters :: "'d ldap_request \<Rightarrow> string list" where
  "uidFilters req =
     (case lr_filters req of None \<Rightarrow> []
      | Some fs \<Rightarrow> map (the \<circ> sf_value) (filter (\<lambda>f. sf_attribute f = ''uid'' \<and> truthyId (sf_value f)) fs))"

text \<open>The conditions are alternatives, and none of them is no condition.\<close>

definition userQuery :: "'d ldap_lib \<Rightarrow> 'd ldap_request \<Rightarrow> local_user \<Rightarrow> bool" where
  "userQuery L req u \<longleftrightarrow>
     (let byDn = (if baseScope req then execWord ''uid='' (ll_toString L (lr_dn req)) else None) in
      byDn = None \<and> uidFilters req = [] \<or> byDn = Some (lu_username u) \<or> lu_username u \<in> set (uidFilters req))"

definition wantsPhoto :: "'d ldap_request \<Rightarrow> bool" where
  "wantsPhoto req \<longleftrightarrow> (\<exists>a \<in> set (lr_attributes req). toLowerCase a = ''jpegphoto'')"

definition ldap_findUsers :: "'d ldap_lib \<Rightarrow> ldap_env \<Rightarrow> 'd ldap_request \<Rightarrow> accounts_db \<Rightarrow> 'd ldap_object list outcome" where
  "ldap_findUsers L env req db =
     (let users = findBy (userQuery L req) (localUsers db);
          profileIds = map (\<lambda>u. toObjectId (ae_lib (le_accounts env)) (lu_profileId u)) users;
          profileOf = profileMap (map profile.truncate (profiles db)) profileIds;
          nameOf = getProfilesNameMap (profileNames db) profileIds En in
      onSuccess (mapOutcome (user_toLdapObject L env profileOf nameOf (wantsPhoto req)) users) (\<lambda>os.
      Inr (List.map_filter id os)))"

definition ldap_userHandler ::
    "'d ldap_lib \<Rightarrow> ldap_env \<Rightarrow> 'd ldap_request \<Rightarrow> accounts_db \<Rightarrow> ('d ldap_object list, 'd ldap_object list) action" where
  "ldap_userHandler L env req db =
     andThen (lift (ldap_findUsers L env req db)) (\<lambda>users. sendAll (filter (ldap_isMatched L req) users))"

section \<open>The searches\<close>

definition ldap_searchDn ::
    "'d ldap_lib \<Rightarrow> ldap_env \<Rightarrow> 'd ldap_request \<Rightarrow> accounts_db \<Rightarrow> ('d ldap_object list, unit) action" where
  "ldap_searchDn L env req db =
     tryCatch
       (andThen (org_handler L req (orgObjects L env)) (\<lambda>_.
        andThen (org_handler L req (orgRoleObjects L)) (\<lambda>_.
        andThen (org_handler L req (orgUnitObjects L env)) (\<lambda>_.
        andThen (ldap_groupHandler L env req db) (\<lambda>_.
        discard (ldap_userHandler L env req db))))))
       (\<lambda>_. throw (JsError ''OperationsError''))"

text \<open>The chain of handlers that is registered for the base: authorization first.\<close>

definition ldap_search ::
    "'d ldap_lib \<Rightarrow> ldap_env \<Rightarrow> 'd ldap_request \<Rightarrow> accounts_db \<Rightarrow> ('d ldap_object list, unit) action" where
  "ldap_search L env req db = andThen (lift (ldap_authorize L req)) (\<lambda>_. ldap_searchDn L env req db)"

definition ldap_rootDse :: "'d ldap_lib \<Rightarrow> ldap_env \<Rightarrow> 'd ldap_object outcome" where
  "ldap_rootDse L env =
     onSuccess (ll_parseDN L []) (\<lambda>d.
     Inr \<lparr>lo_dn = d, lo_attributes = [(''structuralObjectClass'', LdapText ''OpenLDAProotDSE''), (''configContext'', LdapText ''cn=config''),
       (''objectclass'', LdapTexts [''top'', ''OpenLDAProotDS'']), (''namingContexts'', LdapText (le_baseDn env)),
       (''supportedLDAPVersion'', LdapTexts [''3'']), (''subschemaSubentry'', LdapTexts [''cn=Subschema''])]\<rparr>)"

definition ldap_subschema :: "'d ldap_lib \<Rightarrow> 'd ldap_object outcome" where
  "ldap_subschema L =
     onSuccess (ll_parseDN L ''cn=Subschema'') (\<lambda>d.
     Inr \<lparr>lo_dn = d, lo_attributes = [(''objectclass'', LdapTexts [''top'', ''subentry'', ''subschema'', ''extensibleObject'']),
       (''cn'', LdapTexts [''Subschema''])]\<rparr>)"

definition ldap_searchBase :: "'d ldap_lib \<Rightarrow> ldap_env \<Rightarrow> ('d ldap_object list, unit) action" where
  "ldap_searchBase L env = andThen (lift (ldap_rootDse L env)) (\<lambda>x. discard (sendAll [x]))"

definition ldap_searchSubschema :: "'d ldap_lib \<Rightarrow> ('d ldap_object list, unit) action" where
  "ldap_searchSubschema L = andThen (lift (ldap_subschema L)) (\<lambda>x. discard (sendAll [x]))"

section \<open>The directory\<close>

text \<open>The entries there are, whatever is asked for: each made from the documents of its own row.\<close>

definition ldap_groupEntry :: "'d ldap_lib \<Rightarrow> ldap_env \<Rightarrow> accounts_db \<Rightarrow> group_doc \<Rightarrow> 'd ldap_object outcome" where
  "ldap_groupEntry L env db g = group_toLdapObject L env db (profileIdUsernameMap db (ldap_getProfileIds env db g)) g"

definition ldap_userEntry :: "'d ldap_lib \<Rightarrow> ldap_env \<Rightarrow> accounts_db \<Rightarrow> bool \<Rightarrow> local_user \<Rightarrow> 'd ldap_object option outcome" where
  "ldap_userEntry L env db withPhoto u =
     (let i = toObjectId (ae_lib (le_accounts env)) (lu_profileId u) in
      user_toLdapObject L env (profileMap (map profile.truncate (profiles db)) [i]) (getProfilesNameMap (profileNames db) [i] En) withPhoto u)"

definition ldap_directory :: "'d ldap_lib \<Rightarrow> ldap_env \<Rightarrow> accounts_db \<Rightarrow> bool \<Rightarrow> 'd ldap_object list outcome" where
  "ldap_directory L env db withPhoto =
     onSuccess (orgObjects L env) (\<lambda>org.
     onSuccess (orgRoleObjects L) (\<lambda>role.
     onSuccess (orgUnitObjects L env) (\<lambda>units.
     onSuccess (mapOutcome (ldap_groupEntry L env db) (groupDocs db)) (\<lambda>groups.
     onSuccess (mapOutcome (ldap_userEntry L env db withPhoto) (localUsers db)) (\<lambda>users.
     Inr (org @ role @ units @ groups @ List.map_filter id users))))))"

lemma mapOfPairs_filter:
  assumes "\<And>x. x \<in> set xs \<Longrightarrow> fst (f x) = k \<Longrightarrow> P x = Q x"
  shows "mapOfPairs (map f (filter P xs)) k = mapOfPairs (map f (filter Q xs)) k"
  using assms unfolding mapOfPairs_def by (induction xs rule: rev_induct) (auto simp: rev_map [symmetric])

lemma hexString_inject: "hexString a = hexString b \<longleftrightarrow> a = b"
  by (metis hexToBytes_hexString)

lemma toHexString_toObjectId: "\<not> isObjectIdString u \<Longrightarrow> toHexString L u = hexString (toObjectId L u)"
  by (simp add: toHexString_def toObjectId_def foldl_hexByte)

lemma profileMap_member:
  assumes "i \<in> set ids"
  shows "profileMap ps ids (hexString i) = profileMap ps [i] (hexString i)"
  unfolding profileMap_def findBy_def by (rule mapOfPairs_filter) (use assms in \<open>auto simp: hexString_inject\<close>)

lemma getProfilesNameMap_member:
  assumes "i \<in> set ids"
  shows "getProfilesNameMap ns ids lang (hexString i) = getProfilesNameMap ns [i] lang (hexString i)"
  unfolding getProfilesNameMap_def getProfilesName_def findBy_def map_map comp_def docName.simps
  by (rule mapOfPairs_filter) (use assms in \<open>auto simp: hexString_inject\<close>)

lemma map_filter_eqI: "(\<And>x. x \<in> set xs \<Longrightarrow> f x = g x) \<Longrightarrow> List.map_filter f xs = List.map_filter g xs"
  by (induction xs) (simp_all add: map_filter_simps split: option.split)

lemma mapOutcome_cong: "(\<And>x. x \<in> set xs \<Longrightarrow> f x = g x) \<Longrightarrow> mapOutcome f xs = mapOutcome g xs"
  by (induction xs) (simp_all add: onSuccess_def)

lemma mapOutcome_filter:
  "mapOutcome f xs = Inr ys \<Longrightarrow> mapOutcome f (filter P xs) = Inr (map (projr \<circ> f) (filter P xs)) \<and> ys = map (projr \<circ> f) xs"
  by (induction xs arbitrary: ys) (auto simp: onSuccess_Inr)

lemma filter_map_prefilter:
  "(\<And>x. x \<in> set xs \<Longrightarrow> m (h x) \<Longrightarrow> P x) \<Longrightarrow> filter m (map h (filter P xs)) = filter m (map h xs)"
  by (induction xs) auto

lemma filter_map_filter_prefilter:
  "(\<And>x y. x \<in> set xs \<Longrightarrow> h x = Some y \<Longrightarrow> m y \<Longrightarrow> P x) \<Longrightarrow>
   filter m (List.map_filter id (map h (filter P xs))) = filter m (List.map_filter id (map h xs))"
  by (induction xs) (auto simp: map_filter_simps split: option.splits)

lemma mapOutcome_each: "mapOutcome f xs = Inr ys \<Longrightarrow> x \<in> set xs \<Longrightarrow> f x = Inr (projr (f x))"
  by (induction xs arbitrary: ys) (auto simp: onSuccess_Inr)

lemma ldap_findGroups_entries:
  assumes "mapOutcome (ldap_groupEntry L env db) (groupDocs db) = Inr groups"
    and "\<And>g x. g \<in> set (groupDocs db) \<Longrightarrow> ldap_groupEntry L env db g = Inr x \<Longrightarrow> ldap_isMatched L req x \<Longrightarrow> groupQuery L req g"
  shows "\<exists>found. ldap_findGroups L env req db = Inr found \<and> filter (ldap_isMatched L req) found = filter (ldap_isMatched L req) groups"
proof -
  let ?gs = "filter (groupQuery L req) (groupDocs db)"
  let ?ids = "concat (map (ldap_getProfileIds env db) ?gs)"
  have "group_toLdapObject L env db (profileIdUsernameMap db ?ids) g = ldap_groupEntry L env db g" if "g \<in> set ?gs" for g
  proof -
    have "profileIdUsernameMap db ?ids i = profileIdUsernameMap db (ldap_getProfileIds env db g) i"
      if "i \<in> set (ldap_getProfileIds env db g)" for i
      unfolding profileIdUsernameMap_def findBy_def
      by (rule mapOfPairs_filter) (use that \<open>g \<in> set ?gs\<close> in auto)
    then have "List.map_filter (\<lambda>i. case profileIdUsernameMap db ?ids i of Some (c # cs) \<Rightarrow> Some (c # cs) | _ \<Rightarrow> None) (ldap_getProfileIds env db g)
        = List.map_filter (\<lambda>i. case profileIdUsernameMap db (ldap_getProfileIds env db g) i of Some (c # cs) \<Rightarrow> Some (c # cs) | _ \<Rightarrow> None)
            (ldap_getProfileIds env db g)"
      by (intro map_filter_eqI) simp
    then show ?thesis by (simp only: ldap_groupEntry_def group_toLdapObject_def)
  qed
  then have run: "ldap_findGroups L env req db = mapOutcome (ldap_groupEntry L env db) ?gs"
    unfolding ldap_findGroups_def Let_def findBy_def by (rule mapOutcome_cong)
  note found = mapOutcome_filter [OF assms(1), of "groupQuery L req"]
  have "filter (ldap_isMatched L req) (map (projr \<circ> ldap_groupEntry L env db) ?gs) = filter (ldap_isMatched L req) groups"
    unfolding found [THEN conjunct2]
    by (rule filter_map_prefilter) (use assms(2) mapOutcome_each [OF assms(1)] in \<open>auto simp: comp_def\<close>)
  then show ?thesis using run found by auto
qed

lemma ldap_findUsers_entries:
  assumes uuids: "\<And>u. u \<in> set (localUsers db) \<Longrightarrow> \<not> isObjectIdString (lu_profileId u)"
    and "mapOutcome (ldap_userEntry L env db (wantsPhoto req)) (localUsers db) = Inr users"
    and "\<And>u x. u \<in> set (localUsers db) \<Longrightarrow> ldap_userEntry L env db (wantsPhoto req) u = Inr (Some x) \<Longrightarrow>
           ldap_isMatched L req x \<Longrightarrow> userQuery L req u"
  shows "\<exists>found. ldap_findUsers L env req db = Inr found
    \<and> filter (ldap_isMatched L req) found = filter (ldap_isMatched L req) (List.map_filter id users)"
proof -
  let ?us = "filter (userQuery L req) (localUsers db)"
  let ?ids = "map (\<lambda>u. toObjectId (ae_lib (le_accounts env)) (lu_profileId u)) ?us"
  let ?of = "profileMap (map profile.truncate (profiles db)) ?ids" and ?name = "getProfilesNameMap (profileNames db) ?ids En"
  have "user_toLdapObject L env ?of ?name (wantsPhoto req) u = ldap_userEntry L env db (wantsPhoto req) u" if "u \<in> set ?us" for u
  proof -
    let ?i = "toObjectId (ae_lib (le_accounts env)) (lu_profileId u)"
    have key: "toHexString (ae_lib (le_accounts env)) (lu_profileId u) = hexString ?i" using uuids that toHexString_toObjectId by simp
    have i: "?i \<in> set ?ids" using that by simp
    show ?thesis
      unfolding ldap_userEntry_def Let_def user_toLdapObject_def key profileMap_member [OF i] getProfilesNameMap_member [OF i] ..
  qed
  then have run: "mapOutcome (user_toLdapObject L env ?of ?name (wantsPhoto req)) ?us = mapOutcome (ldap_userEntry L env db (wantsPhoto req)) ?us"
    by (rule mapOutcome_cong)
  note found = mapOutcome_filter [OF assms(2), of "userQuery L req"]
  have "filter (ldap_isMatched L req) (List.map_filter id (map (projr \<circ> ldap_userEntry L env db (wantsPhoto req)) ?us))
      = filter (ldap_isMatched L req) (List.map_filter id users)"
    unfolding found [THEN conjunct2]
    by (rule filter_map_filter_prefilter) (use assms(3) mapOutcome_each [OF assms(2)] in \<open>fastforce simp: comp_def\<close>)
  then show ?thesis using run found by (simp add: ldap_findUsers_def Let_def findBy_def)
qed

lemma org_handler_run:
  "org_handler L req (Inr os) sent = (Inr (filter (ldap_isMatched L req) os), sent @ filter (ldap_isMatched L req) os)"
proof -
  have "ldap_isMatched L req = (\<lambda>x. if baseScope req then ll_equals L (lr_dn req) (lo_dn x) else lr_matches req (lo_attributes x))"
    by (simp add: ldap_isMatched_def fun_eq_iff)
  then show ?thesis by (simp add: org_handler_def org_baseHandler_def org_subHandler_def sendAll_def action_simps)
qed


section \<open>A small directory\<close>

definition demoLdapLib :: "string ldap_lib" where
  "demoLdapLib = \<lparr>ll_parseDN = Inr, ll_equals = (=), ll_equalsText = (=), ll_toString = (\<lambda>d. d)\<rparr>"

definition demoLdapEnv :: ldap_env where
  "demoLdapEnv = \<lparr>le_accounts = demoEnv 0 ''n'', le_storage = demoStorage, le_baseDn = ''dc=x'', le_rootSecret = ''s''\<rparr>"

definition demoDirectory :: accounts_db where
  "demoDirectory = (adb (demoWorld []))\<lparr>
     profiles := map (\<lambda>(p, e). \<lparr>pr_id = p, pr_photo = None, pr_emails = Some [e], pr_tels = None, pr_discord_ids = None,
       pr_google_ids = None, pr_gitlab_ids = None\<rparr>) [(demoJane, ''jane@x''), (demoJohn, ''john@x'')],
     localUsers := map (\<lambda>(i, p, u). \<lparr>lu_id = i, lu_profileId = profileUid standardLib p, lu_username = u, lu_password = ''#secret'',
       lu_passwordLastSet = 0, lu_disabled = False\<rparr>) [(1, demoJane, ''janed''), (2, demoJohn, ''janedy'')]\<rparr>"

definition uidFilter :: "string \<Rightarrow> sub_filter" where
  "uidFilter u = \<lparr>sf_attribute = ''uid'', sf_raw = Some u, sf_value = Some u\<rparr>"

definition cnFilter :: "string \<Rightarrow> sub_filter" where
  "cnFilter u = \<lparr>sf_attribute = ''commonname'', sf_raw = Some u, sf_value = Some u\<rparr>"

definition has :: "ldap_attributes \<Rightarrow> string \<Rightarrow> string \<Rightarrow> bool" where
  "has as k v \<longleftrightarrow> (k, LdapText v) \<in> set as"

definition demoSearch :: "sub_filter list \<Rightarrow> (ldap_attributes \<Rightarrow> bool) \<Rightarrow> string ldap_request" where
  "demoSearch fs m = \<lparr>lr_dn = ''dc=x'', lr_scope = ''sub'', lr_filters = Some fs, lr_matches = m, lr_bindDN = ''cn=root'',
     lr_attributes = [], lr_credentials = []\<rparr>"

definition janeOnly :: "string ldap_request" where
  "janeOnly = demoSearch [uidFilter ''janed''] (\<lambda>as. has as ''uid'' ''janed'')"

definition janeOrDyer :: "string ldap_request" where
  "janeOrDyer = demoSearch [uidFilter ''janed'', cnFilter ''Dyer''] (\<lambda>as. has as ''uid'' ''janed'' \<or> has as ''sn'' ''Dyer'')"

definition demoEntry :: "int \<Rightarrow> string \<Rightarrow> string \<Rightarrow> string \<Rightarrow> string ldap_object" where
  "demoEntry i u mail surname = \<lparr>lo_dn = ''uid='' @ u @ '', ou=users, dc=x'', lo_attributes =
     [(''cn'', LdapText (''Jane '' @ surname)), (''uid'', LdapText u), (''uidNumber'', LdapNumber i), (''gidNumber'', LdapNumber i),
      (''mail'', LdapText mail), (''givenName'', LdapText ''Jane''), (''sn'', LdapText surname),
      (''objectclass'', LdapTexts [''top'', ''posixAccount'', ''sambaDomain'']), (''sambaDomainName'', LdapText ''nudchannel''),
      (''jpegPhoto'', LdapNull)]\<rparr>"

definition demoLocal :: "int \<Rightarrow> object_id \<Rightarrow> string \<Rightarrow> local_user" where
  "demoLocal i p u = \<lparr>lu_id = i, lu_profileId = profileUid standardLib p, lu_username = u, lu_password = ''#secret'',
     lu_passwordLastSet = 0, lu_disabled = False\<rparr>"

lemma demo_users: "localUsers demoDirectory = [demoLocal 1 demoJane ''janed'', demoLocal 2 demoJohn ''janedy'']"
  by (simp add: demoDirectory_def demoLocal_def)

lemma demo_userIds:
  assumes "length p = 12"
  shows "\<not> isObjectIdString (profileUid standardLib p)" and "toObjectId standardLib (profileUid standardLib p) = p"
    and "toHexString standardLib (profileUid standardLib p) = hexString p"
proof -
  show no: "\<not> isObjectIdString (profileUid standardLib p)"
    using toObjectIdBytes_toUuid(2) [OF standardLib_ok assms]
    by (auto simp: isObjectIdString_def profileUid_def toUuid_def oidBytes_def)
  then show p: "toObjectId standardLib (profileUid standardLib p) = p"
    using toObjectIdBytes_toUuid(1) [OF standardLib_ok assms] by (simp add: toObjectId_def profileUid_def toUuid_def oidBytes_def)
  show "toHexString standardLib (profileUid standardLib p) = hexString p" using toHexString_toObjectId [OF no] p by simp
qed

lemma demo_documents:
  "profileMap (map profile.truncate (profiles demoDirectory)) [demoJane] (hexString demoJane) =
     Some \<lparr>pr_id = demoJane, pr_photo = None, pr_emails = Some [''jane@x''], pr_tels = None, pr_discord_ids = None\<rparr>"
  "profileMap (map profile.truncate (profiles demoDirectory)) [demoJohn] (hexString demoJohn) =
     Some \<lparr>pr_id = demoJohn, pr_photo = None, pr_emails = Some [''john@x''], pr_tels = None, pr_discord_ids = None\<rparr>"
  "getProfilesNameMap (profileNames demoDirectory) [demoJane] En (hexString demoJane) = Some (Lean (demoName demoJane ''Jane'' ''Doe''))"
  "getProfilesNameMap (profileNames demoDirectory) [demoJohn] En (hexString demoJohn) = Some (Lean (demoName demoJohn ''Jane'' ''Dyer''))"
proof -
  have ne: "demoJane \<noteq> demoJohn" by (simp add: demoJane_def demoJohn_def)
  note [simp] = ne ne [symmetric] profileMap_def getProfilesNameMap_def getProfilesName_def findBy_def mapOfPairs_def
    demoDirectory_def demoWorld_def demoName_def profile.truncate_def
  show "profileMap (map profile.truncate (profiles demoDirectory)) [demoJane] (hexString demoJane) =
     Some \<lparr>pr_id = demoJane, pr_photo = None, pr_emails = Some [''jane@x''], pr_tels = None, pr_discord_ids = None\<rparr>" by simp
  show "profileMap (map profile.truncate (profiles demoDirectory)) [demoJohn] (hexString demoJohn) =
     Some \<lparr>pr_id = demoJohn, pr_photo = None, pr_emails = Some [''john@x''], pr_tels = None, pr_discord_ids = None\<rparr>" by simp
  show "getProfilesNameMap (profileNames demoDirectory) [demoJane] En (hexString demoJane) = Some (Lean (demoName demoJane ''Jane'' ''Doe''))" by simp
  show "getProfilesNameMap (profileNames demoDirectory) [demoJohn] En (hexString demoJohn) = Some (Lean (demoName demoJohn ''Jane'' ''Dyer''))" by simp
qed

lemma demo_userEntry:
  "ldap_userEntry demoLdapLib demoLdapEnv demoDirectory False (demoLocal 1 demoJane ''janed'') = Inr (Some (demoEntry 1001 ''janed'' ''jane@x'' ''Doe''))"
  "ldap_userEntry demoLdapLib demoLdapEnv demoDirectory False (demoLocal 2 demoJohn ''janedy'') = Inr (Some (demoEntry 1002 ''janedy'' ''john@x'' ''Dyer''))"
proof -
  have len: "length demoJane = 12" "length demoJohn = 12" by (simp_all add: demoJane_def demoJohn_def)
  have lib: "ae_lib (le_accounts demoLdapEnv) = standardLib" by (simp add: demoLdapEnv_def demoEnv_def)
  note ids = demo_userIds [OF len(1)] demo_userIds [OF len(2)]
  note run = ldap_userEntry_def user_toLdapObject_def demoLocal_def lib ids demo_documents Let_def
  show "ldap_userEntry demoLdapLib demoLdapEnv demoDirectory False (demoLocal 1 demoJane ''janed'') = Inr (Some (demoEntry 1001 ''janed'' ''jane@x'' ''Doe''))"
    by (simp add: run) (simp add: demoLdapLib_def demoLdapEnv_def demoEntry_def demoName_def userPadding_def ldapText_def interpolate_def)
  show "ldap_userEntry demoLdapLib demoLdapEnv demoDirectory False (demoLocal 2 demoJohn ''janedy'') = Inr (Some (demoEntry 1002 ''janedy'' ''john@x'' ''Dyer''))"
    by (simp add: run) (simp add: demoLdapLib_def demoLdapEnv_def demoEntry_def demoName_def userPadding_def ldapText_def interpolate_def)
qed

lemma demo_userEntries:
  "mapOutcome (ldap_userEntry demoLdapLib demoLdapEnv demoDirectory False) (localUsers demoDirectory)
   = Inr [Some (demoEntry 1001 ''janed'' ''jane@x'' ''Doe''), Some (demoEntry 1002 ''janedy'' ''john@x'' ''Dyer'')]"
  by (simp add: demo_users demo_userEntry)

lemma demo_others:
  "orgObjects demoLdapLib demoLdapEnv = Inr [\<lparr>lo_dn = ''dc=x'', lo_attributes = [(''objectclass'', LdapTexts [''top'', ''dcObject'', ''organization''])]\<rparr>]"
  "orgRoleObjects demoLdapLib = Inr [\<lparr>lo_dn = ''cn=root'', lo_attributes =
     [(''objectclass'', LdapTexts [''simpleSecurityObject'', ''organizationalRole'']), (''hasSubordinates'', LdapTexts [''FALSE''])]\<rparr>]"
  "orgUnitObjects demoLdapLib demoLdapEnv = Inr [orgUnitObject ''users'' ''ou=users, dc=x'', orgUnitObject ''groups'' ''ou=groups, dc=x'']"
  by (simp_all add: orgObjects_def orgRoleObjects_def orgUnitObjects_def demoLdapLib_def demoLdapEnv_def)

lemma demo_groups:
  "\<exists>a b. mapOutcome (ldap_groupEntry demoLdapLib demoLdapEnv demoDirectory) (groupDocs demoDirectory) = Inr [a, b]
     \<and> (\<forall>x \<in> {a, b}. \<forall>k v. k \<in> {''uid'', ''sn''} \<longrightarrow> \<not> has (lo_attributes x) k v)"
  by (simp add: demoDirectory_def demoWorld_def demoGroups_def ldap_groupEntry_def group_toLdapObject_def demoLdapLib_def has_def)

lemma demo_subtree: "\<not> baseScope (demoSearch fs m)" "wantsPhoto (demoSearch fs m) = False"
  by (simp_all add: baseScope_def wantsPhoto_def demoSearch_def)

lemma demo_matched: "ldap_isMatched L (demoSearch fs m) x = m (lo_attributes x)"
  by (simp add: ldap_isMatched_def demo_subtree) (simp add: demoSearch_def)

text \<open>What such a search finds in the whole directory are users only.\<close>

lemma demo_found:
  assumes "\<And>as. m as \<Longrightarrow> \<exists>k \<in> {''uid'', ''sn''}. \<exists>v. has as k v"
  shows "\<exists>es. ldap_directory demoLdapLib demoLdapEnv demoDirectory False = Inr es
    \<and> filter (\<lambda>x. m (lo_attributes x)) es = filter (\<lambda>x. m (lo_attributes x))
        [demoEntry 1001 ''janed'' ''jane@x'' ''Doe'', demoEntry 1002 ''janedy'' ''john@x'' ''Dyer'']"
proof -
  have no: "\<not> m as" if "\<And>v. \<not> has as ''uid'' v" "\<And>v. \<not> has as ''sn'' v" for as using assms [of as] that by blast
  have org: "\<not> m [(''objectclass'', LdapTexts xs)]" "\<not> m [(''objectclass'', LdapTexts xs), (''hasSubordinates'', LdapTexts ys)]"
    "\<not> m (lo_attributes (orgUnitObject u d))" for xs ys u and d :: string
    by (rule no; simp add: has_def orgUnitObject_def)+
  obtain a b where ab: "mapOutcome (ldap_groupEntry demoLdapLib demoLdapEnv demoDirectory) (groupDocs demoDirectory) = Inr [a, b]"
    and silent: "\<forall>x \<in> {a, b}. \<forall>k v. k \<in> {''uid'', ''sn''} \<longrightarrow> \<not> has (lo_attributes x) k v"
    using demo_groups by blast
  have groups: "\<not> m (lo_attributes a)" "\<not> m (lo_attributes b)"
    by (rule no; use silent in simp)+
  show ?thesis by (simp add: ldap_directory_def demo_others ab groups demo_userEntries map_filter_simps org)
qed


text \<open>
  A filter that is a disjunction has a lossy query when one of its parts names a user: here the second user
  has the surname that is asked for and is not sent.
\<close>

lemma disjunction_loses_users:
  "(\<exists>es. ldap_directory demoLdapLib demoLdapEnv demoDirectory False = Inr es
      \<and> demoEntry 1002 ''janedy'' ''john@x'' ''Dyer'' \<in> set (filter (ldap_isMatched demoLdapLib janeOrDyer) es))
   \<and> \<not> userQuery demoLdapLib janeOrDyer (demoLocal 2 demoJohn ''janedy'')"
proof (intro conjI)
  obtain es where es: "ldap_directory demoLdapLib demoLdapEnv demoDirectory False = Inr es" 
    "filter (\<lambda>x. has (lo_attributes x) ''uid'' ''janed'' \<or> has (lo_attributes x) ''sn'' ''Dyer'') es
     = [demoEntry 1001 ''janed'' ''jane@x'' ''Doe'', demoEntry 1002 ''janedy'' ''john@x'' ''Dyer'']"
    using demo_found [of "\<lambda>as. has as ''uid'' ''janed'' \<or> has as ''sn'' ''Dyer''"] by (auto simp: demoEntry_def has_def)
  have "demoEntry 1002 ''janedy'' ''john@x'' ''Dyer'' \<in> set (filter (ldap_isMatched demoLdapLib janeOrDyer) es)"
    unfolding janeOrDyer_def demo_matched es(2) by simp
  then show "\<exists>es. ldap_directory demoLdapLib demoLdapEnv demoDirectory False = Inr es
      \<and> demoEntry 1002 ''janedy'' ''john@x'' ''Dyer'' \<in> set (filter (ldap_isMatched demoLdapLib janeOrDyer) es)"
    using es(1) by blast
  show "\<not> userQuery demoLdapLib janeOrDyer (demoLocal 2 demoJohn ''janedy'')"
    by (simp add: userQuery_def janeOrDyer_def demo_subtree uidFilters_def) (auto simp: demoSearch_def uidFilter_def cnFilter_def demoLocal_def)
qed

section \<open>Binds\<close>

lemma execWord_prefix:
  assumes "u \<noteq> []" and "\<forall>c \<in> set u. isWordChar c" and "rest = [] \<or> \<not> isWordChar (hd rest)"
  shows "execWord pre (pre @ u @ rest) = Some u"
proof -
  have "takeWhile isWordChar (u @ rest) = u"
    using assms(2,3) by (cases rest) (simp_all add: takeWhile_append)
  then show ?thesis using assms(1) by (subst execWord.simps) simp
qed

text \<open>
  Claim C18: A bind with the distinguished name of a user succeeds exactly when there is a local user of that
  name, not disabled, whose password hash verifies with the credentials; every failure is the same error, and
  no bind changes an account.
\<close>

theorem ldap_bindDn_iff:
  assumes "ll_toString L (lr_dn req) = ''uid='' @ u @ rest" and "u \<noteq> []" and "\<forall>c \<in> set u. isWordChar c"
    and "rest = [] \<or> \<not> isWordChar (hd rest)"
  shows "ldap_bindDn L env req w =
    (if \<exists>r. findByUsername u w = Some r \<and> \<not> lu_disabled r \<and> ae_verifyHash (le_accounts env) (lu_password r) (lr_credentials req) = Inr True
     then Inr () else Inl (JsError ''InvalidCredentialsError''), w)"
proof -
  have word: "execWord ''uid='' (ll_toString L (lr_dn req)) = Some u"
    unfolding assms(1) by (rule execWord_prefix [OF assms(2-4)])
  show ?thesis
    by (cases "findByUsername u w")
      (auto simp: ldap_bindDn_def word tryCatch_def discard_def andThen_def signInLocal_run action_simps)
qed

definition demoBind :: "string \<Rightarrow> string ldap_request" where
  "demoBind credentials = (demoSearch [] (\<lambda>_. False))\<lparr>lr_dn := ''uid=janed,dc=x'', lr_credentials := credentials\<rparr>"

theorem ldap_bindDn_iff_witness:
  "ldap_bindDn demoLdapLib demoLdapEnv (demoBind ''secret'') (demoWorld []) = (Inr (), demoWorld [])
   \<and> ldap_bindDn demoLdapLib demoLdapEnv (demoBind ''wrong'') (demoWorld []) = (Inl (JsError ''InvalidCredentialsError''), demoWorld [])"
proof -
  have 1: "ll_toString demoLdapLib (lr_dn (demoBind c)) = ''uid='' @ ''janed'' @ '',dc=x''" for c
    by (simp add: demoLdapLib_def demoBind_def)
  have 2: "\<forall>c \<in> set ''janed''. isWordChar c" by code_simp
  have 3: "'',dc=x'' = [] \<or> \<not> isWordChar (hd '',dc=x'')" by code_simp
  note bind = ldap_bindDn_iff [OF 1 _ 2 3, where env = demoLdapEnv and w = "demoWorld []", simplified]
  show ?thesis
    unfolding bind by (simp add: findByUsername_def findOneBy_def demoWorld_def demoLdapEnv_def demoEnv_def demoBind_def)
qed

end
