(* ===== verification/Photo_Consumer.thy ===== *)
theory Photo_Consumer
  imports Directory_Ldap
begin

text \<open>
  The workers and the development endpoints of image processing: the job of \<open>photo/photo-consumer.service.ts\<close>
  and its answer to a request for metadata, \<open>photo/processor/photo-processor.controller.ts\<close>, and where
  \<open>watermark.service.ts\<close> places a watermark (with real numbers, floating point in the code). The binary form
  of messages and digests are parameters.
\<close>

section \<open>The job\<close>

definition consumeJob :: "storage_env \<Rightarrow> image_env \<Rightarrow> process_job \<Rightarrow> (storage_call list, unit) action" where
  "consumeJob st im j =
     andThen (lift (storage_getBuffer st (pj_source j))) (\<lambda>rawBuffer.
     andThen (lift (processPhoto im rawBuffer (pj_params j))) (\<lambda>processedBuffer.
     storage_putFile st (pj_destination j) processedBuffer))"

text \<open>A queue is worked in order; a job that fails keeps nothing from the next.\<close>

definition workQueue :: "storage_env \<Rightarrow> image_env \<Rightarrow> process_job list \<Rightarrow> storage_call list \<Rightarrow> storage_call list" where
  "workQueue st im jobs calls = foldl (\<lambda>calls j. snd (consumeJob st im j calls)) calls jobs"

section \<open>Metadata\<close>

record photo_metadata =
  md_path :: string
  md_md5 :: string
  md_width :: int
  md_height :: int
  md_orientation :: "int option"
  md_timestamp :: time
  md_color :: string

record consumer_env =
  ce_storage :: storage_env
  ce_image :: image_env
  ce_md5 :: "byte list \<Rightarrow> string"
  ce_etag :: "byte list \<Rightarrow> string"
  ce_pathFromBinary :: "byte list \<Rightarrow> string outcome"
  ce_metadataToBinary :: "photo_metadata \<Rightarrow> byte list"
  ce_connected :: bool

definition getFileMd5 :: "consumer_env \<Rightarrow> string \<Rightarrow> string outcome" where
  "getFileMd5 env file = onSuccess (storage_getBuffer (ce_storage env) file) (\<lambda>b. Inr (ce_md5 env b))"

definition getPhotoMetadata :: "consumer_env \<Rightarrow> string \<Rightarrow> photo_metadata outcome" where
  "getPhotoMetadata env path =
     onSuccess (getFileMd5 env path) (\<lambda>md5.
     onSuccess (storage_getBuffer (ce_storage env) path) (\<lambda>buffer.
     onSuccess (getFileExif (ce_image env) buffer) (\<lambda>exif.
     onSuccess (getPhotoColorHex (ce_image env) buffer) (\<lambda>color.
     Inr \<lparr>md_path = path, md_md5 = md5, md_width = ex_width exif, md_height = ex_height exif,
       md_orientation = ex_orientation exif, md_timestamp = ex_date exif, md_color = color\<rparr>))))"

text \<open>\<open>s.replace(a, b)\<close>: the first occurrence.\<close>

fun replaceFirst :: "string \<Rightarrow> string \<Rightarrow> string \<Rightarrow> string" where
  "replaceFirst a b s =
     (if take (length a) s = a then b @ drop (length a) s
      else case s of [] \<Rightarrow> [] | c # t \<Rightarrow> c # replaceFirst a b t)"

declare replaceFirst.simps [simp del]

record amqp_message =
  am_exchange :: string
  am_routingKey :: string
  am_content :: "byte list"

definition amqp_publish :: "consumer_env \<Rightarrow> amqp_message \<Rightarrow> (amqp_message list, unit) action" where
  "amqp_publish env m =
     (if ce_connected env then modify (\<lambda>sent. sent @ [m]) else throw (JsError ''No amqp connection''))"

definition consumer_getMetadata :: "consumer_env \<Rightarrow> string \<Rightarrow> byte list \<Rightarrow> (amqp_message list, unit) action" where
  "consumer_getMetadata env routingKey content =
     andThen (lift (ce_pathFromBinary env content)) (\<lambda>path.
     andThen (lift (getPhotoMetadata env path)) (\<lambda>metadata.
     amqp_publish env \<lparr>am_exchange = ''photo_processor.topic'',
       am_routingKey = replaceFirst ''get_metadata'' ''metadata'' routingKey,
       am_content = ce_metadataToBinary env metadata\<rparr>))"

section \<open>PhotoProcessorController\<close>

record get_process_dto =
  gp_path :: string
  gp_format :: image_format
  gp_width :: "nat option"
  gp_height :: "nat option"
  gp_quality :: int
  gp_fit :: image_fit
  gp_watermark :: "string option"
  gp_widthRatio :: rat
  gp_heightRatio :: rat

text \<open>What the validation lets through; the defaults are those of the class.\<close>

definition getProcessDto_valid :: "get_process_dto \<Rightarrow> bool" where
  "getProcessDto_valid d \<longleftrightarrow> gp_width d \<noteq> Some 0 \<and> gp_height d \<noteq> Some 0 \<and> 0 < gp_quality d
     \<and> 0 < gp_widthRatio d \<and> gp_widthRatio d \<le> 1 \<and> 0 < gp_heightRatio d \<and> gp_heightRatio d \<le> 1"

definition newGetProcessDto :: "int \<Rightarrow> string \<Rightarrow> get_process_dto" where
  "newGetProcessDto quality path = \<lparr>gp_path = path, gp_format = Jpeg, gp_width = None, gp_height = None, gp_quality = quality,
     gp_fit = FitInside, gp_watermark = None, gp_widthRatio = 1 / 2, gp_heightRatio = 1 / 2\<rparr>"

definition processParamsOfDto :: "get_process_dto \<Rightarrow> process_params" where
  "processParamsOfDto d = \<lparr>par_format = gp_format d, par_width = gp_width d, par_height = gp_height d,
     par_quality = gp_quality d, par_fit = gp_fit d, par_watermark = gp_watermark d,
     par_heightRatio = gp_heightRatio d, par_widthRatio = gp_widthRatio d\<rparr>"

record photo_response =
  phr_type :: string
  phr_etag :: string
  phr_status :: nat
  phr_body :: "byte list option"

definition streamBuffer :: "consumer_env \<Rightarrow> string option \<Rightarrow> string \<Rightarrow> byte list \<Rightarrow> photo_response" where
  "streamBuffer env ifNoneMatch mime buffer =
     (let tag = ce_etag env buffer in
      if ifNoneMatch = Some tag then \<lparr>phr_type = mime, phr_etag = tag, phr_status = 304, phr_body = None\<rparr>
      else \<lparr>phr_type = mime, phr_etag = tag, phr_status = 200, phr_body = Some buffer\<rparr>)"

definition processor_getMd5 :: "consumer_env \<Rightarrow> string \<Rightarrow> string outcome" where
  "processor_getMd5 env path = getFileMd5 env path"

definition processor_getColor :: "consumer_env \<Rightarrow> string \<Rightarrow> string outcome" where
  "processor_getColor env path = onSuccess (storage_getBuffer (ce_storage env) path) (getPhotoColorHex (ce_image env))"

definition processor_getExif :: "consumer_env \<Rightarrow> string \<Rightarrow> exif outcome" where
  "processor_getExif env path = onSuccess (storage_getBuffer (ce_storage env) path) (getFileExif (ce_image env))"

definition processor_process :: "consumer_env \<Rightarrow> string option \<Rightarrow> get_process_dto \<Rightarrow> photo_response outcome" where
  "processor_process env ifNoneMatch d =
     onSuccess (storage_getBuffer (ce_storage env) (gp_path d)) (\<lambda>rawBuffer.
     onSuccess (processPhoto (ce_image env) rawBuffer (processParamsOfDto d)) (\<lambda>buffer.
     Inr (streamBuffer env ifNoneMatch (''image/'' @ formatName (gp_format d)) buffer)))"

section \<open>Placing a watermark\<close>

record watermark_layout =
  wl_size :: real
  wl_marginX :: real
  wl_marginY :: real

record watermark_placement =
  wp_width :: int
  wp_left :: int
  wp_top :: int

definition watermarkRatio :: "nat \<times> nat \<Rightarrow> real" where
  "watermarkRatio meta = real (fst meta) / real (snd meta)"

definition watermarkTargetWidth :: "watermark_layout \<Rightarrow> nat \<times> nat \<Rightarrow> nat \<times> nat \<Rightarrow> real" where
  "watermarkTargetWidth config photo meta =
     sqrt (wl_size config * (real (fst photo) * real (snd photo)) * watermarkRatio meta)"

definition watermarkTargetHeight :: "watermark_layout \<Rightarrow> nat \<times> nat \<Rightarrow> nat \<times> nat \<Rightarrow> real" where
  "watermarkTargetHeight config photo meta = watermarkTargetWidth config photo meta / watermarkRatio meta"

definition insertBottomLeft :: "watermark_layout \<Rightarrow> nat \<times> nat \<Rightarrow> nat \<times> nat \<Rightarrow> watermark_placement" where
  "insertBottomLeft config photo meta =
     \<lparr>wp_width = \<lfloor>watermarkTargetWidth config photo meta\<rfloor>,
      wp_left = \<lfloor>real (fst photo) - watermarkTargetWidth config photo meta - real (fst photo) * wl_marginX config\<rfloor>,
      wp_top = \<lfloor>real (snd photo) - watermarkTargetHeight config photo meta - real (snd photo) * wl_marginY config\<rfloor>\<rparr>"

section \<open>Facts\<close>

lemma watermark_area:
  assumes "0 \<le> wl_size config" and "0 < fst meta" and "0 < snd meta"
  shows "watermarkTargetWidth config photo meta * watermarkTargetHeight config photo meta
    = wl_size config * (real (fst photo) * real (snd photo))"
proof -
  have r: "0 < watermarkRatio meta" using assms(2,3) by (simp add: watermarkRatio_def)
  then have "(watermarkTargetWidth config photo meta)\<^sup>2 = wl_size config * (real (fst photo) * real (snd photo)) * watermarkRatio meta"
    unfolding watermarkTargetWidth_def using assms(1) by (intro real_sqrt_pow2) simp
  then show ?thesis using r by (simp add: watermarkTargetHeight_def power2_eq_square)
qed



section \<open>An imported profile photo\<close>

definition photoJob :: "profile_env \<Rightarrow> string \<Rightarrow> uuid \<Rightarrow> image_format \<Rightarrow> process_job" where
  "photoJob env path u fmt = (let p = \<lparr>ppp_uuid = u, ppp_format = fmt\<rparr> in
     \<lparr>pj_source = path, pj_destination = ppp_path p, pj_params = ppp_buildProcessParams (pe_quality env) p\<rparr>)"

lemma processGravatar_jobs: "\<exists>d js. processGravatar env path email w = (Inr d, w\<lparr>pw_jobs := pw_jobs w @ js\<rparr>)"
  by (cases "truthyId email") (auto simp: processGravatar_def Let_def addProcessJob_def action_simps intro: exI [of _ "[]"])

lemma processProfilePhoto_jobs:
  "\<exists>js. processProfilePhoto env path u email w =
     (Inr (), w\<lparr>pw_jobs := pw_jobs w @ photoJob env path u Webp # photoJob env path u Jpeg # js\<rparr>)"
proof -
  let ?w = "w\<lparr>pw_jobs := pw_jobs w @ [photoJob env path u Webp, photoJob env path u Jpeg]\<rparr>"
  obtain d js where "processGravatar env path email ?w = (Inr d, ?w\<lparr>pw_jobs := pw_jobs ?w @ js\<rparr>)"
    using processGravatar_jobs by blast
  then have "discard (processGravatar env path email) ?w = (Inr (), ?w\<lparr>pw_jobs := pw_jobs ?w @ js\<rparr>)"
    by (simp add: discard_def andThen_def action_simps)
  then have "processProfilePhoto env path u email w =
      (Inr (), w\<lparr>pw_jobs := pw_jobs w @ photoJob env path u Webp # photoJob env path u Jpeg # js\<rparr>)"
    by (simp add: processProfilePhoto_def Let_def addProcessJob_def action_simps photoJob_def)
  then show ?thesis by blast
qed

lemma importFromNas_jobs:
  assumes "importFromNas env directory filename p w = (Inr row, w')"
  shows "\<exists>js. pw_jobs w' = pw_jobs w @ photoJob env (getSrcFilepath directory filename) (pp_id row) Webp
    # photoJob env (getSrcFilepath directory filename) (pp_id row) Jpeg # js"
proof -
  obtain x where x: "findOneBy (\<lambda>x. pr_id x = p) (profilesOf w) = Some x"
    using assms by (cases "findOneBy (\<lambda>x. pr_id x = p) (profilesOf w)")
      (auto simp: importFromNas_def profile_findById_def action_simps)
  obtain md5 where md5: "pe_fileMd5 env (getSrcFilepath directory filename) = Inr md5"
    using assms by (cases "pe_fileMd5 env (getSrcFilepath directory filename)")
      (auto simp: importFromNas_def profile_findById_def action_simps x)
  let ?m = "processProfilePhoto env (getSrcFilepath directory filename) (pe_uuidV5 env md5) (firstOf (pr_emails x))"
  obtain js where js: "?m w = (Inr (), w\<lparr>pw_jobs := pw_jobs w @ photoJob env (getSrcFilepath directory filename) (pe_uuidV5 env md5) Webp
      # photoJob env (getSrcFilepath directory filename) (pe_uuidV5 env md5) Jpeg # js\<rparr>)"
    using processProfilePhoto_jobs by blast
  note run = andThen_ret [where m = ?m, OF js]
  show ?thesis
    using assms by (auto simp: importFromNas_def profile_findById_def action_simps x md5 Let_def run
        modifyProfiles_run andThen_ret [OF modifyProfiles_run] profilesOf_upd)
qed

lemma consumeJob_log: "\<exists>more. snd (consumeJob st im j calls) = calls @ more"
  by (auto simp: consumeJob_def andThen_def storage_putFile_def backend_putFile_def createDirectoryFromFullpathFilename_def
      action_simps split: sum.splits prod.splits option.splits if_splits)

lemma workQueue_log: "\<exists>more. workQueue st im jobs calls = calls @ more"
proof (induction jobs arbitrary: calls)
  case (Cons j jobs)
  obtain a where "snd (consumeJob st im j calls) = calls @ a" using consumeJob_log by blast
  moreover obtain b where "workQueue st im jobs (calls @ a) = (calls @ a) @ b" using Cons by blast
  ultimately show ?case by (simp add: workQueue_def)
qed (simp add: workQueue_def)

lemma workQueue_append: "workQueue st im (js @ ks) calls = workQueue st im ks (workQueue st im js calls)"
  by (simp add: workQueue_def)

lemma workQueue_Cons: "workQueue st im (j # js) calls = workQueue st im js (snd (consumeJob st im j calls))"
  by (simp add: workQueue_def)

lemma getStorage_ppp: "getStorage (ppp_path p) = Inr Minio"
proof -
  have "hd (splitScheme (''minio://'' @ s)) = ''minio''" for s
    by (simp split: list.split)
  then show ?thesis by (simp add: getStorage_def ppp_path_def Let_def)
qed

lemma consumeJob_stores:
  assumes "storage_getBuffer st (pj_source j) = Inr raw" and "processPhoto im raw (pj_params j) = Inr out"
    and "getStorage (pj_destination j) = Inr Minio" and "st_write st Minio (getFilepath (pj_destination j)) out = None"
  shows "snd (consumeJob st im j calls) = calls @ [Put Minio (getFilepath (pj_destination j)) out]"
  using assms by (simp add: consumeJob_def action_simps storage_putFile_def backend_putFile_def andThen_ret [OF run_ret])



end
