(* ===== verification/App_Setting.thy ===== *)
theory App_Setting
  imports Photo_Consumer
begin

text \<open>
  Settings of the installation: \<open>helpers/encryption.ts\<close>, \<open>application-setting/application-setting.service.ts\<close>,
  the credentials of the Google account (\<open>google/google-oauth2-client.service.ts\<close>,
  \<open>google-jwt-client.service.ts\<close>), the tokens for developers (\<open>devtools/devtools.service.ts\<close>), keys of
  services (\<open>api-key\<close>), and the audit log (\<open>audit-log/audit-logger.interceptor.ts\<close>). The block cipher, the
  UTF-8 conversion, the JSON conversion, the Google client and the signature of tokens are parameters.
\<close>

section \<open>Encryption\<close>

text \<open>The cipher with its key; the second can refuse an initial vector.\<close>

record cipher_env =
  cy_encipher :: "byte list \<Rightarrow> byte list \<Rightarrow> byte list"
  cy_decipher :: "byte list \<Rightarrow> byte list \<Rightarrow> byte list outcome"
  cy_utf8 :: "string \<Rightarrow> byte list"
  cy_fromUtf8 :: "byte list \<Rightarrow> string"

definition encrypt :: "cipher_env \<Rightarrow> byte list \<Rightarrow> string \<Rightarrow> string" where
  "encrypt C iv val = hexString iv @ '':'' @ hexString (cy_encipher C iv (cy_utf8 C val))"

definition decrypt :: "cipher_env \<Rightarrow> string \<Rightarrow> string outcome" where
  "decrypt C val =
     (case map hexToBytes (splitOn (CHR '':'') val) of
        iv # encrypted # _ \<Rightarrow> onSuccess (cy_decipher C iv encrypted) (\<lambda>b. Inr (cy_fromUtf8 C b))
      | _ \<Rightarrow> Inl (JsError ''The data argument must be of type string or an instance of Buffer''))"

text \<open>The mode is a stream cipher: deciphering with the same vector undoes enciphering.\<close>

definition cipher_ok :: "cipher_env \<Rightarrow> bool" where
  "cipher_ok C \<longleftrightarrow> (\<forall>iv b. length iv = 16 \<longrightarrow> cy_decipher C iv (cy_encipher C iv b) = Inr b)
     \<and> (\<forall>s. cy_fromUtf8 C (cy_utf8 C s) = s)"

lemma colon_not_hex: "CHR '':'' \<notin> set (hexString bs)"
proof
  assume "CHR '':'' \<in> set (hexString bs)"
  then have "isDigit 16 (CHR '':'')" using set_hexString by blast
  then show False by (simp add: isDigit_def digitVal_def)
qed

lemma decrypt_encrypt: "cipher_ok C \<Longrightarrow> length iv = 16 \<Longrightarrow> decrypt C (encrypt C iv v) = Inr v"
  by (simp add: decrypt_def encrypt_def splitOn_append splitOn_nosep colon_not_hex hexToBytes_hexString cipher_ok_def)

section \<open>ApplicationSettingService\<close>

record app_setting =
  as_id :: string
  as_value :: string

record setting_world =
  aw_settings :: "app_setting list"
  aw_cookies :: "cookie_call list"
  aw_cache :: "(string \<times> string) list"

record setting_env =
  sv_cipher :: cipher_env
  sv_iv :: "byte list"
  sv_accessToken :: "string \<Rightarrow> string option outcome" \<comment> \<open>the data of the response to \<open>getAccessToken\<close> with these credentials\<close>
  sv_parse :: "string \<Rightarrow> string outcome" \<comment> \<open>\<open>JSON.parse\<close>, credentials as their text\<close>
  sv_authorize :: "string outcome"
  sv_uuidValidate :: "string \<Rightarrow> bool"
  sv_sign :: "string \<Rightarrow> string list \<Rightarrow> int \<Rightarrow> string"
  sv_now :: time
  sv_secure :: bool

abbreviation onSettings :: "(app_setting list, 'a) action \<Rightarrow> (setting_world, 'a) action" where
  "onSettings \<equiv> zoom aw_settings (\<lambda>t w. w\<lparr>aw_settings := t\<rparr>)"

definition setting_get :: "setting_env \<Rightarrow> string \<Rightarrow> (setting_world, string) action" where
  "setting_get env key =
     andThen (gets (\<lambda>w. findOneBy (\<lambda>r. as_id r = key) (aw_settings w))) (\<lambda>row.
     case row of
       None \<Rightarrow> throw (JsError (''Setting '' @ key @ '' is not found''))
     | Some r \<Rightarrow> lift (decrypt (sv_cipher env) (as_value r)))"

definition setting_set :: "setting_env \<Rightarrow> string \<Rightarrow> string \<Rightarrow> (setting_world, unit) action" where
  "setting_set env key v =
     onSettings (modify (saveRow as_id \<lparr>as_id = key, as_value = encrypt (sv_cipher env) (sv_iv env) v\<rparr>))"

definition setting_del :: "string \<Rightarrow> (setting_world, unit) action" where
  "setting_del key = onSettings (modify (deleteBy (\<lambda>r. as_id r = key)))"

definition getGoogleCredential :: "setting_env \<Rightarrow> (setting_world, string) action" where
  "getGoogleCredential env = setting_get env ''google_credential''"

definition setGoogleCredential :: "setting_env \<Rightarrow> string \<Rightarrow> (setting_world, unit) action" where
  "setGoogleCredential env = setting_set env ''google_credential''"

definition getIsDevToolsEnabled :: "setting_env \<Rightarrow> (setting_world, string) action" where
  "getIsDevToolsEnabled env = setting_get env ''is_devtools_enabled''"

section \<open>Credentials of the Google account\<close>

definition updateCredential :: "setting_env \<Rightarrow> string \<Rightarrow> (setting_world, unit) action" where
  "updateCredential env client =
     andThen (lift (sv_accessToken env client)) (\<lambda>res.
     case res of None \<Rightarrow> ret () | Some d \<Rightarrow> setGoogleCredential env d)"

text \<open>The client is its credentials.\<close>

definition getClientWithCredential :: "setting_env \<Rightarrow> (setting_world, string) action" where
  "getClientWithCredential env =
     andThen (getGoogleCredential env) (\<lambda>tokenString.
     andThen (lift (sv_parse env tokenString)) (\<lambda>token.
     andThen (updateCredential env token) (\<lambda>_.
     ret token)))"

definition tokenCacheKey :: string where
  "tokenCacheKey = ''google:client.token''"

definition cacheToken :: "string \<Rightarrow> (setting_world, unit) action" where
  "cacheToken token = modify (\<lambda>w. w\<lparr>aw_cache := (tokenCacheKey, token) # aw_cache w\<rparr>)"

definition jwt_getClient :: "setting_env \<Rightarrow> (setting_world, string option) action" where
  "jwt_getClient env =
     andThen (gets (\<lambda>w. map_of (aw_cache w) tokenCacheKey)) (\<lambda>cachedToken.
     case cachedToken of
       Some token \<Rightarrow> ret (Some token)
     | None \<Rightarrow>
         andThen (lift (sv_authorize env)) (\<lambda>token.
         andThen (cacheToken token) (\<lambda>_. ret None)))"

section \<open>Tokens for developers\<close>

definition DEV_TOKEN_EXPIRY_HOURS :: int where
  "DEV_TOKEN_EXPIRY_HOURS = 8"

record dev_token_dto =
  dt_userId :: string
  dt_groups :: "string list"

definition generateDevToken :: "setting_env \<Rightarrow> dev_token_dto \<Rightarrow> (setting_world, string) action" where
  "generateDevToken env dto =
     andThen (getIsDevToolsEnabled env) (\<lambda>devtoolsEnabled.
     andThen (throwIf (devtoolsEnabled = [] \<or> \<not> sv_uuidValidate env devtoolsEnabled) (Unauthorized ''Devtools is not enabled'')) (\<lambda>_.
     let token = sv_sign env (dt_userId dto) (dt_groups dto) (DEV_TOKEN_EXPIRY_HOURS * 3600) in
     andThen (modify (\<lambda>w. w\<lparr>aw_cookies := aw_cookies w @
       [SetCookie ACCESS_TOKEN_COOKIE_NAME token (Some (sv_now env + DEV_TOKEN_EXPIRY_HOURS * 3600000)) False]\<rparr>)) (\<lambda>_.
     ret token)))"

section \<open>Keys of services\<close>

record api_key =
  ak_id :: string
  ak_service :: string

definition apiKey_findById :: "string \<Rightarrow> api_key list \<Rightarrow> api_key option" where
  "apiKey_findById i t = findOneBy (\<lambda>k. ak_id k = i) t"

text \<open>The two conversions of the identifier are the package's; a key is answered with itself.\<close>

definition getApiKey :: "(string \<Rightarrow> bool) \<Rightarrow> (string \<Rightarrow> string) \<Rightarrow> string \<Rightarrow> api_key list \<Rightarrow> api_key outcome" where
  "getApiKey isUuid fromUuid apiKey t =
     (if \<not> isUuid apiKey then Inl (BadRequest ''Bad Request'')
      else case apiKey_findById (fromUuid apiKey) t of
        None \<Rightarrow> Inl (Unauthorized ''Unauthorized'')
      | Some doc \<Rightarrow> Inr doc)"

section \<open>The audit log\<close>

record audit_row =
  au_action :: string
  au_actor :: "uuid option"
  au_path :: string
  au_params :: string
  au_queries :: string
  au_body :: string
  au_correlationId :: string

record audited_request =
  aq_user :: request_user
  aq_path :: string
  aq_params :: string
  aq_queries :: string
  aq_body :: string
  aq_correlationId :: string

record audit_env =
  ad_lib :: id_lib
  ad_enabled :: bool
  ad_insert :: "audit_row \<Rightarrow> bool" \<comment> \<open>whether the database takes the row\<close>

definition auditRow :: "audit_env \<Rightarrow> string \<Rightarrow> audited_request \<Rightarrow> audit_row" where
  "auditRow env act req =
     \<lparr>au_action = act,
      au_actor = (if isFalsyOid (user_id (aq_user req)) then None else toUuid (ad_lib env) (user_id (aq_user req))),
      au_path = aq_path req, au_params = aq_params req, au_queries = aq_queries req, au_body = aq_body req,
      au_correlationId = aq_correlationId req\<rparr>"

text \<open>A disabled log is noted and written all the same; a failure is noted too.\<close>

definition audit_insert :: "audit_env \<Rightarrow> string \<Rightarrow> audited_request \<Rightarrow> audit_row list \<Rightarrow> audit_row list" where
  "audit_insert env act req rows = (let row = auditRow env act req in if ad_insert env row then rows @ [row] else rows)"

definition audit_intercept ::
    "audit_env \<Rightarrow> string option \<Rightarrow> audited_request \<Rightarrow> ('s, 'a) action \<Rightarrow> (audit_row list \<times> 's, 'a) action" where
  "audit_intercept env act req handler =
     andThen (if truthyId act then modify (\<lambda>(rows, s). (audit_insert env (the act) req rows, s)) else ret ()) (\<lambda>_.
     zoom snd (\<lambda>s (rows, _). (rows, s)) handler)"

section \<open>Facts\<close>

lemma findOneBy_saveRow_key: "findOneBy (\<lambda>r. k r = k x) (saveRow k x t) = Some x"
proof (cases "\<exists>y \<in> set t. k y = k x")
  case True
  then have "List.find (\<lambda>r. k r = k x) (map (\<lambda>y. if k y = k x then x else y) t) = Some x"
    by (induction t) auto
  then show ?thesis using True by (simp add: saveRow_def findOneBy_def)
next
  case False
  then have "List.find (\<lambda>r. k r = k x) (t @ [x]) = Some x" by (induction t) auto
  then show ?thesis using False by (simp add: saveRow_def findOneBy_def)
qed

lemma setting_get_run:
  "setting_get env key w = (case findOneBy (\<lambda>r. as_id r = key) (aw_settings w) of
     None \<Rightarrow> Inl (JsError (''Setting '' @ key @ '' is not found'')) | Some r \<Rightarrow> decrypt (sv_cipher env) (as_value r), w)"
  by (simp add: setting_get_def action_simps split: option.split)

lemma setting_set_run:
  "setting_set env key v w = (Inr (), w\<lparr>aw_settings := saveRow as_id \<lparr>as_id = key, as_value = encrypt (sv_cipher env) (sv_iv env) v\<rparr> (aw_settings w)\<rparr>)"
  by (simp add: setting_set_def zoom_def action_simps)

text \<open>
  Claim C29: A setting that is written is read back, whatever vector it was encrypted with and whichever vector
  later requests draw, until it is written again or deleted; writing one leaves every other setting as it was.
\<close>

theorem setting_roundtrip:
  assumes "cipher_ok (sv_cipher env)" and "length (sv_iv env) = 16" and "sv_cipher env' = sv_cipher env"
    and "setting_set env key v w = (r, w')"
  shows "setting_get env' key w' = (Inr v, w')
    \<and> (other \<noteq> key \<longrightarrow> fst (setting_get env' other w') = fst (setting_get env' other w))
    \<and> fst (setting_get env' key (snd (setting_del key w'))) = Inl (JsError (''Setting '' @ key @ '' is not found''))"
proof -
  let ?row = "\<lparr>as_id = key, as_value = encrypt (sv_cipher env) (sv_iv env) v\<rparr>"
  have w': "aw_settings w' = saveRow as_id ?row (aw_settings w)" using assms(4) by (auto simp: setting_set_run)
  have "findOneBy (\<lambda>r. as_id r = key) (aw_settings w') = Some ?row"
    using findOneBy_saveRow_key [of as_id ?row "aw_settings w"] by (simp add: w')
  then have get: "setting_get env' key w' = (Inr v, w')"
    by (simp add: setting_get_run assms(3) decrypt_encrypt [OF assms(1,2)])
  have other: "fst (setting_get env' other w') = fst (setting_get env' other w)" if "other \<noteq> key"
    using findOneBy_saveRow_other [of "\<lambda>r. as_id r = other" ?row "aw_settings w" as_id] that by (simp add: setting_get_run w')
  have "findOneBy (\<lambda>r. as_id r = key) (deleteBy (\<lambda>r. as_id r = key) (aw_settings w')) = None"
    by (auto simp: findOneBy_None deleteBy_def)
  then have "fst (setting_get env' key (snd (setting_del key w'))) = Inl (JsError (''Setting '' @ key @ '' is not found''))"
    by (simp add: setting_get_run setting_del_def zoom_def action_simps)
  then show ?thesis using get other by blast
qed

text \<open>Whatever becomes of the row, the handler answers what it would have answered.\<close>

lemma audit_transparent: "fst (audit_intercept env act req handler (rows, s)) = fst (handler s)"
  by (cases "handler s") (simp add: audit_intercept_def andThen_def zoom_def action_simps split: prod.split)

lemma disabled_audit_is_written:
  assumes "\<not> ad_enabled env" and "ad_insert env (auditRow env a req)" and "a \<noteq> []"
  shows "auditRow env a req \<in> set (fst (snd (audit_intercept env (Some a) req (ret ()) ([], s))))"
  using assms(2,3) by (simp add: audit_intercept_def action_simps zoom_def audit_insert_def Let_def)

definition demoCipher :: cipher_env where
  "demoCipher = \<lparr>cy_encipher = (\<lambda>iv b. map (\<lambda>x. x + hd iv) b), cy_decipher = (\<lambda>iv b. Inr (map (\<lambda>x. x - hd iv) b)),
     cy_utf8 = map (\<lambda>c. word_of_nat (of_char c)), cy_fromUtf8 = map (\<lambda>x. char_of (unat x))\<rparr>"

lemma demoCipher_ok: "cipher_ok demoCipher"
proof -
  have "unat (word_of_nat (of_char c) :: byte) = of_char c" for c
    using nat_of_char_less_256 [of c] by (simp add: unsigned_of_nat take_bit_nat_eq_self_iff)
  then show ?thesis by (simp add: cipher_ok_def demoCipher_def comp_def)
qed

definition demoSettingEnv :: "byte list \<Rightarrow> setting_env" where
  "demoSettingEnv iv = \<lparr>sv_cipher = demoCipher, sv_iv = iv, sv_accessToken = (\<lambda>_. Inr None), sv_parse = Inr,
     sv_authorize = Inr ''t'', sv_uuidValidate = (\<lambda>_. True), sv_sign = (\<lambda>u gs n. u), sv_now = 0, sv_secure = True\<rparr>"

theorem setting_roundtrip_witness:
  "\<exists>w'. setting_set (demoSettingEnv (replicate 16 3)) ''k'' ''v'' \<lparr>aw_settings = [], aw_cookies = [], aw_cache = []\<rparr> = (Inr (), w')
     \<and> setting_get (demoSettingEnv (replicate 16 9)) ''k'' w' = (Inr ''v'', w')"
proof -
  have 1: "cipher_ok (sv_cipher (demoSettingEnv iv))" for iv by (simp add: demoSettingEnv_def demoCipher_ok)
  have 2: "length (sv_iv (demoSettingEnv (replicate 16 3))) = 16" by (simp add: demoSettingEnv_def)
  have 3: "sv_cipher (demoSettingEnv (replicate 16 9)) = sv_cipher (demoSettingEnv (replicate 16 3))" by (simp add: demoSettingEnv_def)
  obtain w' where run: "setting_set (demoSettingEnv (replicate 16 3)) ''k'' ''v'' \<lparr>aw_settings = [], aw_cookies = [], aw_cache = []\<rparr> = (Inr (), w')"
    by (simp add: setting_set_run)
  show ?thesis using setting_roundtrip [OF 1 2 3 run] run by blast
qed

end
