(* ===== verification/Data_Migration.thy ===== *)
theory Data_Migration
  imports App_Setting Gallery_Review
begin

text \<open>
  Moving data into the relational database: \<open>migration/data-migration-processor.service.ts\<close> with the
  service and the controller that queue its jobs. Each migration is a transaction; the documents it reads are
  arguments. The tasks of the first are worked concurrently on one connection, which answers its queries in
  the order they were sent: every album is read before the first is written.
\<close>

record student_profile_doc =
  spd_id :: string
  spd_profile :: "object_id option"

record student_information_doc =
  sid_student :: string
  sid_year :: int
  sid_level :: int
  sid_room :: "int option"
  sid_number :: "int option"

record migration_world =
  mg_albums :: "gallery_album list"
  mg_students :: nud_world
  mg_discords :: "profile_discord list"
  mg_done :: "string list"
  mg_queue :: "string list"

record migration_env =
  me_lib :: id_lib
  me_tasks :: "upload_task list"
  me_studentProfiles :: "student_profile_doc list"
  me_students :: "student_information_doc list"
  me_profiles :: "account_profile list"

definition markMigrated :: "string \<Rightarrow> (migration_world, unit) action" where
  "markMigrated i = modify (\<lambda>w. w\<lparr>mg_done := (if i \<in> set (mg_done w) then mg_done w else mg_done w @ [i])\<rparr>)"

definition migration_undo :: "migration_world \<Rightarrow> migration_world \<Rightarrow> migration_world" where
  "migration_undo old new = old\<lparr>mg_queue := mg_queue new\<rparr>"

definition migrationTransaction :: "(migration_world, unit) action \<Rightarrow> (migration_world, unit) action" where
  "migrationTransaction = transaction (\<lambda>_. None) migration_undo"

section \<open>Upload tasks\<close>

definition albumConfigured :: "gallery_album \<Rightarrow> bool" where
  "albumConfigured a \<longleftrightarrow> truthyId (alb_uploadDirectory a) \<or> alb_minimumResolutionMp a \<notin> {None, Some 0}
     \<or> alb_takenAfter a \<noteq> None \<or> alb_takenBefore a \<noteq> None \<or> truthyId (alb_watermarkPreset a)"

definition withTask :: "upload_task \<Rightarrow> gallery_album \<Rightarrow> gallery_album" where
  "withTask t a =
     (let rule = fromPattern (task_rules t) in
      a\<lparr>alb_uploadDirectory := task_src_directory t, alb_minimumResolutionMp := ur_minimumResoluionMp rule,
        alb_takenAfter := ur_takenAfter rule, alb_takenBefore := ur_takenBefore rule,
        alb_watermarkPreset := ur_watermarkPreset rule\<rparr>)"

definition migrateTask :: "gallery_album list \<Rightarrow> upload_task \<Rightarrow> gallery_album list \<Rightarrow> gallery_album list" where
  "migrateTask seen t albums =
     (case findOneBy (\<lambda>a. ifDefined (task_album t) (alb_id a)) seen of
        None \<Rightarrow> albums
      | Some album \<Rightarrow>
          if albumConfigured album then albums
          else updateBy (\<lambda>a. alb_id a = alb_id album) (withTask t) albums)"

definition migrateTasks :: "upload_task list \<Rightarrow> gallery_album list \<Rightarrow> gallery_album list" where
  "migrateTasks tasks albums = foldl (\<lambda>done t. migrateTask albums t done) albums tasks"

definition migratePhotoUploadTask :: "migration_env \<Rightarrow> (migration_world, unit) action" where
  "migratePhotoUploadTask env = migrationTransaction
     (andThen (markMigrated ''PhotoUploadTask'') (\<lambda>_.
      modify (\<lambda>w. w\<lparr>mg_albums := migrateTasks (me_tasks env) (mg_albums w)\<rparr>)))"

section \<open>Students\<close>

definition migratedStudent :: "id_lib \<Rightarrow> string \<Rightarrow> object_id \<Rightarrow> student_information_doc \<Rightarrow> nud_entity" where
  "migratedStudent L i profile d =
     \<lparr>nn_profileId = Some (profileUid L profile), nn_studentId = i, nn_academicYear = sid_year d,
      nn_classYear = sid_level d, nn_className = map_option (\<lambda>r. Some (intToRadix 10 r)) (sid_room d),
      nn_rank = map_option Some (sid_number d)\<rparr>"

definition studentEntities :: "migration_env \<Rightarrow> nud_entity list" where
  "studentEntities env = concat (map (\<lambda>p. case spd_profile p of
       None \<Rightarrow> []
     | Some profile \<Rightarrow> map (migratedStudent (me_lib env) (spd_id p) profile)
         (findBy (\<lambda>d. sid_student d = spd_id p) (me_students env))) (me_studentProfiles env))"

primrec saveStudents :: "nud_entity list \<Rightarrow> (nud_world, unit) action" where
  "saveStudents [] = ret ()"
| "saveStudents (e # es) = andThen (saveStudent e) (\<lambda>_. saveStudents es)"

definition migrateNudStudent :: "migration_env \<Rightarrow> (migration_world, unit) action" where
  "migrateNudStudent env = migrationTransaction
     (andThen (markMigrated ''NudStudent'') (\<lambda>_.
      zoom mg_students (\<lambda>s w. w\<lparr>mg_students := s\<rparr>) (saveStudents (studentEntities env))))"

section \<open>Discord accounts\<close>

definition saveDiscord :: "string \<Rightarrow> uuid \<Rightarrow> nat \<Rightarrow> profile_discord list \<Rightarrow> profile_discord list" where
  "saveDiscord i profileId rank t =
     (case findOneBy (\<lambda>d. dc_id d = i) t of
        Some d \<Rightarrow> saveRow dc_id (d\<lparr>dc_profileId := profileId, dc_rank := int rank\<rparr>) t
      | None \<Rightarrow> t @ [\<lparr>dc_id = i, dc_profileId = profileId, dc_rank = int rank, dc_avatar = None, dc_mfaEnabled = False\<rparr>])"

definition saveDiscords :: "id_lib \<Rightarrow> account_profile \<Rightarrow> profile_discord list \<Rightarrow> profile_discord list" where
  "saveDiscords L p t = (case pr_discord_ids p of
       None \<Rightarrow> t
     | Some ids \<Rightarrow> foldl (\<lambda>t (index, i). saveDiscord i (profileUid L (pr_id p)) index t) t (enumerate 0 ids))"

definition migrateProfileDiscord :: "migration_env \<Rightarrow> (migration_world, unit) action" where
  "migrateProfileDiscord env = migrationTransaction
     (andThen (markMigrated ''ProfileDiscord'') (\<lambda>_.
      modify (\<lambda>w. w\<lparr>mg_discords := foldl (\<lambda>t p. saveDiscords (me_lib env) p t) (mg_discords w) (me_profiles env)\<rparr>)))"

section \<open>The worker and the controller\<close>

definition migration_process :: "migration_env \<Rightarrow> string \<Rightarrow> (migration_world, unit) action" where
  "migration_process env name =
     (if name = ''PhotoUploadTask'' then migratePhotoUploadTask env
      else if name = ''NudStudent'' then migrateNudStudent env
      else if name = ''ProfileDiscord'' then migrateProfileDiscord env
      else throw (JsError (''Error: '' @ name @ '' not found'')))"

definition getDataMigrations :: "(migration_world, string list) action" where
  "getDataMigrations = gets mg_done"

definition triggerDataMigration :: "string \<Rightarrow> request_user \<Rightarrow> (migration_world, unit) action" where
  "triggerDataMigration name user = authGroups [''it''] user
     (modify (\<lambda>w. w\<lparr>mg_queue := mg_queue w @ [name]\<rparr>))"

section \<open>What the first migration does to an album\<close>

definition lastTask :: "upload_task list \<Rightarrow> string \<Rightarrow> upload_task option" where
  "lastTask tasks i = findOneBy (\<lambda>t. task_album t = Some i) (rev tasks)"

definition migratedAlbum :: "upload_task list \<Rightarrow> gallery_album \<Rightarrow> gallery_album" where
  "migratedAlbum tasks a =
     (if albumConfigured a then a
      else case lastTask tasks (alb_id a) of None \<Rightarrow> a | Some t \<Rightarrow> withTask t a)"

lemma alb_id_withTask [simp]: "alb_id (withTask t a) = alb_id a"
  by (simp add: withTask_def Let_def)

lemma withTask_twice [simp]: "withTask t (withTask s a) = withTask t a"
  by (simp add: withTask_def Let_def)

lemma alb_id_migratedAlbum [simp]: "alb_id (migratedAlbum tasks a) = alb_id a"
  by (simp add: migratedAlbum_def split: option.split)

lemma lastTask_snoc: "lastTask (tasks @ [t]) i = (if task_album t = Some i then Some t else lastTask tasks i)"
  by (simp add: lastTask_def findOneBy_def)

lemma migrateTasks_map:
  assumes "distinct (map alb_id albums)" and "\<forall>t \<in> set tasks. task_album t \<noteq> None"
  shows "migrateTasks tasks albums = map (migratedAlbum tasks) albums"
  using assms(2)
proof (induction tasks rule: rev_induct)
  case Nil
  have "migratedAlbum [] a = a" for a by (simp add: migratedAlbum_def lastTask_def findOneBy_def)
  then show ?case by (simp add: migrateTasks_def)
next
  case (snoc t tasks)
  obtain i where i: "task_album t = Some i" using snoc.prems by auto
  have step: "migrateTasks (tasks @ [t]) albums = migrateTask albums t (map (migratedAlbum tasks) albums)"
    using snoc by (simp add: migrateTasks_def)
  have other: "migratedAlbum (tasks @ [t]) a = migratedAlbum tasks a" if "alb_id a \<noteq> i" for a
    using that i by (simp add: migratedAlbum_def lastTask_snoc)
  show ?case
  proof (cases "findOneBy (\<lambda>a. alb_id a = i) albums")
    case None
    then have "\<forall>a \<in> set albums. alb_id a \<noteq> i" by (simp add: findOneBy_None)
    then show ?thesis using other by (simp add: step migrateTask_def i None)
  next
    case (Some x)
    then have x: "x \<in> set albums" "alb_id x = i" using findOneBy_SomeD by fastforce+
    have only: "a = x" if "a \<in> set albums" "alb_id a = i" for a
      using assms(1) that x by (auto simp: distinct_map inj_on_def)
    show ?thesis
    proof (cases "albumConfigured x")
      case True
      have "migratedAlbum tasks a = migratedAlbum (tasks @ [t]) a" if "a \<in> set albums" for a
        using other [of a] only [OF that] True by (cases "alb_id a = i") (simp_all add: migratedAlbum_def)
      then show ?thesis by (simp add: step migrateTask_def i Some True)
    next
      case False
      have "(if alb_id a = i then withTask t (migratedAlbum tasks a) else migratedAlbum tasks a) = migratedAlbum (tasks @ [t]) a"
        if "a \<in> set albums" for a
      proof (cases "alb_id a = i")
        case True
        then have "a = x" using only that by blast
        then show ?thesis using False x(2) i by (simp add: migratedAlbum_def lastTask_snoc split: option.split)
      qed (use other in simp)
      then show ?thesis by (simp add: step migrateTask_def i Some False x(2) updateBy_def)
    qed
  qed
qed

lemma migratedAlbum_twice: "migratedAlbum tasks (migratedAlbum tasks a) = migratedAlbum tasks a"
proof (cases "albumConfigured a")
  case False
  show ?thesis
  proof (cases "lastTask tasks (alb_id a)")
    case None
    then show ?thesis by (simp add: migratedAlbum_def)
  next
    case (Some t)
    then have m: "migratedAlbum tasks a = withTask t a" using False by (simp add: migratedAlbum_def)
    then show ?thesis using Some by (cases "albumConfigured (withTask t a)") (simp_all add: migratedAlbum_def)
  qed
qed (simp add: migratedAlbum_def)


definition demoTask :: "string \<Rightarrow> string \<Rightarrow> upload_task" where
  "demoTask album directory = \<lparr>task_album = Some album, task_src_directory = Some directory, task_rules = [''NO_DUP'', ''PX_4MP'']\<rparr>"

definition demoMigration :: migration_env where
  "demoMigration = \<lparr>me_lib = standardLib, me_tasks = [demoTask ''camp'' ''a'', demoTask ''camp'' ''b''], me_studentProfiles = [],
     me_students = [], me_profiles = []\<rparr>"

definition demoMigrating :: migration_world where
  "demoMigrating = \<lparr>mg_albums = [demoAlbum\<lparr>alb_uploadDirectory := None, alb_minimumResolutionMp := None, alb_takenAfter := None,
     alb_takenBefore := None, alb_watermarkPreset := None\<rparr>], mg_students = \<lparr>nw_students = [], nw_nextId = 1\<rparr>, mg_discords = [],
     mg_done = [], mg_queue = []\<rparr>"


text \<open>
  The migration of the students makes a row for each year of a student, where the requests assume one: a
  student of two years has two rows afterwards.
\<close>

lemma migrated_students_have_rows_per_year:
  assumes "saveStudents [e, e\<lparr>nn_academicYear := nn_academicYear e + 1\<rparr>] \<lparr>nw_students = [], nw_nextId = 1\<rparr> = (Inr (), w')"
  shows "\<not> oneRowPerStudent w'"
  using assms by (auto simp: saveStudent_def commitStudents_def andThen_def action_simps insertedStudent_def oneRowPerStudent_def
      split: if_splits)

end
