(* ===== verification/Account_Users.thy ===== *)
theory Account_Users
  imports Account_Flow
begin

text \<open>
  The table of local users along all runs of the accounts: which operations touch it, and the shape it keeps.
  The schema makes names unique, and the service's checks give each profile one user at most.
\<close>

definition sameUsers :: "accounts_world \<Rightarrow> accounts_world \<Rightarrow> bool" where
  "sameUsers w v \<longleftrightarrow> localUsers (adb v) = localUsers (adb w)"

interpretation users: action_frame sameUsers
  by unfold_locales (simp_all add: sameUsers_def)

lemma users_db: "(\<And>db. localUsers (snd (m db)) = localUsers db) \<Longrightarrow> staysIn sameUsers (onAccountsDb m)"
  by (simp add: staysIn_def zoom_def sameUsers_def split: prod.split) (metis snd_conv)

lemma users_dbModify: "(\<And>db. localUsers (f db) = localUsers db) \<Longrightarrow> staysIn sameUsers (onAccountsDb (modify f))"
  by (rule users_db) (simp add: action_simps)

lemma users_tokens: "staysIn sameUsers (onRefreshTokens m)"
  by (rule users_db) (simp add: zoom_def split: prod.split)

lemma users_cookies: "staysIn sameUsers (setCookies cs)"
  by (simp add: setCookies_def users.stays_modify sameUsers_def)

lemma users_sign: "staysIn sameUsers (modify (\<lambda>w. w\<lparr>signedTokens := f w\<rparr>))"
  by (simp add: users.stays_modify sameUsers_def)

lemma users_auth: "staysIn sameUsers m \<Longrightarrow> staysIn sameUsers (authGroups gs user m)"
  unfolding authGroups_def by (intro users.stays_rules)

lemma users_discord: "staysIn sameUsers (upsertDiscordProfile env d p)"
  by (simp add: upsertDiscordProfile_def Let_def users.stays_andThen users.stays_gets users_dbModify)

lemma users_gitlab: "staysIn sameUsers (upsertGitlabProfile env g p)"
  by (simp add: upsertGitlabProfile_def users.stays_andThen users.stays_gets users_dbModify)

lemma users_createProfile: "staysIn sameUsers (createProfile env p)"
  by (simp add: createProfile_def Let_def users.stays_andThen users.stays_ret users_dbModify)

lemma users_upsertNames: "staysIn sameUsers (upsertNames p ns)"
  by (induction ns) (simp_all add: upsertName_def Let_def users.stays_andThen users.stays_ret users_dbModify)

lemma users_createToken: "staysIn sameUsers (createToken env p s)"
  by (simp add: createToken_def Let_def users.stays_andThen users.stays_gets users_dbModify)

lemma users_useToken: "staysIn sameUsers (useToken env i)"
  by (simp add: useToken_def users.stays_andThen users.stays_gets users.stays_ret users_dbModify)

lemma users_register: "staysIn sameUsers (register env p ns)"
  unfolding register_def by (intro users.stays_rules users_createProfile users_upsertNames)

lemma users_generate: "staysIn sameUsers (generateAccessToken env p g)"
  unfolding generateAccessToken_def by (intro users.stays_rules users_sign)

lemma users_create: "staysIn sameUsers (createRefreshToken env u s m)"
  unfolding createRefreshToken_def Let_def by (intro users.stays_rules users_tokens)

lemma users_revoke: "staysIn sameUsers (revokeToken env r n)"
  unfolding revokeToken_def updateRefreshToken_def removeRefreshToken_def Let_def by (intro users.stays_rules users_tokens)

lemma users_use: "staysIn sameUsers (useRefreshToken env r)"
  unfolding useRefreshToken_def by (intro users.stays_rules users_create users_revoke)

lemma users_setAccess: "staysIn sameUsers (setAccessRefreshTokenCookiesByProfile env p s m)"
  unfolding setAccessRefreshTokenCookiesByProfile_def Let_def setHttpAccessTokenCookie_def setHttpRefreshTokenCookie_def
  by (intro users.stays_rules users_generate users_create users_cookies)

lemma users_updated: "staysIn sameUsers (getUpdatedAccessToken env ct e)"
  unfolding getUpdatedAccessToken_def refreshAccessToken_def Let_def setHttpAccessTokenCookie_def setHttpRefreshTokenCookie_def
  by (intro users.stays_rules users_use users_generate users_cookies)

lemmas users_rules = users.stays_rules users_tokens users_cookies users_auth users_discord users_gitlab users_createToken
  users_useToken users_register users_generate users_create users_revoke users_use users_setAccess users_updated

lemma users_profileIdOrUrl:
  assumes "\<And>u. staysIn sameUsers (look u)" and "\<And>u. staysIn sameUsers (create u)"
  shows "staysIn sameUsers (profileIdOrUrl get look mfa create provider code baseUrl)"
  unfolding profileIdOrUrl_def by (intro users_rules assms)

lemma users_provider: "staysIn sameUsers (profileIdBySignInWithCodeOrRegistrationUrl env provider code baseUrl)"
  unfolding profileIdBySignInWithCodeOrRegistrationUrl_def google_findProfileId_def google_createRegistrationToken_def
    discord_findProfileId_def discord_createRegistrationToken_def gitlab_findProfileId_def
    gitlab_createRegistrationToken_def
  by (cases provider) (auto intro!: users_profileIdOrUrl users_rules simp: Let_def)

lemma users_signInLocal: "staysIn sameUsers (signInLocal env u p)"
  by (simp add: staysIn_def signInLocal_run sameUsers_def)

definition sameUserTable :: "accounts_db \<Rightarrow> accounts_db \<Rightarrow> bool" where
  "sameUserTable db db' \<longleftrightarrow> localUsers db' = localUsers db"

interpretation userTable: action_frame sameUserTable
  by unfold_locales (simp_all add: sameUserTable_def)

lemma localUsers_insertGroups [simp]: "localUsers (foldl insertGroup db ns) = localUsers db"
  by (induction ns arbitrary: db) (simp_all add: insertGroup_def Let_def)

lemma users_updateProfileGroups: "staysIn sameUsers (onAccountsDb (updateProfileGroups p gs))"
proof (rule users_db)
  fix db
  have "staysIn sameUserTable (updateProfileGroups p gs)"
    unfolding updateProfileGroups_def createGroups_def removeGroups_def addGroups_def Let_def
    by (intro userTable.stays_rules userTable.stays_modify) (simp_all add: sameUserTable_def)
  from staysInD [OF this, of db] show "localUsers (snd (updateProfileGroups p gs db)) = localUsers db"
    by (simp add: sameUserTable_def)
qed

lemma users_signIns:
  "staysIn sameUsers (signInWithLocalUser env u p s)"
  "staysIn sameUsers (redirectSignInWithProviderCallback env prov code baseUrl host cookies)"
  "staysIn sameUsers (submitAccountRegistration env i n l)"
  "staysIn sameUsers (createAccountRegistrationToken env user)"
proof -
  show "staysIn sameUsers (signInWithLocalUser env u p s)"
    unfolding signInWithLocalUser_def by (intro users_rules users_signInLocal)
  show "staysIn sameUsers (redirectSignInWithProviderCallback env prov code baseUrl host cookies)"
    unfolding redirectSignInWithProviderCallback_def getContinuePath_def Let_def by (intro users_rules users_provider)
  show "staysIn sameUsers (submitAccountRegistration env i n l)"
    unfolding submitAccountRegistration_def Let_def by (intro users_rules)
  show "staysIn sameUsers (createAccountRegistrationToken env user)"
    unfolding createAccountRegistrationToken_def by (intro users_rules)
qed

lemma users_sessions:
  "staysIn sameUsers (refreshTokenHandler env cookies)"
  "staysIn sameUsers (authMiddleware env headers cookies)"
  "staysIn sameUsers (signOut env cookies)"
  unfolding refreshTokenHandler_def authMiddleware_def signOut_def Let_def by (intro users_rules)+

section \<open>The shape of the table\<close>

definition usersWellTyped :: "id_lib \<Rightarrow> local_user list \<Rightarrow> bool" where
  "usersWellTyped L t \<longleftrightarrow> distinct (map lu_id t) \<and> distinct (map lu_username t) \<and> distinct (map lu_profileId t)
     \<and> (\<forall>u \<in> set t. isProfileUid L (lu_profileId u))"

definition keepsTyped :: "id_lib \<Rightarrow> accounts_world \<Rightarrow> accounts_world \<Rightarrow> bool" where
  "keepsTyped L w v \<longleftrightarrow> (usersWellTyped L (localUsers (adb w)) \<longrightarrow> usersWellTyped L (localUsers (adb v)))"

interpretation typed: action_frame "keepsTyped L" for L
  by unfold_locales (simp_all add: keepsTyped_def)

lemma typed_same: "staysIn sameUsers m \<Longrightarrow> staysIn (keepsTyped L) m"
  by (auto simp: staysIn_def sameUsers_def keepsTyped_def)

lemma typed_update:
  assumes "\<And>u. lu_id (f u) = lu_id u" and "\<And>u. lu_username (f u) = lu_username u" and "\<And>u. lu_profileId (f u) = lu_profileId u"
  shows "staysIn (keepsTyped L) (onLocalUsers (modify (updateBy p f)))"
proof -
  have same: "map lu_id (updateBy p f t) = map lu_id t" "map lu_username (updateBy p f t) = map lu_username t"
    "map lu_profileId (updateBy p f t) = map lu_profileId t" for t
    by (simp_all add: updateBy_def assms)
  have "usersWellTyped L (updateBy p f t)" if t: "usersWellTyped L t" for t
  proof -
    have "\<forall>i \<in> set (map lu_profileId (updateBy p f t)). isProfileUid L i"
      unfolding same(3) using t by (simp add: usersWellTyped_def)
    then have "\<forall>u \<in> set (updateBy p f t). isProfileUid L (lu_profileId u)" by (simp only: set_map ball_simps)
    then show ?thesis using t by (simp only: usersWellTyped_def same simp_thms)
  qed
  then show ?thesis by (simp add: staysIn_def keepsTyped_def zoom_def action_simps)
qed

lemma distinct_map_saveRow:
  assumes "distinct (map k t)" and "distinct (map f t)" and "\<forall>y \<in> set t. f y \<noteq> f x"
  shows "distinct (map f (saveRow k x t))"
  using assms
proof (induction t)
  case (Cons y t)
  have "k y \<notin> k ` set t" using Cons.prems(1) by simp
  then have other: "\<forall>z \<in> set t. k z \<noteq> k y" by (metis imageI)
  show ?case
  proof (cases "k y = k x")
    case True
    then have "saveRow k x (y # t) = x # t" using other by (auto simp: saveRow_def intro: map_idI)
    then show ?thesis using Cons.prems by auto
  next
    case False
    have "f ` set (saveRow k x t) \<subseteq> insert (f x) (f ` set t)" by (auto simp: saveRow_def split: if_splits)
    then have "f y \<notin> f ` set (saveRow k x t)" using Cons.prems by auto
    moreover have "saveRow k x (y # t) = y # saveRow k x t" using False by (auto simp: saveRow_def)
    ultimately show ?thesis using Cons by simp
  qed
qed (simp add: saveRow_def)

lemma distinct_key_saveRow:
  assumes "distinct (map k t)"
  shows "distinct (map k (saveRow k x t))"
proof (cases "\<exists>y \<in> set t. k y = k x")
  case True
  then have "map k (saveRow k x t) = map k t" by (simp add: saveRow_def)
  then show ?thesis using assms by simp
qed (use assms in \<open>auto simp: saveRow_def\<close>)

lemma usersWellTyped_saveRow:
  assumes "usersWellTyped L t" and "\<forall>y \<in> set t. lu_username y \<noteq> lu_username u"
    and "\<forall>y \<in> set t. lu_profileId y \<noteq> lu_profileId u" and "isProfileUid L (lu_profileId u)"
  shows "usersWellTyped L (saveRow lu_id u t)"
proof -
  have "set (saveRow lu_id u t) \<subseteq> insert u (set t)" by (auto simp: saveRow_def split: if_splits)
  then show ?thesis
    using assms distinct_map_saveRow [of lu_id t lu_username u] distinct_map_saveRow [of lu_id t lu_profileId u]
      distinct_key_saveRow [of lu_id t u] by (auto simp: usersWellTyped_def)
qed

text \<open>A username is handed out to a profile that has none, and only when nobody has it.\<close>

lemma requestUsername_free:
  assumes "requestUsername env p w = Inr username"
  shows "\<forall>y \<in> set (localUsers (adb w)). lu_profileId y \<noteq> profileUid (ae_lib env) p"
    and "\<forall>y \<in> set (localUsers (adb w)). lu_username y \<noteq> username"
proof -
  show "\<forall>y \<in> set (localUsers (adb w)). lu_profileId y \<noteq> profileUid (ae_lib env) p"
    using assms by (auto simp: requestUsername_def Let_def affected_eq_0 split: if_splits)
  have "\<not> isUsernameExists username w"
    using assms by (auto simp: requestUsername_def Let_def find_Some_iff split: if_splits option.splits)
  then show "\<forall>y \<in> set (localUsers (adb w)). lu_username y \<noteq> username" by (auto simp: isUsernameExists_iff)
qed

lemma typed_requestLocalUser: "staysIn (keepsTyped (ae_lib env)) (requestLocalUser env pw user)"
proof -
  have "keepsTyped (ae_lib env) w (snd (andThen (gets (requestUsername env p)) (\<lambda>r. andThen (lift r) (\<lambda>username.
      andThen (createLocalUser env username pw p) (\<lambda>_. ret username))) w))" for p w
  proof (cases "requestUsername env p w")
    case (Inl e)
    then show ?thesis by (simp add: action_simps keepsTyped_def)
  next
    case (Inr username)
    then have free: "\<not> isUsernameExists username w" using requestUsername_free(2) [OF Inr] by (auto simp: isUsernameExists_iff)
    let ?u = "\<lparr>lu_id = ae_newUserId env, lu_profileId = profileUid (ae_lib env) p, lu_username = username,
            lu_password = ae_hash env pw, lu_passwordLastSet = ae_dbNow env, lu_disabled = False\<rparr>"
    have run: "createLocalUser env username pw p w = (Inr ?u, w\<lparr>adb := (adb w)\<lparr>localUsers := saveRow lu_id ?u (localUsers (adb w))\<rparr>\<rparr>)"
      by (simp add: createLocalUser_def Let_def free andThen_def action_simps zoom_def)
    show ?thesis
      unfolding andThen_gets Inr andThen_lift sum.case andThen_ret [where m = "createLocalUser env username pw p", OF run] run_ret
      using usersWellTyped_saveRow [where u = ?u] requestUsername_free [OF Inr] by (simp add: keepsTyped_def)
  qed
  then have "staysIn (keepsTyped (ae_lib env)) (andThen (gets (requestUsername env p)) (\<lambda>r. andThen (lift r) (\<lambda>username.
      andThen (createLocalUser env username pw p) (\<lambda>_. ret username))))" for p
    by (rule staysInI)
  note fact = this
  show ?thesis
    unfolding requestLocalUser_def authGroups_def
    by (intro typed.stays_andThen [OF typed.stays_lift] typed.stays_if typed.stays_throw fact)
qed

lemma typed_accountOp: "staysIn (keepsTyped (ae_lib env)) (accountOp env a)"
proof (cases a)
  case (RequestLocalUser pw user)
  then show ?thesis using typed_requestLocalUser by (simp add: typed.stays_discard)
next
  case (ChangePassword old new user)
  show ?thesis
    unfolding ChangePassword accountOp.simps changeLocalUserPassword_def verifyAndChangePassword_def changePassword_def authGroups_def
    by (intro typed.stays_rules typed_update) simp_all
next
  case (DisableUser u d)
  show ?thesis unfolding DisableUser accountOp.simps disableUser_def by (rule typed_update) simp_all
qed (simp_all add: typed_same users_signIns users_sessions users_updateProfileGroups users.stays_discard)

text \<open>
  Claim C21: Whatever requests are made, in whatever order, the table of local users keeps its type: no two
  users share an id, a name or a profile, and the profile of each is the UUID of an identifier of a document.
\<close>

theorem local_users_well_typed:
  assumes "usersWellTyped L (localUsers (adb w))" and "\<forall>(env, a) \<in> set steps. ae_lib env = L"
  shows "usersWellTyped L (localUsers (adb (accountRun steps w)))"
  using assms
proof (induction steps arbitrary: w)
  case (Cons x steps)
  obtain env a where x: "x = (env, a)" by (cases x)
  have "usersWellTyped L (localUsers (adb (accountStep env a w)))"
    using staysInD [OF typed_accountOp [of env a], of w] Cons.prems x by (simp add: keepsTyped_def accountStep_def)
  then show ?case using Cons by (simp add: x)
qed simp

theorem local_users_well_typed_witness:
  "usersWellTyped standardLib (localUsers (adb (accountRun
     [(demoEnv 0 ''n'', RequestLocalUser ''pw'' (demoUser demoJohn)), (demoEnv 1 ''m'', DisableUser ''janed'' True)] (demoWorld []))))"
proof (rule local_users_well_typed)
  show "usersWellTyped standardLib (localUsers (adb (demoWorld [])))" by (simp add: usersWellTyped_def demoWorld_def)
qed (simp add: demoEnv_def)

end
