(* ===== verification/Request_Checks.thy ===== *)
theory Request_Checks
  imports Gallery_Album
begin

text \<open>
  Checks and bookkeeping around every request: the validators of \<open>validators/valid-path.ts\<close> and
  \<open>valid-before-after-date.ts\<close> as the body of an album (\<open>gallery/dto/gallery-album.dto.ts\<close>) uses them, and
  what \<open>helpers/http-logging.interceptor.ts\<close> logs. Days are exact fractions here, floating point in the code,
  of a server whose offset to universal time does not change.
\<close>

section \<open>Paths\<close>

definition reserveChars :: "char set" where
  "reserveChars = {CHR 0x5C, CHR '':'', CHR ''*'', CHR ''?'', CHR 0x22, CHR ''<'', CHR ''>'', CHR ''|''}"

definition isValidPath :: "string \<Rightarrow> bool" where
  "isValidPath v \<longleftrightarrow> \<not> (\<exists>c \<in> set v. c \<in> reserveChars)"

definition validPath_validate :: "(string \<Rightarrow> bool) list \<Rightarrow> string \<Rightarrow> bool" where
  "validPath_validate patterns v \<longleftrightarrow> isValidPath v \<and> (\<forall>p \<in> set patterns. p v)"

definition validPath_message :: "string \<Rightarrow> string" where
  "validPath_message prop = prop @ '' is not a valid path''"

text \<open>The pattern of an upload directory: a slash, four digits, a slash, and a character that ends no line.\<close>

definition uploadDirectoryPattern :: "string \<Rightarrow> bool" where
  "uploadDirectoryPattern v =
     (case v of
        s1 # a # b # c # d # s2 # x # _ \<Rightarrow> s1 = CHR ''/'' \<and> list_all (isDigit 10) [a, b, c, d] \<and> s2 = CHR ''/'' \<and> \<not> isLineTerminator x
      | _ \<Rightarrow> False)"

definition uploadDirectory_valid :: "string option \<Rightarrow> bool" where
  "uploadDirectory_valid v = (case v of None \<Rightarrow> True | Some d \<Rightarrow> validPath_validate [uploadDirectoryPattern] d)"

section \<open>Dates\<close>

record date_range =
  dr_minDay :: int
  dr_maxDay :: int

definition msPerDay :: int where
  "msPerDay = 86400000"

text \<open>\<open>dayjs\<close> of a missing date is the present.\<close>

definition dayjsOf :: "time \<Rightarrow> time option \<Rightarrow> time" where
  "dayjsOf now t = (case t of None \<Rightarrow> now | Some t \<Rightarrow> t)"

definition getDiffDays :: "time \<Rightarrow> time option \<Rightarrow> time option \<Rightarrow> rat" where
  "getDiffDays now v compareValue = of_int (dayjsOf now v - dayjsOf now compareValue) / of_int msPerDay"

definition isMoreThanMinRange :: "time \<Rightarrow> date_range \<Rightarrow> time option \<Rightarrow> time option \<Rightarrow> bool" where
  "isMoreThanMinRange now r v c \<longleftrightarrow> of_int (dr_minDay r) \<le> getDiffDays now v c"

definition isLessThanMaxRange :: "time \<Rightarrow> date_range \<Rightarrow> time option \<Rightarrow> time option \<Rightarrow> bool" where
  "isLessThanMaxRange now r v c \<longleftrightarrow> getDiffDays now v c \<le> of_int (dr_maxDay r)"

definition beforeAfter_validate :: "time \<Rightarrow> date_range \<Rightarrow> time option \<Rightarrow> time option \<Rightarrow> bool" where
  "beforeAfter_validate now r v c \<longleftrightarrow> isMoreThanMinRange now r v c \<and> isLessThanMaxRange now r v c"

definition beforeAfter_message :: "time \<Rightarrow> date_range \<Rightarrow> string \<Rightarrow> string \<Rightarrow> time option \<Rightarrow> time option \<Rightarrow> string" where
  "beforeAfter_message now r prop compareKey v c =
     (if isMoreThanMinRange now r v c
      then prop @ '' should not more than '' @ intToRadix 10 (dr_maxDay r) @ '' days compare to '' @ compareKey
      else prop @ '' should not less than '' @ intToRadix 10 (- dr_minDay r) @ '' days compare to '' @ compareKey)"

text \<open>A date that was not sent is not validated; the one that was is compared with the other.\<close>

definition takenAfterRange :: date_range where "takenAfterRange = \<lparr>dr_minDay = -1, dr_maxDay = 0\<rparr>"
definition takenBeforeRange :: date_range where "takenBeforeRange = \<lparr>dr_minDay = 0, dr_maxDay = 1\<rparr>"

definition takenAfter_valid :: "time \<Rightarrow> time option \<Rightarrow> time option \<Rightarrow> bool" where
  "takenAfter_valid now takenAfter takenBefore \<longleftrightarrow>
     takenAfter = None \<or> beforeAfter_validate now takenAfterRange takenAfter takenBefore"

definition takenBefore_valid :: "time \<Rightarrow> time option \<Rightarrow> time option \<Rightarrow> bool" where
  "takenBefore_valid now takenAfter takenBefore \<longleftrightarrow>
     takenBefore = None \<or> beforeAfter_validate now takenBeforeRange takenBefore takenAfter"

definition albumDates_valid :: "time \<Rightarrow> time option \<Rightarrow> time option \<Rightarrow> bool" where
  "albumDates_valid now takenAfter takenBefore \<longleftrightarrow>
     takenAfter_valid now takenAfter takenBefore \<and> takenBefore_valid now takenAfter takenBefore"

section \<open>Log lines\<close>

definition logStatus :: "nat option \<Rightarrow> bool \<Rightarrow> nat option \<Rightarrow> nat option" where
  "logStatus errStatus failed responseStatus =
     (case errStatus of Some s \<Rightarrow> Some s | None \<Rightarrow> if failed then Some 500 else responseStatus)"

definition logLevel :: "nat option \<Rightarrow> string" where
  "logLevel httpStatus =
     (let s = (case httpStatus of None \<Rightarrow> 0 | Some s \<Rightarrow> s) in
      if 500 \<le> s then ''error'' else if s < 400 then ''log'' else ''warn'')"

record log_line =
  lg_level :: string
  lg_status :: "nat option"
  lg_handler :: string
  lg_error :: "string option"

text \<open>A handler that is not skipped is logged once, whether it answers or throws, and its outcome is passed on.\<close>

definition http_intercept ::
    "(http_error \<Rightarrow> nat option) \<Rightarrow> bool \<Rightarrow> string \<Rightarrow> nat \<Rightarrow> ('s, 'a) action \<Rightarrow> (log_line list \<times> 's, 'a) action" where
  "http_intercept statusOf skip name responseStatus handler =
     (let logged = (\<lambda>errStatus err. let s = logStatus errStatus (err \<noteq> None) (Some responseStatus) in
            modify (\<lambda>(lines, s'). (lines @ [\<lparr>lg_level = logLevel s, lg_status = s, lg_handler = name, lg_error = err\<rparr>], s')));
          inner = zoom snd (\<lambda>s (lines, _). (lines, s)) handler in
      if skip then inner
      else tryCatch (andThen (andThen (attempt inner) (\<lambda>r. case r of
             Inl e \<Rightarrow> andThen (logged (statusOf e) (Some (errMessage e))) (\<lambda>_. ret r)
           | Inr a \<Rightarrow> andThen (logged None None) (\<lambda>_. ret r))) lift) throw)"

section \<open>Facts\<close>

lemma diffDays_iff:
  "of_int m \<le> getDiffDays now v c \<longleftrightarrow> m * msPerDay \<le> dayjsOf now v - dayjsOf now c"
  "getDiffDays now v c \<le> of_int m \<longleftrightarrow> dayjsOf now v - dayjsOf now c \<le> m * msPerDay"
proof -
  have pos: "(0 :: rat) < of_int msPerDay" by (simp add: msPerDay_def)
  show "of_int m \<le> getDiffDays now v c \<longleftrightarrow> m * msPerDay \<le> dayjsOf now v - dayjsOf now c"
    unfolding getDiffDays_def pos_le_divide_eq [OF pos] by (metis of_int_le_iff of_int_mult)
  show "getDiffDays now v c \<le> of_int m \<longleftrightarrow> dayjsOf now v - dayjsOf now c \<le> m * msPerDay"
    unfolding getDiffDays_def pos_divide_le_eq [OF pos] by (metis of_int_le_iff of_int_mult)
qed

lemma beforeAfter_iff:
  "beforeAfter_validate now r v c \<longleftrightarrow> dr_minDay r * msPerDay \<le> dayjsOf now v - dayjsOf now c
     \<and> dayjsOf now v - dayjsOf now c \<le> dr_maxDay r * msPerDay"
  by (simp only: beforeAfter_validate_def isMoreThanMinRange_def isLessThanMaxRange_def diffDays_iff)

text \<open>
  The two validators of an album's dates agree: a body is accepted exactly when the photos it allows
  are from a window that opens before it closes and is at most a day long, a missing end being the present;
  both ends missing are always accepted.
\<close>

lemma album_dates_window:
  "albumDates_valid now after before \<longleftrightarrow>
     after = None \<and> before = None
     \<or> 0 \<le> dayjsOf now before - dayjsOf now after \<and> dayjsOf now before - dayjsOf now after \<le> msPerDay"
  by (cases after; cases before)
    (auto simp: albumDates_valid_def takenAfter_valid_def takenBefore_valid_def beforeAfter_iff takenAfterRange_def
      takenBeforeRange_def)

lemma album_dates_message:
  "isMoreThanMinRange now r v c \<Longrightarrow> \<not> beforeAfter_validate now r v c \<Longrightarrow> dr_maxDay r * msPerDay < dayjsOf now v - dayjsOf now c"
  by (simp only: beforeAfter_validate_def isMoreThanMinRange_def isLessThanMaxRange_def diffDays_iff not_le simp_thms)

lemma http_intercept_transparent: "fst (http_intercept f skip name status handler (ls, s)) = fst (handler s)"
  by (cases "handler s") (auto simp: http_intercept_def Let_def tryCatch_def andThen_def attempt_def zoom_def action_simps split: sum.splits prod.splits)

lemma http_intercept_logs:
  "length (fst (snd (http_intercept f skip name status handler (ls, s)))) = length ls + (if skip then 0 else 1)"
  by (cases "handler s") (auto simp: http_intercept_def Let_def tryCatch_def andThen_def attempt_def zoom_def action_simps split: sum.splits prod.splits)

end
