(* ===== verification/Delivery_Mail.thy ===== *)
theory Delivery_Mail
  imports Data_Migration Account_Users Request_Checks
begin

text \<open>
  Mail and recurring jobs: \<open>delivery/mail\<close> with the templates and senders of \<open>models/delivery\<close>, the consumer
  of \<open>delivery/processor/email-confirmation.service.ts\<close>, and \<open>scheduler/scheduler-register.service.ts\<close>. The
  template language, the binary form of messages and the mail server are parameters.
\<close>

section \<open>Mail\<close>

record mail_sender =
  ms_id :: object_id
  ms_name :: string
  ms_email :: string

record mail_template =
  mt_sender :: "object_id option"
  mt_event :: "string option"
  mt_subject :: string
  mt_body :: string

record mail_options =
  mo_from :: string
  mo_replyTo :: "string option"
  mo_to :: "string list"
  mo_cc :: "string list option"
  mo_subject :: string
  mo_html :: string
  mo_icalEvent :: "string option"

record email_confirmation =
  ec_email :: string
  ec_variables :: "(string \<times> string) list"

record mail_env =
  ma_templates :: "mail_template list"
  ma_senders :: "mail_sender list"
  ma_render :: "string \<Rightarrow> (string \<times> string) list \<Rightarrow> string outcome"
  ma_username :: string
  ma_fromBinary :: "byte list \<Rightarrow> email_confirmation outcome"
  ma_smtp :: "mail_options \<Rightarrow> http_error option"

definition bullPriorityHigh :: nat where
  "bullPriorityHigh = 2"

record email_job =
  ej_data :: mail_options
  ej_priority :: "nat option"

record mail_world =
  mw_queue :: "email_job list"
  mw_sent :: "mail_options list"

definition findByEvent :: "mail_env \<Rightarrow> string \<Rightarrow> mail_template option" where
  "findByEvent env event = findOneBy (\<lambda>t. mt_event t = Some event) (ma_templates env)"

definition findByEventAndRenderBody :: "mail_env \<Rightarrow> string \<Rightarrow> (string \<times> string) list \<Rightarrow> mail_template option outcome" where
  "findByEventAndRenderBody env event variables =
     (case findByEvent env event of
        None \<Rightarrow> Inr None
      | Some t \<Rightarrow> onSuccess (ma_render env (mt_body t) variables) (\<lambda>body. Inr (Some (t\<lparr>mt_body := body\<rparr>))))"

definition prepareMailData ::
    "mail_env \<Rightarrow> string list \<Rightarrow> mail_template \<Rightarrow> string option \<Rightarrow> string list option \<Rightarrow> mail_options" where
  "prepareMailData env to t icalEvent cc =
     (let sender = Option.bind (mt_sender t) (\<lambda>i. findOneBy (\<lambda>s. ms_id s = i) (ma_senders env));
          fromName = (case sender of None \<Rightarrow> ''NUD Channel'' | Some s \<Rightarrow> ms_name s) in
      \<lparr>mo_from = CHR 0x22 # fromName @ CHR 0x22 # '' <'' @ ma_username env @ ''>'', mo_replyTo = map_option ms_email sender,
       mo_to = to, mo_cc = cc, mo_subject = mt_subject t, mo_html = mt_body t, mo_icalEvent = icalEvent\<rparr>)"

definition mail_send :: "mail_options \<Rightarrow> nat option \<Rightarrow> (mail_world, unit) action" where
  "mail_send d priority = modify (\<lambda>w. w\<lparr>mw_queue := mw_queue w @ [\<lparr>ej_data = d, ej_priority = priority\<rparr>]\<rparr>)"

text \<open>The worker hands a job to the mail server; what the server throws fails the job.\<close>

definition mail_process :: "mail_env \<Rightarrow> email_job \<Rightarrow> (mail_world, unit) action" where
  "mail_process env j =
     (case ma_smtp env (ej_data j) of
        Some e \<Rightarrow> throw e
      | None \<Rightarrow> modify (\<lambda>w. w\<lparr>mw_sent := mw_sent w @ [ej_data j]\<rparr>))"

section \<open>Confirmation of an e-mail address\<close>

definition requestEmailConfirmationEvent :: string where
  "requestEmailConfirmationEvent = ''request_email_confirmation''"

definition sendEmailConfirmation :: "mail_env \<Rightarrow> email_confirmation \<Rightarrow> (mail_world, unit) action" where
  "sendEmailConfirmation env message =
     andThen (lift (findByEventAndRenderBody env requestEmailConfirmationEvent (ec_variables message))) (\<lambda>template.
     case template of
       None \<Rightarrow> ret ()
     | Some t \<Rightarrow> mail_send (prepareMailData env [ec_email message] t None None) (Some bullPriorityHigh))"

definition emailConfirmationMessageCreated :: "mail_env \<Rightarrow> byte list \<Rightarrow> (mail_world, unit) action" where
  "emailConfirmationMessageCreated env content =
     andThen (lift (ma_fromBinary env content)) (sendEmailConfirmation env)"

section \<open>Recurring jobs\<close>

record job_scheduler =
  js_name :: string
  js_pattern :: string

definition registerDiscordEventsNotifier :: "string option \<Rightarrow> string option \<Rightarrow> (job_scheduler list, unit) action" where
  "registerDiscordEventsNotifier upcomingCron startingCron =
     andThen (if truthyId upcomingCron
       then modify (\<lambda>js. js @ [\<lparr>js_name = ''discord:upcoming_events'', js_pattern = the upcomingCron\<rparr>]) else ret ()) (\<lambda>_.
     if truthyId startingCron
       then modify (\<lambda>js. js @ [\<lparr>js_name = ''discord:starting_events'', js_pattern = the startingCron\<rparr>]) else ret ())"

definition unregisterJobs :: "(job_scheduler list, unit) action" where
  "unregisterJobs = modify (\<lambda>js. filter (\<lambda>j. j \<notin> set js) js)"

definition registerJobs :: "string option \<Rightarrow> string option \<Rightarrow> (job_scheduler list, unit) action" where
  "registerJobs upcomingCron startingCron =
     andThen unregisterJobs (\<lambda>_. registerDiscordEventsNotifier upcomingCron startingCron)"

section \<open>Facts\<close>

text \<open>
  A request to confirm an address puts one mail in the queue, to that address, with the rendered body of the
  template, when there is a template it can be rendered with; otherwise nothing.
\<close>

lemma confirmation_mail:
  "sendEmailConfirmation env m w =
     (case findByEvent env requestEmailConfirmationEvent of
        None \<Rightarrow> (Inr (), w)
      | Some t \<Rightarrow>
          (case ma_render env (mt_body t) (ec_variables m) of
             Inl e \<Rightarrow> (Inl e, w)
           | Inr body \<Rightarrow> (Inr (), w\<lparr>mw_queue := mw_queue w @
               [\<lparr>ej_data = prepareMailData env [ec_email m] (t\<lparr>mt_body := body\<rparr>) None None, ej_priority = Some 2\<rparr>]\<rparr>)))"
  by (auto simp: sendEmailConfirmation_def findByEventAndRenderBody_def mail_send_def bullPriorityHigh_def action_simps
      onSuccess_def split: option.split sum.split)

text \<open>However often the process starts, there is one recurring job for each pattern that is configured.\<close>

lemma registerJobs_run:
  "registerJobs u s js = (Inr (), (if truthyId u then [\<lparr>js_name = ''discord:upcoming_events'', js_pattern = the u\<rparr>] else [])
     @ (if truthyId s then [\<lparr>js_name = ''discord:starting_events'', js_pattern = the s\<rparr>] else []))"
  by (simp add: registerJobs_def unregisterJobs_def registerDiscordEventsNotifier_def action_simps andThen_def)

lemma registerJobs_again: "registerJobs u s (snd (registerJobs u s js)) = registerJobs u s js"
  by (simp add: registerJobs_run)

end
