(* ===== verification/Photo_Requests.thy ===== *)
theory Photo_Requests
  imports Photo_Consumer
begin

text \<open>
  The message that asks for a processed photo: \<open>processPhoto\<close> of \<open>photo/photo-consumer.service.ts\<close>. The
  binary form of messages and the names of the numbers in its enumerations belong to a package and are
  parameters. A property the message leaves out is handed to \<open>ProcessPhotoParams\<close> as undefined and replaces the
  default of the class, so that the image library's own default applies; the library refuses a fit that is the
  number zero when it resizes.
\<close>

section \<open>The request\<close>

record process_request =
  rq_source :: string
  rq_destination :: string
  rq_format :: int
  rq_width :: "nat option"
  rq_height :: "nat option"
  rq_quality :: "int option"
  rq_fit :: "int option"
  rq_watermark :: "string option"

text \<open>\<open>ImageFormat[name]\<close> and \<open>ImageFit[name]\<close>.\<close>

definition imageFormatNamed :: "string \<Rightarrow> image_format option" where
  "imageFormatNamed name = map_of [(''jpeg'', Jpeg), (''webp'', Webp), (''png'', Png)] name"

definition imageFitNamed :: "string \<Rightarrow> image_fit option" where
  "imageFitNamed name = map_of [(''contain'', FitContain), (''cover'', FitCover), (''fill'', FitFill),
     (''inside'', FitInside), (''outside'', FitOutside)] name"

text \<open>What \<open>Object.assign\<close> leaves in \<open>fit\<close>: undefined, the number zero, or a fit.\<close>

datatype assigned_fit = FitUndefined | FitZero | FitIs image_fit

record assigned_params =
  ap_format :: "image_format option"
  ap_width :: "nat option"
  ap_height :: "nat option"
  ap_quality :: "int option"
  ap_fit :: assigned_fit
  ap_watermark :: "string option"

record request_env = consumer_env +
  ce_requestFromBinary :: "byte list \<Rightarrow> process_request outcome"
  ce_formatName :: "int \<Rightarrow> string option"
  ce_fitName :: "int \<Rightarrow> string option"
  ce_libraryFit :: image_fit
  ce_libraryQuality :: int

definition lowerName :: "string option \<Rightarrow> string outcome" where
  "lowerName n = (case n of None \<Rightarrow> Inl (JsError ''Cannot read properties of undefined (reading 'toLowerCase')'')
     | Some s \<Rightarrow> Inr (toLowerCase s))"

definition assignedFit :: "'a request_env_scheme \<Rightarrow> int option \<Rightarrow> assigned_fit outcome" where
  "assignedFit env fit =
     (case fit of
        None \<Rightarrow> Inr FitUndefined
      | Some n \<Rightarrow>
          if n = 0 then Inr FitZero
          else onSuccess (lowerName (ce_fitName env n)) (\<lambda>name.
            Inr (case imageFitNamed name of None \<Rightarrow> FitUndefined | Some f \<Rightarrow> FitIs f)))"

definition assignedParams :: "'a request_env_scheme \<Rightarrow> process_request \<Rightarrow> assigned_params outcome" where
  "assignedParams env r =
     onSuccess (lowerName (ce_formatName env (rq_format r))) (\<lambda>format.
     onSuccess (assignedFit env (rq_fit r)) (\<lambda>fit.
     Inr \<lparr>ap_format = imageFormatNamed format, ap_width = rq_width r, ap_height = rq_height r,
       ap_quality = rq_quality r, ap_fit = fit, ap_watermark = rq_watermark r\<rparr>))"

section \<open>Processing with what was assigned\<close>

text \<open>The parameters as the library reads them; the crop ratios are not in the message and keep their default.\<close>

definition readParams :: "'a request_env_scheme \<Rightarrow> assigned_params \<Rightarrow> process_params" where
  "readParams env a =
     (newProcessPhotoParams (ce_libraryQuality env))\<lparr>
       par_format := (case ap_format a of None \<Rightarrow> Jpeg | Some f \<Rightarrow> f),
       par_width := ap_width a, par_height := ap_height a,
       par_quality := (case ap_quality a of None \<Rightarrow> ce_libraryQuality env | Some q \<Rightarrow> q),
       par_fit := (case ap_fit a of FitIs f \<Rightarrow> f | _ \<Rightarrow> ce_libraryFit env),
       par_watermark := ap_watermark a\<rparr>"

definition resizes :: "assigned_params \<Rightarrow> bool" where
  "resizes a \<longleftrightarrow> ap_width a \<notin> {None, Some 0} \<or> ap_height a \<notin> {None, Some 0}"

definition assignedSteps :: "'a request_env_scheme \<Rightarrow> assigned_params \<Rightarrow> nat \<times> nat \<Rightarrow> image_step list" where
  "assignedSteps env a dims =
     (let p = readParams env a in
      (if ap_fit a = FitIs FitCover then [Extract (buildPreExtractRegion p (fst dims) (snd dims))] else [])
      @ (if resizes a then [Resize (buildResizeOptions p)] else [])
      @ insertWatermark (ce_image env) (ap_watermark a)
      @ [if ap_format a = Some Webp then EncodeWebp (par_quality p) else EncodeJpeg (par_quality p)])"

definition processAssigned :: "'a request_env_scheme \<Rightarrow> byte list \<Rightarrow> assigned_params \<Rightarrow> byte list outcome" where
  "processAssigned env fileBuffer a =
     onSuccess (if ap_fit a = FitIs FitCover then im_size (ce_image env) fileBuffer else Inr (0, 0)) (\<lambda>dims.
     if ap_fit a = FitZero \<and> resizes a then Inl (JsError ''Expected valid fit for fit but received 0 of type number'')
     else im_render (ce_image env) fileBuffer (assignedSteps env a dims))"

record request_world =
  rw_calls :: "storage_call list"
  rw_sent :: "amqp_message list"

definition consumer_processPhoto :: "'a request_env_scheme \<Rightarrow> string \<Rightarrow> byte list \<Rightarrow> (request_world, unit) action" where
  "consumer_processPhoto env routingKey content =
     andThen (lift (ce_requestFromBinary env content)) (\<lambda>r.
     andThen (lift (storage_getBuffer (ce_storage env) (rq_source r))) (\<lambda>rawBuffer.
     andThen (lift (onSuccess (assignedParams env r) (processAssigned env rawBuffer))) (\<lambda>processedBuffer.
     andThen (zoom rw_calls (\<lambda>t w. w\<lparr>rw_calls := t\<rparr>) (storage_putFile (ce_storage env) (rq_destination r) processedBuffer)) (\<lambda>_.
     zoom rw_sent (\<lambda>t w. w\<lparr>rw_sent := t\<rparr>) (amqp_publish (consumer_env.truncate env)
       \<lparr>am_exchange = ''photo_processor.topic'',
        am_routingKey = replaceFirst ''request_process'' ''processed'' routingKey, am_content = content\<rparr>)))))"

section \<open>Facts\<close>

text \<open>A request that names its format, quality and fit is processed like a job with these parameters.\<close>

lemma processAssigned_complete:
  assumes "ap_fit a = FitIs f" and "ap_quality a = Some q" and "ap_format a = Some fmt"
  shows "processAssigned env b a = processPhoto (ce_image env) b
    ((newProcessPhotoParams (ce_libraryQuality env))\<lparr>par_format := fmt, par_width := ap_width a, par_height := ap_height a,
      par_quality := q, par_fit := f, par_watermark := ap_watermark a\<rparr>)"
  using assms
  by (simp add: processAssigned_def processPhoto_def assignedSteps_def processSteps_def readParams_def resizes_def Let_def)

text \<open>
  Whatever happens, a request sends at most one message, the request itself under the key of its answer, and
  only after every write it asked of the storage was accepted; a request that fails sends none.
\<close>

lemma processPhoto_answers:
  assumes "consumer_processPhoto env key content w = (res, w')"
  shows "(res = Inr () \<longrightarrow> rw_sent w' = rw_sent w @ [\<lparr>am_exchange = ''photo_processor.topic'',
            am_routingKey = replaceFirst ''request_process'' ''processed'' key, am_content = content\<rparr>]
          \<and> (\<exists>r out. ce_requestFromBinary env content = Inr r
               \<and> storage_putFile (ce_storage env) (rq_destination r) out (rw_calls w) = (Inr (), rw_calls w')))
    \<and> (res \<noteq> Inr () \<longrightarrow> rw_sent w' = rw_sent w)"
  using assms
  by (auto simp: consumer_processPhoto_def andThen_def lift_def zoom_def amqp_publish_def modify_def throw_def
      split: sum.splits prod.splits if_splits)

text \<open>
  A message without a fit is resized with the fit of the library, not with the default of the class, and without
  the crop that a fit named in the message gets.
\<close>

lemma omitted_fit_is_the_librarys:
  assumes "ap_fit a = FitUndefined" and "resizes a"
  shows "\<exists>post. assignedSteps env a dims = Resize \<lparr>rs_width = ap_width a, rs_height = ap_height a,
      rs_fit = ce_libraryFit env, rs_withoutEnlargement = True\<rparr> # post \<and> (\<forall>reg. Extract reg \<notin> set post)"
proof -
  have "\<forall>reg. Extract reg \<notin> set (insertWatermark (ce_image env) (ap_watermark a))"
    by (auto simp: insertWatermark_def split: option.splits)
  then show ?thesis using assms
    by (auto simp: assignedSteps_def readParams_def buildResizeOptions_def Let_def newProcessPhotoParams_def)
qed

end
