(* ===== verification/Server_Config.thy ===== *)
theory Server_Config
  imports Photo_Consumer Account_Rotation Discord_Sync
begin

text \<open>
  What the configuration decides: which parts of the program a process runs (\<open>app.module.ts\<close>), the options it
  hands to the packages below it (\<open>configs\<close>), who may read the documentation of the API
  (\<open>configs/swagger.config.ts\<close>), and the fixed pages (\<open>app.controller.ts\<close>, \<open>base.v1.controller.ts\<close>) and the dashboard
  of the queues (\<open>bull-board\<close>). The
  values are what the package \<open>config\<close> read from files and the environment; a variable of the environment is
  a string.
\<close>

section \<open>Values\<close>

datatype config_value =
    ConfigNull
  | ConfigString string
  | ConfigNumber rat
  | ConfigBool bool
  | ConfigList "string list"
  | ConfigObject "(string \<times> rat) list"

type_synonym server_config = "string \<Rightarrow> config_value option"

primrec valueTruthy :: "config_value \<Rightarrow> bool" where
  "valueTruthy ConfigNull = False"
| "valueTruthy (ConfigString s) = (s \<noteq> [])"
| "valueTruthy (ConfigNumber n) = (n \<noteq> 0)"
| "valueTruthy (ConfigBool b) = b"
| "valueTruthy (ConfigList vs) = True"
| "valueTruthy (ConfigObject kvs) = True"

definition truthyValue :: "config_value option \<Rightarrow> bool" where
  "truthyValue v = (case v of None \<Rightarrow> False | Some x \<Rightarrow> valueTruthy x)"

text \<open>\<open>+value\<close>; a list is first joined to a string.\<close>

primrec valueNumber :: "config_value \<Rightarrow> js_number option" where
  "valueNumber ConfigNull = Some (Finite 0)"
| "valueNumber (ConfigString s) = jsNumber s"
| "valueNumber (ConfigNumber n) = Some (Finite n)"
| "valueNumber (ConfigBool b) = Some (Finite (if b then 1 else 0))"
| "valueNumber (ConfigList vs) = jsNumber (joinWith '','' vs)"
| "valueNumber (ConfigObject kvs) = None"

definition toNumber :: "config_value option \<Rightarrow> js_number option" where
  "toNumber v = Option.bind v valueNumber"

definition configGetOrThrow :: "server_config \<Rightarrow> string \<Rightarrow> config_value outcome" where
  "configGetOrThrow cfg key =
     (case cfg key of None \<Rightarrow> Inl (JsError (''Configuration key \"'' @ key @ ''\" does not exist'')) | Some v \<Rightarrow> Inr v)"

section \<open>Run modes\<close>

datatype run_mode = AllInOne | Server | Worker

datatype app_module =
    ApplicationSettingModule | AmqpModule | BullBoardModule | StorageModule | DevtoolsModule
  | AccountsModule | ApiKeyModule | AuditLogModule | DeliveryModule | GalleryModule | GoogleModule | RecruitModule
  | LdapServerModule
  | AccountsWorkerModule | DeliveryWorkerModule | DiscordWorkerModule | GalleryWorkerModule | GoogleWorkerModule
  | MigrationWorkerModule | PhotoWorkerModule | SchedulerModule

definition isRegisterWebServer :: "run_mode option \<Rightarrow> bool" where
  "isRegisterWebServer m \<longleftrightarrow> m = Some AllInOne \<or> m = Some Server"

definition isRegisterWorker :: "run_mode option \<Rightarrow> bool" where
  "isRegisterWorker m \<longleftrightarrow> m = Some AllInOne \<or> m = Some Worker"

definition serverModules :: "app_module list" where
  "serverModules = [AccountsModule, ApiKeyModule, AuditLogModule, DeliveryModule, GalleryModule, GoogleModule, RecruitModule,
     DevtoolsModule]"

definition workerModules :: "app_module list" where
  "workerModules = [AccountsWorkerModule, DeliveryWorkerModule, DiscordWorkerModule, GalleryWorkerModule, GoogleWorkerModule,
     MigrationWorkerModule, PhotoWorkerModule, SchedulerModule]"

text \<open>The modules of the program itself, in the order they are imported; a mode that is none of the three has neither part.\<close>

definition appModules :: "run_mode option \<Rightarrow> bool \<Rightarrow> app_module list" where
  "appModules mode ldapEnabled =
     [ApplicationSettingModule, AmqpModule, BullBoardModule, StorageModule, DevtoolsModule]
     @ (if isRegisterWebServer mode then serverModules else [])
     @ (if ldapEnabled then [LdapServerModule] else [])
     @ (if isRegisterWorker mode then workerModules else [])"

section \<open>Options of the packages\<close>

record redis_options =
  ro_host :: "config_value option"
  ro_port :: "js_number option"
  ro_password :: "config_value option"
  ro_db :: "js_number option"

definition redisOptions :: "server_config \<Rightarrow> redis_options" where
  "redisOptions cfg = \<lparr>ro_host = cfg ''database.redis.default.host'', ro_port = toNumber (cfg ''database.redis.default.port''),
     ro_password = cfg ''database.redis.default.pass'', ro_db = toNumber (cfg ''database.redis.default.db'')\<rparr>"

record throttler_options =
  th_storage :: "redis_options option"
  th_throttlers :: "config_value list"

definition createThrottlerOptions :: "server_config \<Rightarrow> throttler_options outcome" where
  "createThrottlerOptions cfg =
     (if \<not> truthyValue (cfg ''rateLimiter.enabled'') then Inr \<lparr>th_storage = None, th_throttlers = []\<rparr>
      else onSuccess (configGetOrThrow cfg ''rateLimiter.default'') (\<lambda>limit.
        Inr \<lparr>th_storage = (if truthyValue (cfg ''database.redis.default.host'') then Some (redisOptions cfg) else None),
          th_throttlers = [limit]\<rparr>))"

definition createSharedConfiguration :: "server_config \<Rightarrow> redis_options" where
  "createSharedConfiguration cfg =
     (redisOptions cfg)\<lparr>ro_password := (if truthyValue (cfg ''database.redis.default.pass'')
        then cfg ''database.redis.default.pass'' else None)\<rparr>"

definition DEFAULT_CACHE_FIFTEEN_MINS :: int where
  "DEFAULT_CACHE_FIFTEEN_MINS = 900"

record redis_cache_store =
  rs_host :: "config_value option"
  rs_port :: "js_number option"
  rs_ttl :: int
  rs_password :: "config_value option"
  rs_db :: "config_value option"
  rs_keyPrefix :: string

text \<open>Without a store the time to live goes to the cache in memory, which counts milliseconds.\<close>

datatype cache_options = RedisCache redis_cache_store | MemoryCache int

definition createCacheOptions :: "server_config \<Rightarrow> cache_options" where
  "createCacheOptions cfg =
     (if truthyValue (cfg ''database.redis.default.host'')
      then RedisCache \<lparr>rs_host = cfg ''database.redis.default.host'', rs_port = toNumber (cfg ''database.redis.default.port''),
        rs_ttl = DEFAULT_CACHE_FIFTEEN_MINS, rs_password = cfg ''database.redis.default.pass'',
        rs_db = cfg ''database.redis.default.db'', rs_keyPrefix = ''cache:''\<rparr>
      else MemoryCache DEFAULT_CACHE_FIFTEEN_MINS)"

record rabbit_exchange =
  rx_name :: string
  rx_type :: string
  rx_internal :: bool

record rabbit_channel =
  rc_name :: string
  rc_prefetchCount :: "js_number option"
  rc_default :: bool

record rabbit_config =
  rb_exchanges :: "rabbit_exchange list"
  rb_uri :: "config_value option"
  rb_wait :: "config_value option"
  rb_timeout :: "js_number option"
  rb_channels :: "rabbit_channel list"

definition rabbitExchanges :: "rabbit_exchange list" where
  "rabbitExchanges =
     [\<lparr>rx_name = ''accounts.topic'', rx_type = ''topic'', rx_internal = False\<rparr>,
      \<lparr>rx_name = ''discord_bot.topic'', rx_type = ''topic'', rx_internal = False\<rparr>,
      \<lparr>rx_name = ''photo_processor.topic'', rx_type = ''topic'', rx_internal = False\<rparr>,
      \<lparr>rx_name = ''photo_processor.topic.dlx'', rx_type = ''topic'', rx_internal = True\<rparr>]"

definition createModuleConfig :: "server_config \<Rightarrow> rabbit_config outcome" where
  "createModuleConfig cfg =
     onSuccess (configGetOrThrow cfg ''rabbitmq.default.prefetchCount'') (\<lambda>prefetch.
     Inr \<lparr>rb_exchanges = rabbitExchanges, rb_uri = cfg ''rabbitmq.uri'', rb_wait = cfg ''rabbitmq.wait.enabled'',
       rb_timeout = toNumber (cfg ''rabbitmq.wait.timeout''),
       rb_channels = [\<lparr>rc_name = ''channel-1'', rc_prefetchCount = valueNumber prefetch, rc_default = True\<rparr>,
         \<lparr>rc_name = ''channel-2'', rc_prefetchCount = Some (Finite 1), rc_default = False\<rparr>]\<rparr>)"

text \<open>The names of the connections are the values of \<open>MongoConnection\<close>.\<close>

definition typegooseUri :: "server_config \<Rightarrow> string option \<Rightarrow> config_value outcome" where
  "typegooseUri cfg connectionName =
     configGetOrThrow cfg (''database.mongodb.'' @ (case connectionName of None \<Rightarrow> ''default'' | Some n \<Rightarrow> n))"

definition mongoConnections :: "string option list" where
  "mongoConnections = [None, Some ''accounts'', Some ''photo'', Some ''mailer'']"

record typeorm_options =
  to_host :: "config_value option"
  to_port :: "config_value option"
  to_username :: "config_value option"
  to_password :: "config_value option"
  to_database :: "config_value option"
  to_migrationsRun :: "config_value option"
  to_synchronize :: bool
  to_logging :: bool

definition createTypeOrmOptions :: "server_config \<Rightarrow> typeorm_options" where
  "createTypeOrmOptions cfg =
     \<lparr>to_host = cfg ''database.postgres.host'', to_port = cfg ''database.postgres.port'',
      to_username = cfg ''database.postgres.user'', to_password = cfg ''database.postgres.pass'',
      to_database = cfg ''database.postgres.db'', to_migrationsRun = cfg ''database.migration'', to_synchronize = False,
      to_logging = (cfg ''log.level'' = Some (ConfigString ''debug''))\<rparr>"

datatype log_transport = ConsoleTransport | FileTransport string | LokiTransport string

definition lokiTransport :: "server_config \<Rightarrow> log_transport list" where
  "lokiTransport cfg = (case cfg ''log.loki.url'' of Some (ConfigString (c # u)) \<Rightarrow> [LokiTransport (c # u)] | _ \<Rightarrow> [])"

definition fileTransport :: "server_config \<Rightarrow> string \<Rightarrow> string \<Rightarrow> log_transport list" where
  "fileTransport cfg runMode hostname =
     (case cfg ''log.directory'' of
        Some (ConfigString (c # d)) \<Rightarrow> [FileTransport (pathJoin [c # d, ''webservice-'' @ runMode @ ''-'' @ hostname @ ''.log''])]
      | _ \<Rightarrow> [])"

definition createTransports :: "server_config \<Rightarrow> string \<Rightarrow> string \<Rightarrow> log_transport list" where
  "createTransports cfg runMode hostname = [ConsoleTransport] @ fileTransport cfg runMode hostname @ lokiTransport cfg"

section \<open>Pages\<close>

text \<open>
  The documentation: not there without a path; behind the middleware and a check of groups when there are any;
  open to everybody otherwise. \<open>page\<close> is what the package serves.
\<close>

definition swaggerAuth ::
    "accounts_env \<Rightarrow> string list \<Rightarrow> (string \<times> string) list \<Rightarrow> (string \<Rightarrow> string option) \<Rightarrow> (accounts_world, unit) action" where
  "swaggerAuth env groups headers cookies =
     andThen (authMiddleware env headers cookies) (\<lambda>user.
     discard (lift (user_isAuthorizedOrThrow user groups)))"

definition swaggerPage ::
    "accounts_env \<Rightarrow> string option \<Rightarrow> string list option \<Rightarrow> (string \<times> string) list \<Rightarrow> (string \<Rightarrow> string option) \<Rightarrow> 'page
     \<Rightarrow> (accounts_world, 'page) action" where
  "swaggerPage env path groups headers cookies page =
     (if \<not> truthyId path then throw (NotFound ''Not Found'')
      else andThen (case groups of Some (g # gs) \<Rightarrow> swaggerAuth env (g # gs) headers cookies | _ \<Rightarrow> ret ()) (\<lambda>_. ret page))"

definition getPing :: string where
  "getPing = ''pong''"

definition getAccountsBaseUrl :: "server_config \<Rightarrow> config_value option" where
  "getAccountsBaseUrl cfg = cfg ''http.baseUrl.accounts''"

definition getPhotosBaseUrl :: "server_config \<Rightarrow> config_value option" where
  "getPhotosBaseUrl cfg = cfg ''http.baseUrl.photo''"

text \<open>The dashboard is a router of a package, given the address without the path it is mounted on.\<close>

definition bullboard ::
    "string list \<Rightarrow> string \<Rightarrow> string \<Rightarrow> request_user \<Rightarrow> (string \<Rightarrow> ('s, 'a) action) \<Rightarrow> ('s, 'a) action" where
  "bullboard groups path url user router =
     authGroups groups user (router (replaceFirst (''/'' @ path @ ''/'') ''/'' url))"

section \<open>Facts\<close>

text \<open>One process in the mode for everything runs what a server and a worker run together.\<close>

lemma all_in_one_modules:
  "set (appModules (Some AllInOne) l) = set (appModules (Some Server) l) \<union> set (appModules (Some Worker) l)"
  by (auto simp: appModules_def isRegisterWebServer_def isRegisterWorker_def)

lemma worker_serves_nothing:
  "set (appModules (Some Worker) l) \<inter> {AccountsModule, GalleryModule, RecruitModule, DeliveryModule, GoogleModule} = {}"
  by (auto simp: appModules_def isRegisterWebServer_def isRegisterWorker_def workerModules_def)

text \<open>Requests are limited exactly when the limiter is enabled, and then by one limit.\<close>

lemma createThrottlerOptions_cases:
  "createThrottlerOptions cfg = Inr t \<Longrightarrow>
     th_throttlers t = (if truthyValue (cfg ''rateLimiter.enabled'') then [the (cfg ''rateLimiter.default'')] else [])"
  by (auto simp: createThrottlerOptions_def configGetOrThrow_def onSuccess_def split: if_splits option.splits)

text \<open>Whatever is asked of the dashboard is asked by a user its groups admit.\<close>

lemma bullboard_guarded:
  assumes "bullboard groups path (''/'' @ path @ ''/'' @ rest) user router w = (Inr a, w')"
  shows "user_isAuthorizedOrThrow user groups = Inr True \<and> router (''/'' @ rest) w = (Inr a, w')"
proof -
  have "replaceFirst (''/'' @ path @ ''/'') ''/'' (''/'' @ path @ ''/'' @ rest) = ''/'' @ rest"
    by (subst replaceFirst.simps) simp
  with assms show ?thesis by (auto simp: bullboard_def authGroups_run split: sum.splits if_splits)
qed

text \<open>With groups the documentation is read only by users the middleware found and the groups admit.\<close>

lemma swaggerPage_guarded:
  assumes "swaggerPage env path (Some (g # gs)) headers cookies page w = (Inr p, w')"
  shows "\<exists>user. authMiddleware env headers cookies w = (Inr user, w') \<and> (\<exists>b. user_isAuthorizedOrThrow user (g # gs) = Inr b)"
  using assms
  by (auto simp: swaggerPage_def swaggerAuth_def andThen_def discard_def action_simps split: if_splits sum.splits prod.splits)

lemma swaggerPage_open:
  "truthyId path \<Longrightarrow> groups \<in> {None, Some []} \<Longrightarrow> swaggerPage env path groups headers cookies page w = (Inr page, w)"
  by (auto simp: swaggerPage_def action_simps)

end
